(* ===== verification/Prelude.thy ===== *)
theory Prelude
  imports Main "HOL-Library.Word" "HOL-Library.Sublist" "HOL-Library.Char_ord"
    "HOL-Library.List_Lexorder"
begin

text \<open>
  Shared vocabulary of the development: byte strings and the functions of Go's package
  \<^verbatim>\<open>strings\<close> the server and the watcher call, gRPC status codes and errors as values,
  times and timestamps with their 64-bit readings, decimal printing, and the generic lemmas
  on lists the components share.

  A Go string is a list of bytes (\<^typ>\<open>string\<close>). The white space the code trims is the
  ASCII white space; Unicode white space outside ASCII is not modelled. A Go error is a value
  of \<open>go_error\<close>; a function that returns \<^verbatim>\<open>(T, error)\<close> returns a sum whose left summand is
  the error.
\<close>

named_theorems go_simps \<open>unfolding rules for the Go helper functions\<close>
named_theorems handler_defs \<open>definitions of the API server's handlers\<close>
named_theorems watcher_defs \<open>definitions of the watcher's reconcile steps\<close>

subsection \<open>Errors as values\<close>

text \<open>The gRPC status codes that occur in the sources.\<close>

datatype code = OK | InvalidArgument | NotFound | AlreadyExists | FailedPrecondition
  | Unauthenticated | Internal | Unknown

datatype go_error = StatusErr code string | PlainErr string | EOF

type_synonym 'a res = "go_error + 'a"

text \<open>\<^verbatim>\<open>status.Code\<close>: the code of a status error, \<^verbatim>\<open>Unknown\<close> for any other error.\<close>

fun status_code :: "go_error \<Rightarrow> code" where
  "status_code (StatusErr c _) = c"
| "status_code (PlainErr _) = Unknown"
| "status_code EOF = Unknown"

text \<open>\<^verbatim>\<open>error.Error()\<close>: a status error prints its code and its message.\<close>

fun code_name :: "code \<Rightarrow> string" where
  "code_name OK = ''OK''"
| "code_name InvalidArgument = ''InvalidArgument''"
| "code_name NotFound = ''NotFound''"
| "code_name AlreadyExists = ''AlreadyExists''"
| "code_name FailedPrecondition = ''FailedPrecondition''"
| "code_name Unauthenticated = ''Unauthenticated''"
| "code_name Internal = ''Internal''"
| "code_name Unknown = ''Unknown''"

fun error_msg :: "go_error \<Rightarrow> string" where
  "error_msg (StatusErr c m) = ''rpc error: code = '' @ code_name c @ '' desc = '' @ m"
| "error_msg (PlainErr m) = m"
| "error_msg EOF = ''EOF''"

definition is_ok :: "'e + 'a \<Rightarrow> bool" where
  "is_ok r = (case r of Inl _ \<Rightarrow> False | Inr _ \<Rightarrow> True)"

lemma is_ok_simps [simp]: "is_ok (Inl e) = False" "is_ok (Inr x) = True"
  by (simp_all add: is_ok_def)

lemma is_ok_iff: "is_ok r \<longleftrightarrow> (\<exists>x. r = Inr x)"
  by (cases r) auto

subsection \<open>Byte strings\<close>

abbreviation squote :: char where "squote \<equiv> CHR 0x27"
abbreviation dquote :: char where "dquote \<equiv> CHR 0x22"

definition is_space :: "char \<Rightarrow> bool" where
  "is_space c = (c \<in> {CHR 0x09, CHR 0x0A, CHR 0x0B, CHR 0x0C, CHR 0x0D, CHR 0x20})"

definition TrimSpace :: "string \<Rightarrow> string" where
  "TrimSpace s = rev (dropWhile is_space (rev (dropWhile is_space s)))"

lemma TrimSpace_Nil [simp]: "TrimSpace [] = []"
  by (simp add: TrimSpace_def)

lemma TrimSpace_id:
  assumes "s \<noteq> [] \<Longrightarrow> \<not> is_space (hd s) \<and> \<not> is_space (last s)"
  shows "TrimSpace s = s"
proof (cases "s = []")
  case False
  then have h: "dropWhile is_space s = s"
    using assms by (cases s) auto
  have "dropWhile is_space (rev s) = rev s"
    using assms False by (metis dropWhile.simps(2) hd_rev list.collapse rev_is_Nil_conv)
  with h show ?thesis by (simp add: TrimSpace_def)
qed simp

lemma TrimSpace_ends:
  assumes "TrimSpace s \<noteq> []"
  shows "\<not> is_space (hd (TrimSpace s)) \<and> \<not> is_space (last (TrimSpace s))"
proof -
  define t where "t = dropWhile is_space s"
  define u where "u = dropWhile is_space (rev t)"
  have ts: "TrimSpace s = rev u" by (simp add: TrimSpace_def t_def u_def)
  with assms have u: "u \<noteq> []" by simp
  have lst: "\<not> is_space (hd u)" using u unfolding u_def by (rule hd_dropWhile)
  have "t \<noteq> []" using u u_def by auto
  then have ht: "\<not> is_space (hd t)" unfolding t_def by (rule hd_dropWhile)
  obtain p where p: "rev t = p @ u" unfolding u_def by (metis takeWhile_dropWhile_id)
  then have "t = rev u @ rev p" by (metis rev_append rev_rev_ident)
  then have "hd t = hd (rev u)" using u by (simp add: hd_append)
  with ht lst u show ?thesis by (simp add: ts last_rev)
qed

lemma TrimSpace_idem [simp]: "TrimSpace (TrimSpace s) = TrimSpace s"
  by (rule TrimSpace_id) (rule TrimSpace_ends)

text \<open>\<^verbatim>\<open>strings.Split\<close> with a one-byte separator, and \<^verbatim>\<open>strings.Join\<close>.\<close>

fun split_on :: "char \<Rightarrow> string \<Rightarrow> string list" where
  "split_on c [] = [[]]"
| "split_on c (x # xs) =
     (if x = c then [] # split_on c xs
      else (case split_on c xs of [] \<Rightarrow> [[x]] | y # ys \<Rightarrow> (x # y) # ys))"

fun join :: "string \<Rightarrow> string list \<Rightarrow> string" where
  "join sep [] = []"
| "join sep [x] = x"
| "join sep (x # y # ys) = x @ sep @ join sep (y # ys)"

lemma split_on_nonempty [simp]: "split_on c s \<noteq> []"
  by (induction s) (auto split: list.splits)

lemma join_split_on: "join [c] (split_on c s) = s"
proof (induction s)
  case (Cons x s)
  obtain y ys where y: "split_on c s = y # ys"
    using split_on_nonempty [of c s] by (cases "split_on c s") auto
  then show ?case using Cons by (cases ys) auto
qed simp

lemma split_on_no_sep: "c \<notin> set s \<Longrightarrow> split_on c s = [s]"
  by (induction s) auto

lemma split_on_append:
  "c \<notin> set s \<Longrightarrow> split_on c (s @ c # t) = s # split_on c t"
  by (induction s) auto

lemma split_on_elem_no_sep: "x \<in> set (split_on c s) \<Longrightarrow> c \<notin> set x"
proof (induction s arbitrary: x)
  case (Cons a s)
  then show ?case by (auto split: if_splits list.splits)
qed simp

text \<open>The verb \<^verbatim>\<open>%q\<close> on a text without characters to escape.\<close>

definition quote_go :: "string \<Rightarrow> string" where
  "quote_go s = dquote # s @ [dquote]"

definition HasPrefix :: "string \<Rightarrow> string \<Rightarrow> bool" where
  "HasPrefix s p = prefix p s"

definition HasSuffix :: "string \<Rightarrow> string \<Rightarrow> bool" where
  "HasSuffix s p = suffix p s"

definition Contains :: "string \<Rightarrow> string \<Rightarrow> bool" where
  "Contains s p = sublist p s"

definition strip_prefix :: "string \<Rightarrow> string \<Rightarrow> string option" where
  "strip_prefix p s = (if prefix p s then Some (drop (length p) s) else None)"

lemma strip_prefix_Some: "strip_prefix p s = Some t \<longleftrightarrow> s = p @ t"
  by (auto simp: strip_prefix_def prefix_def)

lemma strip_prefix_append [simp]: "strip_prefix p (p @ t) = Some t"
  by (simp add: strip_prefix_Some)

definition to_lower_char :: "char \<Rightarrow> char" where
  "to_lower_char c = (let n = of_char c :: nat in if 65 \<le> n \<and> n \<le> 90 then char_of (n + 32) else c)"

definition to_upper_char :: "char \<Rightarrow> char" where
  "to_upper_char c = (let n = of_char c :: nat in if 97 \<le> n \<and> n \<le> 122 then char_of (n - 32) else c)"

definition ToLower :: "string \<Rightarrow> string" where
  "ToLower s = map to_lower_char s"

definition ToUpper :: "string \<Rightarrow> string" where
  "ToUpper s = map to_upper_char s"

subsection \<open>Decimal numbers\<close>

fun show_nat :: "nat \<Rightarrow> string" where
  "show_nat n = (if n < 10 then [char_of (48 + n)]
     else show_nat (n div 10) @ [char_of (48 + n mod 10)])"

declare show_nat.simps [simp del]

definition show_int :: "int \<Rightarrow> string" where
  "show_int i = (if i < 0 then CHR ''-'' # show_nat (nat (- i)) else show_nat (nat i))"

definition digit_char :: "char \<Rightarrow> bool" where
  "digit_char c = (48 \<le> (of_char c :: nat) \<and> (of_char c :: nat) \<le> 57)"

definition digit_val :: "char \<Rightarrow> nat" where
  "digit_val c = of_char c - 48"

definition read_nat :: "string \<Rightarrow> nat" where
  "read_nat s = foldl (\<lambda>a c. 10 * a + digit_val c) 0 s"

lemma read_nat_snoc: "read_nat (s @ [c]) = 10 * read_nat s + digit_val c"
  by (simp add: read_nat_def)

lemma digit_char_of: "n < 10 \<Longrightarrow> digit_char (char_of (48 + n)) \<and> digit_val (char_of (48 + n)) = n"
  by (simp add: digit_char_def digit_val_def of_char_of)

lemma show_nat_digits: "list_all digit_char (show_nat n) \<and> show_nat n \<noteq> []"
proof (induction n rule: show_nat.induct)
  case (1 n)
  have "digit_char (char_of (48 + n mod 10))" using digit_char_of [of "n mod 10"] by simp
  then show ?case using 1 digit_char_of [of n]
    by (subst (1 2) show_nat.simps) auto
qed

lemma read_show_nat [simp]: "read_nat (show_nat n) = n"
proof (induction n rule: show_nat.induct)
  case (1 n)
  show ?case
  proof (cases "n < 10")
    case True
    then show ?thesis using digit_char_of [of n]
      by (subst show_nat.simps) (simp add: read_nat_def)
  next
    case False
    then have "read_nat (show_nat n) = 10 * (n div 10) + digit_val (char_of (48 + n mod 10))"
      using 1 by (subst show_nat.simps) (simp add: read_nat_snoc)
    also have "\<dots> = n" using digit_char_of [of "n mod 10"] by simp
    finally show ?thesis .
  qed
qed

lemma show_nat_inject [simp]: "show_nat m = show_nat n \<longleftrightarrow> m = n"
  by (metis read_show_nat)

lemma digit_char_not_minus: "digit_char c \<Longrightarrow> c \<noteq> CHR ''-''"
  by (auto simp: digit_char_def)

lemma show_int_inject [simp]: "show_int i = show_int j \<longleftrightarrow> i = j"
proof
  assume eq: "show_int i = show_int j"
  have no_minus: "show_nat n \<noteq> CHR ''-'' # s" for n s
    using show_nat_digits [of n] by (auto dest: digit_char_not_minus)
  show "i = j"
  proof (cases "i < 0"; cases "j < 0")
    assume "i < 0" "j < 0"
    with eq show ?thesis by (simp add: show_int_def)
  next
    assume "i < 0" "\<not> j < 0"
    with eq no_minus [of "nat j"] show ?thesis by (metis show_int_def)
  next
    assume "\<not> i < 0" "j < 0"
    with eq no_minus [of "nat i"] show ?thesis by (metis show_int_def)
  next
    assume "\<not> i < 0" "\<not> j < 0"
    with eq show ?thesis by (simp add: show_int_def eq_nat_nat_iff)
  qed
qed simp

subsection \<open>Machine integers and times\<close>

text \<open>A signed 64-bit reading of an unbounded integer: what Go's int64 arithmetic leaves.\<close>

definition int64 :: "int \<Rightarrow> int" where
  "int64 i = sint (word_of_int i :: 64 word)"

lemma int64_range: "- (2 ^ 63) \<le> int64 i \<and> int64 i < 2 ^ 63"
  using sint_ge [of "word_of_int i :: 64 word"] sint_lt [of "word_of_int i :: 64 word"]
  by (simp add: int64_def)

lemma int64_id: "- (2 ^ 63) \<le> i \<Longrightarrow> i < 2 ^ 63 \<Longrightarrow> int64 i = i"
  by (simp add: int64_def sint_sbintrunc' signed_take_bit_int_eq_self)

lemma int64_mod: "int64 i = (i + 2 ^ 63) mod 2 ^ 64 - 2 ^ 63"
  by (simp add: int64_def sint_sbintrunc' signed_take_bit_eq_take_bit_shift take_bit_eq_mod)

text \<open>
  A \<^verbatim>\<open>time.Time\<close> is the number of nanoseconds since the Unix epoch; the zero time is
  January 1, year 1 UTC.
\<close>

type_synonym gotime = int

definition zero_time :: gotime where
  "zero_time = - 62135596800 * 10 ^ 9"

text \<open>\<^verbatim>\<open>time.Time.UnixNano\<close> is an int64 and wraps outside 1678 to 2262.\<close>

definition UnixNano :: "gotime \<Rightarrow> int" where
  "UnixNano t = int64 t"

subsection \<open>Lists\<close>

definition update_where :: "('a \<Rightarrow> bool) \<Rightarrow> 'a \<Rightarrow> 'a list \<Rightarrow> 'a list" where
  "update_where p y xs = map (\<lambda>x. if p x then y else x) xs"

lemma set_update_where:
  "set (update_where p y xs) = {x \<in> set xs. \<not> p x} \<union> (if \<exists>x\<in>set xs. p x then {y} else {})"
  by (auto simp: update_where_def)

lemma length_update_where [simp]: "length (update_where p y xs) = length xs"
  by (simp add: update_where_def)

lemma map_update_where:
  "(\<And>x. x \<in> set xs \<Longrightarrow> p x \<Longrightarrow> f y = f x) \<Longrightarrow> map f (update_where p y xs) = map f xs"
  by (simp add: update_where_def)

lemma distinct_map_filterI: "distinct (map f xs) \<Longrightarrow> distinct (map f (filter p xs))"
  by (induction xs) auto

lemma distinct_map_eq:
  "distinct (map f xs) \<Longrightarrow> x \<in> set xs \<Longrightarrow> y \<in> set xs \<Longrightarrow> f x = f y \<Longrightarrow> x = y"
  by (meson distinct_map inj_onD)

lemma filter_unique:
  assumes "distinct (map f xs)" and "x \<in> set xs"
  shows "filter (\<lambda>y. f y = f x) xs = [x]"
  using assms
proof (induction xs)
  case (Cons a xs)
  then show ?case
    by (cases "a = x") (auto simp: filter_empty_conv rev_image_eqI)
qed simp

end
