(* ===== verification/Names.thy ===== *)
theory Names
  imports Prelude
begin

text \<open>
  Resource names of the API (packages \<^verbatim>\<open>result\<close>, \<^verbatim>\<open>record\<close> and \<^verbatim>\<open>log\<close> under
  \<^verbatim>\<open>pkg/api/server/v1alpha2\<close>): the regular expressions, \<^verbatim>\<open>ParseName\<close> and \<^verbatim>\<open>FormatName\<close>. The
  locale \<open>name_codec\<close> states what the handlers rely on (parsing inverts formatting, and only
  well-formed names parse); it is interpreted on the three kinds of names.
\<close>

subsection \<open>Segments\<close>

text \<open>The character class \<^verbatim>\<open>[a-z0-9_-]\<close> and the group \<^verbatim>\<open>[a-z0-9_-]{1,63}\<close>.\<close>

definition name_char :: "char \<Rightarrow> bool" where
  "name_char c = (let n = of_char c :: nat in
     (97 \<le> n \<and> n \<le> 122) \<or> (48 \<le> n \<and> n \<le> 57) \<or> c = CHR ''_'' \<or> c = CHR ''-'')"

definition seg_ok :: "string \<Rightarrow> bool" where
  "seg_ok s = (1 \<le> length s \<and> length s \<le> 63 \<and> list_all name_char s)"

lemma name_char_slash [simp]: "\<not> name_char (CHR ''/'')"
  by (simp add: name_char_def)

lemma seg_ok_nonempty: "seg_ok s \<Longrightarrow> s \<noteq> []"
  by (auto simp: seg_ok_def)

text \<open>
  The first group is greedy and its class excludes the slash, so a match takes the longest
  run of name characters and then expects the literal that follows the group.
\<close>

definition match_segment :: "string \<Rightarrow> string \<Rightarrow> (string \<times> string) option" where
  "match_segment lit s =
     (let g = takeWhile name_char s in
      if seg_ok g
      then (case strip_prefix lit (dropWhile name_char s) of None \<Rightarrow> None | Some t \<Rightarrow> Some (g, t))
      else None)"

lemma takeWhile_append_slash:
  assumes "list_all name_char g"
  shows "takeWhile name_char (g @ CHR ''/'' # t) = g"
    and "dropWhile name_char (g @ CHR ''/'' # t) = CHR ''/'' # t"
  using assms by (induction g) auto

lemma match_segment_Some:
  assumes "hd lit = CHR ''/''" and "lit \<noteq> []"
  shows "match_segment lit s = Some (g, t) \<longleftrightarrow> seg_ok g \<and> s = g @ lit @ t"
proof
  assume "match_segment lit s = Some (g, t)"
  then have "g = takeWhile name_char s" "seg_ok g" "dropWhile name_char s = lit @ t"
    by (auto simp: match_segment_def Let_def strip_prefix_Some split: if_splits option.splits)
  then show "seg_ok g \<and> s = g @ lit @ t" by (metis takeWhile_dropWhile_id)
next
  assume a: "seg_ok g \<and> s = g @ lit @ t"
  obtain l where l: "lit = CHR ''/'' # l" using assms by (cases lit) auto
  have "list_all name_char g" using a by (simp add: seg_ok_def)
  then have "takeWhile name_char s = g" "dropWhile name_char s = lit @ t"
    using a l takeWhile_append_slash [of g "l @ t"] by simp_all
  with a show "match_segment lit s = Some (g, t)" by (simp add: match_segment_def)
qed

subsection \<open>Parsing and formatting\<close>

definition result_FindStringSubmatch :: "string \<Rightarrow> (string \<times> string) option" where
  "result_FindStringSubmatch raw =
     (case match_segment ''/results/'' raw of None \<Rightarrow> None
      | Some (p, n) \<Rightarrow> if seg_ok n then Some (p, n) else None)"

definition result_ParseName :: "string \<Rightarrow> (string \<times> string) res" where
  "result_ParseName raw =
     (case result_FindStringSubmatch raw of
        None \<Rightarrow> Inl (StatusErr InvalidArgument
          ''name must match (^[a-z0-9_-]{1,63})/results/([a-z0-9_-]{1,63}$)'')
      | Some s \<Rightarrow> Inr s)"

definition result_FormatName :: "string \<Rightarrow> string \<Rightarrow> string" where
  "result_FormatName parent name = parent @ ''/results/'' @ name"

text \<open>Records and logs share the shape of their names and differ in one literal.\<close>

definition child_FindStringSubmatch :: "string \<Rightarrow> string \<Rightarrow> (string \<times> string \<times> string) option" where
  "child_FindStringSubmatch lit raw =
     (case match_segment ''/results/'' raw of None \<Rightarrow> None
      | Some (p, rest) \<Rightarrow>
          (case match_segment lit rest of None \<Rightarrow> None
           | Some (r, n) \<Rightarrow> if seg_ok n then Some (p, r, n) else None))"

definition record_ParseName :: "string \<Rightarrow> (string \<times> string \<times> string) res" where
  "record_ParseName raw =
     (case child_FindStringSubmatch ''/records/'' raw of
        None \<Rightarrow> Inl (StatusErr InvalidArgument
          ''name must match (^[a-z0-9_-]{1,63})/results/([a-z0-9_-]{1,63})/records/([a-z0-9_-]{1,63}$)'')
      | Some s \<Rightarrow> Inr s)"

definition record_MatchString :: "string \<Rightarrow> bool" where
  "record_MatchString raw = (child_FindStringSubmatch ''/records/'' raw \<noteq> None)"

definition record_FormatName :: "string \<Rightarrow> string \<Rightarrow> string" where
  "record_FormatName parent name = parent @ ''/records/'' @ name"

definition log_ParseName :: "string \<Rightarrow> (string \<times> string \<times> string) res" where
  "log_ParseName raw =
     (case child_FindStringSubmatch ''/logs/'' raw of
        None \<Rightarrow> Inl (StatusErr InvalidArgument
          ''name must match (^[a-z0-9_-]{1,63})/results/([a-z0-9_-]{1,63})/logs/([a-z0-9_-]{1,63}$)'')
      | Some s \<Rightarrow> Inr s)"

definition log_FormatName :: "string \<Rightarrow> string \<Rightarrow> string" where
  "log_FormatName parent name = parent @ ''/logs/'' @ name"

subsection \<open>The contract of a resource name\<close>

locale name_codec =
  fixes parse :: "string \<Rightarrow> 'a res"
    and format :: "'a \<Rightarrow> string"
    and valid :: "'a \<Rightarrow> bool"
  assumes parse_iff: "parse s = Inr x \<longleftrightarrow> valid x \<and> s = format x"
    and parse_error: "parse s = Inl e \<Longrightarrow> status_code e = InvalidArgument"
begin

lemma parse_format: "valid x \<Longrightarrow> parse (format x) = Inr x"
  by (simp add: parse_iff)

lemma format_parse: "parse s = Inr x \<Longrightarrow> format x = s"
  by (simp add: parse_iff)

lemma parse_valid: "parse s = Inr x \<Longrightarrow> valid x"
  by (simp add: parse_iff)

lemma format_inject: "valid x \<Longrightarrow> valid y \<Longrightarrow> format x = format y \<Longrightarrow> x = y"
  by (metis parse_iff sum.inject(2))

lemma parse_total: "(\<exists>x. valid x \<and> s = format x \<and> parse s = Inr x)
    \<or> (\<exists>e. parse s = Inl e \<and> status_code e = InvalidArgument \<and> (\<forall>x. valid x \<longrightarrow> s \<noteq> format x))"
proof (cases "parse s")
  case (Inl e)
  then have "\<forall>x. valid x \<longrightarrow> s \<noteq> format x" by (auto simp: parse_format)
  with Inl parse_error show ?thesis by blast
next
  case (Inr x)
  then have "valid x \<and> s = format x" by (simp add: parse_iff)
  with Inr show ?thesis by blast
qed

end

definition format_pair :: "string \<times> string \<Rightarrow> string" where
  "format_pair x = result_FormatName (fst x) (snd x)"

definition valid_pair :: "string \<times> string \<Rightarrow> bool" where
  "valid_pair x = (seg_ok (fst x) \<and> seg_ok (snd x))"

definition valid_triple :: "string \<times> string \<times> string \<Rightarrow> bool" where
  "valid_triple x = (seg_ok (fst x) \<and> seg_ok (fst (snd x)) \<and> seg_ok (snd (snd x)))"

definition format_record_triple :: "string \<times> string \<times> string \<Rightarrow> string" where
  "format_record_triple x =
     record_FormatName (result_FormatName (fst x) (fst (snd x))) (snd (snd x))"

definition format_log_triple :: "string \<times> string \<times> string \<Rightarrow> string" where
  "format_log_triple x = log_FormatName (result_FormatName (fst x) (fst (snd x))) (snd (snd x))"

lemmas name_defs = format_pair_def valid_pair_def valid_triple_def format_record_triple_def
  format_log_triple_def result_FormatName_def record_FormatName_def log_FormatName_def

lemma result_submatch_iff:
  "result_FindStringSubmatch raw = Some (p, n) \<longleftrightarrow>
     seg_ok p \<and> seg_ok n \<and> raw = p @ ''/results/'' @ n"
proof -
  note m = match_segment_Some [of "''/results/''" raw p n, simplified]
  show ?thesis
    using m by (auto simp: result_FindStringSubmatch_def split: option.splits prod.splits if_splits)
qed

lemma child_submatch_iff:
  assumes lit: "hd lit = CHR ''/''" "lit \<noteq> []"
  shows "child_FindStringSubmatch lit raw = Some (p, r, n) \<longleftrightarrow>
     seg_ok p \<and> seg_ok r \<and> seg_ok n \<and> raw = p @ ''/results/'' @ r @ lit @ n"
proof -
  have outer: "match_segment ''/results/'' raw = Some (p, t) \<longleftrightarrow> seg_ok p \<and> raw = p @ ''/results/'' @ t" for t
    using match_segment_Some [of "''/results/''" raw p t] by simp
  have inner: "match_segment lit t = Some (r, n) \<longleftrightarrow> seg_ok r \<and> t = r @ lit @ n" for t
    using match_segment_Some [OF lit, of t r n] .
  have "child_FindStringSubmatch lit raw = Some (p, r, n) \<longleftrightarrow>
      (\<exists>t. match_segment ''/results/'' raw = Some (p, t) \<and> match_segment lit t = Some (r, n) \<and> seg_ok n)"
    by (auto simp: child_FindStringSubmatch_def split: option.splits prod.splits if_splits)
  also have "\<dots> \<longleftrightarrow> seg_ok p \<and> seg_ok r \<and> seg_ok n \<and> raw = p @ ''/results/'' @ r @ lit @ n"
    unfolding outer inner by blast
  finally show ?thesis .
qed

interpretation result_name: name_codec result_ParseName format_pair valid_pair
proof
  fix s and x :: "string \<times> string"
  obtain p n where "x = (p, n)" by fastforce
  then show "result_ParseName s = Inr x \<longleftrightarrow> valid_pair x \<and> s = format_pair x"
    using result_submatch_iff [of s p n]
    by (auto simp: result_ParseName_def name_defs split: option.splits)
qed (auto simp: result_ParseName_def split: option.splits)

interpretation record_name: name_codec record_ParseName format_record_triple valid_triple
proof
  fix s and x :: "string \<times> string \<times> string"
  obtain p r n where "x = (p, r, n)" by (cases x) auto
  then show "record_ParseName s = Inr x \<longleftrightarrow> valid_triple x \<and> s = format_record_triple x"
    using child_submatch_iff [of "''/records/''" s p r n]
    by (auto simp: record_ParseName_def name_defs split: option.splits)
qed (auto simp: record_ParseName_def split: option.splits)

interpretation log_name: name_codec log_ParseName format_log_triple valid_triple
proof
  fix s and x :: "string \<times> string \<times> string"
  obtain p r n where "x = (p, r, n)" by (cases x) auto
  then show "log_ParseName s = Inr x \<longleftrightarrow> valid_triple x \<and> s = format_log_triple x"
    using child_submatch_iff [of "''/logs/''" s p r n]
    by (auto simp: log_ParseName_def name_defs split: option.splits)
qed (auto simp: log_ParseName_def split: option.splits)

lemma result_ParseName_FormatName:
  "seg_ok p \<Longrightarrow> seg_ok n \<Longrightarrow> result_ParseName (result_FormatName p n) = Inr (p, n)"
  using result_name.parse_format [of "(p, n)"] by (simp add: format_pair_def valid_pair_def)

lemma result_ParseName_Inr:
  "result_ParseName s = Inr (p, n) \<Longrightarrow> seg_ok p \<and> seg_ok n \<and> s = result_FormatName p n"
  using result_name.parse_iff [of s "(p, n)"] by (simp add: format_pair_def valid_pair_def)

lemma record_ParseName_FormatName:
  "seg_ok p \<Longrightarrow> seg_ok r \<Longrightarrow> seg_ok n \<Longrightarrow>
     record_ParseName (record_FormatName (result_FormatName p r) n) = Inr (p, r, n)"
  using record_name.parse_format [of "(p, r, n)"]
  by (simp add: format_record_triple_def valid_triple_def)

lemma record_ParseName_Inr:
  "record_ParseName s = Inr (p, r, n) \<Longrightarrow>
     seg_ok p \<and> seg_ok r \<and> seg_ok n \<and> s = record_FormatName (result_FormatName p r) n"
  using record_name.parse_iff [of s "(p, r, n)"]
  by (simp add: format_record_triple_def valid_triple_def)

text \<open>Used by the log handlers: a record name and its log name carry
  the same three segments.\<close>

lemma log_ParseName_FormatName:
  "seg_ok p \<Longrightarrow> seg_ok r \<Longrightarrow> seg_ok n \<Longrightarrow>
     log_ParseName (log_FormatName (result_FormatName p r) n) = Inr (p, r, n)"
  using log_name.parse_format [of "(p, r, n)"] by (simp add: format_log_triple_def valid_triple_def)

lemma log_ParseName_Inr:
  "log_ParseName s = Inr (p, r, n) \<Longrightarrow>
     seg_ok p \<and> seg_ok r \<and> seg_ok n \<and> s = log_FormatName (result_FormatName p r) n"
  using log_name.parse_iff [of s "(p, r, n)"] by (simp add: format_log_triple_def valid_triple_def)



end
