(* ===== verification/Database.thy ===== *)
theory Database
  imports Prelude "HOL-Library.Finite_Map"
begin

text \<open>
  The database layer (\<^verbatim>\<open>pkg/api/server/db\<close>): the models of the tables \<^verbatim>\<open>results\<close> and
  \<^verbatim>\<open>records\<close> with the keys, unique indexes and the foreign key their gorm tags declare, the
  gorm statements the handlers run against them, and the translation of database errors to
  gRPC codes. A table is the list of its rows. A statement either fails with the database's
  error and changes nothing, or returns the new table. The locale \<open>unique_table\<close> is the
  contract of a table with a primary key and a unique index; both tables interpret it.

  Column precision is not modelled: a stored time is read back exactly.
\<close>

type_synonym annotations = "(string, string) fmap"

subsection \<open>Timestamps on the wire\<close>

record timestamp =
  seconds :: int
  nanos :: int

definition ts_New :: "gotime \<Rightarrow> timestamp" where
  "ts_New t = \<lparr>seconds = t div 10 ^ 9, nanos = t mod 10 ^ 9\<rparr>"

definition ts_AsTime :: "timestamp \<Rightarrow> gotime" where
  "ts_AsTime ts = seconds ts * 10 ^ 9 + nanos ts"

fun ts_IsValid :: "timestamp option \<Rightarrow> bool" where
  "ts_IsValid None = False"
| "ts_IsValid (Some ts) =
     (\<not> seconds ts < - 62135596800 \<and> \<not> seconds ts > 253402300799
      \<and> \<not> (nanos ts < 0 \<or> nanos ts \<ge> 10 ^ 9))"

text \<open>The times a valid timestamp can carry: the years 1 to 9999.\<close>

definition time_in_range :: "gotime \<Rightarrow> bool" where
  "time_in_range t = (zero_time \<le> t \<and> t < 253402300800 * 10 ^ 9)"

lemma ts_AsTime_New [simp]: "ts_AsTime (ts_New t) = t"
  by (simp add: ts_AsTime_def ts_New_def)

lemma ts_New_AsTime: "ts_IsValid (Some ts) \<Longrightarrow> ts_New (ts_AsTime ts) = ts"
  by (cases ts) (auto simp: ts_AsTime_def ts_New_def)

lemma ts_New_inject [simp]: "ts_New s = ts_New t \<longleftrightarrow> s = t"
  by (metis ts_AsTime_New)

lemma ts_IsValid_New [simp]: "ts_IsValid (Some (ts_New t)) \<longleftrightarrow> time_in_range t"
proof -
  have "t mod 10 ^ 9 \<ge> 0 \<and> t mod 10 ^ 9 < (10 ^ 9 :: int)" by simp
  moreover have "t div 10 ^ 9 \<ge> - 62135596800 \<longleftrightarrow> t \<ge> - 62135596800 * 10 ^ 9" by auto
  moreover have "t div 10 ^ 9 \<le> 253402300799 \<longleftrightarrow> t < 253402300800 * 10 ^ 9" by auto
  ultimately show ?thesis by (auto simp: ts_New_def time_in_range_def zero_time_def)
qed

subsection \<open>Table models\<close>

record db_summary =
  rs_record :: string
  rs_type :: string
  rs_start :: "gotime option"
  rs_end :: "gotime option"
  rs_status :: int
  rs_annotations :: annotations

record db_result =
  r_parent :: string
  r_id :: string
  r_name :: string
  r_annotations :: annotations
  r_created :: gotime
  r_updated :: gotime
  r_summary :: db_summary
  r_etag :: string

record db_record =
  d_parent :: string
  d_result_id :: string
  d_result_name :: string
  d_id :: string
  d_name :: string
  d_type :: string
  d_data :: string
  d_created :: gotime
  d_updated :: gotime
  d_etag :: string

definition empty_summary :: db_summary where
  "empty_summary = \<lparr>rs_record = [], rs_type = [], rs_start = None, rs_end = None,
     rs_status = 0, rs_annotations = fmempty\<rparr>"

definition r_pk :: "db_result \<Rightarrow> string \<times> string" where
  "r_pk r = (r_parent r, r_id r)"

definition r_uk :: "db_result \<Rightarrow> string \<times> string" where
  "r_uk r = (r_parent r, r_name r)"

definition d_pk :: "db_record \<Rightarrow> string \<times> string \<times> string" where
  "d_pk d = (d_parent d, d_result_id d, d_id d)"

definition d_uk :: "db_record \<Rightarrow> string \<times> string \<times> string" where
  "d_uk d = (d_parent d, d_result_name d, d_name d)"

record db =
  results_tbl :: "db_result list"
  records_tbl :: "db_record list"

definition empty_db :: db where
  "empty_db = \<lparr>results_tbl = [], records_tbl = []\<rparr>"

subsection \<open>Errors of the database and their gRPC codes\<close>

datatype gorm_error = ErrRecordNotFound | SqlStateErr string string | SqliteErr int int string
  | DriverErr string

fun gorm_error_msg :: "gorm_error \<Rightarrow> string" where
  "gorm_error_msg ErrRecordNotFound = ''record not found''"
| "gorm_error_msg (SqlStateErr _ m) = m"
| "gorm_error_msg (SqliteErr _ _ m) = m"
| "gorm_error_msg (DriverErr m) = m"

definition gormCode :: "gorm_error \<Rightarrow> code option" where
  "gormCode err = (if err = ErrRecordNotFound then Some NotFound else None)"

definition sqlStateUniqueViolation :: string where "sqlStateUniqueViolation = ''23505''"
definition sqlStateForeignKey :: string where "sqlStateForeignKey = ''23503''"

text \<open>The Postgres error space.\<close>

fun pg_translate :: "gorm_error \<Rightarrow> code" where
  "pg_translate (SqlStateErr st _) =
     (if st = sqlStateUniqueViolation then AlreadyExists
      else if st = sqlStateForeignKey then FailedPrecondition
      else Unknown)"
| "pg_translate _ = Unknown"

text \<open>The SQLite error space: codes and extended codes of the driver.\<close>

fun sqlite_translate :: "gorm_error \<Rightarrow> code" where
  "sqlite_translate (SqliteErr c ext _) =
     (if c = 19
      then (if ext = 2067 then AlreadyExists
            else if ext = 787 then FailedPrecondition
            else InvalidArgument)
      else if c = 12 then NotFound
      else Unknown)"
| "sqlite_translate _ = Unknown"

definition Wrap :: "(gorm_error \<Rightarrow> code) option \<Rightarrow> gorm_error \<Rightarrow> go_error" where
  "Wrap errorSpace err =
     (case gormCode err of
        Some c \<Rightarrow> StatusErr c (gorm_error_msg err)
      | None \<Rightarrow>
          (case errorSpace of
             Some f \<Rightarrow> StatusErr (f err) (gorm_error_msg err)
           | None \<Rightarrow> PlainErr (gorm_error_msg err)))"

text \<open>The API server registers the Postgres error space.\<close>

abbreviation wrap :: "gorm_error \<Rightarrow> go_error" where
  "wrap \<equiv> Wrap (Some pg_translate)"

definition unique_violation :: gorm_error where
  "unique_violation = SqlStateErr sqlStateUniqueViolation ''duplicate key value violates unique constraint''"

definition foreign_key_violation :: gorm_error where
  "foreign_key_violation = SqlStateErr sqlStateForeignKey ''violates foreign key constraint''"

lemma status_code_wrap [simp]:
  "status_code (wrap ErrRecordNotFound) = NotFound"
  "status_code (wrap unique_violation) = AlreadyExists"
  "status_code (wrap foreign_key_violation) = FailedPrecondition"
  by (simp_all add: Wrap_def gormCode_def unique_violation_def foreign_key_violation_def
      sqlStateUniqueViolation_def sqlStateForeignKey_def)

subsection \<open>Statements on one table\<close>

definition tbl_create :: "('r \<Rightarrow> 'k) \<Rightarrow> ('r \<Rightarrow> 'u) \<Rightarrow> 'r \<Rightarrow> 'r list \<Rightarrow> gorm_error + 'r list" where
  "tbl_create pk uk r rows =
     (if \<exists>x\<in>set rows. pk x = pk r \<or> uk x = uk r then Inl unique_violation else Inr (rows @ [r]))"

text \<open>
  \<^verbatim>\<open>Save\<close>: an update of every column by primary key, an insert when no row has the key.
\<close>

definition tbl_save :: "('r \<Rightarrow> 'k) \<Rightarrow> ('r \<Rightarrow> 'u) \<Rightarrow> 'r \<Rightarrow> 'r list \<Rightarrow> gorm_error + 'r list" where
  "tbl_save pk uk r rows =
     (if \<exists>x\<in>set rows. pk x = pk r
      then (if \<exists>x\<in>set rows. pk x \<noteq> pk r \<and> uk x = uk r then Inl unique_violation
            else Inr (update_where (\<lambda>x. pk x = pk r) r rows))
      else tbl_create pk uk r rows)"

text \<open>\<^verbatim>\<open>First\<close>: the first matching row in the order of the prioritised primary field.\<close>

definition tbl_first :: "('r \<Rightarrow> string) \<Rightarrow> ('r \<Rightarrow> bool) \<Rightarrow> 'r list \<Rightarrow> gorm_error + 'r" where
  "tbl_first idf p rows =
     (case sort_key idf (filter p rows) of [] \<Rightarrow> Inl ErrRecordNotFound | x # _ \<Rightarrow> Inr x)"

definition tbl_delete :: "('r \<Rightarrow> bool) \<Rightarrow> 'r list \<Rightarrow> 'r list" where
  "tbl_delete p rows = filter (\<lambda>x. \<not> p x) rows"

definition tbl_wf :: "('r \<Rightarrow> 'k) \<Rightarrow> ('r \<Rightarrow> 'u) \<Rightarrow> 'r list \<Rightarrow> bool" where
  "tbl_wf pk uk rows = (distinct (map pk rows) \<and> distinct (map uk rows))"

lemma tbl_first_Inr: "tbl_first idf p rows = Inr x \<Longrightarrow> x \<in> set rows \<and> p x"
proof -
  assume a: "tbl_first idf p rows = Inr x"
  then obtain ys where "sort_key idf (filter p rows) = x # ys"
    by (auto simp: tbl_first_def split: list.splits)
  then have "x \<in> set (filter p rows)" by (metis list.set_intros(1) set_sort)
  then show ?thesis by simp
qed

lemma tbl_first_Inl: "tbl_first idf p rows = Inl e \<longleftrightarrow> e = ErrRecordNotFound \<and> (\<forall>x\<in>set rows. \<not> p x)"
proof -
  have "sort_key idf (filter p rows) = [] \<longleftrightarrow> (\<forall>x\<in>set rows. \<not> p x)"
    by (metis filter_empty_conv set_empty set_sort)
  then show ?thesis by (auto simp: tbl_first_def split: list.splits)
qed

lemma tbl_first_unique:
  assumes "distinct (map f rows)" and "x \<in> set rows" and "p x"
    and "\<And>y. y \<in> set rows \<Longrightarrow> p y \<Longrightarrow> f y = f x"
  shows "tbl_first idf p rows = Inr x"
proof (cases "tbl_first idf p rows")
  case (Inl e)
  with assms show ?thesis by (auto simp: tbl_first_Inl)
next
  case (Inr y)
  with tbl_first_Inr [OF this] assms show ?thesis by (metis distinct_map_eq)
qed

subsection \<open>The contract of a table with a primary key and a unique index\<close>

locale unique_table =
  fixes pk :: "'r \<Rightarrow> 'k" and uk :: "'r \<Rightarrow> 'u" and wf :: "'r list \<Rightarrow> bool"
    and create :: "'r \<Rightarrow> 'r list \<Rightarrow> gorm_error + 'r list"
    and save :: "'r \<Rightarrow> 'r list \<Rightarrow> gorm_error + 'r list"
    and delete :: "('r \<Rightarrow> bool) \<Rightarrow> 'r list \<Rightarrow> 'r list"
  assumes wf_pk: "wf rows \<Longrightarrow> x \<in> set rows \<Longrightarrow> y \<in> set rows \<Longrightarrow> pk x = pk y \<Longrightarrow> x = y"
    and wf_uk: "wf rows \<Longrightarrow> x \<in> set rows \<Longrightarrow> y \<in> set rows \<Longrightarrow> uk x = uk y \<Longrightarrow> x = y"
    and wf_empty: "wf []"
    and wf_create: "wf rows \<Longrightarrow> create r rows = Inr rows' \<Longrightarrow> wf rows'"
    and wf_save: "wf rows \<Longrightarrow> save r rows = Inr rows' \<Longrightarrow> wf rows'"
    and wf_delete: "wf rows \<Longrightarrow> wf (delete p rows)"
    and create_set: "create r rows = Inr rows' \<Longrightarrow> set rows' = insert r (set rows)"
    and create_conflict: "create r rows = Inl e \<longleftrightarrow>
      e = unique_violation \<and> (\<exists>x\<in>set rows. pk x = pk r \<or> uk x = uk r)"
    and save_set: "save r rows = Inr rows' \<Longrightarrow>
      set rows' = insert r {x \<in> set rows. pk x \<noteq> pk r}"
    and save_conflict: "save r rows = Inl e \<Longrightarrow>
      e = unique_violation \<and> (\<exists>x\<in>set rows. pk x \<noteq> pk r \<and> uk x = uk r)"
    and delete_set: "set (delete p rows) = {x \<in> set rows. \<not> p x}"
begin

lemma create_fresh:
  assumes "wf rows" and "create r rows = Inr rows'" and "y \<in> set rows'"
    and "uk y = uk r"
  shows "y = r"
proof -
  have "r \<in> set rows'" using create_set [OF assms(2)] by simp
  then show ?thesis using wf_uk [OF wf_create [OF assms(1,2)] assms(3)] assms(4) by blast
qed

lemma create_keeps: "create r rows = Inr rows' \<Longrightarrow> x \<in> set rows \<Longrightarrow> x \<in> set rows'"
  by (simp add: create_set)

lemma save_fresh:
  assumes "wf rows" and "save r rows = Inr rows'" and "y \<in> set rows'" and "uk y = uk r"
  shows "y = r"
proof -
  have "r \<in> set rows'" using save_set [OF assms(2)] by simp
  then show ?thesis using wf_uk [OF wf_save [OF assms(1,2)] assms(3)] assms(4) by blast
qed

lemma save_update_ok:
  assumes "wf rows" and "x \<in> set rows" and "pk r = pk x" and "uk r = uk x"
  shows "\<exists>rows'. save r rows = Inr rows'"
proof (cases "save r rows")
  case (Inl e)
  then obtain y where "y \<in> set rows" "pk y \<noteq> pk r" "uk y = uk r"
    using save_conflict by blast
  with assms show ?thesis using wf_uk by metis
qed blast

end

lemma tbl_wf_create:
  "tbl_wf pk uk rows \<Longrightarrow> tbl_create pk uk r rows = Inr rows' \<Longrightarrow> tbl_wf pk uk rows'"
  by (force simp: tbl_wf_def tbl_create_def split: if_splits)

lemma tbl_save_uk_distinct:
  assumes "distinct (map pk rows)" and "distinct (map uk rows)"
    and "\<not> (\<exists>x\<in>set rows. pk x \<noteq> pk r \<and> uk x = uk r)"
  shows "distinct (map uk (update_where (\<lambda>x. pk x = pk r) r rows))"
  using assms
proof (induction rows)
  case (Cons a rows)
  let ?u = "update_where (\<lambda>x. pk x = pk r) r"
  have ih: "distinct (map uk (?u rows))" using Cons by auto
  show ?case
  proof (cases "pk a = pk r")
    case True
    then have "\<forall>x\<in>set rows. pk x \<noteq> pk r" using Cons.prems(1) by (metis distinct.simps(2) image_eqI list.set_map list.simps(9))
    then have "?u rows = rows" by (simp add: update_where_def map_idI)
    moreover have "uk r \<notin> uk ` set rows" using Cons.prems(3) \<open>\<forall>x\<in>set rows. pk x \<noteq> pk r\<close> by force
    ultimately show ?thesis using Cons.prems True by (simp add: update_where_def)
  next
    case False
    then have "uk a \<noteq> uk r" using Cons.prems(3) by auto
    then have "uk a \<notin> uk ` set (?u rows)"
      using Cons.prems(2) by (auto simp: set_update_where split: if_splits)
    moreover have "?u (a # rows) = a # ?u rows" using False by (simp add: update_where_def)
    ultimately show ?thesis using ih by simp
  qed
qed (simp add: update_where_def)

lemma tbl_wf_save:
  assumes "tbl_wf pk uk rows" and "tbl_save pk uk r rows = Inr rows'"
  shows "tbl_wf pk uk rows'"
proof (cases "\<exists>x\<in>set rows. pk x = pk r")
  case True
  with assms(2) have nc: "\<not> (\<exists>x\<in>set rows. pk x \<noteq> pk r \<and> uk x = uk r)"
    and r': "rows' = update_where (\<lambda>x. pk x = pk r) r rows"
    by (auto simp: tbl_save_def split: if_splits)
  have "map pk rows' = map pk rows" unfolding r' by (rule map_update_where) simp
  with assms(1) nc show ?thesis
    by (simp add: tbl_wf_def r' tbl_save_uk_distinct)
next
  case False
  with assms show ?thesis by (auto simp: tbl_save_def intro: tbl_wf_create)
qed

lemma tbl_save_set:
  "tbl_save pk uk r rows = Inr rows' \<Longrightarrow> set rows' = insert r {x \<in> set rows. pk x \<noteq> pk r}"
  by (auto simp: tbl_save_def tbl_create_def set_update_where split: if_splits)

lemma unique_table_tbl:
  "unique_table pk uk (tbl_wf pk uk) (tbl_create pk uk) (tbl_save pk uk) tbl_delete"
proof
  fix rows rows' :: "'a list" and r x y
  show "tbl_wf pk uk rows \<Longrightarrow> x \<in> set rows \<Longrightarrow> y \<in> set rows \<Longrightarrow> pk x = pk y \<Longrightarrow> x = y"
    by (metis distinct_map_eq tbl_wf_def)
  show "tbl_wf pk uk rows \<Longrightarrow> x \<in> set rows \<Longrightarrow> y \<in> set rows \<Longrightarrow> uk x = uk y \<Longrightarrow> x = y"
    by (metis distinct_map_eq tbl_wf_def)
  show "tbl_wf pk uk rows \<Longrightarrow> tbl_save pk uk r rows = Inr rows' \<Longrightarrow> tbl_wf pk uk rows'"
    by (rule tbl_wf_save)
  show "tbl_save pk uk r rows = Inr rows' \<Longrightarrow> set rows' = insert r {x \<in> set rows. pk x \<noteq> pk r}"
    by (rule tbl_save_set)
  fix e show "tbl_save pk uk r rows = Inl e \<Longrightarrow>
      e = unique_violation \<and> (\<exists>x\<in>set rows. pk x \<noteq> pk r \<and> uk x = uk r)"
    by (auto simp: tbl_save_def tbl_create_def split: if_splits)
  show "tbl_wf pk uk rows \<Longrightarrow> tbl_create pk uk r rows = Inr rows' \<Longrightarrow> tbl_wf pk uk rows'"
    by (rule tbl_wf_create)
qed (auto simp: tbl_wf_def tbl_create_def tbl_delete_def distinct_map_filterI split: if_splits)

subsection \<open>Statements of the two tables\<close>

definition create_result :: "db_result \<Rightarrow> db \<Rightarrow> gorm_error + db" where
  "create_result r s = (case tbl_create r_pk r_uk r (results_tbl s) of
     Inl e \<Rightarrow> Inl e | Inr rows \<Rightarrow> Inr (s\<lparr>results_tbl := rows\<rparr>))"

definition save_result :: "db_result \<Rightarrow> db \<Rightarrow> gorm_error + db" where
  "save_result r s = (case tbl_save r_pk r_uk r (results_tbl s) of
     Inl e \<Rightarrow> Inl e | Inr rows \<Rightarrow> Inr (s\<lparr>results_tbl := rows\<rparr>))"

text \<open>A record row needs the result its foreign key names.\<close>

definition fk_ok :: "db_record \<Rightarrow> db \<Rightarrow> bool" where
  "fk_ok d s = (\<exists>r\<in>set (results_tbl s). r_parent r = d_parent d \<and> r_id r = d_result_id d)"

definition create_record :: "db_record \<Rightarrow> db \<Rightarrow> gorm_error + db" where
  "create_record d s = (case tbl_create d_pk d_uk d (records_tbl s) of
     Inl e \<Rightarrow> Inl e
   | Inr rows \<Rightarrow> if fk_ok d s then Inr (s\<lparr>records_tbl := rows\<rparr>) else Inl foreign_key_violation)"

definition save_record :: "db_record \<Rightarrow> db \<Rightarrow> gorm_error + db" where
  "save_record d s = (case tbl_save d_pk d_uk d (records_tbl s) of
     Inl e \<Rightarrow> Inl e
   | Inr rows \<Rightarrow> if fk_ok d s then Inr (s\<lparr>records_tbl := rows\<rparr>) else Inl foreign_key_violation)"

text \<open>
  A struct used as a condition compares the columns of its non-zero fields. The relation field
  \<^verbatim>\<open>Record.Result\<close> has no column, so it never contributes a condition.
\<close>

definition eq_cond :: "'a \<Rightarrow> 'a \<Rightarrow> 'a \<Rightarrow> bool" where
  "eq_cond zero v col = (v = zero \<or> col = v)"

definition matches_result :: "db_result \<Rightarrow> db_result \<Rightarrow> bool" where
  "matches_result c x =
     (eq_cond [] (r_parent c) (r_parent x) \<and> eq_cond [] (r_id c) (r_id x)
      \<and> eq_cond [] (r_name c) (r_name x) \<and> eq_cond fmempty (r_annotations c) (r_annotations x)
      \<and> eq_cond zero_time (r_created c) (r_created x) \<and> eq_cond zero_time (r_updated c) (r_updated x)
      \<and> eq_cond [] (rs_record (r_summary c)) (rs_record (r_summary x))
      \<and> eq_cond [] (rs_type (r_summary c)) (rs_type (r_summary x))
      \<and> eq_cond None (rs_start (r_summary c)) (rs_start (r_summary x))
      \<and> eq_cond None (rs_end (r_summary c)) (rs_end (r_summary x))
      \<and> eq_cond 0 (rs_status (r_summary c)) (rs_status (r_summary x))
      \<and> eq_cond fmempty (rs_annotations (r_summary c)) (rs_annotations (r_summary x))
      \<and> eq_cond [] (r_etag c) (r_etag x))"

definition matches_record :: "db_record \<Rightarrow> db_record \<Rightarrow> bool" where
  "matches_record c x =
     (eq_cond [] (d_parent c) (d_parent x) \<and> eq_cond [] (d_result_id c) (d_result_id x)
      \<and> eq_cond [] (d_result_name c) (d_result_name x) \<and> eq_cond [] (d_id c) (d_id x)
      \<and> eq_cond [] (d_name c) (d_name x) \<and> eq_cond [] (d_type c) (d_type x)
      \<and> eq_cond [] (d_data c) (d_data x)
      \<and> eq_cond zero_time (d_created c) (d_created x) \<and> eq_cond zero_time (d_updated c) (d_updated x)
      \<and> eq_cond [] (d_etag c) (d_etag x))"

lemma matches_refl [simp]: "matches_result r r" "matches_record d d"
  by (simp_all add: matches_result_def matches_record_def eq_cond_def)

text \<open>Deleting result rows cascades to the records whose foreign key names them.\<close>

definition cascade :: "db_result list \<Rightarrow> db_record list \<Rightarrow> db_record list" where
  "cascade gone rows =
     filter (\<lambda>d. \<not> (\<exists>r\<in>set gone. r_parent r = d_parent d \<and> r_id r = d_result_id d)) rows"

definition delete_results_where :: "(db_result \<Rightarrow> bool) \<Rightarrow> db \<Rightarrow> db" where
  "delete_results_where p s =
     s\<lparr>results_tbl := tbl_delete p (results_tbl s),
       records_tbl := cascade (filter p (results_tbl s)) (records_tbl s)\<rparr>"

definition delete_records_where :: "(db_record \<Rightarrow> bool) \<Rightarrow> db \<Rightarrow> db" where
  "delete_records_where p s = s\<lparr>records_tbl := tbl_delete p (records_tbl s)\<rparr>"

definition result_cond :: "string \<Rightarrow> string \<Rightarrow> db_result \<Rightarrow> bool" where
  "result_cond parent name r = (eq_cond [] parent (r_parent r) \<and> eq_cond [] name (r_name r))"

definition record_cond :: "string \<Rightarrow> string \<Rightarrow> string \<Rightarrow> db_record \<Rightarrow> bool" where
  "record_cond parent res name d =
     (eq_cond [] parent (d_parent d) \<and> eq_cond [] res (d_result_name d) \<and> eq_cond [] name (d_name d))"

definition first_result :: "(db_result \<Rightarrow> bool) \<Rightarrow> db \<Rightarrow> gorm_error + db_result" where
  "first_result p s = tbl_first r_id p (results_tbl s)"

definition first_record :: "(db_record \<Rightarrow> bool) \<Rightarrow> db \<Rightarrow> gorm_error + db_record" where
  "first_record p s = tbl_first d_id p (records_tbl s)"

interpretation results: unique_table r_pk r_uk "tbl_wf r_pk r_uk" "tbl_create r_pk r_uk"
  "tbl_save r_pk r_uk" tbl_delete
  by (rule unique_table_tbl)

interpretation records: unique_table d_pk d_uk "tbl_wf d_pk d_uk" "tbl_create d_pk d_uk"
  "tbl_save d_pk d_uk" tbl_delete
  by (rule unique_table_tbl)

subsection \<open>The invariant of the database\<close>

text \<open>
  Keys are unique, every record's foreign key names a result, and the copy of the result's name
  a record row carries is that result's name.
\<close>

definition db_wf :: "db \<Rightarrow> bool" where
  "db_wf s =
     (tbl_wf r_pk r_uk (results_tbl s) \<and> tbl_wf d_pk d_uk (records_tbl s)
      \<and> (\<forall>d\<in>set (records_tbl s). \<exists>r\<in>set (results_tbl s).
           r_parent r = d_parent d \<and> r_id r = d_result_id d \<and> r_name r = d_result_name d))"

lemma db_wf_empty [simp]: "db_wf empty_db"
  by (simp add: db_wf_def empty_db_def tbl_wf_def)

lemma db_wfD:
  assumes "db_wf s"
  shows "tbl_wf r_pk r_uk (results_tbl s)" and "tbl_wf d_pk d_uk (records_tbl s)"
    and "\<And>d. d \<in> set (records_tbl s) \<Longrightarrow> \<exists>r\<in>set (results_tbl s).
      r_parent r = d_parent d \<and> r_id r = d_result_id d \<and> r_name r = d_result_name d"
  using assms by (auto simp: db_wf_def)

lemma db_wf_create_result:
  assumes "db_wf s" and "create_result r s = Inr s'"
  shows "db_wf s'"
proof -
  obtain rows where c: "tbl_create r_pk r_uk r (results_tbl s) = Inr rows"
    and s': "s' = s\<lparr>results_tbl := rows\<rparr>"
    using assms(2) by (auto simp: create_result_def split: sum.splits)
  have "set rows = insert r (set (results_tbl s))" using c by (rule results.create_set)
  moreover have "tbl_wf r_pk r_uk rows" using db_wfD(1) [OF assms(1)] c by (rule results.wf_create)
  ultimately show ?thesis using assms(1) s' by (auto simp: db_wf_def)
qed

lemma db_wf_save_result:
  assumes "db_wf s" and "save_result r s = Inr s'"
    and "x \<in> set (results_tbl s)" and "r_pk r = r_pk x" and "r_name r = r_name x"
  shows "db_wf s'"
proof -
  obtain rows where c: "tbl_save r_pk r_uk r (results_tbl s) = Inr rows"
    and s': "s' = s\<lparr>results_tbl := rows\<rparr>"
    using assms(2) by (auto simp: save_result_def split: sum.splits)
  have st: "set rows = insert r {y \<in> set (results_tbl s). r_pk y \<noteq> r_pk r}"
    using c by (rule results.save_set)
  have wf: "tbl_wf r_pk r_uk rows" using db_wfD(1) [OF assms(1)] c by (rule results.wf_save)
  have "\<exists>q\<in>set rows. r_parent q = d_parent d \<and> r_id q = d_result_id d \<and> r_name q = d_result_name d"
    if din: "d \<in> set (records_tbl s)" for d
  proof -
    obtain q where q: "q \<in> set (results_tbl s)" "r_parent q = d_parent d"
      "r_id q = d_result_id d" "r_name q = d_result_name d"
      using assms(1) din by (auto simp: db_wf_def)
    show ?thesis
    proof (cases "r_pk q = r_pk r")
      case True
      then have "q = x" using results.wf_pk [OF db_wfD(1) [OF assms(1)] q(1) assms(3)] assms(4) by simp
      then show ?thesis using st assms(4,5) q(2-4) by (auto simp: r_pk_def)
    next
      case False
      then show ?thesis using st q by blast
    qed
  qed
  then show ?thesis using wf assms(1) s' by (auto simp: db_wf_def)
qed

lemma db_wf_create_record:
  assumes "db_wf s" and "create_record d s = Inr s'"
    and "\<And>r. r \<in> set (results_tbl s) \<Longrightarrow> r_parent r = d_parent d \<Longrightarrow> r_id r = d_result_id d
      \<Longrightarrow> r_name r = d_result_name d"
  shows "db_wf s'"
proof -
  obtain rows where c: "tbl_create d_pk d_uk d (records_tbl s) = Inr rows"
    and fk: "fk_ok d s" and s': "s' = s\<lparr>records_tbl := rows\<rparr>"
    using assms(2) by (auto simp: create_record_def split: sum.splits if_splits)
  have "set rows = insert d (set (records_tbl s))" using c by (rule records.create_set)
  moreover have "tbl_wf d_pk d_uk rows" using db_wfD(2) [OF assms(1)] c by (rule records.wf_create)
  moreover have "\<exists>r\<in>set (results_tbl s). r_parent r = d_parent d \<and> r_id r = d_result_id d
      \<and> r_name r = d_result_name d"
    using fk assms(3) by (auto simp: fk_ok_def)
  ultimately show ?thesis using assms(1) s' by (auto simp: db_wf_def)
qed

lemma db_wf_save_record:
  assumes "db_wf s" and "save_record d s = Inr s'"
    and "x \<in> set (records_tbl s)" and "d_pk d = d_pk x" and "d_result_name d = d_result_name x"
  shows "db_wf s'"
proof -
  obtain rows where c: "tbl_save d_pk d_uk d (records_tbl s) = Inr rows"
    and s': "s' = s\<lparr>records_tbl := rows\<rparr>"
    using assms(2) by (auto simp: save_record_def split: sum.splits if_splits)
  have "set rows = insert d {y \<in> set (records_tbl s). d_pk y \<noteq> d_pk d}"
    using c by (rule records.save_set)
  moreover have "tbl_wf d_pk d_uk rows" using db_wfD(2) [OF assms(1)] c by (rule records.wf_save)
  moreover have "\<exists>r\<in>set (results_tbl s). r_parent r = d_parent d \<and> r_id r = d_result_id d
      \<and> r_name r = d_result_name d"
    using assms(1,3,4,5) by (auto simp: d_pk_def db_wf_def)
  ultimately show ?thesis using assms(1) s' by (auto simp: db_wf_def)
qed

lemma db_wf_delete_results: "db_wf s \<Longrightarrow> db_wf (delete_results_where p s)"
  by (auto simp: db_wf_def delete_results_where_def cascade_def tbl_delete_def tbl_wf_def
      distinct_map_filterI)

lemma db_wf_delete_records: "db_wf s \<Longrightarrow> db_wf (delete_records_where p s)"
  by (auto simp: db_wf_def delete_records_where_def tbl_delete_def tbl_wf_def distinct_map_filterI)

lemmas db_wf_intros = db_wf_create_result db_wf_save_result db_wf_create_record
  db_wf_save_record db_wf_delete_results db_wf_delete_records

lemma first_result_unique:
  assumes "db_wf s" and "parent \<noteq> []" and "name \<noteq> []"
    and "r \<in> set (results_tbl s)" and "r_parent r = parent" and "r_name r = name"
  shows "first_result (result_cond parent name) s = Inr r"
  unfolding first_result_def
  by (rule tbl_first_unique [where f = r_uk])
    (use assms in \<open>auto simp: db_wf_def tbl_wf_def result_cond_def eq_cond_def r_uk_def\<close>)

lemma first_record_unique:
  assumes "db_wf s" and "parent \<noteq> []" and "res \<noteq> []" and "name \<noteq> []"
    and "d \<in> set (records_tbl s)" and "d_parent d = parent" and "d_result_name d = res"
    and "d_name d = name"
  shows "first_record (record_cond parent res name) s = Inr d"
  unfolding first_record_def
  by (rule tbl_first_unique [where f = d_uk])
    (use assms in \<open>auto simp: db_wf_def tbl_wf_def record_cond_def eq_cond_def d_uk_def\<close>)

lemma first_result_Inr:
  assumes "first_result (result_cond parent name) s = Inr r" and "parent \<noteq> []" and "name \<noteq> []"
  shows "r \<in> set (results_tbl s) \<and> r_parent r = parent \<and> r_name r = name"
  using tbl_first_Inr assms by (fastforce simp: first_result_def result_cond_def eq_cond_def)

lemma first_record_Inr:
  assumes "first_record (record_cond parent res name) s = Inr d"
    and "parent \<noteq> []" and "res \<noteq> []" and "name \<noteq> []"
  shows "d \<in> set (records_tbl s) \<and> d_parent d = parent \<and> d_result_name d = res \<and> d_name d = name"
  using tbl_first_Inr assms by (fastforce simp: first_record_def record_cond_def eq_cond_def)

end
