(* ===== verification/Resources.thy ===== *)
theory Resources
  imports Names Database
begin

text \<open>
  API messages and their storage form: \<^verbatim>\<open>ToStorage\<close>, \<^verbatim>\<open>ToAPI\<close>, \<^verbatim>\<open>UpdateEtag\<close> and the
  validation of record data (packages \<^verbatim>\<open>result\<close>, \<^verbatim>\<open>record\<close> and \<^verbatim>\<open>log\<close>), the Log type
  (\<^verbatim>\<open>pkg/apis/v1alpha3/types.go\<close>), \<^verbatim>\<open>protoutil.ClearOutputOnly\<close> on the two messages, and the
  merge of two records. Nested messages are options, a nil map is the empty map, nil bytes
  are the empty list. JSON decoding and encoding of the vendored Kubernetes and Tekton types
  are parameters (record \<open>codec\<close>).
\<close>

subsection \<open>Messages\<close>

record pb_any =
  any_type :: string
  any_value :: string

record pb_summary =
  s_record :: string
  s_type :: string
  s_start :: "timestamp option"
  s_end :: "timestamp option"
  s_status :: int
  s_annotations :: annotations

record pb_result =
  pr_name :: string
  pr_id :: string
  pr_uid :: string
  pr_created :: "timestamp option"
  pr_create :: "timestamp option"
  pr_updated :: "timestamp option"
  pr_update :: "timestamp option"
  pr_annotations :: annotations
  pr_etag :: string
  pr_summary :: "pb_summary option"

record pb_record =
  pd_name :: string
  pd_id :: string
  pd_uid :: string
  pd_data :: "pb_any option"
  pd_etag :: string
  pd_created :: "timestamp option"
  pd_create :: "timestamp option"
  pd_updated :: "timestamp option"
  pd_update :: "timestamp option"

text \<open>The generated getters of a possibly nil message.\<close>

definition GetType :: "pb_any option \<Rightarrow> string" where
  "GetType a = (case a of None \<Rightarrow> [] | Some m \<Rightarrow> any_type m)"

definition GetValue :: "pb_any option \<Rightarrow> string" where
  "GetValue a = (case a of None \<Rightarrow> [] | Some m \<Rightarrow> any_value m)"

subsection \<open>Log resources\<close>

definition EventListRecordType :: string where "EventListRecordType = ''results.tekton.dev/v1.EventList''"
definition LogRecordType :: string where "LogRecordType = ''results.tekton.dev/v1alpha3.Log''"
definition LogRecordTypeV2 :: string where "LogRecordTypeV2 = ''results.tekton.dev/v1alpha2.Log''"
definition FileLogType :: string where "FileLogType = ''File''"
definition S3LogType :: string where "S3LogType = ''S3''"
definition GCSLogType :: string where "GCSLogType = ''GCS''"

record log_resource =
  lr_kind :: string
  lr_namespace :: string
  lr_name :: string
  lr_uid :: string

record log_status =
  ls_path :: string
  ls_size :: int
  ls_is_stored :: bool
  ls_error :: string
  ls_retryable :: bool

record log =
  l_kind :: string
  l_api_version :: string
  l_namespace :: string
  l_name :: string
  l_uid :: string
  l_resource :: log_resource
  l_type :: string
  l_status :: log_status

definition zero_log :: log where
  "zero_log = \<lparr>l_kind = [], l_api_version = [], l_namespace = [], l_name = [], l_uid = [],
     l_resource = \<lparr>lr_kind = [], lr_namespace = [], lr_name = [], lr_uid = []\<rparr>, l_type = [],
     l_status = \<lparr>ls_path = [], ls_size = 0, ls_is_stored = False, ls_error = [],
       ls_retryable = False\<rparr>\<rparr>"

definition Log_Default :: "log \<Rightarrow> log" where
  "Log_Default t = t\<lparr>l_kind := ''Log'', l_api_version := ''results.tekton.dev/v1alpha3''\<rparr>"

text \<open>
  What the code uses of JSON: decoding bytes as a TaskRun, a PipelineRun or any document (with
  its error), decoding and encoding a Log.
\<close>

datatype json_kind = JTaskRun | JPipelineRun | JRaw

record codec =
  json_check :: "json_kind \<Rightarrow> string \<Rightarrow> string option"
  unmarshal_log :: "string \<Rightarrow> string + log"
  marshal_log :: "log \<Rightarrow> string + string"

text \<open>The configuration fields the API server's log code reads.\<close>

record server_config =
  LOGS_API :: bool
  LOGS_TYPE :: string
  LOGS_PATH :: string
  LOGS_BUFFER_SIZE :: int

definition log_ToStorage :: "codec \<Rightarrow> server_config \<Rightarrow> pb_record \<Rightarrow> string res" where
  "log_ToStorage c cfg r =
     (case (if length (GetValue (pd_data r)) > 0 then unmarshal_log c (GetValue (pd_data r))
            else Inr zero_log) of
        Inl e \<Rightarrow> Inl (PlainErr e)
      | Inr l \<Rightarrow>
          (let l' = Log_Default l in
           let l'' = (if l_type l' = [] then l'\<lparr>l_type := LOGS_TYPE cfg\<rparr> else l') in
           if l_type l'' = [] then Inl (PlainErr ''failed to set up log storage type to spec'')
           else (case marshal_log c l'' of Inl e \<Rightarrow> Inl (PlainErr e) | Inr b \<Rightarrow> Inr b)))"

subsection \<open>Results\<close>

definition typeSize :: nat where "typeSize = 768"

definition ValidateType :: "string \<Rightarrow> go_error option" where
  "ValidateType t =
     (if length t > typeSize
      then Some (StatusErr InvalidArgument ''type must not exceed 768 characters'')
      else None)"

text \<open>The time a message carries in two fields: the second field, when valid, wins.\<close>

definition pick_time :: "timestamp option \<Rightarrow> timestamp option \<Rightarrow> gotime" where
  "pick_time a b =
     (if ts_IsValid b then ts_AsTime (the b)
      else if ts_IsValid a then ts_AsTime (the a) else zero_time)"

definition opt_time :: "timestamp option \<Rightarrow> gotime option" where
  "opt_time a = (if ts_IsValid a then Some (ts_AsTime (the a)) else None)"

definition result_ToStorage :: "pb_result \<Rightarrow> db_result res" where
  "result_ToStorage r =
     (case result_ParseName (pr_name r) of
        Inl e \<Rightarrow> Inl e
      | Inr (parent, name) \<Rightarrow>
     (let base = \<lparr>r_parent = parent,
                  r_id = (if pr_uid r = [] then pr_id r else pr_uid r),
                  r_name = name,
                  r_annotations = pr_annotations r,
                  r_created = pick_time (pr_created r) (pr_create r),
                  r_updated = pick_time (pr_updated r) (pr_update r),
                  r_summary = empty_summary,
                  r_etag = pr_etag r\<rparr>
      in case pr_summary r of
           None \<Rightarrow> Inr base
         | Some sm \<Rightarrow>
             if s_record sm = [] \<or> s_type sm = []
             then Inl (StatusErr InvalidArgument ''record and type fields required for RecordSummary'')
             else if \<not> record_MatchString (s_record sm)
             then Inl (StatusErr InvalidArgument ''invalid record format'')
             else (case ValidateType (s_type sm) of
                     Some e \<Rightarrow> Inl e
                   | None \<Rightarrow> Inr (base\<lparr>r_summary :=
                       \<lparr>rs_record = s_record sm, rs_type = s_type sm,
                        rs_start = opt_time (s_start sm), rs_end = opt_time (s_end sm),
                        rs_status = s_status sm, rs_annotations = s_annotations sm\<rparr>\<rparr>))))"

definition newTS :: "gotime option \<Rightarrow> timestamp option" where
  "newTS t = (case t of None \<Rightarrow> None | Some x \<Rightarrow> Some (ts_New x))"

definition summary_ToAPI :: "db_summary \<Rightarrow> pb_summary option" where
  "summary_ToAPI sm =
     (if rs_record sm \<noteq> []
      then Some \<lparr>s_record = rs_record sm, s_type = rs_type sm, s_start = newTS (rs_start sm),
             s_end = newTS (rs_end sm), s_status = rs_status sm, s_annotations = rs_annotations sm\<rparr>
      else None)"

definition result_ToAPI :: "db_result \<Rightarrow> pb_result" where
  "result_ToAPI r =
     \<lparr>pr_name = result_FormatName (r_parent r) (r_name r),
      pr_id = r_id r,
      pr_uid = r_id r,
      pr_created = Some (ts_New (r_created r)),
      pr_create = Some (ts_New (r_created r)),
      pr_updated = Some (ts_New (r_updated r)),
      pr_update = Some (ts_New (r_updated r)),
      pr_annotations = r_annotations r,
      pr_etag = r_etag r,
      pr_summary = summary_ToAPI (r_summary r)\<rparr>"

definition etag_of :: "string \<Rightarrow> gotime \<Rightarrow> string" where
  "etag_of i t = i @ ''-'' @ show_int (UnixNano t)"

definition result_UpdateEtag :: "db_result \<Rightarrow> db_result res" where
  "result_UpdateEtag r =
     (if r_id r = [] then Inl (PlainErr ''the ID field must be set'')
      else if r_updated r = zero_time then Inl (StatusErr Internal ''the UpdatedTime field must be set'')
      else Inr (r\<lparr>r_etag := etag_of (r_id r) (r_updated r)\<rparr>))"

text \<open>
  The fields marked OUTPUT\_ONLY in \<^verbatim>\<open>resources.proto\<close>: identifiers, times and the etag of a
  Result; identifiers and times, not the etag, of a Record.
\<close>

definition result_ClearOutputOnly :: "pb_result \<Rightarrow> pb_result" where
  "result_ClearOutputOnly r =
     r\<lparr>pr_id := [], pr_uid := [], pr_created := None, pr_create := None, pr_updated := None,
       pr_update := None, pr_etag := []\<rparr>"

subsection \<open>Records\<close>

definition validateData :: "codec \<Rightarrow> pb_any option \<Rightarrow> go_error option" where
  "validateData c m =
     (case ValidateType (GetType m) of
        Some e \<Rightarrow> Some e
      | None \<Rightarrow>
          (case m of
             None \<Rightarrow> None
           | Some a \<Rightarrow>
               (if any_type a = ''pipeline.tekton.dev/TaskRun''
                then map_option PlainErr (json_check c JTaskRun (any_value a))
                else if any_type a = ''pipeline.tekton.dev/PipelineRun''
                then map_option PlainErr (json_check c JPipelineRun (any_value a))
                else if any_type a = ''results.tekton.dev/v1alpha3.Log''
                then (case unmarshal_log c (any_value a) of Inl e \<Rightarrow> Some (PlainErr e) | Inr _ \<Rightarrow> None)
                else map_option PlainErr (json_check c JRaw (any_value a)))))"

definition record_ToStorage ::
    "codec \<Rightarrow> server_config \<Rightarrow> string \<Rightarrow> string \<Rightarrow> string \<Rightarrow> string \<Rightarrow> pb_record \<Rightarrow> db_record res" where
  "record_ToStorage c cfg parent resultName resultID name r =
     (case validateData c (pd_data r) of
        Some e \<Rightarrow> Inl (StatusErr InvalidArgument (error_msg e))
      | None \<Rightarrow>
     (let dbr = \<lparr>d_parent = parent, d_result_id = resultID, d_result_name = resultName,
                 d_id = (if pd_uid r = [] then pd_id r else pd_uid r),
                 d_name = name,
                 d_type = GetType (pd_data r),
                 d_data = GetValue (pd_data r),
                 d_created = pick_time (pd_created r) (pd_create r),
                 d_updated = pick_time (pd_updated r) (pd_update r),
                 d_etag = pd_etag r\<rparr>
      in if d_type dbr = LogRecordType \<or> d_type dbr = LogRecordTypeV2
         then (case log_ToStorage c cfg r of
                 Inl e \<Rightarrow> Inl e
               | Inr b \<Rightarrow> Inr (dbr\<lparr>d_data := b\<rparr>))
         else Inr dbr))"

definition record_ToAPI :: "db_record \<Rightarrow> pb_record" where
  "record_ToAPI r =
     \<lparr>pd_name = d_parent r @ ''/results/'' @ d_result_name r @ ''/records/'' @ d_name r,
      pd_id = d_id r,
      pd_uid = d_id r,
      pd_data = (if d_data r \<noteq> [] then Some \<lparr>any_type = d_type r, any_value = d_data r\<rparr> else None),
      pd_etag = d_etag r,
      pd_created = (if d_created r = zero_time then None else Some (ts_New (d_created r))),
      pd_create = (if d_created r = zero_time then None else Some (ts_New (d_created r))),
      pd_updated = (if d_updated r = zero_time then None else Some (ts_New (d_updated r))),
      pd_update = (if d_updated r = zero_time then None else Some (ts_New (d_updated r)))\<rparr>"

definition record_UpdateEtag :: "db_record \<Rightarrow> db_record res" where
  "record_UpdateEtag r =
     (if d_id r = [] then Inl (PlainErr ''the ID field must be set'')
      else if d_updated r = zero_time then Inl (StatusErr Internal ''the UpdatedTime field must be set'')
      else Inr (r\<lparr>d_etag := etag_of (d_id r) (d_updated r)\<rparr>))"

definition record_ClearOutputOnly :: "pb_record \<Rightarrow> pb_record" where
  "record_ClearOutputOnly r =
     r\<lparr>pd_id := [], pd_uid := [], pd_created := None, pd_create := None, pd_updated := None,
       pd_update := None\<rparr>"

text \<open>
  \<^verbatim>\<open>proto.Merge\<close>: a populated scalar of the source replaces the destination's, a populated
  message merges into it.
\<close>

definition merge_scalar :: "string \<Rightarrow> string \<Rightarrow> string" where
  "merge_scalar dst src = (if src = [] then dst else src)"

definition merge_any :: "pb_any option \<Rightarrow> pb_any option \<Rightarrow> pb_any option" where
  "merge_any dst src =
     (case src of
        None \<Rightarrow> dst
      | Some s \<Rightarrow> Some \<lparr>any_type = merge_scalar (GetType dst) (any_type s),
                       any_value = merge_scalar (GetValue dst) (any_value s)\<rparr>)"

definition merge_ts :: "timestamp option \<Rightarrow> timestamp option \<Rightarrow> timestamp option" where
  "merge_ts dst src =
     (case src of
        None \<Rightarrow> dst
      | Some s \<Rightarrow>
          (let d = (case dst of None \<Rightarrow> \<lparr>seconds = 0, nanos = 0\<rparr> | Some d \<Rightarrow> d) in
           Some \<lparr>seconds = (if seconds s = 0 then seconds d else seconds s),
                 nanos = (if nanos s = 0 then nanos d else nanos s)\<rparr>))"

definition record_Merge :: "pb_record \<Rightarrow> pb_record \<Rightarrow> pb_record" where
  "record_Merge dst src =
     \<lparr>pd_name = merge_scalar (pd_name dst) (pd_name src),
      pd_id = merge_scalar (pd_id dst) (pd_id src),
      pd_uid = merge_scalar (pd_uid dst) (pd_uid src),
      pd_data = merge_any (pd_data dst) (pd_data src),
      pd_etag = merge_scalar (pd_etag dst) (pd_etag src),
      pd_created = merge_ts (pd_created dst) (pd_created src),
      pd_create = merge_ts (pd_create dst) (pd_create src),
      pd_updated = merge_ts (pd_updated dst) (pd_updated src),
      pd_update = merge_ts (pd_update dst) (pd_update src)\<rparr>"


subsection \<open>Stored rows\<close>

text \<open>What every row written by the handlers satisfies.\<close>

fun opt_in_range :: "gotime option \<Rightarrow> bool" where
  "opt_in_range None = True"
| "opt_in_range (Some t) = time_in_range t"

definition summary_ok :: "db_summary \<Rightarrow> bool" where
  "summary_ok sm =
     (sm = empty_summary \<or>
      rs_record sm \<noteq> [] \<and> rs_type sm \<noteq> [] \<and> record_MatchString (rs_record sm)
      \<and> length (rs_type sm) \<le> typeSize
      \<and> opt_in_range (rs_start sm) \<and> opt_in_range (rs_end sm))"

definition result_row_ok :: "db_result \<Rightarrow> bool" where
  "result_row_ok r =
     (seg_ok (r_parent r) \<and> seg_ok (r_name r) \<and> r_id r \<noteq> []
      \<and> time_in_range (r_created r) \<and> time_in_range (r_updated r) \<and> r_updated r \<noteq> zero_time
      \<and> summary_ok (r_summary r) \<and> r_etag r = etag_of (r_id r) (r_updated r))"

definition record_row_ok :: "db_record \<Rightarrow> bool" where
  "record_row_ok d =
     (seg_ok (d_parent d) \<and> seg_ok (d_result_name d) \<and> seg_ok (d_name d) \<and> d_id d \<noteq> []
      \<and> time_in_range (d_created d) \<and> time_in_range (d_updated d)
      \<and> d_created d \<noteq> zero_time \<and> d_updated d \<noteq> zero_time
      \<and> length (d_type d) \<le> typeSize \<and> d_etag d = etag_of (d_id d) (d_updated d))"

lemma time_in_range_zero [simp]: "time_in_range zero_time"
  by (simp add: time_in_range_def zero_time_def)

lemma ts_AsTime_in_range: "ts_IsValid (Some ts) \<Longrightarrow> time_in_range (ts_AsTime ts)"
  by (metis ts_IsValid_New ts_New_AsTime)

lemma pick_time_in_range [simp]: "time_in_range (pick_time a b)"
  by (cases a; cases b) (auto simp: pick_time_def ts_AsTime_in_range simp del: ts_IsValid.simps(2))

lemma opt_time_in_range [simp]: "opt_in_range (opt_time a)"
  by (cases a) (auto simp: opt_time_def ts_AsTime_in_range simp del: ts_IsValid.simps(2))

lemma pick_time_New [simp]:
  "time_in_range t \<Longrightarrow> pick_time a (Some (ts_New t)) = t"
  "time_in_range t \<Longrightarrow> pick_time (Some (ts_New t)) None = t"
  "pick_time None None = zero_time"
  by (simp_all add: pick_time_def del: ts_IsValid.simps(2))

lemma opt_time_newTS [simp]: "opt_in_range t \<Longrightarrow> opt_time (newTS t) = t"
  by (cases t) (simp_all add: opt_time_def newTS_def del: ts_IsValid.simps(2))

lemma summary_ToAPI_empty [simp]: "summary_ToAPI empty_summary = None"
  by (simp add: summary_ToAPI_def empty_summary_def)

lemma ValidateType_ok [simp]: "length t \<le> typeSize \<Longrightarrow> ValidateType t = None"
  by (simp add: ValidateType_def)

lemma ValidateType_None: "ValidateType t = None \<longleftrightarrow> length t \<le> typeSize"
  by (auto simp: ValidateType_def)

text \<open>Reading a stored result back through the API loses nothing.\<close>

lemma result_ToStorage_ToAPI:
  assumes "result_row_ok r"
  shows "result_ToStorage (result_ToAPI r) = Inr r"
proof -
  have parse: "result_ParseName (pr_name (result_ToAPI r)) = Inr (r_parent r, r_name r)"
    using assms by (simp add: result_ToAPI_def result_row_ok_def result_ParseName_FormatName)
  show ?thesis
  proof (cases "rs_record (r_summary r) = []")
    case True
    then have "r_summary r = empty_summary" using assms by (auto simp: result_row_ok_def summary_ok_def)
    then show ?thesis using assms parse
      by (cases r) (simp add: result_ToStorage_def result_ToAPI_def result_row_ok_def)
  next
    case False
    then have "r_summary r \<noteq> empty_summary" by (auto simp: empty_summary_def)
    then show ?thesis using assms parse False
      by (cases r, cases "r_summary r")
        (auto simp: result_ToStorage_def result_ToAPI_def result_row_ok_def summary_ToAPI_def summary_ok_def)
  qed
qed

lemma result_ToStorage_Inr:
  assumes "result_ToStorage p = Inr r"
  shows "pr_name p = result_FormatName (r_parent r) (r_name r) \<and> seg_ok (r_parent r) \<and> seg_ok (r_name r)
    \<and> r_id r = (if pr_uid p = [] then pr_id p else pr_uid p)
    \<and> time_in_range (r_created r) \<and> time_in_range (r_updated r) \<and> summary_ok (r_summary r)
    \<and> r_annotations r = pr_annotations p
    \<and> r_created r = pick_time (pr_created p) (pr_create p)
    \<and> r_updated r = pick_time (pr_updated p) (pr_update p)"
proof -
  obtain parent name where n: "result_ParseName (pr_name p) = Inr (parent, name)"
    using assms by (auto simp: result_ToStorage_def split: sum.splits)
  then have f: "pr_name p = result_FormatName parent name" "seg_ok parent" "seg_ok name"
    using result_ParseName_Inr by auto
  show ?thesis using assms n f
    by (auto simp: result_ToStorage_def Let_def summary_ok_def ValidateType_None
        split: option.splits if_splits)
qed

lemma result_UpdateEtag_Inr:
  "result_UpdateEtag r = Inr r' \<longleftrightarrow>
     r_id r \<noteq> [] \<and> r_updated r \<noteq> zero_time \<and> r' = r\<lparr>r_etag := etag_of (r_id r) (r_updated r)\<rparr>"
  by (auto simp: result_UpdateEtag_def)

lemma record_UpdateEtag_Inr:
  "record_UpdateEtag r = Inr r' \<longleftrightarrow>
     d_id r \<noteq> [] \<and> d_updated r \<noteq> zero_time \<and> r' = r\<lparr>d_etag := etag_of (d_id r) (d_updated r)\<rparr>"
  by (auto simp: record_UpdateEtag_def)

lemma validateData_type: "validateData c m = None \<Longrightarrow> length (GetType m) \<le> typeSize"
  by (auto simp: validateData_def ValidateType_None split: option.splits)

lemma record_ToStorage_Inr:
  assumes "record_ToStorage c cfg parent resultName resultID name p = Inr d"
  shows "d_parent d = parent \<and> d_result_name d = resultName \<and> d_result_id d = resultID
    \<and> d_name d = name \<and> d_id d = (if pd_uid p = [] then pd_id p else pd_uid p)
    \<and> d_type d = GetType (pd_data p) \<and> length (d_type d) \<le> typeSize
    \<and> d_created d = pick_time (pd_created p) (pd_create p)
    \<and> d_updated d = pick_time (pd_updated p) (pd_update p)
    \<and> time_in_range (d_created d) \<and> time_in_range (d_updated d)"
  using assms validateData_type [of c "pd_data p"]
  by (auto simp: record_ToStorage_def Let_def split: option.splits sum.splits if_splits)

text \<open>The data of a row that was written through the API and is no Log.\<close>

definition record_data_ok :: "codec \<Rightarrow> db_record \<Rightarrow> bool" where
  "record_data_ok c d =
     (d_type d \<noteq> LogRecordType \<and> d_type d \<noteq> LogRecordTypeV2
      \<and> (if d_data d = [] then d_type d = []
         else validateData c (Some \<lparr>any_type = d_type d, any_value = d_data d\<rparr>) = None))"

lemma record_ToStorage_ToAPI:
  assumes "record_row_ok d" and "record_data_ok c d"
  shows "record_ToStorage c cfg (d_parent d) (d_result_name d) (d_result_id d) (d_name d)
    (record_ToAPI d) = Inr d"
proof -
  have n: "validateData c None = None" by (simp add: validateData_def GetType_def)
  show ?thesis using assms n
    by (cases d) (auto simp: record_ToStorage_def record_ToAPI_def record_row_ok_def record_data_ok_def
        GetType_def GetValue_def LogRecordType_def LogRecordTypeV2_def)
qed

lemma record_ToAPI_name:
  "pd_name (record_ToAPI d) = record_FormatName (result_FormatName (d_parent d) (d_result_name d)) (d_name d)"
  by (simp add: record_ToAPI_def record_FormatName_def result_FormatName_def)

lemma etag_of_inject:
  assumes "- (2 ^ 63) \<le> s" "s < 2 ^ 63" "- (2 ^ 63) \<le> t" "t < 2 ^ 63"
  shows "etag_of i s = etag_of i t \<longleftrightarrow> s = t"
  using assms by (simp add: etag_of_def UnixNano_def int64_id)

text \<open>C11: Converting a stored row to the API and back loses nothing: for every row the handlers
  write, \<^verbatim>\<open>ToStorage (ToAPI r) = r\<close>, for results and for records that are not logs.\<close>

theorem storage_round_trip:
  assumes "result_row_ok r" and "record_row_ok d" and "record_data_ok c d"
  shows "result_ToStorage (result_ToAPI r) = Inr r
    \<and> record_ToStorage c cfg (d_parent d) (d_result_name d) (d_result_id d) (d_name d) (record_ToAPI d) = Inr d"
  using result_ToStorage_ToAPI [OF assms(1)] record_ToStorage_ToAPI [OF assms(2,3)] by blast

theorem storage_round_trip_witness:
  "result_ToStorage (result_ToAPI \<lparr>r_parent = ''ns'', r_id = ''u1'', r_name = ''r'',
      r_annotations = fmempty, r_created = 5, r_updated = 7, r_summary =
        \<lparr>rs_record = ''ns/results/r/records/d'', rs_type = ''t'', rs_start = Some 3, rs_end = None,
         rs_status = 1, rs_annotations = fmempty\<rparr>, r_etag = ''u1-7''\<rparr>)
   = Inr \<lparr>r_parent = ''ns'', r_id = ''u1'', r_name = ''r'',
      r_annotations = fmempty, r_created = 5, r_updated = 7, r_summary =
        \<lparr>rs_record = ''ns/results/r/records/d'', rs_type = ''t'', rs_start = Some 3, rs_end = None,
         rs_status = 1, rs_annotations = fmempty\<rparr>, r_etag = ''u1-7''\<rparr>"
proof -
  let ?r = "\<lparr>r_parent = ''ns'', r_id = ''u1'', r_name = ''r'',
      r_annotations = fmempty, r_created = 5, r_updated = 7, r_summary =
        \<lparr>rs_record = ''ns/results/r/records/d'', rs_type = ''t'', rs_start = Some 3, rs_end = None,
         rs_status = 1, rs_annotations = fmempty\<rparr>, r_etag = ''u1-7''\<rparr>"
  let ?d = "\<lparr>d_parent = ''ns'', d_result_id = ''u1'', d_result_name = ''r'', d_id = ''u2'', d_name = ''d'',
     d_type = ''t'', d_data = ''{}'', d_created = 5, d_updated = 7, d_etag = ''u2-7''\<rparr>"
  let ?c = "\<lparr>json_check = (\<lambda>_ _. None), unmarshal_log = (\<lambda>_. Inr zero_log), marshal_log = (\<lambda>_. Inr ''{}'')\<rparr>"
  have "result_row_ok ?r" "record_row_ok ?d" "record_data_ok ?c ?d" by code_simp+
  from storage_round_trip [OF this] show ?thesis by blast
qed

end
