(* ===== verification/Auth.thy ===== *)
theory Auth
  imports Prelude
begin

text \<open>
  Authentication and authorisation of API requests
  (\<^verbatim>\<open>pkg/api/server/v1alpha2/auth\<close>): the Kubernetes RBAC checker and the impersonation
  headers. The TokenReview and SubjectAccessReview services of the cluster, the service account
  name helper of Kubernetes are parameters (record \<open>kube\<close>); nothing is
  assumed of them. The locale \<open>checker\<close> is the interface the handlers use.

  gRPC metadata is a list of keys (in lower case, as the transport delivers them) with their
  values; its order stands for the unspecified order in which Go ranges over the map.
\<close>

definition ResourceResults :: string where "ResourceResults = ''results''"
definition ResourceRecords :: string where "ResourceRecords = ''records''"
definition ResourceLogs :: string where "ResourceLogs = ''logs''"
definition PermissionCreate :: string where "PermissionCreate = ''create''"
definition PermissionGet :: string where "PermissionGet = ''get''"
definition PermissionList :: string where "PermissionList = ''list''"
definition PermissionDelete :: string where "PermissionDelete = ''delete''"
definition PermissionUpdate :: string where "PermissionUpdate = ''update''"

lemmas permission_defs = PermissionCreate_def PermissionGet_def PermissionList_def
  PermissionDelete_def PermissionUpdate_def

type_synonym md = "(string \<times> string list) list"

definition md_Get :: "md \<Rightarrow> string \<Rightarrow> string list" where
  "md_Get m k = (case map_of m (ToLower k) of None \<Rightarrow> [] | Some vs \<Rightarrow> vs)"

record user_info =
  u_name :: string
  u_uid :: string
  u_groups :: "string list"
  u_extra :: "string \<rightharpoonup> string list"

record resource_attributes =
  ra_group :: string
  ra_name :: string
  ra_namespace :: string
  ra_resource :: string
  ra_subresource :: string
  ra_verb :: string

record access_review =
  ar_user :: string
  ar_uid :: string
  ar_groups :: "string list"
  ar_extra :: "string \<rightharpoonup> string list"
  ar_attributes :: resource_attributes

text \<open>A token review answers with an error, or with whether the token is authenticated and for
  whom; an access review with an error or whether access is allowed.\<close>

record kube =
  token_review :: "string \<Rightarrow> (bool \<times> user_info) res"
  sar :: "access_review \<Rightarrow> bool res"
  split_username :: "string \<Rightarrow> (string \<times> string) option"

definition no_attributes :: resource_attributes where
  "no_attributes = \<lparr>ra_group = [], ra_name = [], ra_namespace = [], ra_resource = [],
     ra_subresource = [], ra_verb = []\<rparr>"

subsection \<open>Impersonation\<close>

record impersonation =
  i_attributes :: "resource_attributes list"
  i_user :: user_info

definition ErrNoImpersonationData :: go_error where
  "ErrNoImpersonationData = PlainErr ''no impersonation data found''"

definition ErrImpersonateUserRequired :: go_error where
  "ErrImpersonateUserRequired =
     PlainErr ''impersonate user is required to impersonate groups, UID, extra''"

definition AllAuthenticated :: string where "AllAuthenticated = ''system:authenticated''"
definition AllUnauthenticated :: string where "AllUnauthenticated = ''system:unauthenticated''"
definition Anonymous :: string where "Anonymous = ''system:anonymous''"
definition authn_group :: string where "authn_group = ''authentication.k8s.io''"
definition extra_prefix :: string where "extra_prefix = ''Impersonate-Extra-''"

definition MakeUsername :: "string \<Rightarrow> string \<Rightarrow> string" where
  "MakeUsername namespace name = ''system:serviceaccount:'' @ namespace @ '':'' @ name"

definition MakeGroupNames :: "string \<Rightarrow> string list" where
  "MakeGroupNames namespace = [''system:serviceaccounts'', ''system:serviceaccounts:'' @ namespace]"

definition no_user :: user_info where
  "no_user = \<lparr>u_name = [], u_uid = [], u_groups = [], u_extra = Map.empty\<rparr>"

text \<open>\<^verbatim>\<open>url.PathUnescape\<close>: percent escapes are decoded, a malformed one is an error.\<close>

definition hex_val :: "char \<Rightarrow> nat option" where
  "hex_val c = (let n = of_char c :: nat in
     if 48 \<le> n \<and> n \<le> 57 then Some (n - 48)
     else if 65 \<le> n \<and> n \<le> 70 then Some (n - 55)
     else if 97 \<le> n \<and> n \<le> 102 then Some (n - 87) else None)"

fun PathUnescape :: "string \<Rightarrow> string option" where
  "PathUnescape [] = Some []"
| "PathUnescape (c # cs) =
     (if c = CHR ''%''
      then (case cs of
              a # b # rest \<Rightarrow>
                (case (hex_val a, hex_val b) of
                   (Some x, Some y) \<Rightarrow> map_option (\<lambda>t. char_of (16 * x + y) # t) (PathUnescape rest)
                 | _ \<Rightarrow> None)
            | _ \<Rightarrow> None)
      else map_option (\<lambda>t. c # t) (PathUnescape cs))"

definition unescapeExtraKey :: "string \<Rightarrow> string" where
  "unescapeExtraKey encodedKey =
     (case PathUnescape encodedKey of None \<Rightarrow> encodedKey | Some key \<Rightarrow> key)"

text \<open>The user header.\<close>

definition parse_user :: "kube \<Rightarrow> md \<Rightarrow> impersonation \<Rightarrow> impersonation" where
  "parse_user k m i =
     (case md_Get m ''Impersonate-User'' of
        [] \<Rightarrow> i
      | u # _ \<Rightarrow>
          (case split_username k u of
             Some (namespace, name) \<Rightarrow>
               \<lparr>i_attributes = i_attributes i @
                  [no_attributes\<lparr>ra_name := name, ra_namespace := namespace,
                     ra_resource := ''serviceaccounts'', ra_verb := ''impersonate''\<rparr>],
                i_user = (i_user i)\<lparr>u_name := MakeUsername namespace name,
                  u_groups := (if md_Get m ''Impersonate-Group'' = [] then MakeGroupNames namespace
                               else u_groups (i_user i))\<rparr>\<rparr>
           | None \<Rightarrow>
               \<lparr>i_attributes = i_attributes i @
                  [no_attributes\<lparr>ra_name := u, ra_resource := ''users'', ra_verb := ''impersonate''\<rparr>],
                i_user = (i_user i)\<lparr>u_name := u\<rparr>\<rparr>))"

text \<open>The group headers, one attribute per group.\<close>

fun parse_groups :: "string list \<Rightarrow> impersonation \<Rightarrow> impersonation" where
  "parse_groups [] i = i"
| "parse_groups (g # gs) i =
     parse_groups gs
       \<lparr>i_attributes = i_attributes i @
          [no_attributes\<lparr>ra_name := g, ra_resource := ''groups'', ra_verb := ''impersonate''\<rparr>],
        i_user = (i_user i)\<lparr>u_groups := u_groups (i_user i) @ [g]\<rparr>\<rparr>"

definition parse_uid :: "md \<Rightarrow> impersonation \<Rightarrow> impersonation" where
  "parse_uid m i =
     (case md_Get m ''Impersonate-Uid'' of
        [] \<Rightarrow> i
      | u # _ \<Rightarrow>
          \<lparr>i_attributes = i_attributes i @
             [no_attributes\<lparr>ra_group := authn_group, ra_name := u, ra_resource := ''uids'',
                ra_verb := ''impersonate''\<rparr>],
           i_user = (i_user i)\<lparr>u_uid := u\<rparr>\<rparr>)"

fun add_extra_values :: "string \<Rightarrow> string list \<Rightarrow> impersonation \<Rightarrow> impersonation" where
  "add_extra_values key [] i = i"
| "add_extra_values key (v # vs) i =
     add_extra_values key vs
       \<lparr>i_attributes = i_attributes i @
          [no_attributes\<lparr>ra_group := authn_group, ra_name := v, ra_resource := ''userextras'',
             ra_subresource := key, ra_verb := ''impersonate''\<rparr>],
        i_user = (i_user i)\<lparr>u_extra := (u_extra (i_user i))
          (key \<mapsto> (case u_extra (i_user i) key of None \<Rightarrow> [] | Some xs \<Rightarrow> xs) @ [v])\<rparr>\<rparr>"

text \<open>The loop over the metadata; each extra header starts a new Extra map.\<close>

fun parse_extra :: "md \<Rightarrow> bool \<times> impersonation \<Rightarrow> bool \<times> impersonation" where
  "parse_extra [] st = st"
| "parse_extra ((name, values) # rest) (hasExtra, i) =
     (if \<not> HasPrefix name (ToLower extra_prefix) then parse_extra rest (hasExtra, i)
      else
        (let extraKey = unescapeExtraKey (ToLower (drop (length extra_prefix) name)) in
         parse_extra rest
           (True, add_extra_values extraKey values
              (i\<lparr>i_user := (i_user i)\<lparr>u_extra := Map.empty\<rparr>\<rparr>))))"

text \<open>The groups every impersonated user belongs to.\<close>

definition add_default_group :: "user_info \<Rightarrow> user_info" where
  "add_default_group u =
     (if u_name u \<noteq> Anonymous
      then (if \<exists>g\<in>set (u_groups u). g = AllAuthenticated \<or> g = AllUnauthenticated then u
            else u\<lparr>u_groups := u_groups u @ [AllAuthenticated]\<rparr>)
      else (if \<exists>g\<in>set (u_groups u). g = AllUnauthenticated then u
            else u\<lparr>u_groups := u_groups u @ [AllUnauthenticated]\<rparr>))"

definition parseMetadata :: "kube \<Rightarrow> md \<Rightarrow> impersonation res" where
  "parseMetadata k m =
     (let i0 = \<lparr>i_attributes = [], i_user = no_user\<rparr>;
          hasUser = (md_Get m ''Impersonate-User'' \<noteq> []);
          hasGroups = (md_Get m ''Impersonate-Group'' \<noteq> []);
          hasUID = (md_Get m ''Impersonate-Uid'' \<noteq> []);
          i1 = parse_user k m i0;
          i2 = parse_groups (md_Get m ''Impersonate-Group'') i1;
          i3 = parse_uid m i2;
          (hasExtra, i4) = parse_extra m (False, i3)
      in if hasUser then Inr (i4\<lparr>i_user := add_default_group (i_user i4)\<rparr>)
         else if hasGroups \<or> hasExtra \<or> hasUID then Inl ErrImpersonateUserRequired
         else Inl ErrNoImpersonationData)"

definition NewImpersonation :: "kube \<Rightarrow> md \<Rightarrow> impersonation res" where
  "NewImpersonation k m = parseMetadata k m"

text \<open>The request headers the gateway forwards; other keys go to the gateway's default matcher.\<close>

definition HeaderMatcher :: "(string \<Rightarrow> string \<times> bool) \<Rightarrow> string \<Rightarrow> string \<times> bool" where
  "HeaderMatcher DefaultHeaderMatcher key =
     (if HasPrefix key extra_prefix then (key, True)
      else if key = ''Impersonate-User'' then (key, True)
      else if key = ''Impersonate-Group'' then (key, True)
      else if key = ''Impersonate-Uid'' then (key, True)
      else DefaultHeaderMatcher key)"

definition impersonate_review :: "string \<Rightarrow> resource_attributes \<Rightarrow> access_review" where
  "impersonate_review requester a =
     \<lparr>ar_user = requester, ar_uid = [], ar_groups = [], ar_extra = Map.empty, ar_attributes = a\<rparr>"

fun check_attributes :: "kube \<Rightarrow> string \<Rightarrow> resource_attributes list \<Rightarrow> go_error option" where
  "check_attributes k requester [] = None"
| "check_attributes k requester (a # as) =
     (case sar k (impersonate_review requester a) of
        Inl e \<Rightarrow> Some e
      | Inr allowed \<Rightarrow>
          if \<not> allowed
          then Some (PlainErr (''forbidden: '' @ [squote] @ requester @ [squote]
                 @ '' doesn'' @ [squote] @ ''t have permission to impersonate ''
                 @ [squote] @ ra_resource a @ [squote]))
          else check_attributes k requester as)"

definition Impersonation_Check :: "kube \<Rightarrow> impersonation \<Rightarrow> string \<Rightarrow> go_error option" where
  "Impersonation_Check k i requester =
     (if i_attributes i = [] then Some ErrNoImpersonationData
      else check_attributes k requester (i_attributes i))"

subsection \<open>The RBAC checker\<close>

definition AllowAll_Check :: "string \<Rightarrow> string \<Rightarrow> string \<Rightarrow> go_error option" where
  "AllowAll_Check parent resource verb = None"

text \<open>\<^verbatim>\<open>strings.SplitN(raw, " ", 2)\<close>: the text after the first space, if there is one.\<close>

definition bearer_token :: "string \<Rightarrow> string option" where
  "bearer_token raw =
     (case dropWhile (\<lambda>c. c \<noteq> CHR '' '') raw of [] \<Rightarrow> None | _ # t \<Rightarrow> Some t)"

definition results_review :: "user_info \<Rightarrow> string \<Rightarrow> string \<Rightarrow> string \<Rightarrow> access_review" where
  "results_review u namespace resource verb =
     \<lparr>ar_user = u_name u, ar_uid = u_uid u, ar_groups = u_groups u, ar_extra = u_extra u,
      ar_attributes = no_attributes\<lparr>ra_namespace := namespace, ra_group := ''results.tekton.dev'',
        ra_resource := resource, ra_verb := verb\<rparr>\<rparr>"

definition quoted :: "string \<Rightarrow> string" where
  "quoted s = dquote # s @ [dquote]"

text \<open>The loop over the authorization values: \<^verbatim>\<open>Inl\<close> is the error the loop returns with,
  \<^verbatim>\<open>Inr\<close> with a message when it ends without a decision, \<^verbatim>\<open>Inr None\<close> on success.\<close>

fun check_tokens :: "kube \<Rightarrow> impersonation option \<Rightarrow> string \<Rightarrow> string \<Rightarrow> string \<Rightarrow> string \<Rightarrow>
    string list \<Rightarrow> go_error option" where
  "check_tokens k imp namespace resource verb retMsg [] = Some (StatusErr Unauthenticated retMsg)"
| "check_tokens k imp namespace resource verb retMsg (raw # rest) =
     (case bearer_token raw of
        None \<Rightarrow> check_tokens k imp namespace resource verb retMsg rest
      | Some t \<Rightarrow>
     (case token_review k t of
        Inl _ \<Rightarrow> check_tokens k imp namespace resource verb retMsg rest
      | Inr (authenticated, u) \<Rightarrow>
     if \<not> authenticated then check_tokens k imp namespace resource verb retMsg rest
     else
     (case (case imp of None \<Rightarrow> Inr u
            | Some i \<Rightarrow> (case Impersonation_Check k i (u_name u) of
                 Some e \<Rightarrow> Inl e | None \<Rightarrow> Inr (i_user i))) of
        Inl e \<Rightarrow> Some (StatusErr Unauthenticated (retMsg @ '': '' @ error_msg e))
      | Inr subj \<Rightarrow>
     (case sar k (results_review subj namespace resource verb) of
        Inl e \<Rightarrow> check_tokens k imp namespace resource verb
          (retMsg @ '' user '' @ quoted (u_name subj) @ '' in groups ['' @
           join '' '' (map quoted (u_groups subj)) @ ''] employing '' @ quoted verb @ '' against ''
           @ quoted resource @ '': '' @ error_msg e) rest
      | Inr allowed \<Rightarrow>
          if allowed then None
          else check_tokens k imp namespace resource verb retMsg rest))))"

definition review_namespace :: "string \<Rightarrow> string \<Rightarrow> string" where
  "review_namespace namespace verb = (if verb = PermissionList \<and> namespace = ''-'' then [] else namespace)"

definition RBAC_Check :: "kube \<Rightarrow> bool \<Rightarrow> md option \<Rightarrow> string \<Rightarrow> string \<Rightarrow> string \<Rightarrow> go_error option" where
  "RBAC_Check k allowImpersonation ctx namespace resource verb =
     (case ctx of
        None \<Rightarrow> Some (StatusErr Unauthenticated ''unable to get context metadata'')
      | Some m \<Rightarrow>
     (case (if allowImpersonation
            then (case NewImpersonation k m of
                    Inr i \<Rightarrow> Inr (Some i)
                  | Inl e \<Rightarrow> if e \<noteq> ErrNoImpersonationData then Inl e else Inr None)
            else Inr None) of
        Inl _ \<Rightarrow> Some (StatusErr Unauthenticated ''invalid impersonation data'')
      | Inr imp \<Rightarrow>
     (let v = md_Get m ''authorization'' in
      if v = [] then Some (StatusErr Unauthenticated ''unable to find token'')
      else check_tokens k imp (review_namespace namespace verb) resource verb ''permission denied'' v)))"

subsection \<open>The interface of a checker\<close>

text \<open>A checker denies with code \<^verbatim>\<open>Unauthenticated\<close> only, so that a denial leaks nothing.\<close>

locale checker =
  fixes check :: "string \<Rightarrow> string \<Rightarrow> string \<Rightarrow> go_error option"
  assumes denied: "check parent resource verb = Some e \<Longrightarrow> status_code e = Unauthenticated"
begin

lemma not_notfound: "check parent resource verb = Some e \<Longrightarrow> status_code e \<noteq> NotFound"
  using denied by fastforce

end

lemma check_tokens_denied:
  "check_tokens k imp namespace resource verb retMsg v = Some e \<Longrightarrow> status_code e = Unauthenticated"
proof (induction v arbitrary: retMsg)
  case (Cons raw v)
  then show ?case
    by (auto split: option.splits sum.splits prod.splits if_splits)
qed auto

interpretation allow_all: checker AllowAll_Check
  by unfold_locales (simp add: AllowAll_Check_def)

interpretation rbac: checker "RBAC_Check k allowImpersonation ctx" for k allowImpersonation ctx
proof
  fix parent resource verb e
  assume "RBAC_Check k allowImpersonation ctx parent resource verb = Some e"
  then show "status_code e = Unauthenticated"
    by (auto simp: RBAC_Check_def Let_def check_tokens_denied
        split: option.splits sum.splits if_splits dest: check_tokens_denied)
qed

subsection \<open>What a check grants\<close>

text \<open>An authorization value grants access for a subject.\<close>

definition authenticates :: "kube \<Rightarrow> string \<Rightarrow> user_info \<Rightarrow> bool" where
  "authenticates k raw u =
     (case bearer_token raw of None \<Rightarrow> False | Some t \<Rightarrow> token_review k t = Inr (True, u))"

definition may_impersonate :: "kube \<Rightarrow> impersonation \<Rightarrow> string \<Rightarrow> bool" where
  "may_impersonate k i requester =
     (i_attributes i \<noteq> [] \<and>
      (\<forall>a\<in>set (i_attributes i). sar k (impersonate_review requester a) = Inr True))"

lemma Impersonation_Check_None: "Impersonation_Check k i requester = None \<longleftrightarrow> may_impersonate k i requester"
proof -
  have "check_attributes k requester as = None \<longleftrightarrow>
      (\<forall>a\<in>set as. sar k (impersonate_review requester a) = Inr True)" for as
    by (induction as) (auto split: sum.splits if_splits)
  then show ?thesis by (simp add: Impersonation_Check_def may_impersonate_def)
qed

lemma check_tokens_sound:
  "check_tokens k imp namespace resource verb retMsg v = None \<Longrightarrow>
     \<exists>raw\<in>set v. \<exists>u. authenticates k raw u \<and>
       (case imp of
          None \<Rightarrow> sar k (results_review u namespace resource verb) = Inr True
        | Some i \<Rightarrow> may_impersonate k i (u_name u)
            \<and> sar k (results_review (i_user i) namespace resource verb) = Inr True)"
proof (induction v arbitrary: retMsg)
  case (Cons raw v)
  show ?case
  proof (cases "\<exists>m. check_tokens k imp namespace resource verb m v = None")
    case True
    then show ?thesis using Cons.IH by force
  next
    case False
    then have rest: "(check_tokens k imp namespace resource verb m v = None) = False" for m by simp
    obtain t where t: "bearer_token raw = Some t"
      using Cons.prems by (cases "bearer_token raw") (auto simp: rest)
    obtain u where u: "token_review k t = Inr (True, u)"
      using Cons.prems t by (auto simp: rest split: sum.splits prod.splits if_splits)
    have a: "authenticates k raw u" using t u by (simp add: authenticates_def)
    show ?thesis
    proof (cases imp)
      case None
      then have "sar k (results_review u namespace resource verb) = Inr True"
        using Cons.prems t u by (auto simp: rest [unfolded None] split: sum.splits if_splits)
      with a None show ?thesis by auto
    next
      case (Some i)
      then have "Impersonation_Check k i (u_name u) = None"
        "sar k (results_review (i_user i) namespace resource verb) = Inr True"
        using Cons.prems t u
        by (auto simp: rest [unfolded Some] split: sum.splits option.splits if_splits)
      with a Some show ?thesis by (auto simp: Impersonation_Check_None)
    qed
  qed
qed simp

lemma check_tokens_complete:
  assumes "raw \<in> set v" and "authenticates k raw u"
    and "sar k (results_review u namespace resource verb) = Inr True"
  shows "check_tokens k None namespace resource verb retMsg v = None"
  using assms
proof (induction v arbitrary: retMsg)
  case (Cons x v)
  show ?case
  proof (cases "raw = x")
    case True
    then show ?thesis using Cons.prems(2,3) by (auto simp: authenticates_def split: option.splits)
  next
    case False
    then have "\<And>m. check_tokens k None namespace resource verb m v = None"
      using Cons by simp
    then show ?thesis by (auto split: option.splits sum.splits prod.splits)
  qed
qed simp

subsection \<open>Impersonated users\<close>

lemma add_extra_values_extra:
  "dom (u_extra (i_user (add_extra_values key vs i))) \<subseteq> insert key (dom (u_extra (i_user i)))"
  by (induction key vs i rule: add_extra_values.induct) auto

lemma parse_extra_single:
  "card (dom (u_extra (i_user i))) \<le> 1 \<Longrightarrow> finite (dom (u_extra (i_user i))) \<Longrightarrow>
     parse_extra m (h, i) = (h', i') \<Longrightarrow>
     card (dom (u_extra (i_user i'))) \<le> 1 \<and> finite (dom (u_extra (i_user i')))"
proof (induction m arbitrary: h i)
  case (Cons nv m)
  obtain name vals where nv: "nv = (name, vals)" by fastforce
  let ?key = "unescapeExtraKey (ToLower (drop (length extra_prefix) name))"
  let ?i = "add_extra_values ?key vals (i\<lparr>i_user := (i_user i)\<lparr>u_extra := Map.empty\<rparr>\<rparr>)"
  have sub: "dom (u_extra (i_user ?i)) \<subseteq> {?key}"
    using add_extra_values_extra [of ?key vals "i\<lparr>i_user := (i_user i)\<lparr>u_extra := Map.empty\<rparr>\<rparr>"]
    by simp
  then have "finite (dom (u_extra (i_user ?i)))" "card (dom (u_extra (i_user ?i))) \<le> 1"
    using finite_subset card_mono [OF _ sub] by auto
  then show ?case using Cons nv by (auto simp: Let_def split: if_splits)
qed simp

lemma parse_stages_extra [simp]:
  "u_extra (i_user (parse_user k m i)) = u_extra (i_user i)"
  "u_extra (i_user (parse_groups gs i)) = u_extra (i_user i)"
  "u_extra (i_user (parse_uid m i)) = u_extra (i_user i)"
  by (auto simp: parse_user_def parse_uid_def split: list.splits option.splits)
    (induction gs i rule: parse_groups.induct, auto)

lemma add_default_group_member:
  "AllAuthenticated \<in> set (u_groups (add_default_group u))
    \<or> AllUnauthenticated \<in> set (u_groups (add_default_group u))"
  by (auto simp: add_default_group_def)

lemma add_default_group_extra [simp]: "u_extra (add_default_group u) = u_extra u"
  by (simp add: add_default_group_def)

lemma parseMetadata_Inr:
  assumes "parseMetadata k m = Inr i"
  shows "md_Get m ''Impersonate-User'' \<noteq> []
    \<and> card (dom (u_extra (i_user i))) \<le> 1
    \<and> (AllAuthenticated \<in> set (u_groups (i_user i)) \<or> AllUnauthenticated \<in> set (u_groups (i_user i)))"
proof -
  let ?i3 = "parse_uid m (parse_groups (md_Get m ''Impersonate-Group'')
    (parse_user k m \<lparr>i_attributes = [], i_user = no_user\<rparr>))"
  obtain h i4 where p: "parse_extra m (False, ?i3) = (h, i4)" by fastforce
  have u: "md_Get m ''Impersonate-User'' \<noteq> []"
    and i: "i = i4\<lparr>i_user := add_default_group (i_user i4)\<rparr>"
    using assms p by (auto simp: parseMetadata_def Let_def split: if_splits)
  have "card (dom (u_extra (i_user i4))) \<le> 1"
    using parse_extra_single [OF _ _ p] by (simp add: no_user_def)
  then show ?thesis using u i add_default_group_member by simp
qed

subsection \<open>Properties of the checker\<close>

lemma RBAC_Check_None:
  assumes "RBAC_Check k allow ctx namespace resource verb = None"
  obtains m imp where "ctx = Some m"
    and "imp = None \<and> (allow \<longrightarrow> NewImpersonation k m = Inl ErrNoImpersonationData)
      \<or> (\<exists>i. imp = Some i \<and> allow \<and> NewImpersonation k m = Inr i)"
    and "check_tokens k imp (review_namespace namespace verb) resource verb ''permission denied''
      (md_Get m ''authorization'') = None"
proof -
  obtain m where m: "ctx = Some m" using assms by (auto simp: RBAC_Check_def split: option.splits)
  show thesis
  proof (cases "NewImpersonation k m")
    case (Inl e)
    then show thesis using assms m that [of m None]
      by (auto simp: RBAC_Check_def Let_def split: if_splits)
  next
    case (Inr i)
    then show thesis using assms m that [of m "if allow then Some i else None"]
      by (auto simp: RBAC_Check_def Let_def split: if_splits)
  qed
qed

text \<open>C7: Access is granted only on the cluster's word: when the RBAC checker lets a request pass, one of
  its authorization values holds a token the cluster authenticated, and the cluster allowed exactly
  this verb on this resource in this namespace (all namespaces for a wildcard list) to the token's
  user, or, under impersonation, to the impersonated user after allowing the token's user every
  impersonation attribute.\<close>

theorem rbac_grant_sound:
  assumes "RBAC_Check k allow (Some m) namespace resource verb = None"
  shows "\<exists>raw\<in>set (md_Get m ''authorization''). \<exists>u. authenticates k raw u \<and>
    (sar k (results_review u (review_namespace namespace verb) resource verb) = Inr True
     \<or> (\<exists>i. allow \<and> NewImpersonation k m = Inr i \<and> may_impersonate k i (u_name u)
         \<and> sar k (results_review (i_user i) (review_namespace namespace verb) resource verb) = Inr True))"
  using assms
proof (rule RBAC_Check_None)
  fix m' imp
  assume m: "Some m = Some m'"
    and i: "imp = None \<and> (allow \<longrightarrow> NewImpersonation k m' = Inl ErrNoImpersonationData)
      \<or> (\<exists>i. imp = Some i \<and> allow \<and> NewImpersonation k m' = Inr i)"
    and c: "check_tokens k imp (review_namespace namespace verb) resource verb ''permission denied''
      (md_Get m' ''authorization'') = None"
  from check_tokens_sound [OF c] m i show ?thesis by (cases imp) auto
qed

text \<open>A cluster in which one token belongs to one user, who may do everything in one namespace.\<close>

definition sample_user :: user_info where
  "sample_user = \<lparr>u_name = ''alice'', u_uid = ''1'', u_groups = [''dev''], u_extra = Map.empty\<rparr>"

definition sample_kube :: kube where
  "sample_kube = \<lparr>token_review = (\<lambda>t. Inr (t = ''tok'', sample_user)),
     sar = (\<lambda>r. Inr (ar_user r = ''alice'' \<and> ra_namespace (ar_attributes r) = ''ns'')),
     split_username = (\<lambda>_. None)\<rparr>"

definition sample_md :: md where
  "sample_md = [(''authorization'', [''Basic'', ''Bearer tok''])]"

theorem rbac_grant_sound_witness:
  "\<exists>raw\<in>set (md_Get sample_md ''authorization''). \<exists>u. authenticates sample_kube raw u"
proof -
  have "RBAC_Check sample_kube True (Some sample_md) ''ns'' ''results'' ''get'' = None" by code_simp
  from rbac_grant_sound [OF this] show ?thesis by blast
qed

text \<open>C13: A permitted caller is not locked out: without impersonation, one authenticated token whose user
  the cluster allows is enough, wherever it stands among the authorization values and whatever the
  other values are.\<close>

theorem rbac_grant_complete:
  assumes "raw \<in> set (md_Get m ''authorization'')" and "authenticates k raw u"
    and "sar k (results_review u (review_namespace namespace verb) resource verb) = Inr True"
  shows "RBAC_Check k False (Some m) namespace resource verb = None"
  using check_tokens_complete [OF assms] assms(1) by (auto simp: RBAC_Check_def Let_def)

theorem rbac_grant_complete_witness:
  "RBAC_Check sample_kube False (Some sample_md) ''ns'' ''results'' ''get'' = None"
proof (rule rbac_grant_complete)
  show "''Bearer tok'' \<in> set (md_Get sample_md ''authorization'')" by code_simp
  show "authenticates sample_kube ''Bearer tok'' sample_user"
    by (simp add: authenticates_def bearer_token_def sample_kube_def)
  show "sar sample_kube (results_review sample_user (review_namespace ''ns'' ''get'') ''results'' ''get'') = Inr True"
    by (simp add: sample_kube_def results_review_def sample_user_def review_namespace_def PermissionList_def
        no_attributes_def)
qed

text \<open>Impersonation keeps at most one extra key: every header with the extra prefix starts a new map,
  so of several extra attributes only those of the last header visited reach the access review. An
  accepted impersonation always names a user and carries one of the two authentication groups.\<close>

theorem impersonation_keeps_one_extra:
  assumes "NewImpersonation k m = Inr i"
  shows "md_Get m ''Impersonate-User'' \<noteq> [] \<and> card (dom (u_extra (i_user i))) \<le> 1
    \<and> (AllAuthenticated \<in> set (u_groups (i_user i)) \<or> AllUnauthenticated \<in> set (u_groups (i_user i)))"
  using parseMetadata_Inr assms by (simp add: NewImpersonation_def)

theorem impersonation_keeps_one_extra_witness:
  "\<exists>i. NewImpersonation sample_kube [(''impersonate-user'', [''bob'']),
       (''impersonate-extra-a'', [''1'']), (''impersonate-extra-b'', [''2''])] = Inr i
     \<and> card (dom (u_extra (i_user i))) \<le> 1"
proof -
  let ?m = "[(''impersonate-user'', [''bob'']), (''impersonate-extra-a'', [''1'']), (''impersonate-extra-b'', [''2''])]"
  have "is_ok (NewImpersonation sample_kube ?m)" by code_simp
  then obtain i where "NewImpersonation sample_kube ?m = Inr i" by (auto simp: is_ok_iff)
  with impersonation_keeps_one_extra [OF this] show ?thesis by blast
qed

end
