(* ===== verification/Server.thy ===== *)
theory Server
  imports Resources Auth
begin

text \<open>
  The handlers of the Results service for single resources
  (\<^verbatim>\<open>pkg/api/server/v1alpha2/results.go\<close> and \<^verbatim>\<open>records.go\<close>). A handler takes the request's
  environment (the checker bound to the request's context, the next UUID, the clock, the JSON
  codec, the configuration and the failures the database driver injects), the request and the
  database, and returns the response or error with the database it leaves. The functions that
  run in one database transaction are atomic steps; the two statements of a delete are separate
  definitions, because the code runs them without a transaction.
\<close>

subsection \<open>The environment\<close>

datatype db_op = OpFirst | OpCreate | OpSave | OpDelete | OpFind

record env =
  e_check :: "string \<Rightarrow> string \<Rightarrow> string \<Rightarrow> go_error option"
  e_uid :: string
  e_now :: gotime
  e_codec :: codec
  e_config :: server_config
  e_fault :: "db_op \<Rightarrow> gorm_error option"

text \<open>A statement the driver fails has no effect.\<close>

definition exec :: "env \<Rightarrow> db_op \<Rightarrow> gorm_error + 'a \<Rightarrow> gorm_error + 'a" where
  "exec e op r = (case e_fault e op of Some err \<Rightarrow> Inl err | None \<Rightarrow> r)"

lemma exec_Inr: "exec e op r = Inr x \<longleftrightarrow> e_fault e op = None \<and> r = Inr x"
  by (auto simp: exec_def split: option.splits)

lemma exec_ok [simp]: "e_fault e op = None \<Longrightarrow> exec e op r = r"
  by (simp add: exec_def)

subsection \<open>Results\<close>

record create_result_req =
  cr_parent :: string
  cr_result :: "pb_result option"

record update_result_req =
  ur_name :: string
  ur_result :: "pb_result option"
  ur_etag :: string

definition result_GetName :: "pb_result option \<Rightarrow> string" where
  "result_GetName r = (case r of None \<Rightarrow> [] | Some p \<Rightarrow> pr_name p)"

definition InvalidArgument_of :: "go_error \<Rightarrow> go_error" where
  "InvalidArgument_of e = StatusErr InvalidArgument (error_msg e)"

definition getResultByParentName :: "env \<Rightarrow> string \<Rightarrow> string \<Rightarrow> db \<Rightarrow> db_result res" where
  "getResultByParentName e parent name s =
     (case exec e OpFirst (first_result (result_cond parent name) s) of
        Inl err \<Rightarrow> Inl (wrap err)
      | Inr r \<Rightarrow> Inr r)"

text \<open>The fields the server sets on a new result.\<close>

definition populate_result :: "env \<Rightarrow> pb_result \<Rightarrow> pb_result" where
  "populate_result e r =
     (let ts = Some (ts_New (e_now e)) in
      (result_ClearOutputOnly r)\<lparr>pr_id := e_uid e, pr_uid := e_uid e, pr_created := ts,
        pr_create := ts, pr_updated := ts, pr_update := ts\<rparr>)"

definition CreateResult :: "env \<Rightarrow> create_result_req \<Rightarrow> db \<Rightarrow> pb_result res \<times> db" where
  "CreateResult e req s =
     (case result_ParseName (result_GetName (cr_result req)) of
        Inl err \<Rightarrow> (Inl (InvalidArgument_of err), s)
      | Inr (parent, _) \<Rightarrow>
     if cr_parent req \<noteq> parent
     then (Inl (StatusErr InvalidArgument ''requested parent does not match resource name''), s)
     else
     (case e_check e parent ResourceResults PermissionCreate of
        Some err \<Rightarrow> (Inl err, s)
      | None \<Rightarrow>
     (case result_ToStorage (populate_result e (the (cr_result req))) of
        Inl err \<Rightarrow> (Inl err, s)
      | Inr store0 \<Rightarrow>
     (case result_UpdateEtag store0 of
        Inl err \<Rightarrow> (Inl err, s)
      | Inr store \<Rightarrow>
     (case exec e OpCreate (create_result store s) of
        Inl err \<Rightarrow> (Inl (wrap err), s)
      | Inr s' \<Rightarrow> (Inr (result_ToAPI store), s'))))))"

definition GetResult :: "env \<Rightarrow> string \<Rightarrow> db \<Rightarrow> pb_result res" where
  "GetResult e nm s =
     (case result_ParseName nm of
        Inl err \<Rightarrow> Inl (InvalidArgument_of err)
      | Inr (parent, name) \<Rightarrow>
     (case e_check e parent ResourceResults PermissionGet of
        Some err \<Rightarrow> Inl err
      | None \<Rightarrow>
     (case getResultByParentName e parent name s of
        Inl err \<Rightarrow> Inl err
      | Inr store \<Rightarrow> Inr (result_ToAPI store))))"

text \<open>The message an update writes: only annotations and summary come from the request.\<close>

definition updated_result :: "db_result \<Rightarrow> pb_result option \<Rightarrow> pb_result" where
  "updated_result prev reqpb =
     (result_ToAPI prev)\<lparr>
        pr_annotations := (case reqpb of None \<Rightarrow> fmempty | Some p \<Rightarrow> pr_annotations (result_ClearOutputOnly p)),
        pr_summary := (case reqpb of None \<Rightarrow> None | Some p \<Rightarrow> pr_summary (result_ClearOutputOnly p))\<rparr>"

definition UpdateResult :: "env \<Rightarrow> update_result_req \<Rightarrow> db \<Rightarrow> pb_result res \<times> db" where
  "UpdateResult e req s =
     (case result_ParseName (ur_name req) of
        Inl err \<Rightarrow> (Inl (InvalidArgument_of err), s)
      | Inr (parent, name) \<Rightarrow>
     (case e_check e parent ResourceResults PermissionUpdate of
        Some err \<Rightarrow> (Inl err, s)
      | None \<Rightarrow>
     (case getResultByParentName e parent name s of
        Inl err \<Rightarrow> (Inl (StatusErr NotFound (''failed to find a result: '' @ error_msg err)), s)
      | Inr prev \<Rightarrow>
     if ur_etag req \<noteq> [] \<and> ur_etag req \<noteq> r_etag prev
     then (Inl (StatusErr FailedPrecondition ''the etag mismatches''), s)
     else
     (case result_ToStorage (updated_result prev (ur_result req)) of
        Inl err \<Rightarrow> (Inl err, s)
      | Inr toDB0 \<Rightarrow>
     (case result_UpdateEtag (toDB0\<lparr>r_updated := e_now e\<rparr>) of
        Inl err \<Rightarrow> (Inl err, s)
      | Inr toDB \<Rightarrow>
     (case exec e OpSave (save_result toDB s) of
        Inl err \<Rightarrow> (Inl (wrap err), s)
      | Inr s' \<Rightarrow> (Inr (result_ToAPI toDB), s')))))))"

text \<open>The two statements of a delete.\<close>

definition DeleteResult_get :: "env \<Rightarrow> string \<Rightarrow> db \<Rightarrow> db_result res" where
  "DeleteResult_get e nm s =
     (case result_ParseName nm of
        Inl err \<Rightarrow> Inl err
      | Inr (parent, name) \<Rightarrow>
     (case e_check e parent ResourceResults PermissionDelete of
        Some err \<Rightarrow> Inl err
      | None \<Rightarrow>
     (case exec e OpFirst (first_result (result_cond parent name) s) of
        Inl err \<Rightarrow> Inl (wrap err)
      | Inr r \<Rightarrow> Inr r)))"

definition DeleteResult_del :: "env \<Rightarrow> db_result \<Rightarrow> db \<Rightarrow> unit res \<times> db" where
  "DeleteResult_del e r s =
     (case exec e OpDelete (Inr (delete_results_where (matches_result r) s)) of
        Inl err \<Rightarrow> (Inl (wrap err), s)
      | Inr s' \<Rightarrow> (Inr (), s'))"

definition DeleteResult :: "env \<Rightarrow> string \<Rightarrow> db \<Rightarrow> unit res \<times> db" where
  "DeleteResult e nm s =
     (case DeleteResult_get e nm s of
        Inl err \<Rightarrow> (Inl err, s)
      | Inr r \<Rightarrow> DeleteResult_del e r s)"

subsection \<open>Records\<close>

record create_record_req =
  cd_parent :: string
  cd_record :: "pb_record option"

record update_record_req =
  ud_record :: "pb_record option"
  ud_etag :: string

definition record_GetName :: "pb_record option \<Rightarrow> string" where
  "record_GetName r = (case r of None \<Rightarrow> [] | Some p \<Rightarrow> pd_name p)"

definition getResultIDImpl :: "env \<Rightarrow> string \<Rightarrow> string \<Rightarrow> db \<Rightarrow> string res" where
  "getResultIDImpl e parent res s =
     (case exec e OpFirst (first_result (result_cond parent res) s) of
        Inl err \<Rightarrow> Inl (wrap err)
      | Inr r \<Rightarrow> Inr (r_id r))"

definition populate_record :: "env \<Rightarrow> pb_record \<Rightarrow> pb_record" where
  "populate_record e r =
     (let ts = Some (ts_New (e_now e)) in
      (record_ClearOutputOnly r)\<lparr>pd_id := e_uid e, pd_uid := e_uid e, pd_created := ts,
        pd_create := ts, pd_updated := ts, pd_update := ts\<rparr>)"

definition CreateRecord :: "env \<Rightarrow> create_record_req \<Rightarrow> db \<Rightarrow> pb_record res \<times> db" where
  "CreateRecord e req s =
     (case record_ParseName (record_GetName (cd_record req)) of
        Inl err \<Rightarrow> (Inl err, s)
      | Inr (parent, resultName, name) \<Rightarrow>
     if cd_parent req \<noteq> result_FormatName parent resultName
     then (Inl (StatusErr InvalidArgument ''requested parent does not match resource name''), s)
     else
     (case e_check e parent ResourceRecords PermissionCreate of
        Some err \<Rightarrow> (Inl err, s)
      | None \<Rightarrow>
     (case getResultIDImpl e parent resultName s of
        Inl err \<Rightarrow> (Inl err, s)
      | Inr resultID \<Rightarrow>
     (case record_ToStorage (e_codec e) (e_config e) parent resultName resultID name
             (populate_record e (the (cd_record req))) of
        Inl err \<Rightarrow> (Inl err, s)
      | Inr store0 \<Rightarrow>
     (case record_UpdateEtag store0 of
        Inl err \<Rightarrow> (Inl err, s)
      | Inr store \<Rightarrow>
     (case exec e OpCreate (create_record store s) of
        Inl err \<Rightarrow> (Inl (wrap err), s)
      | Inr s' \<Rightarrow> (Inr (record_ToAPI store), s')))))))"

definition getRecord :: "env \<Rightarrow> string \<Rightarrow> string \<Rightarrow> string \<Rightarrow> db \<Rightarrow> db_record res" where
  "getRecord e parent res name s =
     (case exec e OpFirst (first_record (record_cond parent res name) s) of
        Inl err \<Rightarrow> Inl (wrap err)
      | Inr d \<Rightarrow> Inr d)"

definition GetRecord :: "env \<Rightarrow> string \<Rightarrow> db \<Rightarrow> pb_record res" where
  "GetRecord e nm s =
     (case record_ParseName nm of
        Inl err \<Rightarrow> Inl err
      | Inr (parent, res, name) \<Rightarrow>
     (case e_check e parent ResourceRecords PermissionGet of
        Some err \<Rightarrow> Inl err
      | None \<Rightarrow>
     (case getRecord e parent res name s of
        Inl err \<Rightarrow> Inl err
      | Inr d \<Rightarrow> Inr (record_ToAPI d))))"

definition merged_record :: "env \<Rightarrow> db_record \<Rightarrow> pb_record \<Rightarrow> pb_record" where
  "merged_record e r inp =
     (let ts = Some (ts_New (e_now e)) in
      (record_Merge (record_ToAPI r) (record_ClearOutputOnly inp))\<lparr>pd_updated := ts, pd_update := ts\<rparr>)"

definition UpdateRecord :: "env \<Rightarrow> update_record_req \<Rightarrow> db \<Rightarrow> pb_record res \<times> db" where
  "UpdateRecord e req s =
     (case record_ParseName (record_GetName (ud_record req)) of
        Inl err \<Rightarrow> (Inl err, s)
      | Inr (parent, res, name) \<Rightarrow>
     (case e_check e parent ResourceRecords PermissionUpdate of
        Some err \<Rightarrow> (Inl err, s)
      | None \<Rightarrow>
     (case getRecord e parent res name s of
        Inl err \<Rightarrow> (Inl err, s)
      | Inr r \<Rightarrow>
     if ud_etag req \<noteq> [] \<and> ud_etag req \<noteq> d_etag r
     then (Inl (StatusErr FailedPrecondition ''the etag mismatches''), s)
     else
     (let pb = merged_record e r (the (ud_record req)) in
     (case record_ToStorage (e_codec e) (e_config e) (d_parent r) (d_result_name r) (d_result_id r)
             (d_name r) pb of
        Inl err \<Rightarrow> (Inl err, s)
      | Inr store0 \<Rightarrow>
     (case record_UpdateEtag store0 of
        Inl err \<Rightarrow> (Inl err, s)
      | Inr store \<Rightarrow>
     (case exec e OpSave (save_record store s) of
        Inl err \<Rightarrow> (Inl (wrap err), s)
      | Inr s' \<Rightarrow> (Inr (pb\<lparr>pd_etag := d_etag store\<rparr>), s'))))))))"

definition DeleteRecord_get :: "env \<Rightarrow> string \<Rightarrow> db \<Rightarrow> db_record res" where
  "DeleteRecord_get e nm s =
     (case record_ParseName nm of
        Inl err \<Rightarrow> Inl err
      | Inr (parent, res, name) \<Rightarrow>
     (case e_check e parent ResourceRecords PermissionDelete of
        Some err \<Rightarrow> Inl err
      | None \<Rightarrow> getRecord e parent res name s))"

definition DeleteRecord_del :: "env \<Rightarrow> db_record \<Rightarrow> db \<Rightarrow> unit res \<times> db" where
  "DeleteRecord_del e d s =
     (case exec e OpDelete (Inr (delete_records_where (matches_record d) s)) of
        Inl err \<Rightarrow> (Inl (wrap err), s)
      | Inr s' \<Rightarrow> (Inr (), s'))"

definition DeleteRecord :: "env \<Rightarrow> string \<Rightarrow> db \<Rightarrow> unit res \<times> db" where
  "DeleteRecord e nm s =
     (case DeleteRecord_get e nm s of
        Inl err \<Rightarrow> (Inl err, s)
      | Inr d \<Rightarrow> DeleteRecord_del e d s)"

lemmas handler_defs [handler_defs] = CreateResult_def UpdateResult_def DeleteResult_def
  CreateRecord_def UpdateRecord_def DeleteRecord_def DeleteResult_del_def DeleteRecord_del_def
  DeleteResult_get_def DeleteRecord_get_def


subsection \<open>Success of a handler\<close>

lemma populate_result_simps [simp]:
  "pr_name (populate_result e q) = pr_name q" "pr_id (populate_result e q) = e_uid e"
  "pr_uid (populate_result e q) = e_uid e"
  "pr_created (populate_result e q) = Some (ts_New (e_now e))"
  "pr_create (populate_result e q) = Some (ts_New (e_now e))"
  "pr_updated (populate_result e q) = Some (ts_New (e_now e))"
  "pr_update (populate_result e q) = Some (ts_New (e_now e))"
  "pr_annotations (populate_result e q) = pr_annotations q"
  "pr_summary (populate_result e q) = pr_summary q"
  by (simp_all add: populate_result_def result_ClearOutputOnly_def Let_def)

lemma populate_record_simps [simp]:
  "pd_id (populate_record e q) = e_uid e" "pd_uid (populate_record e q) = e_uid e"
  "pd_created (populate_record e q) = Some (ts_New (e_now e))"
  "pd_create (populate_record e q) = Some (ts_New (e_now e))"
  "pd_updated (populate_record e q) = Some (ts_New (e_now e))"
  "pd_update (populate_record e q) = Some (ts_New (e_now e))"
  "pd_data (populate_record e q) = pd_data q"
  by (simp_all add: populate_record_def record_ClearOutputOnly_def Let_def)

lemma pick_time_same: "pick_time (Some (ts_New t)) (Some (ts_New t)) = (if time_in_range t then t else zero_time)"
  by (simp add: pick_time_def del: ts_IsValid.simps(2))

lemma result_ParseName_Nil [simp]: "result_ParseName [] \<noteq> Inr x"
  by (simp add: result_ParseName_def result_FindStringSubmatch_def match_segment_def seg_ok_def)

lemma record_ParseName_Nil [simp]: "record_ParseName [] \<noteq> Inr x"
  by (simp add: record_ParseName_def child_FindStringSubmatch_def match_segment_def seg_ok_def)

lemma CreateResult_Inr:
  assumes "CreateResult e req s = (Inr p, s')"
  obtains q parent name store where "cr_result req = Some q"
    and "result_ParseName (pr_name q) = Inr (parent, name)" and "cr_parent req = parent"
    and "e_check e parent ResourceResults PermissionCreate = None"
    and "result_row_ok store" and "r_parent store = parent" and "r_name store = name"
    and "r_id store = e_uid e" and "r_created store = e_now e" and "r_updated store = e_now e"
    and "r_annotations store = pr_annotations q" and "create_result store s = Inr s'"
    and "p = result_ToAPI store"
proof -
  obtain q where q: "cr_result req = Some q"
    using assms
    by (cases "cr_result req") (auto simp: CreateResult_def result_GetName_def split: sum.splits)
  obtain parent name where n: "result_ParseName (pr_name q) = Inr (parent, name)"
    using assms q by (auto simp: CreateResult_def result_GetName_def split: sum.splits)
  obtain store0 store where c: "cr_parent req = parent" "e_check e parent ResourceResults PermissionCreate = None"
    and st0: "result_ToStorage (populate_result e q) = Inr store0"
    and st: "result_UpdateEtag store0 = Inr store"
    and cr: "create_result store s = Inr s'" "p = result_ToAPI store"
    using assms q n
    by (auto simp: CreateResult_def result_GetName_def exec_Inr split: sum.splits if_splits option.splits)
  have s0: "pr_name q = result_FormatName (r_parent store0) (r_name store0) \<and> seg_ok (r_parent store0)
      \<and> seg_ok (r_name store0) \<and> r_id store0 = e_uid e \<and> summary_ok (r_summary store0)
      \<and> r_annotations store0 = pr_annotations q
      \<and> r_created store0 = (if time_in_range (e_now e) then e_now e else zero_time)
      \<and> r_updated store0 = (if time_in_range (e_now e) then e_now e else zero_time)"
    using result_ToStorage_Inr [OF st0] by (simp add: pick_time_same)
  have "r_parent store0 = parent \<and> r_name store0 = name"
    using n s0 result_ParseName_FormatName [of "r_parent store0" "r_name store0"] by auto
  then have "result_row_ok store \<and> r_parent store = parent \<and> r_name store = name
      \<and> r_id store = e_uid e \<and> r_created store = e_now e \<and> r_updated store = e_now e
      \<and> r_annotations store = pr_annotations q"
    using s0 st by (auto simp: result_UpdateEtag_Inr result_row_ok_def split: if_splits)
  then show thesis using that [OF q n c] cr by blast
qed

lemma getResultByParentName_Inr:
  assumes "getResultByParentName e parent name s = Inr r" and "seg_ok parent" and "seg_ok name"
  shows "r \<in> set (results_tbl s) \<and> r_parent r = parent \<and> r_name r = name"
  using assms first_result_Inr [of parent name s r]
  by (auto simp: getResultByParentName_def exec_Inr seg_ok_nonempty split: sum.splits)

lemma getRecord_Inr:
  assumes "getRecord e parent res name s = Inr d" and "seg_ok parent" and "seg_ok res" and "seg_ok name"
  shows "d \<in> set (records_tbl s) \<and> d_parent d = parent \<and> d_result_name d = res \<and> d_name d = name"
  using assms first_record_Inr [of parent res name s d]
  by (auto simp: getRecord_def exec_Inr seg_ok_nonempty split: sum.splits)

lemma UpdateResult_Inr:
  assumes "UpdateResult e req s = (Inr p, s')" and "\<forall>r\<in>set (results_tbl s). result_row_ok r"
    and "time_in_range (e_now e)"
  obtains parent name prev store where
    "result_ParseName (ur_name req) = Inr (parent, name)"
    and "e_check e parent ResourceResults PermissionUpdate = None"
    and "prev \<in> set (results_tbl s)" and "r_parent prev = parent" and "r_name prev = name"
    and "ur_etag req = [] \<or> ur_etag req = r_etag prev"
    and "result_row_ok store" and "r_parent store = parent" and "r_name store = name"
    and "r_id store = r_id prev" and "r_created store = r_created prev" and "r_updated store = e_now e"
    and "r_annotations store = (case ur_result req of None \<Rightarrow> fmempty | Some q \<Rightarrow> pr_annotations q)"
    and "save_result store s = Inr s'" and "p = result_ToAPI store"
proof -
  obtain parent name where n: "result_ParseName (ur_name req) = Inr (parent, name)"
    using assms(1) by (auto simp: UpdateResult_def split: sum.splits)
  obtain prev store0 store where c: "e_check e parent ResourceResults PermissionUpdate = None"
    and g: "getResultByParentName e parent name s = Inr prev"
    and et: "ur_etag req = [] \<or> ur_etag req = r_etag prev"
    and st0: "result_ToStorage (updated_result prev (ur_result req)) = Inr store0"
    and st: "result_UpdateEtag (store0\<lparr>r_updated := e_now e\<rparr>) = Inr store"
    and sv: "save_result store s = Inr s'" "p = result_ToAPI store"
    using assms(1) n by (auto simp: UpdateResult_def exec_Inr split: sum.splits if_splits option.splits)
  have pv: "prev \<in> set (results_tbl s) \<and> r_parent prev = parent \<and> r_name prev = name"
    using getResultByParentName_Inr [OF g] result_ParseName_Inr [OF n] by blast
  then have ok: "result_row_ok prev" using assms(2) by blast
  have nm: "pr_name (updated_result prev (ur_result req)) = result_FormatName parent name"
    using pv by (simp add: updated_result_def result_ToAPI_def)
  have tm: "pick_time (pr_created (updated_result prev (ur_result req)))
      (pr_create (updated_result prev (ur_result req))) = r_created prev"
    using ok by (simp add: updated_result_def result_ToAPI_def result_row_ok_def)
  have i: "pr_id (updated_result prev (ur_result req)) = r_id prev"
    "pr_uid (updated_result prev (ur_result req)) = r_id prev"
    "pr_annotations (updated_result prev (ur_result req)) =
      (case ur_result req of None \<Rightarrow> fmempty | Some q \<Rightarrow> pr_annotations q)"
    by (simp_all add: updated_result_def result_ToAPI_def result_ClearOutputOnly_def split: option.split)
  have s0: "seg_ok (r_parent store0)" "seg_ok (r_name store0)" "summary_ok (r_summary store0)"
    "result_FormatName parent name = result_FormatName (r_parent store0) (r_name store0)"
    "r_id store0 = r_id prev" "r_created store0 = r_created prev"
    "r_annotations store0 = (case ur_result req of None \<Rightarrow> fmempty | Some q \<Rightarrow> pr_annotations q)"
    using result_ToStorage_Inr [OF st0] nm tm i by auto
  have "(r_parent store0, r_name store0) = (parent, name)"
    using result_ParseName_FormatName [OF s0(1,2)] s0(4) result_ParseName_Inr [OF n]
      result_ParseName_FormatName [of parent name] by (metis sum.inject(2))
  then have "result_row_ok store \<and> r_parent store = parent \<and> r_name store = name
      \<and> r_id store = r_id prev \<and> r_created store = r_created prev \<and> r_updated store = e_now e
      \<and> r_annotations store = (case ur_result req of None \<Rightarrow> fmempty | Some q \<Rightarrow> pr_annotations q)"
    using s0 st ok assms(3) by (auto simp: result_UpdateEtag_Inr result_row_ok_def)
  then show thesis using pv et sv by (intro that [OF n c, of prev store]) simp_all
qed

lemma CreateRecord_Inr:
  assumes "CreateRecord e req s = (Inr p, s')"
  obtains q parent res name r store where "cd_record req = Some q"
    and "record_ParseName (pd_name q) = Inr (parent, res, name)"
    and "cd_parent req = result_FormatName parent res"
    and "e_check e parent ResourceRecords PermissionCreate = None"
    and "r \<in> set (results_tbl s)" and "r_parent r = parent" and "r_name r = res"
    and "record_row_ok store" and "d_parent store = parent" and "d_result_name store = res"
    and "d_result_id store = r_id r" and "d_name store = name" and "d_id store = e_uid e"
    and "d_type store = GetType (pd_data q)"
    and "d_created store = e_now e" and "d_updated store = e_now e"
    and "create_record store s = Inr s'" and "p = record_ToAPI store"
proof -
  obtain q where q: "cd_record req = Some q"
    using assms
    by (cases "cd_record req") (auto simp: CreateRecord_def record_GetName_def split: sum.splits)
  obtain parent res name where n: "record_ParseName (pd_name q) = Inr (parent, res, name)"
    using assms q by (auto simp: CreateRecord_def record_GetName_def split: sum.splits)
  have seg: "seg_ok parent" "seg_ok res" "seg_ok name" using record_ParseName_Inr [OF n] by auto
  obtain resultID store0 store where c: "cd_parent req = result_FormatName parent res"
      "e_check e parent ResourceRecords PermissionCreate = None"
    and g: "getResultIDImpl e parent res s = Inr resultID"
    and st0: "record_ToStorage (e_codec e) (e_config e) parent res resultID name (populate_record e q) = Inr store0"
    and st: "record_UpdateEtag store0 = Inr store"
    and cr: "create_record store s = Inr s'" "p = record_ToAPI store"
    using assms q n
    by (auto simp: CreateRecord_def record_GetName_def exec_Inr split: sum.splits if_splits option.splits)
  obtain r where r: "first_result (result_cond parent res) s = Inr r" "resultID = r_id r"
    using g by (auto simp: getResultIDImpl_def exec_Inr split: sum.splits)
  have rin: "r \<in> set (results_tbl s) \<and> r_parent r = parent \<and> r_name r = res"
    using first_result_Inr [OF r(1)] seg seg_ok_nonempty by blast
  have s0: "d_parent store0 = parent \<and> d_result_name store0 = res \<and> d_result_id store0 = resultID
      \<and> d_name store0 = name \<and> d_id store0 = e_uid e \<and> d_type store0 = GetType (pd_data q)
      \<and> length (d_type store0) \<le> typeSize
      \<and> d_created store0 = (if time_in_range (e_now e) then e_now e else zero_time)
      \<and> d_updated store0 = (if time_in_range (e_now e) then e_now e else zero_time)"
    using record_ToStorage_Inr [OF st0] by (auto simp: pick_time_same)
  then have "record_row_ok store \<and> d_parent store = parent \<and> d_result_name store = res
      \<and> d_result_id store = r_id r \<and> d_name store = name \<and> d_id store = e_uid e
      \<and> d_type store = GetType (pd_data q) \<and> d_created store = e_now e \<and> d_updated store = e_now e"
    using st r seg by (auto simp: record_UpdateEtag_Inr record_row_ok_def split: if_splits)
  then show thesis using rin cr by (intro that [OF q n c, of r store]) simp_all
qed

lemma merged_record_simps [simp]:
  "pd_uid (merged_record e r q) = d_id r"
  "pd_id (merged_record e r q) = d_id r"
  "pd_created (merged_record e r q) = pd_created (record_ToAPI r)"
  "pd_create (merged_record e r q) = pd_create (record_ToAPI r)"
  "pd_updated (merged_record e r q) = Some (ts_New (e_now e))"
  "pd_update (merged_record e r q) = Some (ts_New (e_now e))"
  by (simp_all add: merged_record_def record_Merge_def record_ClearOutputOnly_def record_ToAPI_def
      merge_scalar_def merge_ts_def Let_def)

lemma UpdateRecord_Inr:
  assumes "UpdateRecord e req s = (Inr p, s')" and "\<forall>d\<in>set (records_tbl s). record_row_ok d"
  obtains q parent res name prev store where "ud_record req = Some q"
    and "record_ParseName (pd_name q) = Inr (parent, res, name)"
    and "e_check e parent ResourceRecords PermissionUpdate = None"
    and "prev \<in> set (records_tbl s)" and "d_parent prev = parent" and "d_result_name prev = res"
    and "d_name prev = name" and "ud_etag req = [] \<or> ud_etag req = d_etag prev"
    and "record_row_ok store" and "d_pk store = d_pk prev" and "d_uk store = d_uk prev"
    and "d_created store = d_created prev" and "d_updated store = e_now e"
    and "d_type store = merge_scalar (GetType (pd_data (record_ToAPI prev))) (GetType (pd_data q))"
    and "save_record store s = Inr s'" and "p = (merged_record e prev q)\<lparr>pd_etag := d_etag store\<rparr>"
proof -
  obtain q where q: "ud_record req = Some q"
    using assms
    by (cases "ud_record req") (auto simp: UpdateRecord_def record_GetName_def split: sum.splits)
  obtain parent res name where n: "record_ParseName (pd_name q) = Inr (parent, res, name)"
    using assms q by (auto simp: UpdateRecord_def record_GetName_def split: sum.splits)
  have seg: "seg_ok parent" "seg_ok res" "seg_ok name" using record_ParseName_Inr [OF n] by auto
  obtain prev store0 store where c: "e_check e parent ResourceRecords PermissionUpdate = None"
    and g: "getRecord e parent res name s = Inr prev"
    and et: "ud_etag req = [] \<or> ud_etag req = d_etag prev"
    and st0: "record_ToStorage (e_codec e) (e_config e) (d_parent prev) (d_result_name prev)
      (d_result_id prev) (d_name prev) (merged_record e prev q) = Inr store0"
    and st: "record_UpdateEtag store0 = Inr store"
    and sv: "save_record store s = Inr s'" "p = (merged_record e prev q)\<lparr>pd_etag := d_etag store\<rparr>"
    using assms(1) n q
    by (auto simp: UpdateRecord_def record_GetName_def exec_Inr Let_def split: sum.splits if_splits option.splits)
  have pv: "prev \<in> set (records_tbl s) \<and> d_parent prev = parent \<and> d_result_name prev = res \<and> d_name prev = name"
    using getRecord_Inr [OF g seg] .
  then have ok: "record_row_ok prev" using assms(2) by blast
  have tm: "pick_time (pd_created (record_ToAPI prev)) (pd_create (record_ToAPI prev)) = d_created prev"
    using ok by (simp add: record_ToAPI_def record_row_ok_def)
  have ty: "GetType (pd_data (merged_record e prev q)) =
      merge_scalar (GetType (pd_data (record_ToAPI prev))) (GetType (pd_data q))"
    by (simp add: merged_record_def record_Merge_def record_ClearOutputOnly_def merge_any_def
        merge_scalar_def GetType_def Let_def split: option.split)
  note s0 = record_ToStorage_Inr [OF st0, unfolded merged_record_simps pick_time_same tm ty]
  have "record_row_ok store \<and> d_pk store = d_pk prev \<and> d_uk store = d_uk prev
      \<and> d_created store = d_created prev \<and> d_updated store = e_now e
      \<and> d_type store = merge_scalar (GetType (pd_data (record_ToAPI prev))) (GetType (pd_data q))"
    using s0 st ok by (auto simp: record_UpdateEtag_Inr record_row_ok_def d_pk_def d_uk_def split: if_splits)
  then show thesis using pv et sv by (intro that [OF q n c, of prev store]) simp_all
qed

lemma DeleteResult_get_Inr:
  assumes "DeleteResult_get e nm s = Inr r"
  obtains parent name where "result_ParseName nm = Inr (parent, name)"
    and "e_check e parent ResourceResults PermissionDelete = None"
    and "r \<in> set (results_tbl s)" and "r_parent r = parent" and "r_name r = name"
proof -
  obtain parent name where n: "result_ParseName nm = Inr (parent, name)"
    using assms by (auto simp: DeleteResult_get_def split: sum.splits)
  then have c: "e_check e parent ResourceResults PermissionDelete = None"
    and f: "first_result (result_cond parent name) s = Inr r"
    using assms by (auto simp: DeleteResult_get_def exec_Inr split: sum.splits option.splits)
  from first_result_Inr [OF f] result_ParseName_Inr [OF n] seg_ok_nonempty that [OF n c]
  show thesis by blast
qed

lemma DeleteRecord_get_Inr:
  assumes "DeleteRecord_get e nm s = Inr d"
  obtains parent res name where "record_ParseName nm = Inr (parent, res, name)"
    and "e_check e parent ResourceRecords PermissionDelete = None"
    and "d \<in> set (records_tbl s)" and "d_parent d = parent" and "d_result_name d = res" and "d_name d = name"
proof -
  obtain parent res name where n: "record_ParseName nm = Inr (parent, res, name)"
    using assms by (auto simp: DeleteRecord_get_def split: sum.splits)
  then have c: "e_check e parent ResourceRecords PermissionDelete = None"
    and f: "getRecord e parent res name s = Inr d"
    using assms by (auto simp: DeleteRecord_get_def split: option.splits)
  from getRecord_Inr [OF f] record_ParseName_Inr [OF n] that [OF n c]
  show thesis by blast
qed

subsection \<open>The invariant of the store\<close>

definition srv_inv :: "db \<Rightarrow> bool" where
  "srv_inv s = (db_wf s \<and> (\<forall>r\<in>set (results_tbl s). result_row_ok r)
     \<and> (\<forall>d\<in>set (records_tbl s). record_row_ok d))"

lemma srv_invD:
  assumes "srv_inv s"
  shows "db_wf s" "\<forall>r\<in>set (results_tbl s). result_row_ok r" "\<forall>d\<in>set (records_tbl s). record_row_ok d"
  using assms by (auto simp: srv_inv_def)

lemma srv_inv_empty [simp]: "srv_inv empty_db"
  by (simp add: srv_inv_def) (simp add: empty_db_def)

lemma create_result_tables:
  "create_result r s = Inr s' \<Longrightarrow>
     set (results_tbl s') = insert r (set (results_tbl s)) \<and> records_tbl s' = records_tbl s"
  by (auto simp: create_result_def results.create_set split: sum.splits)

lemma save_result_tables:
  "save_result r s = Inr s' \<Longrightarrow>
     set (results_tbl s') = insert r {x \<in> set (results_tbl s). r_pk x \<noteq> r_pk r}
     \<and> records_tbl s' = records_tbl s"
  by (auto simp: save_result_def dest: results.save_set split: sum.splits)

lemma create_record_tables:
  "create_record d s = Inr s' \<Longrightarrow>
     set (records_tbl s') = insert d (set (records_tbl s)) \<and> results_tbl s' = results_tbl s"
  by (auto simp: create_record_def dest: records.create_set split: sum.splits if_splits)

lemma save_record_tables:
  "save_record d s = Inr s' \<Longrightarrow>
     set (records_tbl s') = insert d {x \<in> set (records_tbl s). d_pk x \<noteq> d_pk d}
     \<and> results_tbl s' = results_tbl s"
  by (auto simp: save_record_def dest: records.save_set split: sum.splits if_splits)

lemmas table_simps = create_result_tables save_result_tables create_record_tables save_record_tables

lemma srv_inv_delete_results: "srv_inv s \<Longrightarrow> srv_inv (delete_results_where p s)"
  by (auto simp: srv_inv_def intro: db_wf_delete_results)
    (auto simp: delete_results_where_def tbl_delete_def cascade_def)

lemma srv_inv_delete_records: "srv_inv s \<Longrightarrow> srv_inv (delete_records_where p s)"
  by (auto simp: srv_inv_def intro: db_wf_delete_records)
    (auto simp: delete_records_where_def tbl_delete_def)

lemma srv_inv_CreateResult:
  assumes "srv_inv s" and "CreateResult e req s = (Inr p, s')"
  shows "srv_inv s'"
  using assms(2)
proof (rule CreateResult_Inr)
  fix store assume "result_row_ok store" "create_result store s = Inr s'"
  then show ?thesis using assms(1) db_wf_create_result [of s store s'] create_result_tables [of store s s']
    by (auto simp: srv_inv_def)
qed

lemma srv_inv_UpdateResult:
  assumes "srv_inv s" and "time_in_range (e_now e)" and "UpdateResult e req s = (Inr p, s')"
  shows "srv_inv s'"
  using assms(3) srv_invD(2) [OF assms(1)] assms(2)
proof (rule UpdateResult_Inr)
  fix parent name prev store
  assume "prev \<in> set (results_tbl s)" "r_parent prev = parent" "r_name prev = name"
    "result_row_ok store" "r_parent store = parent" "r_name store = name"
    "r_id store = r_id prev" "save_result store s = Inr s'"
  then show ?thesis using assms(1) db_wf_save_result [of s store s' prev] save_result_tables [of store s s']
    by (auto simp: srv_inv_def r_pk_def)
qed

lemma srv_inv_CreateRecord:
  assumes "srv_inv s" and "CreateRecord e req s = (Inr p, s')"
  shows "srv_inv s'"
  using assms(2)
proof (rule CreateRecord_Inr)
  fix parent res r store
  assume r: "r \<in> set (results_tbl s)" "r_parent r = parent" "r_name r = res"
    and st: "record_row_ok store" "d_parent store = parent" "d_result_name store = res"
      "d_result_id store = r_id r" "create_record store s = Inr s'"
  have "r_name q = d_result_name store" if "q \<in> set (results_tbl s)" "r_parent q = d_parent store"
    "r_id q = d_result_id store" for q
  proof -
    have "q = r" using results.wf_pk [OF db_wfD(1) [OF srv_invD(1) [OF assms(1)]] that(1) r(1)] that r st
      by (simp add: r_pk_def)
    then show ?thesis using r st by simp
  qed
  then have "db_wf s'" using db_wf_create_record [OF srv_invD(1) [OF assms(1)] st(5)] by blast
  then show ?thesis using assms(1) st(1) create_record_tables [OF st(5)] by (auto simp: srv_inv_def)
qed

lemma srv_inv_UpdateRecord:
  assumes "srv_inv s" and "UpdateRecord e req s = (Inr p, s')"
  shows "srv_inv s'"
  using assms(2) srv_invD(3) [OF assms(1)]
proof (rule UpdateRecord_Inr)
  fix prev store
  assume "prev \<in> set (records_tbl s)" "record_row_ok store" "d_pk store = d_pk prev"
    "d_uk store = d_uk prev" "save_record store s = Inr s'"
  then show ?thesis using assms(1) db_wf_save_record [of s store s' prev] save_record_tables [of store s s']
    by (auto simp: srv_inv_def d_uk_def)
qed

subsection \<open>The contract of a state-changing handler\<close>

text \<open>
  A handler fails without effect, succeeds only when the checker granted its verb on the
  namespace the request names, and keeps the invariant.
\<close>

locale guarded_handler =
  fixes run :: "env \<Rightarrow> 'q \<Rightarrow> db \<Rightarrow> 'a res \<times> db" and target :: "'q \<Rightarrow> string option"
    and resource :: string and verb :: string
  assumes fail_keeps: "run e q s = (Inl err, s') \<Longrightarrow> s' = s"
    and authorised: "run e q s = (Inr x, s') \<Longrightarrow>
      \<exists>ns. target q = Some ns \<and> e_check e ns resource verb = None"
    and keeps_inv: "srv_inv s \<Longrightarrow> time_in_range (e_now e) \<Longrightarrow> run e q s = (Inr x, s') \<Longrightarrow> srv_inv s'"
begin

lemma changed_authorised:
  assumes "snd (run e q s) \<noteq> s"
  shows "\<exists>ns. target q = Some ns \<and> e_check e ns resource verb = None"
proof (cases "fst (run e q s)")
  case (Inl err)
  then show ?thesis using fail_keeps [of e q s err "snd (run e q s)"] assms by (metis prod.collapse)
next
  case (Inr x)
  then show ?thesis using authorised [of e q s x "snd (run e q s)"] by (metis prod.collapse)
qed

lemma denied:
  assumes "target q = Some ns" and "e_check e ns resource verb \<noteq> None"
  shows "\<exists>err. run e q s = (Inl err, s)"
proof (cases "run e q s")
  case (Pair r s')
  then show ?thesis
    using assms fail_keeps [of e q s _ s'] authorised [of e q s _ s'] by (cases r) auto
qed

lemma inv: "srv_inv s \<Longrightarrow> time_in_range (e_now e) \<Longrightarrow> run e q s = (r, s') \<Longrightarrow> srv_inv s'"
  using fail_keeps keeps_inv by (cases r) blast+

end

definition result_target :: "string \<Rightarrow> string option" where
  "result_target nm = (case result_ParseName nm of Inl _ \<Rightarrow> None | Inr (parent, _) \<Rightarrow> Some parent)"

definition record_target :: "string \<Rightarrow> string option" where
  "record_target nm = (case record_ParseName nm of Inl _ \<Rightarrow> None | Inr (parent, _, _) \<Rightarrow> Some parent)"

lemmas handler_splits = sum.splits option.splits if_splits prod.splits

interpretation create_result: guarded_handler CreateResult "\<lambda>q. result_target (result_GetName (cr_result q))"
  ResourceResults PermissionCreate
proof
  fix e q s err s' assume "CreateResult e q s = (Inl err, s')"
  then show "s' = s" by (auto simp: CreateResult_def split: handler_splits)
next
  fix e q s x s' assume "CreateResult e q s = (Inr x, s')"
  then show "\<exists>ns. result_target (result_GetName (cr_result q)) = Some ns
      \<and> e_check e ns ResourceResults PermissionCreate = None"
    by (auto simp: CreateResult_def result_target_def split: handler_splits)
qed (rule srv_inv_CreateResult)

interpretation update_result: guarded_handler UpdateResult "\<lambda>q. result_target (ur_name q)"
  ResourceResults PermissionUpdate
proof
  fix e q s err s' assume "UpdateResult e q s = (Inl err, s')"
  then show "s' = s" by (auto simp: UpdateResult_def split: handler_splits)
next
  fix e q s x s' assume "UpdateResult e q s = (Inr x, s')"
  then show "\<exists>ns. result_target (ur_name q) = Some ns
      \<and> e_check e ns ResourceResults PermissionUpdate = None"
    by (auto simp: UpdateResult_def result_target_def split: handler_splits)
qed (rule srv_inv_UpdateResult)

interpretation delete_result: guarded_handler DeleteResult result_target ResourceResults PermissionDelete
proof
  fix e nm s err s' assume "DeleteResult e nm s = (Inl err, s')"
  then show "s' = s"
    by (auto simp: DeleteResult_def DeleteResult_del_def split: handler_splits)
next
  fix e nm s x s' assume "DeleteResult e nm s = (Inr x, s')"
  then show "\<exists>ns. result_target nm = Some ns \<and> e_check e ns ResourceResults PermissionDelete = None"
    by (auto simp: DeleteResult_def DeleteResult_get_def result_target_def split: handler_splits)
next
  fix s e nm x s' assume "srv_inv s" "DeleteResult e nm s = (Inr x, s')"
  then show "srv_inv s'"
    by (auto simp: DeleteResult_def DeleteResult_del_def exec_Inr srv_inv_delete_results
        split: handler_splits)
qed

interpretation create_record: guarded_handler CreateRecord "\<lambda>q. record_target (record_GetName (cd_record q))"
  ResourceRecords PermissionCreate
proof
  fix e q s err s' assume "CreateRecord e q s = (Inl err, s')"
  then show "s' = s" by (auto simp: CreateRecord_def split: handler_splits)
next
  fix e q s x s' assume "CreateRecord e q s = (Inr x, s')"
  then show "\<exists>ns. record_target (record_GetName (cd_record q)) = Some ns
      \<and> e_check e ns ResourceRecords PermissionCreate = None"
    by (auto simp: CreateRecord_def record_target_def split: handler_splits)
qed (rule srv_inv_CreateRecord)

interpretation update_record: guarded_handler UpdateRecord "\<lambda>q. record_target (record_GetName (ud_record q))"
  ResourceRecords PermissionUpdate
proof
  fix e q s err s' assume "UpdateRecord e q s = (Inl err, s')"
  then show "s' = s" by (auto simp: UpdateRecord_def Let_def split: handler_splits)
next
  fix e q s x s' assume "UpdateRecord e q s = (Inr x, s')"
  then show "\<exists>ns. record_target (record_GetName (ud_record q)) = Some ns
      \<and> e_check e ns ResourceRecords PermissionUpdate = None"
    by (auto simp: UpdateRecord_def record_target_def split: handler_splits)
qed (rule srv_inv_UpdateRecord)

interpretation delete_record: guarded_handler DeleteRecord record_target ResourceRecords PermissionDelete
proof
  fix e nm s err s' assume "DeleteRecord e nm s = (Inl err, s')"
  then show "s' = s"
    by (auto simp: DeleteRecord_def DeleteRecord_del_def split: handler_splits)
next
  fix e nm s x s' assume "DeleteRecord e nm s = (Inr x, s')"
  then show "\<exists>ns. record_target nm = Some ns \<and> e_check e ns ResourceRecords PermissionDelete = None"
    by (auto simp: DeleteRecord_def DeleteRecord_get_def record_target_def split: handler_splits)
next
  fix s e nm x s' assume "srv_inv s" "DeleteRecord e nm s = (Inr x, s')"
  then show "srv_inv s'"
    by (auto simp: DeleteRecord_def DeleteRecord_del_def exec_Inr srv_inv_delete_records
        split: handler_splits)
qed

end
