(* ===== verification/Base64.thy ===== *)
theory Base64
  imports Prelude
begin

text \<open>
  \<^verbatim>\<open>base64.RawURLEncoding\<close> of Go's standard library, which page tokens use: the URL-safe alphabet
  without padding. The decoder skips line breaks, rejects any other byte outside the alphabet and
  an incomplete group, and ignores the unused low bits of the last digit.
\<close>

definition alphabet :: string where
  "alphabet = ''ABCDEFGHIJKLMNOPQRSTUVWXYZabcdefghijklmnopqrstuvwxyz0123456789-_''"

definition enc_char :: "nat \<Rightarrow> char" where
  "enc_char n = alphabet ! n"

fun index_of :: "char \<Rightarrow> string \<Rightarrow> nat option" where
  "index_of c [] = None"
| "index_of c (x # xs) = (if x = c then Some 0 else map_option Suc (index_of c xs))"

definition dec_char :: "char \<Rightarrow> nat option" where
  "dec_char c = index_of c alphabet"

abbreviation byte :: "char \<Rightarrow> nat" where "byte c \<equiv> of_char c"

fun encode :: "string \<Rightarrow> string" where
  "encode [] = []"
| "encode [a] = [enc_char (byte a div 4), enc_char (byte a mod 4 * 16)]"
| "encode [a, b] =
     [enc_char (byte a div 4), enc_char (byte a mod 4 * 16 + byte b div 16), enc_char (byte b mod 16 * 4)]"
| "encode (a # b # c # r) =
     [enc_char (byte a div 4), enc_char (byte a mod 4 * 16 + byte b div 16),
      enc_char (byte b mod 16 * 4 + byte c div 64), enc_char (byte c mod 64)] @ encode r"

fun decode_digits :: "nat list \<Rightarrow> string option" where
  "decode_digits [] = Some []"
| "decode_digits [_] = None"
| "decode_digits [w, x] = Some [char_of (w * 4 + x div 16)]"
| "decode_digits [w, x, y] = Some [char_of (w * 4 + x div 16), char_of (x mod 16 * 16 + y div 4)]"
| "decode_digits (w # x # y # z # r) =
     map_option (\<lambda>t. char_of (w * 4 + x div 16) # char_of (x mod 16 * 16 + y div 4)
       # char_of (y mod 4 * 64 + z) # t) (decode_digits r)"

fun digits :: "string \<Rightarrow> nat list option" where
  "digits [] = Some []"
| "digits (c # cs) =
     (case dec_char c of None \<Rightarrow> None | Some d \<Rightarrow> map_option (\<lambda>ds. d # ds) (digits cs))"

definition decode :: "string \<Rightarrow> string option" where
  "decode s =
     (case digits (filter (\<lambda>c. c \<noteq> CHR 0x0A \<and> c \<noteq> CHR 0x0D) s) of
        None \<Rightarrow> None
      | Some ds \<Rightarrow> decode_digits ds)"

subsection \<open>Round trip\<close>

lemma dec_enc_all: "\<forall>n\<in>set [0..<64]. dec_char (enc_char n) = Some n
    \<and> enc_char n \<noteq> CHR 0x0A \<and> enc_char n \<noteq> CHR 0x0D"
  by code_simp

lemma dec_enc [simp]: "n < 64 \<Longrightarrow> dec_char (enc_char n) = Some n"
  using dec_enc_all by auto

lemma enc_no_break: "n < 64 \<Longrightarrow> enc_char n \<noteq> CHR 0x0A \<and> enc_char n \<noteq> CHR 0x0D"
  using dec_enc_all by auto

lemma byte_bound [simp]: "byte c < 256"
  using of_char_mod_256 [of c] by (metis mod_less_divisor zero_less_numeral)

lemma pieces_bound [simp]:
  "byte a div 4 < 64" "byte a mod 4 * 16 < 64" "byte a mod 4 * 16 + byte b div 16 < 64"
  "byte a mod 16 * 4 < 64" "byte a mod 16 * 4 + byte b div 64 < 64" "byte a mod 64 < 64"
proof -
  have b: "byte a < 256" "byte b < 256" by simp_all
  then have "byte b div 16 < 16" "byte b div 64 < 4" by (simp_all add: less_mult_imp_div_less)
  moreover have "byte a mod 4 < 4" "byte a mod 16 < 16" by simp_all
  ultimately show "byte a mod 4 * 16 < 64" "byte a mod 4 * 16 + byte b div 16 < 64"
    "byte a mod 16 * 4 < 64" "byte a mod 16 * 4 + byte b div 64 < 64" by linarith+
  show "byte a div 4 < 64" using b by (simp add: less_mult_imp_div_less)
qed simp

lemma pieces_join [simp]:
  "byte b div 16 div 16 = 0" "byte b div 16 mod 16 = byte b div 16"
  "byte b div 64 div 4 = 0" "byte b div 64 mod 4 = byte b div 64"
proof -
  have "byte b div 16 < 16" "byte b div 64 < 4" by (simp_all add: less_mult_imp_div_less)
  then show "byte b div 16 div 16 = 0" "byte b div 16 mod 16 = byte b div 16"
    "byte b div 64 div 4 = 0" "byte b div 64 mod 4 = byte b div 64" by simp_all
qed

fun enc_digits :: "string \<Rightarrow> nat list" where
  "enc_digits [] = []"
| "enc_digits [a] = [byte a div 4, byte a mod 4 * 16]"
| "enc_digits [a, b] = [byte a div 4, byte a mod 4 * 16 + byte b div 16, byte b mod 16 * 4]"
| "enc_digits (a # b # c # r) =
     [byte a div 4, byte a mod 4 * 16 + byte b div 16, byte b mod 16 * 4 + byte c div 64, byte c mod 64]
      @ enc_digits r"

lemma encode_digits: "encode s = map enc_char (enc_digits s)"
  by (induction s rule: encode.induct) simp_all

lemma enc_digits_bound: "d \<in> set (enc_digits s) \<Longrightarrow> d < 64"
  by (induction s rule: enc_digits.induct) auto

lemma decode_enc_digits: "decode_digits (enc_digits s) = Some s"
  by (induction s rule: enc_digits.induct) simp_all

lemma digits_map: "(\<And>d. d \<in> set ds \<Longrightarrow> d < 64) \<Longrightarrow> digits (map enc_char ds) = Some ds"
  by (induction ds) auto

lemma decode_encode [simp]: "decode (encode s) = Some s"
proof -
  have "filter (\<lambda>c. c \<noteq> CHR 0x0A \<and> c \<noteq> CHR 0x0D) (encode s) = encode s"
    by (rule filter_True) (auto simp: encode_digits dest!: enc_digits_bound enc_no_break)
  then show ?thesis
    using digits_map [of "enc_digits s"] enc_digits_bound
    by (simp add: decode_def encode_digits decode_enc_digits)
qed

lemma encode_Nil_iff [simp]: "encode s = [] \<longleftrightarrow> s = []"
  by (cases s rule: encode.cases) simp_all

lemma enc_char_not_space: "n < 64 \<Longrightarrow> \<not> is_space (enc_char n)"
proof -
  have "\<forall>n\<in>set [0..<64]. \<not> is_space (enc_char n)" by code_simp
  then show "n < 64 \<Longrightarrow> \<not> is_space (enc_char n)" by auto
qed

lemma TrimSpace_encode [simp]: "TrimSpace (encode s) = encode s"
proof (rule TrimSpace_id)
  assume "encode s \<noteq> []"
  then have "hd (encode s) \<in> set (encode s)" "last (encode s) \<in> set (encode s)" by simp_all
  then show "\<not> is_space (hd (encode s)) \<and> \<not> is_space (last (encode s))"
    unfolding encode_digits using enc_digits_bound enc_char_not_space by fastforce
qed

end
