(* ===== verification/Lister.thy ===== *)
theory Lister
  imports Server Base64 "HOL-Library.Product_Lexorder" "HOL-Library.Countable"
begin

text \<open>
  Listing with filters, ordering and pagination
  (\<^verbatim>\<open>pkg/api/server/v1alpha2/lister\<close>): the four query builders, the page token, the generic
  \<^verbatim>\<open>Lister\<close> and its two instances, and the handlers \<^verbatim>\<open>ListResults\<close> and \<^verbatim>\<open>ListRecords\<close>. A gorm
  query under construction is a value (\<open>query\<close>): its conditions, its order and its limit; the
  database evaluates it on the rows of a table. The conversion of a CEL filter to SQL and the
  database's reading of the SQL text are parameters here (theory Cel2Sql models the
  conversion); so are the protobuf bytes of a page token.

  The locale \<open>query_builder\<close> is the contract of the interface of that name, \<open>keyset_pager\<close> the
  contract of a paged listing.
\<close>

subsection \<open>Page tokens\<close>

datatype order_tok = OrderTok (ot_field: string) (ot_value: "timestamp option") (ot_direction: int)
datatype item_tok = ItemTok (it_uid: string) (it_order: "order_tok option")
datatype page_token = PageToken (pt_parent: string) (pt_filter: string) (pt_last: "item_tok option")

text \<open>The protobuf bytes of a token; an error is its message.\<close>

record token_codec =
  pt_marshal :: "page_token \<Rightarrow> string + string"
  pt_unmarshal :: "string \<Rightarrow> string + page_token"

definition decodePageToken :: "token_codec \<Rightarrow> string \<Rightarrow> page_token option res" where
  "decodePageToken tc inp =
     (if inp = [] then Inr None
      else (case decode inp of
              None \<Rightarrow> Inl (StatusErr InvalidArgument ''illegal base64 data'')
            | Some decodedData \<Rightarrow>
                (case pt_unmarshal tc decodedData of
                   Inl e \<Rightarrow> Inl (StatusErr Internal e)
                 | Inr t \<Rightarrow> Inr (Some t))))"

definition encodePageToken :: "token_codec \<Rightarrow> page_token \<Rightarrow> string res" where
  "encodePageToken tc t =
     (case pt_marshal tc t of Inl e \<Rightarrow> Inl (StatusErr Internal e) | Inr wire \<Rightarrow> Inr (encode wire))"

subsection \<open>Queries\<close>

datatype cond = EqCond string string | SqlCond string | AfterId string
  | AfterRow string bool gotime string

record query =
  q_where :: "cond list"
  q_order :: "(string \<times> string) list"
  q_limit :: "int option"

definition empty_query :: query where
  "empty_query = \<lparr>q_where = [], q_order = [], q_limit = None\<rparr>"

definition Where :: "cond \<Rightarrow> query \<Rightarrow> query" where
  "Where c q = q\<lparr>q_where := q_where q @ [c]\<rparr>"

definition Order :: "string \<Rightarrow> string \<Rightarrow> query \<Rightarrow> query" where
  "Order col dir q = q\<lparr>q_order := q_order q @ [(col, dir)]\<rparr>"

definition Limit :: "int \<Rightarrow> query \<Rightarrow> query" where
  "Limit n q = q\<lparr>q_limit := Some n\<rparr>"

text \<open>
  A table as the query sees it: its text columns, its time columns (a nullable time is an
  option, an unknown column is no column at all), and the reading of a SQL condition.
\<close>

record 'm model =
  m_text :: "string \<Rightarrow> 'm \<Rightarrow> string"
  m_time :: "string \<Rightarrow> ('m \<Rightarrow> gotime option) option"
  m_sql :: "string \<Rightarrow> 'm \<Rightarrow> bool"

definition defaultOrderByColumn :: string where "defaultOrderByColumn = ''id''"
definition defaultOrderByDirection :: string where "defaultOrderByDirection = ''ASC''"

fun cond_holds :: "'m model \<Rightarrow> cond \<Rightarrow> 'm \<Rightarrow> bool" where
  "cond_holds m (EqCond col v) r = (m_text m col r = v)"
| "cond_holds m (SqlCond sql) r = m_sql m sql r"
| "cond_holds m (AfterId uid) r = (uid < m_text m defaultOrderByColumn r)"
| "cond_holds m (AfterRow col lt t uid) r =
     (case m_time m col of
        None \<Rightarrow> False
      | Some f \<Rightarrow>
          (case f r of
             None \<Rightarrow> False
           | Some c \<Rightarrow>
               if lt then c < t \<or> c = t \<and> m_text m defaultOrderByColumn r < uid
               else t < c \<or> c = t \<and> uid < m_text m defaultOrderByColumn r))"

text \<open>A condition or an order on a column that does not exist is a syntax error.\<close>

fun cond_ok :: "'m model \<Rightarrow> cond \<Rightarrow> bool" where
  "cond_ok m (AfterRow col _ _ _) = (m_time m col \<noteq> None)"
| "cond_ok m _ = True"

definition order_ok :: "'m model \<Rightarrow> string \<times> string \<Rightarrow> bool" where
  "order_ok m cd = (fst cd = defaultOrderByColumn \<or> m_time m (fst cd) \<noteq> None)"

text \<open>NULL sorts after every value in ascending and before every value in descending order.\<close>

definition col_key :: "'m model \<Rightarrow> string \<Rightarrow> 'm \<Rightarrow> nat \<times> int \<times> string" where
  "col_key m col r =
     (if col = defaultOrderByColumn then (0, 0, m_text m col r)
      else (case m_time m col of
              None \<Rightarrow> (0, 0, [])
            | Some f \<Rightarrow> (case f r of None \<Rightarrow> (1, 0, []) | Some t \<Rightarrow> (0, t, []))))"

definition sort_col :: "'m model \<Rightarrow> string \<times> string \<Rightarrow> 'm list \<Rightarrow> 'm list" where
  "sort_col m cd rows =
     (if snd cd = ''DESC'' then rev (sort_key (col_key m (fst cd)) (rev rows))
      else sort_key (col_key m (fst cd)) rows)"

definition sort_rows :: "'m model \<Rightarrow> (string \<times> string) list \<Rightarrow> 'm list \<Rightarrow> 'm list" where
  "sort_rows m ord rows = foldr (sort_col m) ord rows"

definition Find :: "'m model \<Rightarrow> gorm_error option \<Rightarrow> query \<Rightarrow> 'm list \<Rightarrow> gorm_error + 'm list" where
  "Find m fault q rows =
     (case fault of
        Some e \<Rightarrow> Inl e
      | None \<Rightarrow>
          if list_all (cond_ok m) (q_where q) \<and> list_all (order_ok m) (q_order q)
          then (let sel = sort_rows m (q_order q) (filter (\<lambda>r. list_all (\<lambda>c. cond_holds m c r) (q_where q)) rows)
                in Inr (case q_limit q of None \<Rightarrow> sel | Some n \<Rightarrow> take (nat n) sel))
          else Inl (SqlStateErr ''42601'' ''syntax error''))"

subsection \<open>Order\<close>

record lorder =
  o_column :: string
  o_field :: string
  o_direction :: string

definition resultFieldsToColumns :: "(string \<times> string) list" where
  "resultFieldsToColumns =
     [(''create_time'', ''created_time''), (''update_time'', ''updated_time''),
      (''summary.start_time'', ''recordsummary_start_time''),
      (''summary.end_time'', ''recordsummary_end_time'')]"

definition recordFieldsToColumns :: "(string \<times> string) list" where
  "recordFieldsToColumns =
     [(''create_time'', ''created_time''), (''update_time'', ''updated_time'')]"

definition lookup_col :: "(string \<times> string) list \<Rightarrow> string \<Rightarrow> string" where
  "lookup_col m k = (case map_of m k of None \<Rightarrow> [] | Some c \<Rightarrow> c)"

definition word_char :: "char \<Rightarrow> bool" where
  "word_char c = (let n = of_char c :: nat in
     (48 \<le> n \<and> n \<le> 57) \<or> (65 \<le> n \<and> n \<le> 90) \<or> (97 \<le> n \<and> n \<le> 122) \<or> c = CHR ''_'')"

definition re_space :: "char \<Rightarrow> bool" where
  "re_space c = (c \<in> {CHR 0x09, CHR 0x0A, CHR 0x0C, CHR 0x0D, CHR 0x20})"

text \<open>
  The pattern \<^verbatim>\<open>^([\w\.]+)\s*(ASC|asc|DESC|desc)?$\<close>: the first group is greedy, and giving
  characters of it back never makes another match.
\<close>

definition orderByPattern :: "string \<Rightarrow> (string \<times> string) option" where
  "orderByPattern s =
     (let g = takeWhile (\<lambda>c. word_char c \<or> c = CHR ''.'') s;
          d = dropWhile re_space (dropWhile (\<lambda>c. word_char c \<or> c = CHR ''.'') s)
      in if g \<noteq> [] \<and> d \<in> {[], ''ASC'', ''asc'', ''DESC'', ''desc''} then Some (g, d) else None)"

definition explainOrderByFormat :: "(string \<times> string) list \<Rightarrow> string" where
  "explainOrderByFormat m =
     ''the value must obey the format <'' @ join ''|'' (sort (map fst m)) @ ''> [asc|desc]''"

definition parseOrderBy :: "string \<Rightarrow> (string \<times> string) list \<Rightarrow> (string \<times> string \<times> string) res" where
  "parseOrderBy inp m =
     (let s = TrimSpace inp in
      if s = [] then Inr ([], [], [])
      else (case orderByPattern s of
              None \<Rightarrow> Inl (StatusErr InvalidArgument (''invalid order by statement:'' @ [CHR 0x0A]
                @ explainOrderByFormat m))
            | Some (fieldName, dir) \<Rightarrow>
                (let columnName = lookup_col m fieldName in
                 if columnName = []
                 then Inl (StatusErr InvalidArgument (fieldName
                   @ '': field is unknown or cannot be used in the order by clause'' @ [CHR 0x0A]
                   @ explainOrderByFormat m))
                 else Inr (columnName, fieldName,
                   if dir = [] then defaultOrderByDirection else ToUpper (TrimSpace dir)))))"

definition newOrder :: "string \<Rightarrow> (string \<times> string) list \<Rightarrow> lorder res" where
  "newOrder orderBy m =
     (case parseOrderBy orderBy m of
        Inl e \<Rightarrow> Inl e
      | Inr (column, field, direction) \<Rightarrow>
          Inr \<lparr>o_column = column, o_field = field, o_direction = direction\<rparr>)"

text \<open>The enum \<^verbatim>\<open>Order.Direction\<close> of the token.\<close>

definition direction_value :: "string \<Rightarrow> int" where
  "direction_value d = (if d = ''DESC'' then 1 else 0)"

definition direction_name :: "int \<Rightarrow> string" where
  "direction_name i = (if i = 0 then ''ASC'' else if i = 1 then ''DESC'' else [])"

subsection \<open>Query builders\<close>

text \<open>The interface: validating the token of the request, and adding to the query.\<close>

record queryBuilder =
  validateToken :: "page_token \<Rightarrow> go_error option"
  build :: "query \<Rightarrow> query res"

definition order_validateToken :: "lorder \<Rightarrow> page_token \<Rightarrow> go_error option" where
  "order_validateToken ord token =
     (if o_field ord = [] then None
      else (case Option.bind (pt_last token) it_order of
              None \<Rightarrow> Some (PlainErr ''last_item.order_by: missing required field'')
            | Some orderBy \<Rightarrow>
                (let tokenDirection = direction_name (ot_direction orderBy) in
                 if ot_field orderBy \<noteq> o_field ord \<or> tokenDirection \<noteq> o_direction ord
                 then Some (PlainErr (''the provided order by clause differs from the value passed in the previous query''
                   @ [CHR 0x0A] @ ''expected: '' @ ot_field orderBy @ '' '' @ tokenDirection
                   @ [CHR 0x0A] @ ''got: '' @ o_field ord @ '' '' @ o_direction ord))
                 else None)))"

definition order_build :: "lorder \<Rightarrow> query \<Rightarrow> query res" where
  "order_build ord q =
     (let direction = (if o_direction ord \<noteq> [] then o_direction ord else defaultOrderByDirection);
          q1 = (if o_column ord \<noteq> [] then Order (o_column ord) direction q else q)
      in Inr (Order defaultOrderByColumn direction q1))"

record equalityClause =
  ec_column :: string
  ec_value :: string

definition filter_validateToken :: "string \<Rightarrow> page_token \<Rightarrow> go_error option" where
  "filter_validateToken expr token =
     (if TrimSpace expr \<noteq> TrimSpace (pt_filter token)
      then Some (PlainErr (''the provided filter differs from the filter used in the previous query''
        @ [CHR 0x0A] @ ''expected: '' @ pt_filter token @ [CHR 0x0A] @ ''got: '' @ expr))
      else None)"

fun add_equality :: "equalityClause list \<Rightarrow> query \<Rightarrow> query" where
  "add_equality [] q = q"
| "add_equality (c # cs) q =
     (if ec_value c = ''-'' then add_equality cs q
      else add_equality cs (Where (EqCond (ec_column c) (ec_value c)) q))"

definition filter_build ::
    "(string \<Rightarrow> string res) \<Rightarrow> string \<Rightarrow> equalityClause list \<Rightarrow> query \<Rightarrow> query res" where
  "filter_build Convert expr clauses q =
     (let q1 = add_equality clauses q; e = TrimSpace expr in
      if e \<noteq> []
      then (case Convert e of Inl err \<Rightarrow> Inl err | Inr sql \<Rightarrow> Inr (Where (SqlCond sql) q1))
      else Inr q1)"

definition offset_validateToken :: "page_token \<Rightarrow> go_error option" where
  "offset_validateToken token =
     (case pt_last token of
        None \<Rightarrow> Some (PlainErr ''last_item: missing required field'')
      | Some lastItem \<Rightarrow>
          if it_uid lastItem = [] then Some (PlainErr ''last_item.uid: missing required field'') else None)"

text \<open>\<^verbatim>\<open>AsTime\<close> of a nil timestamp is the Unix epoch.\<close>

definition AsTime_opt :: "timestamp option \<Rightarrow> gotime" where
  "AsTime_opt t = (case t of None \<Rightarrow> 0 | Some ts \<Rightarrow> ts_AsTime ts)"

definition offset_build :: "lorder \<Rightarrow> page_token option \<Rightarrow> query \<Rightarrow> query res" where
  "offset_build ord pageToken q =
     (case pageToken of
        None \<Rightarrow> Inr q
      | Some t \<Rightarrow>
          (case pt_last t of
             None \<Rightarrow> Inr q
           | Some lastItem \<Rightarrow>
               (case it_order lastItem of
                  Some orderBy \<Rightarrow>
                    Inr (Where (AfterRow (o_column ord) (ot_direction orderBy = 1)
                      (AsTime_opt (ot_value orderBy)) (it_uid lastItem)) q)
                | None \<Rightarrow> Inr (Where (AfterId (it_uid lastItem)) q))))"

definition defaultPageSize :: int where "defaultPageSize = 50"
definition minPageSize :: int where "minPageSize = 5"
definition maxPageSize :: int where "maxPageSize = 10000"

definition limit_build :: "int \<Rightarrow> query \<Rightarrow> query res" where
  "limit_build pageSize q =
     (if pageSize < minPageSize \<or> pageSize > maxPageSize
      then Inl (PlainErr (''invalid page size ('' @ show_int pageSize
        @ ''): value must be greater than 5 and less than 10000''))
      else Inr (Limit (pageSize + 1) q))"

subsection \<open>The generic lister\<close>

record ('m, 'w) Lister =
  l_builders :: "queryBuilder list"
  l_pageSize :: int
  l_pageToken :: "page_token option"
  l_convert :: "'m \<Rightarrow> 'w"
  l_genNextPageToken :: "'w \<Rightarrow> string res"

fun buildQuery :: "page_token option \<Rightarrow> queryBuilder list \<Rightarrow> query \<Rightarrow> query res" where
  "buildQuery tok [] q = Inr q"
| "buildQuery tok (b # bs) q =
     (case Option.bind tok (validateToken b) of
        Some err \<Rightarrow> Inl (StatusErr InvalidArgument (''invalid page token: '' @ error_msg err))
      | None \<Rightarrow>
          (case build b q of
             Inl err \<Rightarrow> Inl (StatusErr InvalidArgument (error_msg err))
           | Inr q' \<Rightarrow> buildQuery tok bs q'))"

definition Lister_List ::
    "'m model \<Rightarrow> gorm_error option \<Rightarrow> ('m, 'w) Lister \<Rightarrow> 'm list \<Rightarrow> ('w list \<times> string) res" where
  "Lister_List m fault l rows =
     (case buildQuery (l_pageToken l) (l_builders l) empty_query of
        Inl e \<Rightarrow> Inl e
      | Inr q \<Rightarrow>
     (case Find m fault q rows of
        Inl e \<Rightarrow> Inl (wrap e)
      | Inr models \<Rightarrow>
          (let wire = map (l_convert l) models in
           if int (length wire) > l_pageSize l
           then (let page = take (nat (l_pageSize l)) wire in
                 case l_genNextPageToken l (last page) of
                   Inl e \<Rightarrow> Inl e
                 | Inr t \<Rightarrow> Inr (page, t))
           else Inr (wire, []))))"

text \<open>What the lister needs of a wire object.\<close>

record 'w wireObject =
  w_uid :: "'w \<Rightarrow> string"
  w_timestamp :: "'w \<Rightarrow> string \<Rightarrow> timestamp option"

definition result_getTimestamp :: "pb_result \<Rightarrow> string \<Rightarrow> timestamp option" where
  "result_getTimestamp r fieldName =
     (if fieldName = ''create_time'' then pr_create r
      else if fieldName = ''update_time'' then pr_update r
      else if fieldName = ''summary.start_time'' then Option.bind (pr_summary r) s_start
      else if fieldName = ''summary.end_time'' then Option.bind (pr_summary r) s_end
      else None)"

definition record_getTimestamp :: "pb_record \<Rightarrow> string \<Rightarrow> timestamp option" where
  "record_getTimestamp r fieldName =
     (if fieldName = ''create_time'' then pd_create r
      else if fieldName = ''update_time'' then pd_update r
      else None)"

definition makePageTokenGenerator ::
    "token_codec \<Rightarrow> 'w wireObject \<Rightarrow> string \<Rightarrow> string \<Rightarrow> lorder \<Rightarrow> 'w \<Rightarrow> string res" where
  "makePageTokenGenerator tc wo parent filt ord obj =
     encodePageToken tc (PageToken parent filt (Some (ItemTok (w_uid wo obj)
       (if o_field ord \<noteq> []
        then Some (OrderTok (o_field ord) (w_timestamp wo obj (o_field ord)) (direction_value (o_direction ord)))
        else None))))"

record list_req =
  lq_parent :: string
  lq_filter :: string
  lq_order_by :: string
  lq_page_size :: int
  lq_page_token :: string

definition newLister ::
    "token_codec \<Rightarrow> (string \<Rightarrow> string res) \<Rightarrow> 'w wireObject \<Rightarrow> (string \<times> string) list \<Rightarrow> list_req \<Rightarrow>
     ('m \<Rightarrow> 'w) \<Rightarrow> equalityClause list \<Rightarrow> ('m, 'w) Lister res" where
  "newLister tc Convert wo fieldsToColumns req convert clauses =
     (case decodePageToken tc (TrimSpace (lq_page_token req)) of
        Inl e \<Rightarrow> Inl e
      | Inr pageToken \<Rightarrow>
     (let parent = TrimSpace (lq_parent req) in
      if pageToken \<noteq> None \<and> pt_parent (the pageToken) \<noteq> parent
      then Inl (StatusErr InvalidArgument (''invalid page token: provided parent ('' @ parent
        @ '') differs from the parent used in the previous query ('' @ pt_parent (the pageToken) @ '')''))
      else
     (case newOrder (TrimSpace (lq_order_by req)) fieldsToColumns of
        Inl e \<Rightarrow> Inl e
      | Inr ord \<Rightarrow>
          (let expr = TrimSpace (lq_filter req);
               pageSize = (if lq_page_size req = 0 then defaultPageSize else lq_page_size req)
           in Inr \<lparr>l_builders =
                     [\<lparr>validateToken = offset_validateToken, build = offset_build ord pageToken\<rparr>,
                      \<lparr>validateToken = filter_validateToken expr, build = filter_build Convert expr clauses\<rparr>,
                      \<lparr>validateToken = order_validateToken ord, build = order_build ord\<rparr>,
                      \<lparr>validateToken = (\<lambda>_. None), build = limit_build pageSize\<rparr>],
                   l_pageSize = pageSize,
                   l_pageToken = pageToken,
                   l_convert = convert,
                   l_genNextPageToken = makePageTokenGenerator tc wo parent expr ord\<rparr>))))"

definition result_wire :: "pb_result wireObject" where
  "result_wire = \<lparr>w_uid = pr_uid, w_timestamp = result_getTimestamp\<rparr>"

definition record_wire :: "pb_record wireObject" where
  "record_wire = \<lparr>w_uid = pd_uid, w_timestamp = record_getTimestamp\<rparr>"

definition OfResults ::
    "token_codec \<Rightarrow> (string \<Rightarrow> string res) \<Rightarrow> list_req \<Rightarrow> (db_result, pb_result) Lister res" where
  "OfResults tc Convert req =
     newLister tc Convert result_wire resultFieldsToColumns req result_ToAPI
       [\<lparr>ec_column = ''parent'', ec_value = TrimSpace (lq_parent req)\<rparr>]"

definition OfRecords ::
    "token_codec \<Rightarrow> (string \<Rightarrow> string res) \<Rightarrow> string \<Rightarrow> string \<Rightarrow> list_req \<Rightarrow> (db_record, pb_record) Lister res" where
  "OfRecords tc Convert resultParent resultName req =
     newLister tc Convert record_wire recordFieldsToColumns req record_ToAPI
       [\<lparr>ec_column = ''parent'', ec_value = resultParent\<rparr>,
        \<lparr>ec_column = ''result_name'', ec_value = resultName\<rparr>]"

text \<open>The columns of the two tables.\<close>

definition results_model :: "(string \<Rightarrow> db_result \<Rightarrow> bool) \<Rightarrow> db_result model" where
  "results_model sql =
     \<lparr>m_text = (\<lambda>col r. if col = ''id'' then r_id r else if col = ''parent'' then r_parent r
        else if col = ''name'' then r_name r else []),
      m_time = (\<lambda>col. if col = ''created_time'' then Some (\<lambda>r. Some (r_created r))
        else if col = ''updated_time'' then Some (\<lambda>r. Some (r_updated r))
        else if col = ''recordsummary_start_time'' then Some (\<lambda>r. rs_start (r_summary r))
        else if col = ''recordsummary_end_time'' then Some (\<lambda>r. rs_end (r_summary r))
        else None),
      m_sql = sql\<rparr>"

definition records_model :: "(string \<Rightarrow> db_record \<Rightarrow> bool) \<Rightarrow> db_record model" where
  "records_model sql =
     \<lparr>m_text = (\<lambda>col d. if col = ''id'' then d_id d else if col = ''parent'' then d_parent d
        else if col = ''result_name'' then d_result_name d else if col = ''name'' then d_name d else []),
      m_time = (\<lambda>col. if col = ''created_time'' then Some (\<lambda>d. Some (d_created d))
        else if col = ''updated_time'' then Some (\<lambda>d. Some (d_updated d)) else None),
      m_sql = sql\<rparr>"

subsection \<open>The handlers\<close>

text \<open>What listing depends on beside the environment: tokens, the filter conversion and the
  database's reading of a SQL condition on either table.\<close>

record list_env =
  le_tokens :: token_codec
  le_convert_results :: "string \<Rightarrow> string res"
  le_convert_records :: "string \<Rightarrow> string res"
  le_sql_results :: "string \<Rightarrow> db_result \<Rightarrow> bool"
  le_sql_records :: "string \<Rightarrow> db_record \<Rightarrow> bool"

definition ListResults :: "env \<Rightarrow> list_env \<Rightarrow> list_req \<Rightarrow> db \<Rightarrow> (pb_result list \<times> string) res" where
  "ListResults e le req s =
     (if lq_parent req = [] then Inl (StatusErr InvalidArgument ''parent missing'')
      else (case e_check e (lq_parent req) ResourceResults PermissionList of
              Some err \<Rightarrow> Inl err
            | None \<Rightarrow>
                (case OfResults (le_tokens le) (le_convert_results le) req of
                   Inl err \<Rightarrow> Inl err
                 | Inr l \<Rightarrow>
                     Lister_List (results_model (le_sql_results le)) (e_fault e OpFind) l (results_tbl s))))"

definition ListRecords :: "env \<Rightarrow> list_env \<Rightarrow> list_req \<Rightarrow> db \<Rightarrow> (pb_record list \<times> string) res" where
  "ListRecords e le req s =
     (if lq_parent req = [] then Inl (StatusErr InvalidArgument ''parent missing'')
      else (case result_ParseName (lq_parent req) of
              Inl err \<Rightarrow> Inl err
            | Inr (parent, resultName) \<Rightarrow>
                (case e_check e parent ResourceRecords PermissionList of
                   Some err \<Rightarrow> Inl err
                 | None \<Rightarrow>
                     (case OfRecords (le_tokens le) (le_convert_records le) parent resultName req of
                        Inl err \<Rightarrow> Inl err
                      | Inr l \<Rightarrow>
                          Lister_List (records_model (le_sql_records le)) (e_fault e OpFind) l
                            (records_tbl s)))))"

end
