(* ===== verification/ServerSteps.thy ===== *)
theory ServerSteps
  imports Server
begin

text \<open>
  The API server as a state machine: every state-changing call is a step, and the two statements
  of a delete are separate steps with the row read in between in flight, so calls interleave as
  they do in the server. The section after it holds the properties of the single-resource
  handlers: what a successful call stores, what a failing call leaves, conflicts, etags and
  cascading deletes.
\<close>

subsection \<open>Steps\<close>

record server_state =
  ss_db :: db
  ss_del_results :: "db_result list"
  ss_del_records :: "db_record list"

definition initial_state :: server_state where
  "initial_state = \<lparr>ss_db = empty_db, ss_del_results = [], ss_del_records = []\<rparr>"

inductive api_step :: "server_state \<Rightarrow> server_state \<Rightarrow> bool" where
  create_result_step: "time_in_range (e_now e) \<Longrightarrow> CreateResult e creq (ss_db st) = (x, s') \<Longrightarrow>
    api_step st (st\<lparr>ss_db := s'\<rparr>)"
| update_result_step: "time_in_range (e_now e) \<Longrightarrow> UpdateResult e ureq (ss_db st) = (x, s') \<Longrightarrow>
    api_step st (st\<lparr>ss_db := s'\<rparr>)"
| create_record_step: "time_in_range (e_now e) \<Longrightarrow> CreateRecord e cdreq (ss_db st) = (y, s') \<Longrightarrow>
    api_step st (st\<lparr>ss_db := s'\<rparr>)"
| update_record_step: "time_in_range (e_now e) \<Longrightarrow> UpdateRecord e udreq (ss_db st) = (y, s') \<Longrightarrow>
    api_step st (st\<lparr>ss_db := s'\<rparr>)"
| delete_result_get_step: "DeleteResult_get e nm (ss_db st) = Inr r \<Longrightarrow>
    api_step st (st\<lparr>ss_del_results := r # ss_del_results st\<rparr>)"
| delete_result_del_step: "r \<in> set (ss_del_results st) \<Longrightarrow> DeleteResult_del e r (ss_db st) = (z, s') \<Longrightarrow>
    api_step st (st\<lparr>ss_db := s', ss_del_results := remove1 r (ss_del_results st)\<rparr>)"
| delete_record_get_step: "DeleteRecord_get e nm (ss_db st) = Inr d \<Longrightarrow>
    api_step st (st\<lparr>ss_del_records := d # ss_del_records st\<rparr>)"
| delete_record_del_step: "d \<in> set (ss_del_records st) \<Longrightarrow> DeleteRecord_del e d (ss_db st) = (z, s') \<Longrightarrow>
    api_step st (st\<lparr>ss_db := s', ss_del_records := remove1 d (ss_del_records st)\<rparr>)"

inductive api_reachable :: "server_state \<Rightarrow> bool" where
  reach_init: "api_reachable initial_state"
| reach_step: "api_reachable st \<Longrightarrow> api_step st st' \<Longrightarrow> api_reachable st'"

definition state_inv :: "server_state \<Rightarrow> bool" where
  "state_inv st = (srv_inv (ss_db st) \<and> (\<forall>r\<in>set (ss_del_results st). result_row_ok r)
     \<and> (\<forall>d\<in>set (ss_del_records st). record_row_ok d))"

lemma DeleteResult_del_cases:
  "DeleteResult_del e r s = (z, s') \<Longrightarrow> s' = s \<or> s' = delete_results_where (matches_result r) s"
  by (auto simp: DeleteResult_del_def exec_def split: handler_splits)

lemma DeleteRecord_del_cases:
  "DeleteRecord_del e d s = (z, s') \<Longrightarrow> s' = s \<or> s' = delete_records_where (matches_record d) s"
  by (auto simp: DeleteRecord_del_def exec_def split: handler_splits)

lemma state_inv_srv: "state_inv st \<Longrightarrow> srv_inv (ss_db st)"
  by (simp add: state_inv_def)

lemma state_inv_db: "state_inv st \<Longrightarrow> srv_inv s \<Longrightarrow> state_inv (st\<lparr>ss_db := s\<rparr>)"
  by (simp add: state_inv_def)

lemma state_inv_step:
  assumes "state_inv st" and "api_step st st'"
  shows "state_inv st'"
  using assms(2)
proof (cases rule: api_step.cases)
  case (delete_result_get_step e nm r)
  then show ?thesis using assms(1) by (auto simp: state_inv_def srv_inv_def elim: DeleteResult_get_Inr)
next
  case (delete_result_del_step r e z s')
  then have "srv_inv s'"
    using assms(1) DeleteResult_del_cases [of e r "ss_db st" z s'] srv_inv_delete_results
    by (auto simp: state_inv_def)
  then show ?thesis using assms(1) delete_result_del_step(1) set_remove1_subset
    by (fastforce simp: state_inv_def)
next
  case (delete_record_get_step e nm d)
  then show ?thesis using assms(1) by (auto simp: state_inv_def srv_inv_def elim: DeleteRecord_get_Inr)
next
  case (delete_record_del_step d e z s')
  then have "srv_inv s'"
    using assms(1) DeleteRecord_del_cases [of e d "ss_db st" z s'] srv_inv_delete_records
    by (auto simp: state_inv_def)
  then show ?thesis using assms(1) delete_record_del_step(1) set_remove1_subset
    by (fastforce simp: state_inv_def)
next
  case (create_result_step e creq x s')
  then show ?thesis using assms(1) create_result.inv state_inv_db state_inv_srv by metis
next
  case (update_result_step e ureq x s')
  then show ?thesis using assms(1) update_result.inv state_inv_db state_inv_srv by metis
next
  case (create_record_step e cdreq y s')
  then show ?thesis using assms(1) create_record.inv state_inv_db state_inv_srv by metis
next
  case (update_record_step e udreq y s')
  then show ?thesis using assms(1) update_record.inv state_inv_db state_inv_srv by metis
qed

lemma state_inv_reachable: "api_reachable st \<Longrightarrow> state_inv st"
proof (induction rule: api_reachable.induct)
  case reach_init
  show ?case by (simp add: state_inv_def initial_state_def)
next
  case (reach_step st st')
  then show ?case by (rule_tac state_inv_step)
qed

subsection \<open>A server with open authorisation\<close>

text \<open>
  The environment of a server started without an authorisation option, with a JSON codec that
  accepts every document and a database that does not fail.
\<close>

definition open_codec :: codec where
  "open_codec = \<lparr>json_check = (\<lambda>_ _. None), unmarshal_log = (\<lambda>_. Inr zero_log),
     marshal_log = (\<lambda>_. Inr ''{}'')\<rparr>"

definition open_config :: server_config where
  "open_config = \<lparr>LOGS_API = True, LOGS_TYPE = ''File'', LOGS_PATH = ''logs'', LOGS_BUFFER_SIZE = 32768\<rparr>"

definition open_env :: "string \<Rightarrow> gotime \<Rightarrow> env" where
  "open_env i t = \<lparr>e_check = AllowAll_Check, e_uid = i, e_now = t, e_codec = open_codec,
     e_config = open_config, e_fault = (\<lambda>_. None)\<rparr>"

lemma open_env_simps [simp]:
  "e_check (open_env i t) parent resource verb = None" "e_uid (open_env i t) = i"
  "e_now (open_env i t) = t" "e_codec (open_env i t) = open_codec"
  "e_config (open_env i t) = open_config" "e_fault (open_env i t) op = None"
  by (simp_all add: open_env_def AllowAll_Check_def)

definition blank_result :: "string \<Rightarrow> pb_result" where
  "blank_result nm = \<lparr>pr_name = nm, pr_id = [], pr_uid = [], pr_created = None, pr_create = None,
     pr_updated = None, pr_update = None, pr_annotations = fmempty, pr_etag = [], pr_summary = None\<rparr>"

definition blank_record :: "string \<Rightarrow> pb_record" where
  "blank_record nm = \<lparr>pd_name = nm, pd_id = [], pd_uid = [], pd_data = None, pd_etag = [],
     pd_created = None, pd_create = None, pd_updated = None, pd_update = None\<rparr>"

text \<open>A database with one result and one record of it, made by the handlers.\<close>

definition sample_create :: create_result_req where
  "sample_create = \<lparr>cr_parent = ''ns'', cr_result = Some (blank_result ''ns/results/r'')\<rparr>"

definition sample_create_record :: create_record_req where
  "sample_create_record = \<lparr>cd_parent = ''ns/results/r'',
     cd_record = Some ((blank_record ''ns/results/r/records/d'')
       \<lparr>pd_data := Some \<lparr>any_type = ''t'', any_value = ''{}''\<rparr>\<rparr>)\<rparr>"

definition sample_db :: db where
  "sample_db = snd (CreateRecord (open_env ''u2'' 6) sample_create_record
     (snd (CreateResult (open_env ''u1'' 5) sample_create empty_db)))"

lemma srv_inv_sample [simp]: "srv_inv sample_db"
  by code_simp

lemma sample_create_ok: "is_ok (fst (CreateResult (open_env ''u1'' 5) sample_create empty_db))"
  by code_simp

lemma time_in_range_small [simp]:
  "time_in_range 5" "time_in_range 6" "time_in_range 7" "time_in_range 8"
  by (simp_all add: time_in_range_def zero_time_def)

subsection \<open>Properties of the handlers\<close>



text \<open>C3: A result that was created is what a later get of its name returns, for any caller with
  the get permission, as long as no other call intervenes.\<close>

theorem create_then_get_result:
  assumes "srv_inv s" and "CreateResult e req s = (Inr p, s')"
    and "e_check e' (cr_parent req) ResourceResults PermissionGet = None" and "e_fault e' OpFirst = None"
  shows "GetResult e' (pr_name p) s' = Inr p"
  using assms(2)
proof (rule CreateResult_Inr)
  fix q parent name store
  assume c: "cr_parent req = parent" "result_row_ok store" "r_parent store = parent"
    "r_name store = name" "create_result store s = Inr s'" "p = result_ToAPI store"
  have wf: "db_wf s'" using srv_inv_CreateResult [OF assms(1,2)] by (rule srv_invD(1))
  have seg: "seg_ok parent" "seg_ok name" using c by (auto simp: result_row_ok_def)
  have n: "result_ParseName (pr_name p) = Inr (parent, name)"
    using c seg by (simp add: result_ToAPI_def result_ParseName_FormatName)
  have "store \<in> set (results_tbl s')" using create_result_tables [OF c(5)] by simp
  then have "first_result (result_cond parent name) s' = Inr store"
    using first_result_unique [OF wf] seg seg_ok_nonempty c by blast
  then show ?thesis using assms(3,4) n c
    by (simp add: GetResult_def getResultByParentName_def exec_def)
qed

theorem create_then_get_result_witness:
  "\<exists>p s'. CreateResult (open_env ''u1'' 5) sample_create empty_db = (Inr p, s')
     \<and> GetResult (open_env ''u9'' 9) (pr_name p) s' = Inr p"
proof -
  obtain p s' where c: "CreateResult (open_env ''u1'' 5) sample_create empty_db = (Inr p, s')"
    using is_ok_iff [of "fst (CreateResult (open_env ''u1'' 5) sample_create empty_db)"]
    by (metis (mono_tags) prod.collapse sample_create_ok)
  from create_then_get_result [OF srv_inv_empty c, of "open_env ''u9'' 9"] c show ?thesis by simp
qed

text \<open>The same for records: what a create answers is what a get of the new name answers.\<close>

theorem create_then_get_record:
  assumes "srv_inv s" and "CreateRecord e req s = (Inr p, s')"
    and "record_target (pd_name p) = Some ns"
    and "e_check e' ns ResourceRecords PermissionGet = None" and "e_fault e' OpFirst = None"
  shows "GetRecord e' (pd_name p) s' = Inr p"
  using assms(2)
proof (rule CreateRecord_Inr)
  fix q parent res name r store
  assume c: "record_row_ok store" "d_parent store = parent" "d_result_name store = res"
    "d_name store = name" "create_record store s = Inr s'" "p = record_ToAPI store"
  have wf: "db_wf s'" using srv_inv_CreateRecord [OF assms(1,2)] by (rule srv_invD(1))
  have seg: "seg_ok parent" "seg_ok res" "seg_ok name" using c by (auto simp: record_row_ok_def)
  have n: "record_ParseName (pd_name p) = Inr (parent, res, name)"
    using c seg by (simp add: record_ToAPI_name record_ParseName_FormatName)
  have "store \<in> set (records_tbl s')" using create_record_tables [OF c(5)] by simp
  then have "first_record (record_cond parent res name) s' = Inr store"
    using first_record_unique [OF wf] seg seg_ok_nonempty c by blast
  then show ?thesis using assms(3-5) n c
    by (simp add: GetRecord_def getRecord_def exec_def record_target_def)
qed

theorem create_then_get_record_witness:
  "GetRecord (open_env ''u9'' 9) ''ns/results/r/records/d2'' (snd (CreateRecord (open_env ''u3'' 7)
      \<lparr>cd_parent = ''ns/results/r'', cd_record = Some (blank_record ''ns/results/r/records/d2'')\<rparr> sample_db))
   = fst (CreateRecord (open_env ''u3'' 7)
      \<lparr>cd_parent = ''ns/results/r'', cd_record = Some (blank_record ''ns/results/r/records/d2'')\<rparr> sample_db)"
proof -
  let ?c = "CreateRecord (open_env ''u3'' 7)
      \<lparr>cd_parent = ''ns/results/r'', cd_record = Some (blank_record ''ns/results/r/records/d2'')\<rparr> sample_db"
  have "is_ok (fst ?c)" by code_simp
  then obtain p where p: "fst ?c = Inr p" by (auto simp: is_ok_iff)
  have n: "(case fst ?c of Inl _ \<Rightarrow> False
      | Inr p \<Rightarrow> pd_name p = ''ns/results/r/records/d2'' \<and> record_target (pd_name p) = Some ''ns'')"
    by code_simp
  from p have "?c = (Inr p, snd ?c)" by (metis prod.collapse)
  from create_then_get_record [OF srv_inv_sample this, of "''ns''" "open_env ''u9'' 9"] n p
  show ?thesis by auto
qed



text \<open>A successful update of a result replaces exactly its annotations, summary, update time
  and etag: its name, identifier and creation time stay, every other result stays, no record
  changes, and the answer is the stored row.\<close>

theorem update_result_frame:
  assumes "srv_inv s" and "time_in_range (e_now e)" and "UpdateResult e req s = (Inr p, s')"
  shows "\<exists>prev store. prev \<in> set (results_tbl s) \<and> ur_name req = result_FormatName (r_parent prev) (r_name prev)
    \<and> r_pk store = r_pk prev \<and> r_uk store = r_uk prev \<and> r_created store = r_created prev
    \<and> r_updated store = e_now e \<and> r_etag store = etag_of (r_id prev) (e_now e)
    \<and> r_annotations store = (case ur_result req of None \<Rightarrow> fmempty | Some q \<Rightarrow> pr_annotations q)
    \<and> p = result_ToAPI store
    \<and> set (results_tbl s') = insert store (set (results_tbl s) - {prev})
    \<and> records_tbl s' = records_tbl s"
  using assms(3) srv_invD(2) [OF assms(1)] assms(2)
proof (rule UpdateResult_Inr)
  fix parent name prev store
  assume n: "result_ParseName (ur_name req) = Inr (parent, name)"
    and pv: "prev \<in> set (results_tbl s)" "r_parent prev = parent" "r_name prev = name"
    and st: "result_row_ok store" "r_parent store = parent" "r_name store = name"
      "r_id store = r_id prev" "r_created store = r_created prev" "r_updated store = e_now e"
      "r_annotations store = (case ur_result req of None \<Rightarrow> fmempty | Some q \<Rightarrow> pr_annotations q)"
      "save_result store s = Inr s'" "p = result_ToAPI store"
  have pk: "r_pk store = r_pk prev" "r_uk store = r_uk prev" using pv st by (simp_all add: r_pk_def r_uk_def)
  have "{x \<in> set (results_tbl s). r_pk x \<noteq> r_pk store} = set (results_tbl s) - {prev}"
    using results.wf_pk [OF db_wfD(1) [OF srv_invD(1) [OF assms(1)]]] pv(1) pk(1) by auto
  then show ?thesis
    using save_result_tables [OF st(8)] result_ParseName_Inr [OF n] pv st pk
    by (intro exI [of _ prev] exI [of _ store]) (simp add: result_row_ok_def)
qed

theorem update_result_frame_witness:
  "\<exists>p s' prev store. UpdateResult (open_env ''u9'' 8) \<lparr>ur_name = ''ns/results/r'', ur_result = None, ur_etag = []\<rparr>
      sample_db = (Inr p, s') \<and> prev \<in> set (results_tbl sample_db) \<and> r_updated store = 8
      \<and> r_created store = r_created prev \<and> p = result_ToAPI store"
proof -
  let ?u = "UpdateResult (open_env ''u9'' 8) \<lparr>ur_name = ''ns/results/r'', ur_result = None, ur_etag = []\<rparr> sample_db"
  have "is_ok (fst ?u)" by code_simp
  then obtain p where "fst ?u = Inr p" by (auto simp: is_ok_iff)
  then have u: "?u = (Inr p, snd ?u)" by (metis prod.collapse)
  have "time_in_range (e_now (open_env ''u9'' 8))" by simp
  from update_result_frame [OF srv_inv_sample this u] obtain prev store
    where "prev \<in> set (results_tbl sample_db)" "r_created store = r_created prev"
      "r_updated store = e_now (open_env ''u9'' 8)" "p = result_ToAPI store" by blast
  with u show ?thesis by (intro exI [of _ p] exI [of _ "snd ?u"] exI [of _ prev] exI [of _ store]) simp
qed

text \<open>C4: No lost update: after a successful update at a time different from the previous one, a
  second update that still carries the etag the first caller read is refused with
  FailedPrecondition and changes nothing.\<close>

theorem stale_etag_refused:
  assumes "srv_inv s" and "time_in_range (e_now e)" and "UpdateResult e req s = (Inr p, s')"
    and "prev \<in> set (results_tbl s)" and "ur_name req = result_FormatName (r_parent prev) (r_name prev)"
    and "ur_name req2 = ur_name req" and "ur_etag req2 = r_etag prev"
    and "e_now e \<noteq> r_updated prev" and "\<bar>e_now e\<bar> < 2 ^ 63" and "\<bar>r_updated prev\<bar> < 2 ^ 63"
    and "e_check e2 (r_parent prev) ResourceResults PermissionUpdate = None" and "e_fault e2 OpFirst = None"
  shows "UpdateResult e2 req2 s' = (Inl (StatusErr FailedPrecondition ''the etag mismatches''), s')"
  using assms(3) srv_invD(2) [OF assms(1)] assms(2)
proof (rule UpdateResult_Inr)
  fix parent name prev' store
  assume n: "result_ParseName (ur_name req) = Inr (parent, name)"
    and pv: "prev' \<in> set (results_tbl s)" "r_parent prev' = parent" "r_name prev' = name"
    and st: "result_row_ok store" "r_parent store = parent" "r_name store = name"
      "r_id store = r_id prev'" "r_updated store = e_now e" "save_result store s = Inr s'"
  have ok: "result_row_ok prev" using srv_invD(2) [OF assms(1)] assms(4) by blast
  have "r_parent prev = parent \<and> r_name prev = name"
    using n assms(5) ok by (simp add: result_ParseName_FormatName result_row_ok_def)
  then have "prev' = prev" using results.wf_uk [OF db_wfD(1) [OF srv_invD(1) [OF assms(1)]] pv(1) assms(4)] pv
    by (simp add: r_uk_def)
  have seg: "seg_ok parent" "seg_ok name" using result_ParseName_Inr [OF n] by auto
  have "db_wf s'" using srv_inv_UpdateResult [OF assms(1,2,3)] by (rule srv_invD(1))
  then have f: "first_result (result_cond parent name) s' = Inr store"
    using first_result_unique st save_result_tables [OF st(6)] seg seg_ok_nonempty by blast
  have et: "r_etag store = etag_of (r_id prev) (e_now e)" "r_etag prev = etag_of (r_id prev) (r_updated prev)"
    using st \<open>prev' = prev\<close> ok by (auto simp: result_row_ok_def)
  moreover have "- (2 ^ 63) \<le> e_now e" "e_now e < 2 ^ 63" "- (2 ^ 63) \<le> r_updated prev" "r_updated prev < 2 ^ 63"
    using assms(9,10) by linarith+
  ultimately have "r_etag prev \<noteq> r_etag store"
    using assms(8) etag_of_inject [of "e_now e" "r_updated prev" "r_id prev"] by metis
  moreover have "r_etag prev \<noteq> []" using et(2) by (simp add: etag_of_def)
  ultimately show ?thesis
    using assms(6,7,11,12) n f \<open>r_parent prev = parent \<and> r_name prev = name\<close>
    by (simp add: UpdateResult_def getResultByParentName_def)
qed

theorem stale_etag_refused_witness:
  "\<exists>s'. UpdateResult (open_env ''u9'' 9) \<lparr>ur_name = ''ns/results/r'', ur_result = None, ur_etag = ''u1-5''\<rparr> s'
      = (Inl (StatusErr FailedPrecondition ''the etag mismatches''), s')"
proof -
  let ?q = "\<lparr>ur_name = ''ns/results/r'', ur_result = None, ur_etag = ''u1-5''\<rparr>"
  let ?u = "UpdateResult (open_env ''u9'' 8) ?q sample_db"
  let ?prev = "hd (results_tbl sample_db)"
  have "is_ok (fst ?u)" by code_simp
  then obtain p where "fst ?u = Inr p" by (auto simp: is_ok_iff)
  then have u: "?u = (Inr p, snd ?u)" by (metis prod.collapse)
  have h: "?prev \<in> set (results_tbl sample_db)" by code_simp
  have f: "ur_name ?q = result_FormatName (r_parent ?prev) (r_name ?prev)" by code_simp
  have et: "ur_etag ?q = r_etag ?prev" by code_simp
  have t: "r_updated ?prev = 5" by code_simp
  from stale_etag_refused [OF srv_inv_sample _ u h f refl et, of "open_env ''u9'' 9"] t
  show ?thesis by auto
qed

text \<open>A successful update of a record keeps its key, its result and its creation time, merges
  the type of the request into the stored one (an empty type keeps it), renews update time and
  etag, and touches no other record and no result; the etag of the answer is the stored etag.\<close>

theorem update_record_frame:
  assumes "srv_inv s" and "UpdateRecord e req s = (Inr p, s')"
  shows "\<exists>q prev store. ud_record req = Some q \<and> prev \<in> set (records_tbl s)
    \<and> pd_name q = pd_name (record_ToAPI prev)
    \<and> d_pk store = d_pk prev \<and> d_uk store = d_uk prev \<and> d_created store = d_created prev
    \<and> d_updated store = e_now e \<and> d_etag store = etag_of (d_id prev) (e_now e) \<and> pd_etag p = d_etag store
    \<and> d_type store = merge_scalar (GetType (pd_data (record_ToAPI prev))) (GetType (pd_data q))
    \<and> (ud_etag req = [] \<or> ud_etag req = d_etag prev)
    \<and> set (records_tbl s') = insert store (set (records_tbl s) - {prev})
    \<and> results_tbl s' = results_tbl s"
  using assms(2) srv_invD(3) [OF assms(1)]
proof (rule UpdateRecord_Inr)
  fix q parent res name prev store
  assume q: "ud_record req = Some q" and n: "record_ParseName (pd_name q) = Inr (parent, res, name)"
    and pv: "prev \<in> set (records_tbl s)" "d_parent prev = parent" "d_result_name prev = res"
      "d_name prev = name" and et: "ud_etag req = [] \<or> ud_etag req = d_etag prev"
    and st: "record_row_ok store" "d_pk store = d_pk prev" "d_uk store = d_uk prev"
      "d_created store = d_created prev" "d_updated store = e_now e"
      "d_type store = merge_scalar (GetType (pd_data (record_ToAPI prev))) (GetType (pd_data q))"
      "save_record store s = Inr s'" "p = (merged_record e prev q)\<lparr>pd_etag := d_etag store\<rparr>"
  have "{x \<in> set (records_tbl s). d_pk x \<noteq> d_pk store} = set (records_tbl s) - {prev}"
    using records.wf_pk [OF db_wfD(2) [OF srv_invD(1) [OF assms(1)]]] pv(1) st(2) by auto
  moreover have "d_id store = d_id prev" using st(2) by (simp add: d_pk_def)
  moreover have "pd_name q = pd_name (record_ToAPI prev)"
    using record_ParseName_Inr [OF n] pv by (simp add: record_ToAPI_name)
  ultimately show ?thesis
    using save_record_tables [OF st(7)] q pv(1) et st
    by (intro exI [of _ q] exI [of _ prev] exI [of _ store]) (simp add: record_row_ok_def)
qed

theorem update_record_frame_witness:
  "\<exists>p s' prev store. UpdateRecord (open_env ''u9'' 8)
      \<lparr>ud_record = Some (blank_record ''ns/results/r/records/d''), ud_etag = []\<rparr> sample_db = (Inr p, s')
     \<and> prev \<in> set (records_tbl sample_db) \<and> d_pk store = d_pk prev \<and> pd_etag p = d_etag store"
proof -
  let ?u = "UpdateRecord (open_env ''u9'' 8)
      \<lparr>ud_record = Some (blank_record ''ns/results/r/records/d''), ud_etag = []\<rparr> sample_db"
  have "is_ok (fst ?u)" by code_simp
  then obtain p where "fst ?u = Inr p" by (auto simp: is_ok_iff)
  then have u: "?u = (Inr p, snd ?u)" by (metis prod.collapse)
  from update_record_frame [OF srv_inv_sample u] obtain prev store
    where "prev \<in> set (records_tbl sample_db)" "d_pk store = d_pk prev" "pd_etag p = d_etag store" by blast
  with u show ?thesis by (intro exI [of _ p] exI [of _ "snd ?u"] exI [of _ prev] exI [of _ store]) simp
qed

subsection \<open>Deletes\<close>

lemma matches_result_pk:
  "result_row_ok r \<Longrightarrow> matches_result r x \<Longrightarrow> r_pk x = r_pk r \<and> r_etag x = r_etag r"
  by (auto simp: matches_result_def eq_cond_def result_row_ok_def r_pk_def seg_ok_def etag_of_def)

lemma matches_record_pk:
  "record_row_ok d \<Longrightarrow> d_result_id d \<noteq> [] \<Longrightarrow> matches_record d x \<Longrightarrow> d_pk x = d_pk d \<and> d_etag x = d_etag d"
  by (auto simp: matches_record_def eq_cond_def record_row_ok_def d_pk_def seg_ok_def etag_of_def)

lemma child_of_iff:
  assumes "srv_inv s" and "r \<in> set (results_tbl s)" and "d \<in> set (records_tbl s)"
  shows "r_parent r = d_parent d \<and> r_id r = d_result_id d \<longleftrightarrow>
    d_parent d = r_parent r \<and> d_result_name d = r_name r"
proof -
  obtain q where q: "q \<in> set (results_tbl s)" "r_parent q = d_parent d" "r_id q = d_result_id d"
    "r_name q = d_result_name d"
    using db_wfD(3) [OF srv_invD(1) [OF assms(1)] assms(3)] by blast
  note wf = db_wfD(1) [OF srv_invD(1) [OF assms(1)]]
  show ?thesis
    using q results.wf_pk [OF wf q(1) assms(2)] results.wf_uk [OF wf q(1) assms(2)]
    by (auto simp: r_pk_def r_uk_def)
qed

lemma matches_self_only:
  assumes "srv_inv s" and "r \<in> set (results_tbl s)" and "x \<in> set (results_tbl s)"
  shows "matches_result r x \<longleftrightarrow> x = r"
  using matches_result_pk [of r x] results.wf_pk [OF db_wfD(1) [OF srv_invD(1) [OF assms(1)]] assms(3,2)]
    srv_invD(2) [OF assms(1)] assms(2) by auto

text \<open>C5: Deleting a result removes exactly that result and exactly its records.\<close>

theorem delete_result_exact:
  assumes "srv_inv s" and "DeleteResult e nm s = (Inr (), s')"
  shows "\<exists>r\<in>set (results_tbl s). nm = result_FormatName (r_parent r) (r_name r)
    \<and> results_tbl s' = filter (\<lambda>x. x \<noteq> r) (results_tbl s)
    \<and> records_tbl s' = filter (\<lambda>d. \<not> (d_parent d = r_parent r \<and> d_result_name d = r_name r)) (records_tbl s)"
proof -
  obtain r where g: "DeleteResult_get e nm s = Inr r"
    using assms(2) by (auto simp: DeleteResult_def split: sum.splits)
  then have s': "s' = delete_results_where (matches_result r) s"
    using assms(2) by (auto simp: DeleteResult_def DeleteResult_del_def exec_def split: handler_splits)
  from g show ?thesis
  proof (rule DeleteResult_get_Inr)
    fix parent name
    assume n: "result_ParseName nm = Inr (parent, name)" and r: "r \<in> set (results_tbl s)"
      "r_parent r = parent" "r_name r = name"
    have "filter (matches_result r) (results_tbl s) = filter (\<lambda>x. x = r) (results_tbl s)"
      using matches_self_only [OF assms(1) r(1)] by (rule filter_cong [OF refl])
    then have gone: "set (filter (matches_result r) (results_tbl s)) = {r}" using r(1) by auto
    have "results_tbl s' = filter (\<lambda>x. x \<noteq> r) (results_tbl s)"
      using matches_self_only [OF assms(1) r(1)]
      by (auto simp: s' delete_results_where_def tbl_delete_def intro!: filter_cong)
    moreover have "records_tbl s' =
        filter (\<lambda>d. \<not> (d_parent d = r_parent r \<and> d_result_name d = r_name r)) (records_tbl s)"
      using child_of_iff [OF assms(1) r(1)]
      by (simp add: s' delete_results_where_def cascade_def gone del: set_filter)
        (rule filter_cong [OF refl], blast)
    ultimately show ?thesis using r result_ParseName_Inr [OF n] by blast
  qed
qed

theorem delete_result_exact_witness:
  "DeleteResult (open_env ''u9'' 9) ''ns/results/r'' sample_db = (Inr (), empty_db)
   \<and> (\<exists>r\<in>set (results_tbl sample_db). results_tbl empty_db = filter (\<lambda>x. x \<noteq> r) (results_tbl sample_db))"
proof -
  have d: "DeleteResult (open_env ''u9'' 9) ''ns/results/r'' sample_db = (Inr (), empty_db)"
    by code_simp
  with delete_result_exact [OF srv_inv_sample d] show ?thesis by blast
qed

text \<open>The delete statement of a call in flight removes no result but the one the call read, and
  only in the version it read; it removes no record of another result.\<close>

theorem in_flight_delete_safe:
  assumes "result_row_ok r" and "DeleteResult_del e r s = (z, s')"
  shows "(\<forall>x\<in>set (results_tbl s) - set (results_tbl s'). r_pk x = r_pk r \<and> r_etag x = r_etag r)
    \<and> (\<forall>d\<in>set (records_tbl s) - set (records_tbl s'). d_parent d = r_parent r \<and> d_result_id d = r_id r)
    \<and> set (results_tbl s') \<subseteq> set (results_tbl s) \<and> set (records_tbl s') \<subseteq> set (records_tbl s)"
  using DeleteResult_del_cases [OF assms(2)]
proof
  assume s': "s' = delete_results_where (matches_result r) s"
  have "\<forall>x\<in>set (results_tbl s) - set (results_tbl s'). matches_result r x"
    and "\<forall>d\<in>set (records_tbl s) - set (records_tbl s').
      \<exists>x. matches_result r x \<and> r_parent x = d_parent d \<and> r_id x = d_result_id d"
    and "set (results_tbl s') \<subseteq> set (results_tbl s) \<and> set (records_tbl s') \<subseteq> set (records_tbl s)"
    by (auto simp: s' delete_results_where_def tbl_delete_def cascade_def)
  moreover have "r_pk x = r_pk r \<and> r_etag x = r_etag r \<and> r_parent x = r_parent r \<and> r_id x = r_id r"
    if "matches_result r x" for x
    using matches_result_pk [OF assms(1) that] by (simp add: r_pk_def)
  ultimately show ?thesis by metis
qed simp

theorem in_flight_delete_safe_witness:
  "set (results_tbl sample_db) \<subseteq> set (results_tbl (snd (DeleteResult_del (open_env ''u9'' 9)
      ((hd (results_tbl sample_db))\<lparr>r_id := ''other'', r_etag := ''other-5''\<rparr>) sample_db)))"
proof -
  let ?r = "(hd (results_tbl sample_db))\<lparr>r_id := ''other'', r_etag := ''other-5''\<rparr>"
  have "result_row_ok ?r" by code_simp
  from in_flight_delete_safe [OF this, of "open_env ''u9'' 9" sample_db, OF prod.collapse [symmetric]]
  have "\<forall>x\<in>set (results_tbl sample_db) - set (results_tbl (snd (DeleteResult_del (open_env ''u9'' 9) ?r sample_db))).
      r_pk x = r_pk ?r" by blast
  moreover have "\<forall>x\<in>set (results_tbl sample_db). r_pk x \<noteq> r_pk ?r" by code_simp
  ultimately show ?thesis by blast
qed

text \<open>A delete whose row is updated between its two statements answers success and deletes
  nothing, although the comment at the statements says the identifiers it needs are immutable: the
  delete compares every non-zero column it read, the etag and the update time among them.\<close>

theorem racing_delete_is_lost:
  assumes "srv_inv s" and "DeleteResult_get e nm s = Inr r"
    and "UpdateResult e2 req s = (Inr p, s1)" and "ur_name req = nm"
    and "time_in_range (e_now e2)" and "e_now e2 \<noteq> r_updated r" and "e_fault e OpDelete = None"
  shows "DeleteResult_del e r s1 = (Inr (), s1) \<and> (\<exists>x\<in>set (results_tbl s1). r_pk x = r_pk r)"
  using assms(2)
proof (rule DeleteResult_get_Inr)
  fix parent name
  assume n: "result_ParseName nm = Inr (parent, name)"
    and r: "r \<in> set (results_tbl s)" "r_parent r = parent" "r_name r = name"
  have ok: "result_row_ok r" using srv_invD(2) [OF assms(1)] r(1) by blast
  show ?thesis
    using assms(3) srv_invD(2) [OF assms(1)] assms(5)
  proof (rule UpdateResult_Inr)
    fix parent' name' prev store
    assume n': "result_ParseName (ur_name req) = Inr (parent', name')"
      and pv: "prev \<in> set (results_tbl s)" "r_parent prev = parent'" "r_name prev = name'"
      and st: "r_parent store = parent'" "r_id store = r_id prev" "r_updated store = e_now e2"
        "save_result store s = Inr s1"
    have "prev = r" using results.wf_uk [OF db_wfD(1) [OF srv_invD(1) [OF assms(1)]] pv(1) r(1)]
        pv r n n' assms(4) by (simp add: r_uk_def)
    then have pk: "r_pk store = r_pk r" using st pv by (simp add: r_pk_def)
    have tbl: "set (results_tbl s1) = insert store {x \<in> set (results_tbl s). r_pk x \<noteq> r_pk store}"
      using save_result_tables [OF st(4)] by blast
    have "\<not> matches_result r x" if "x \<in> set (results_tbl s1)" for x
    proof
      assume m: "matches_result r x"
      then have "x = store" using that tbl pk matches_result_pk [OF ok m] by auto
      then show False using m st(3) assms(6) ok by (auto simp: matches_result_def eq_cond_def result_row_ok_def)
    qed
    then have "delete_results_where (matches_result r) s1 = s1"
      by (simp add: delete_results_where_def tbl_delete_def cascade_def)
    then show ?thesis using assms(7) tbl pk by (auto simp: DeleteResult_del_def)
  qed
qed

theorem racing_delete_is_lost_witness:
  "\<exists>r s1. DeleteResult_get (open_env ''u9'' 9) ''ns/results/r'' sample_db = Inr r
     \<and> DeleteResult_del (open_env ''u9'' 9) r s1 = (Inr (), s1) \<and> results_tbl s1 \<noteq> []"
proof -
  let ?q = "\<lparr>ur_name = ''ns/results/r'', ur_result = None, ur_etag = []\<rparr>"
  let ?u = "UpdateResult (open_env ''u9'' 8) ?q sample_db"
  let ?g = "DeleteResult_get (open_env ''u9'' 9) ''ns/results/r'' sample_db"
  have "is_ok (fst ?u)" by code_simp
  then obtain p where "fst ?u = Inr p" by (auto simp: is_ok_iff)
  then have u: "?u = (Inr p, snd ?u)" by (metis prod.collapse)
  have "case ?g of Inl _ \<Rightarrow> False | Inr r \<Rightarrow> r_updated r = 5" by code_simp
  then obtain r where g: "?g = Inr r" "r_updated r = 5" by (auto split: sum.splits)
  have "DeleteResult_del (open_env ''u9'' 9) r (snd ?u) = (Inr (), snd ?u)
      \<and> (\<exists>x\<in>set (results_tbl (snd ?u)). r_pk x = r_pk r)"
    using racing_delete_is_lost [OF srv_inv_sample g(1) u] g(2) by simp
  then show ?thesis using g(1) by (metis empty_iff empty_set)
qed

subsection \<open>Identity and authorisation\<close>

text \<open>Where the rows of the result table come from: creating adds one under a new key, updating
  rewrites one and keeps its key, its name and its creation time.\<close>

lemma CreateResult_rows:
  assumes "CreateResult e q s = (x, s')" and "r' \<in> set (results_tbl s')"
  shows "r' \<in> set (results_tbl s) \<or> (\<forall>r\<in>set (results_tbl s). r_pk r \<noteq> r_pk r')"
proof (cases x)
  case (Inl err)
  then show ?thesis using create_result.fail_keeps assms by metis
next
  case (Inr p)
  then obtain store where c: "create_result store s = Inr s'"
    using assms(1) by (auto elim: CreateResult_Inr)
  then have "\<forall>r\<in>set (results_tbl s). r_pk r \<noteq> r_pk store"
    by (auto simp: create_result_def tbl_create_def split: sum.splits if_splits)
  then show ?thesis using create_result_tables [OF c] assms(2) by auto
qed

lemma UpdateResult_rows:
  assumes "UpdateResult e q s = (x, s')" and "srv_inv s" and "time_in_range (e_now e)" and "r' \<in> set (results_tbl s')"
  shows "\<exists>r\<in>set (results_tbl s). r_pk r = r_pk r' \<and> r_name r = r_name r' \<and> r_created r = r_created r'"
proof (cases x)
  case (Inl err)
  then show ?thesis using update_result.fail_keeps assms by metis
next
  case (Inr p)
  then have u: "UpdateResult e q s = (Inr p, s')" using assms(1) by simp
  obtain prev store where "prev \<in> set (results_tbl s)" "r_parent store = r_parent prev"
    "r_id store = r_id prev" "r_name store = r_name prev" "r_created store = r_created prev"
    "save_result store s = Inr s'"
    by (rule UpdateResult_Inr [OF u srv_invD(2) [OF assms(2)] assms(3)]) metis
  then show ?thesis using save_result_tables [of store s s'] assms(4) by (auto simp: r_pk_def)
qed

text \<open>C9: The identity of a result is immutable: whatever step the API takes, a result that exists
  before and after it, with the same namespace and identifier, keeps its name and creation time.\<close>

theorem result_identity_stable:
  assumes "api_reachable st" and "api_step st st'"
    and "r \<in> set (results_tbl (ss_db st))" and "r' \<in> set (results_tbl (ss_db st'))" and "r_pk r' = r_pk r"
  shows "r_name r' = r_name r \<and> r_created r' = r_created r"
proof -
  let ?s = "ss_db st"
  have inv: "srv_inv ?s" by (rule state_inv_srv [OF state_inv_reachable [OF assms(1)]])
  have same: "x = r" if "x \<in> set (results_tbl ?s)" "r_pk x = r_pk r" for x
    using results.wf_pk [OF db_wfD(1) [OF srv_invD(1) [OF inv]] that(1) assms(3)] that(2) by simp
  from assms(2) show ?thesis
  proof (cases rule: api_step.cases)
    case (create_result_step e creq x s')
    then show ?thesis using CreateResult_rows [of e creq ?s x s' r'] assms(3-5) same by auto
  next
    case (update_result_step e ureq x s')
    then show ?thesis using UpdateResult_rows [OF _ inv, of e ureq x s' r'] assms(4,5)
      by (auto dest: same)
  next
    case (create_record_step e cdreq y s')
    then have "results_tbl s' = results_tbl ?s"
      using create_record.fail_keeps create_record_tables by (cases y) (blast, metis CreateRecord_Inr)
    then show ?thesis using create_record_step assms(4,5) same by auto
  next
    case (update_record_step e udreq y s')
    then have "results_tbl s' = results_tbl ?s"
      using update_record.fail_keeps save_record_tables srv_invD(3) [OF inv]
      by (cases y) (blast, metis UpdateRecord_Inr)
    then show ?thesis using update_record_step assms(4,5) same by auto
  next
    case (delete_result_del_step q e z s')
    then have "r' \<in> set (results_tbl ?s)" using assms(4) DeleteResult_del_cases
      by (fastforce simp: delete_results_where_def tbl_delete_def)
    then show ?thesis using same assms(5) by blast
  next
    case (delete_record_del_step d e z s')
    then have "r' \<in> set (results_tbl ?s)" using assms(4) DeleteRecord_del_cases
      by (fastforce simp: delete_records_where_def)
    then show ?thesis using same assms(5) by blast
  qed (use assms(4,5) same in auto)
qed

theorem result_identity_stable_witness:
  "\<exists>st st' r r'. api_step st st' \<and> r \<in> set (results_tbl (ss_db st)) \<and> r' \<in> set (results_tbl (ss_db st'))
     \<and> r \<noteq> r' \<and> r_name r' = r_name r \<and> r_created r' = r_created r"
proof -
  let ?q = "\<lparr>ur_name = ''ns/results/r'', ur_result = None, ur_etag = []\<rparr>"
  let ?s1 = "snd (CreateResult (open_env ''u1'' 5) sample_create empty_db)"
  let ?s2 = "snd (UpdateResult (open_env ''u9'' 8) ?q ?s1)"
  let ?st1 = "initial_state\<lparr>ss_db := ?s1\<rparr>" and ?st2 = "initial_state\<lparr>ss_db := ?s2\<rparr>"
  have c: "CreateResult (open_env ''u1'' 5) sample_create (ss_db initial_state)
      = (fst (CreateResult (open_env ''u1'' 5) sample_create empty_db), ?s1)"
    by (simp add: initial_state_def)
  have "api_step initial_state ?st1" by (rule create_result_step [OF _ c]) simp
  then have reach: "api_reachable ?st1" by (rule reach_step [OF reach_init])
  have u: "UpdateResult (open_env ''u9'' 8) ?q (ss_db ?st1) = (fst (UpdateResult (open_env ''u9'' 8) ?q ?s1), ?s2)"
    by simp
  have step: "api_step ?st1 ?st2" using update_result_step [OF _ u] by simp
  have "hd (results_tbl ?s1) \<in> set (results_tbl ?s1)" "hd (results_tbl ?s2) \<in> set (results_tbl ?s2)"
    "r_pk (hd (results_tbl ?s2)) = r_pk (hd (results_tbl ?s1))" "hd (results_tbl ?s1) \<noteq> hd (results_tbl ?s2)"
    by code_simp+
  then show ?thesis
    using result_identity_stable [OF reach step, of "hd (results_tbl ?s1)" "hd (results_tbl ?s2)"] step
    by (intro exI [of _ ?st1] exI [of _ ?st2] exI) auto
qed

text \<open>C6: The database changes only for an authorised call: each of the six state-changing calls
  that leaves a different database named a namespace on which the checker granted exactly that
  call's resource and verb.\<close>

theorem changes_need_permission:
  "(snd (CreateResult e q1 s) \<noteq> s \<longrightarrow> (\<exists>ns. result_target (result_GetName (cr_result q1)) = Some ns
      \<and> e_check e ns ResourceResults PermissionCreate = None))
   \<and> (snd (UpdateResult e q2 s) \<noteq> s \<longrightarrow> (\<exists>ns. result_target (ur_name q2) = Some ns
      \<and> e_check e ns ResourceResults PermissionUpdate = None))
   \<and> (snd (DeleteResult e q3 s) \<noteq> s \<longrightarrow> (\<exists>ns. result_target q3 = Some ns
      \<and> e_check e ns ResourceResults PermissionDelete = None))
   \<and> (snd (CreateRecord e q4 s) \<noteq> s \<longrightarrow> (\<exists>ns. record_target (record_GetName (cd_record q4)) = Some ns
      \<and> e_check e ns ResourceRecords PermissionCreate = None))
   \<and> (snd (UpdateRecord e q5 s) \<noteq> s \<longrightarrow> (\<exists>ns. record_target (record_GetName (ud_record q5)) = Some ns
      \<and> e_check e ns ResourceRecords PermissionUpdate = None))
   \<and> (snd (DeleteRecord e q6 s) \<noteq> s \<longrightarrow> (\<exists>ns. record_target q6 = Some ns
      \<and> e_check e ns ResourceRecords PermissionDelete = None))"
  using create_result.changed_authorised update_result.changed_authorised
    delete_result.changed_authorised create_record.changed_authorised
    update_record.changed_authorised delete_record.changed_authorised
  by (intro conjI impI) blast+

theorem changes_need_permission_witness:
  "\<exists>ns. result_target ''ns/results/r'' = Some ns
     \<and> e_check (open_env ''u9'' 9) ns ResourceResults PermissionDelete = None"
proof -
  have "snd (DeleteResult (open_env ''u9'' 9) ''ns/results/r'' sample_db) \<noteq> sample_db" by code_simp
  then show ?thesis using changes_need_permission [of "open_env ''u9'' 9"] by blast
qed

end
