(* ===== verification/ListerProps.thy ===== *)
theory ListerProps
  imports Lister ServerSteps "HOL-Library.Multiset"
begin

text \<open>
  Correctness of listing: the builders only add to a query, a listing stays in its namespace and
  within the page bounds, an order clause names only known columns, and following the page tokens
  returns every matching row exactly once, in order.
\<close>

subsection \<open>The contract of a query builder\<close>

locale query_builder =
  fixes bld :: "query \<Rightarrow> query res"
  assumes grows: "bld q = Inr q' \<Longrightarrow> prefix (q_where q) (q_where q') \<and> prefix (q_order q) (q_order q')"
begin

lemma keeps_cond: "bld q = Inr q' \<Longrightarrow> c \<in> set (q_where q) \<Longrightarrow> c \<in> set (q_where q')"
  using grows set_mono_prefix by blast

end

lemma Where_prefix [simp]:
  "prefix (q_where q) (q_where (Where c q))" "q_order (Where c q) = q_order q" "q_limit (Where c q) = q_limit q"
  "q_where (Where c q) = q_where q @ [c]"
  by (simp_all add: Where_def)

lemma Order_simps [simp]:
  "q_where (Order col dir q) = q_where q" "q_order (Order col dir q) = q_order q @ [(col, dir)]"
  "q_limit (Order col dir q) = q_limit q"
  by (simp_all add: Order_def)

lemma Limit_simps [simp]:
  "q_where (Limit n q) = q_where q" "q_order (Limit n q) = q_order q" "q_limit (Limit n q) = Some n"
  by (simp_all add: Limit_def)

definition equality_conds :: "equalityClause list \<Rightarrow> cond list" where
  "equality_conds cs = map (\<lambda>c. EqCond (ec_column c) (ec_value c)) (filter (\<lambda>c. ec_value c \<noteq> ''-'') cs)"

lemma add_equality_simps [simp]:
  "q_where (add_equality cs q) = q_where q @ equality_conds cs"
  "q_order (add_equality cs q) = q_order q" "q_limit (add_equality cs q) = q_limit q"
  by (induction cs q rule: add_equality.induct) (simp_all add: equality_conds_def)

interpretation offset: query_builder "offset_build ord tok" for ord tok
  by unfold_locales (auto simp: offset_build_def split: option.splits)

interpretation filter: query_builder "filter_build Convert expr clauses" for Convert expr clauses
  by unfold_locales (auto simp: filter_build_def Let_def split: if_splits sum.splits)

interpretation order: query_builder "order_build ord" for ord
  by unfold_locales (auto simp: order_build_def Let_def)

interpretation limit: query_builder "limit_build n" for n
  by unfold_locales (auto simp: limit_build_def split: if_splits)

subsection \<open>The query of a lister\<close>

definition offset_conds :: "lorder \<Rightarrow> page_token option \<Rightarrow> cond list" where
  "offset_conds ord tok =
     (case Option.bind tok pt_last of
        None \<Rightarrow> []
      | Some it \<Rightarrow>
          (case it_order it of
             Some ot \<Rightarrow> [AfterRow (o_column ord) (ot_direction ot = 1) (AsTime_opt (ot_value ot)) (it_uid it)]
           | None \<Rightarrow> [AfterId (it_uid it)]))"

definition order_clauses :: "lorder \<Rightarrow> (string \<times> string) list" where
  "order_clauses ord =
     (let dir = (if o_direction ord \<noteq> [] then o_direction ord else defaultOrderByDirection) in
      (if o_column ord \<noteq> [] then [(o_column ord, dir)] else []) @ [(defaultOrderByColumn, dir)])"

definition sql_conds :: "(string \<Rightarrow> string res) \<Rightarrow> string \<Rightarrow> cond list" where
  "sql_conds Convert expr = (if TrimSpace expr = [] then []
     else (case Convert (TrimSpace expr) of Inl _ \<Rightarrow> [] | Inr sql \<Rightarrow> [SqlCond sql]))"

definition tokens_match :: "lorder \<Rightarrow> string \<Rightarrow> page_token \<Rightarrow> bool" where
  "tokens_match ord expr t =
     (offset_validateToken t = None \<and> filter_validateToken expr t = None \<and> order_validateToken ord t = None)"

definition lister_builders ::
    "(string \<Rightarrow> string res) \<Rightarrow> lorder \<Rightarrow> page_token option \<Rightarrow> string \<Rightarrow> equalityClause list \<Rightarrow> int \<Rightarrow> queryBuilder list" where
  "lister_builders Convert ord tok expr clauses pageSize =
     [\<lparr>validateToken = offset_validateToken, build = offset_build ord tok\<rparr>,
      \<lparr>validateToken = filter_validateToken expr, build = filter_build Convert expr clauses\<rparr>,
      \<lparr>validateToken = order_validateToken ord, build = order_build ord\<rparr>,
      \<lparr>validateToken = (\<lambda>_. None), build = limit_build pageSize\<rparr>]"

lemma offset_build_eq: "offset_build ord tok q = Inr (q\<lparr>q_where := q_where q @ offset_conds ord tok\<rparr>)"
  by (simp add: offset_build_def offset_conds_def Where_def split: option.split)

lemma order_build_eq: "order_build ord q = Inr (q\<lparr>q_order := q_order q @ order_clauses ord\<rparr>)"
  by (simp add: order_build_def order_clauses_def Order_def Let_def)

lemma filter_build_Inr:
  "filter_build Convert expr clauses q = Inr q' \<longleftrightarrow>
     (TrimSpace expr = [] \<or> is_ok (Convert (TrimSpace expr)))
     \<and> q' = q\<lparr>q_where := q_where q @ equality_conds clauses @ sql_conds Convert expr\<rparr>"
proof -
  have "add_equality clauses q = q\<lparr>q_where := q_where q @ equality_conds clauses\<rparr>"
    by (rule query.equality) simp_all
  then show ?thesis
    by (auto simp: filter_build_def sql_conds_def Let_def Where_def split: sum.splits)
qed

lemma limit_build_Inr:
  "limit_build n q = Inr q' \<longleftrightarrow> 5 \<le> n \<and> n \<le> 10000 \<and> q' = q\<lparr>q_limit := Some (n + 1)\<rparr>"
  by (auto simp: limit_build_def Limit_def minPageSize_def maxPageSize_def)

lemma buildQuery_Cons:
  "buildQuery tok (b # bs) q = Inr r \<longleftrightarrow>
     (\<forall>t. tok = Some t \<longrightarrow> validateToken b t = None) \<and> (\<exists>q'. build b q = Inr q' \<and> buildQuery tok bs q' = Inr r)"
  by (cases tok) (auto split: option.splits sum.splits)

lemma buildQuery_lister:
  "buildQuery tok (lister_builders Convert ord tok expr clauses n) empty_query = Inr q \<longleftrightarrow>
     (\<forall>t. tok = Some t \<longrightarrow> tokens_match ord expr t)
     \<and> (TrimSpace expr = [] \<or> is_ok (Convert (TrimSpace expr))) \<and> 5 \<le> n \<and> n \<le> 10000
     \<and> q = \<lparr>q_where = offset_conds ord tok @ equality_conds clauses @ sql_conds Convert expr,
            q_order = order_clauses ord, q_limit = Some (n + 1)\<rparr>"
  by (auto simp: lister_builders_def buildQuery_Cons offset_build_eq order_build_eq empty_query_def
      filter_build_Inr limit_build_Inr tokens_match_def simp del: buildQuery.simps(2))

subsection \<open>Sorting and pages\<close>

lemma filter_sort_col: "filter P (sort_col m cd rows) = sort_col m cd (filter P rows)"
  by (simp add: sort_col_def filter_sort flip: rev_filter)

lemma filter_sort_rows: "filter P (sort_rows m ord rows) = sort_rows m ord (filter P rows)"
  by (induction ord) (simp_all add: sort_rows_def filter_sort_col)

lemma set_sort_rows [simp]: "set (sort_rows m ord rows) = set rows"
proof (induction ord)
  case (Cons cd ord)
  then show ?case by (simp add: sort_rows_def) (simp add: sort_col_def)
qed (simp add: sort_rows_def)

lemma mset_sort_rows: "mset (sort_rows m ord rows) = mset rows"
proof (induction ord)
  case (Cons cd ord)
  then show ?case by (simp add: sort_rows_def) (simp add: sort_col_def)
qed (simp add: sort_rows_def)

lemma sorted_wrt_insort:
  assumes "sorted_wrt (\<lambda>a b. k a < k b \<or> k a = k b \<and> R a b) zs" and "\<forall>z\<in>set zs. R y z"
  shows "sorted_wrt (\<lambda>a b. (k a :: 'k :: linorder) < k b \<or> k a = k b \<and> R a b) (insort_key k y zs)"
  using assms
proof (induction zs)
  case (Cons z zs)
  then show ?case by (auto simp: set_insort_key)
qed simp

text \<open>A stable sort refines an order the list already has.\<close>

lemma sorted_wrt_sort_key:
  assumes "sorted_wrt R xs"
  shows "sorted_wrt (\<lambda>a b. (k a :: 'k :: linorder) < k b \<or> k a = k b \<and> R a b) (sort_key k xs)"
  using assms
proof (induction xs)
  case (Cons x xs)
  then show ?case by (simp add: sorted_wrt_insort)
qed simp

lemma sorted_wrt_sort_key_strict:
  assumes "distinct (map k xs)"
  shows "sorted_wrt (\<lambda>a b. (k a :: 'k :: linorder) < k b) (sort_key k xs)"
proof -
  have "sorted_wrt (<) (map k (sort_key k xs))"
    using assms by (simp add: strict_sorted_iff distinct_map)
  then show ?thesis by (simp add: sorted_wrt_map)
qed

lemma filter_after:
  assumes "sorted_wrt P L" and "\<And>a b. P a b \<Longrightarrow> \<not> P b a" and "k < length L"
  shows "filter (P (L ! k)) L = drop (Suc k) L"
proof -
  have L: "L = take k L @ L ! k # drop (Suc k) L" using assms(3) by (rule id_take_nth_drop)
  have "sorted_wrt P (take k L @ L ! k # drop (Suc k) L)" using assms(1) L by simp
  then have "\<forall>x\<in>set (take k L). P x (L ! k)" and after: "\<forall>x\<in>set (drop (Suc k) L). P (L ! k) x"
    by (auto simp: sorted_wrt_append)
  then have "filter (P (L ! k)) (take k L) = []" using assms(2) by (auto simp: filter_empty_conv)
  moreover have "\<not> P (L ! k) (L ! k)" using assms(2) by blast
  moreover have "filter (P (L ! k)) (drop (Suc k) L) = drop (Suc k) L" using after by (simp add: filter_id_conv)
  ultimately show ?thesis by (metis L append_Nil filter.simps(2) filter_append)
qed

subsection \<open>The contract of a paged listing\<close>

definition page :: "'w list \<Rightarrow> nat \<Rightarrow> ('w \<Rightarrow> string) \<Rightarrow> nat \<Rightarrow> 'w list \<times> string" where
  "page items n tok k =
     (take n (drop k items), if n < length items - k then tok (items ! (k + n - 1)) else [])"

text \<open>A client that follows the tokens of a listing, with a bound on its calls.\<close>

fun drain :: "nat \<Rightarrow> (string \<Rightarrow> ('w list \<times> string) res) \<Rightarrow> string \<Rightarrow> 'w list option" where
  "drain 0 f t = None"
| "drain (Suc k) f t =
     (case f t of
        Inl _ \<Rightarrow> None
      | Inr (ws, t') \<Rightarrow> if t' = [] then Some ws else map_option (\<lambda>rest. ws @ rest) (drain k f t'))"

locale keyset_pager =
  fixes valid :: "'q \<Rightarrow> bool" and items :: "'q \<Rightarrow> 'w list" and size :: "'q \<Rightarrow> nat"
    and tok :: "'q \<Rightarrow> 'w \<Rightarrow> string" and fetch :: "'q \<Rightarrow> string \<Rightarrow> ('w list \<times> string) res"
  assumes size_pos: "valid q \<Longrightarrow> 0 < size q"
    and tok_nonempty: "valid q \<Longrightarrow> w \<in> set (items q) \<Longrightarrow> tok q w \<noteq> []"
    and first: "valid q \<Longrightarrow> fetch q [] = Inr (page (items q) (size q) (tok q) 0)"
    and after: "valid q \<Longrightarrow> k < length (items q) \<Longrightarrow>
      fetch q (tok q (items q ! k)) = Inr (page (items q) (size q) (tok q) (Suc k))"
begin

lemma drain_from:
  assumes "valid q" and "fetch q t = Inr (page (items q) (size q) (tok q) k)" and "length (items q) - k < fuel"
  shows "drain fuel (fetch q) t = Some (drop k (items q))"
  using assms(2,3)
proof (induction fuel arbitrary: t k)
  case (Suc fuel)
  let ?n = "size q"
  show ?case
  proof (cases "?n < length (items q) - k")
    case True
    let ?j = "k + ?n - 1"
    have j: "?j < length (items q)" "Suc ?j = k + ?n" using True size_pos [OF assms(1)] by auto
    then have nx: "fetch q (tok q (items q ! ?j)) = Inr (page (items q) ?n (tok q) (k + ?n))"
      using after [OF assms(1) j(1)] by simp
    have "drain fuel (fetch q) (tok q (items q ! ?j)) = Some (drop (k + ?n) (items q))"
      using Suc.IH [OF nx] Suc.prems(2) True size_pos [OF assms(1)] by simp
    moreover have "tok q (items q ! ?j) \<noteq> []" using tok_nonempty [OF assms(1)] j(1) by simp
    moreover have "take ?n (drop k (items q)) @ drop (k + ?n) (items q) = drop k (items q)"
      by (metis add.commute append_take_drop_id drop_drop)
    ultimately show ?thesis using Suc.prems(1) True by (simp add: page_def)
  next
    case False
    then show ?thesis using Suc.prems(1) by (simp add: page_def)
  qed
qed simp

lemma drain_all:
  "valid q \<Longrightarrow> length (items q) < fuel \<Longrightarrow> drain fuel (fetch q) [] = Some (items q)"
  using drain_from [of q "[]" 0 fuel] first by simp

end

subsection \<open>Order clauses\<close>

lemma lookup_col_mem: "lookup_col m k \<noteq> [] \<Longrightarrow> (k, lookup_col m k) \<in> set m"
  by (auto simp: lookup_col_def dest: map_of_SomeD split: option.splits)

lemma direction_upper:
  "d \<in> {''ASC'', ''asc'', ''DESC'', ''desc''} \<Longrightarrow> ToUpper (TrimSpace d) \<in> {''ASC'', ''DESC''}"
proof -
  have "\<forall>d\<in>set [''ASC'', ''asc'', ''DESC'', ''desc'']. ToUpper (TrimSpace d) \<in> {''ASC'', ''DESC''}"
    by code_simp
  then show "d \<in> {''ASC'', ''asc'', ''DESC'', ''desc''} \<Longrightarrow> ToUpper (TrimSpace d) \<in> {''ASC'', ''DESC''}"
    by auto
qed

lemma newOrder_Inr:
  assumes "newOrder orderBy m = Inr ord"
  shows "ord = \<lparr>o_column = [], o_field = [], o_direction = []\<rparr> \<and> TrimSpace orderBy = []
    \<or> o_field ord \<noteq> [] \<and> o_column ord \<noteq> [] \<and> (o_field ord, o_column ord) \<in> set m
      \<and> o_direction ord \<in> {''ASC'', ''DESC''}"
proof (cases "TrimSpace orderBy = []")
  case True
  then show ?thesis using assms by (auto simp: newOrder_def parseOrderBy_def)
next
  case False
  then obtain f d where p: "orderByPattern (TrimSpace orderBy) = Some (f, d)"
    and c: "lookup_col m f \<noteq> []"
    and o: "ord = \<lparr>o_column = lookup_col m f, o_field = f,
       o_direction = (if d = [] then defaultOrderByDirection else ToUpper (TrimSpace d))\<rparr>"
    using assms by (auto simp: newOrder_def parseOrderBy_def Let_def split: option.splits if_splits sum.splits)
  have d: "f \<noteq> []" "d \<in> {[], ''ASC'', ''asc'', ''DESC'', ''desc''}"
    using p by (auto simp: orderByPattern_def Let_def split: if_splits)
  then have "o_direction ord \<in> {''ASC'', ''DESC''}"
    using direction_upper [of d] o by (auto simp: defaultOrderByDirection_def)
  then show ?thesis using o c d lookup_col_mem [OF c] by auto
qed

text \<open>An order clause reaches the database only with a column of the resource's own column table
  and the direction ASC or DESC; every other request text is refused before a query is built.\<close>

theorem order_by_is_whitelisted:
  "(case newOrder orderBy m of
      Inl e \<Rightarrow> status_code e = InvalidArgument
    | Inr ord \<Rightarrow> set (order_clauses ord) \<subseteq> {(c, d). (c = ''id'' \<or> c \<in> snd ` set m) \<and> d \<in> {''ASC'', ''DESC''}})"
proof (cases "newOrder orderBy m")
  case (Inl e)
  then have "status_code e = InvalidArgument"
    by (auto simp: newOrder_def parseOrderBy_def Let_def split: if_splits option.splits sum.splits)
  then show ?thesis using Inl by simp
next
  case (Inr ord)
  from newOrder_Inr [OF Inr] have "set (order_clauses ord) \<subseteq>
      {(c, d). (c = ''id'' \<or> c \<in> snd ` set m) \<and> d \<in> {''ASC'', ''DESC''}}"
    by (auto simp: order_clauses_def Let_def defaultOrderByDirection_def defaultOrderByColumn_def
        intro: rev_image_eqI)
  then show ?thesis using Inr by simp
qed

subsection \<open>Listings\<close>

record ('m, 'w) listing =
  li_model :: "'m model"
  li_wire :: "'w wireObject"
  li_columns :: "(string \<times> string) list"
  li_req :: list_req
  li_convert :: "'m \<Rightarrow> 'w"
  li_clauses :: "equalityClause list"
  li_rows :: "'m list"
  li_tokens :: token_codec
  li_sql :: "string \<Rightarrow> string res"

definition listing_fetch :: "('m, 'w) listing \<Rightarrow> string \<Rightarrow> ('w list \<times> string) res" where
  "listing_fetch q t =
     (case newLister (li_tokens q) (li_sql q) (li_wire q) (li_columns q)
             ((li_req q)\<lparr>lq_page_token := t\<rparr>) (li_convert q) (li_clauses q) of
        Inl e \<Rightarrow> Inl e
      | Inr l \<Rightarrow> Lister_List (li_model q) None l (li_rows q))"

definition listing_order :: "('m, 'w) listing \<Rightarrow> lorder" where
  "listing_order q =
     (case newOrder (TrimSpace (lq_order_by (li_req q))) (li_columns q) of
        Inl _ \<Rightarrow> \<lparr>o_column = [], o_field = [], o_direction = []\<rparr> | Inr ord \<Rightarrow> ord)"

definition listing_size :: "('m, 'w) listing \<Rightarrow> int" where
  "listing_size q =
     (if lq_page_size (li_req q) = 0 then defaultPageSize else lq_page_size (li_req q))"

definition listing_conds :: "('m, 'w) listing \<Rightarrow> cond list" where
  "listing_conds q = equality_conds (li_clauses q) @ sql_conds (li_sql q) (lq_filter (li_req q))"

definition selects :: "'m model \<Rightarrow> cond list \<Rightarrow> 'm \<Rightarrow> bool" where
  "selects m cs r = list_all (\<lambda>c. cond_holds m c r) cs"

definition listing_rows :: "('m, 'w) listing \<Rightarrow> 'm list" where
  "listing_rows q = sort_rows (li_model q) (order_clauses (listing_order q))
     (filter (selects (li_model q) (listing_conds q)) (li_rows q))"

definition listing_token :: "('m, 'w) listing \<Rightarrow> 'w \<Rightarrow> page_token" where
  "listing_token q w = PageToken (TrimSpace (lq_parent (li_req q))) (TrimSpace (lq_filter (li_req q)))
     (Some (ItemTok (w_uid (li_wire q) w)
       (if o_field (listing_order q) \<noteq> []
        then Some (OrderTok (o_field (listing_order q)) (w_timestamp (li_wire q) w (o_field (listing_order q)))
          (direction_value (o_direction (listing_order q))))
        else None)))"

definition listing_tok :: "('m, 'w) listing \<Rightarrow> 'w \<Rightarrow> string" where
  "listing_tok q w = (case encodePageToken (li_tokens q) (listing_token q w) of Inl _ \<Rightarrow> [] | Inr t \<Rightarrow> t)"

text \<open>Tokens with a last item have non-empty bytes, from which they are read back.\<close>

definition codec_ok :: "token_codec \<Rightarrow> bool" where
  "codec_ok tc = (\<forall>t. pt_last t \<noteq> None \<longrightarrow>
     (\<exists>b. pt_marshal tc t = Inr b \<and> b \<noteq> [] \<and> pt_unmarshal tc b = Inr t))"

text \<open>Valid requests on tables whose rows have distinct identifiers and a value in the order column.\<close>

definition listing_ok :: "('m, 'w) listing \<Rightarrow> bool" where
  "listing_ok q =
     (codec_ok (li_tokens q)
      \<and> is_ok (newOrder (TrimSpace (lq_order_by (li_req q))) (li_columns q))
      \<and> 5 \<le> listing_size q \<and> listing_size q \<le> 10000
      \<and> (TrimSpace (lq_filter (li_req q)) = [] \<or> is_ok (li_sql q (TrimSpace (lq_filter (li_req q)))))
      \<and> (\<forall>r\<in>set (li_rows q). w_uid (li_wire q) (li_convert q r) = m_text (li_model q) ''id'' r
           \<and> m_text (li_model q) ''id'' r \<noteq> [])
      \<and> distinct (map (m_text (li_model q) ''id'') (listing_rows q))
      \<and> (o_field (listing_order q) \<noteq> [] \<longrightarrow> o_column (listing_order q) \<noteq> ''id'' \<and>
          (\<exists>f. m_time (li_model q) (o_column (listing_order q)) = Some f
           \<and> (\<forall>r\<in>set (listing_rows q).
                f r = Some (AsTime_opt (w_timestamp (li_wire q) (li_convert q r) (o_field (listing_order q))))))))"

definition after_cond :: "('m, 'w) listing \<Rightarrow> 'm \<Rightarrow> cond" where
  "after_cond q r =
     (if o_field (listing_order q) \<noteq> []
      then AfterRow (o_column (listing_order q)) (o_direction (listing_order q) = ''DESC'')
        (AsTime_opt (w_timestamp (li_wire q) (li_convert q r) (o_field (listing_order q))))
        (m_text (li_model q) ''id'' r)
      else AfterId (m_text (li_model q) ''id'' r))"

lemma listing_order_Inr:
  "listing_ok q \<Longrightarrow> newOrder (TrimSpace (lq_order_by (li_req q))) (li_columns q) = Inr (listing_order q)"
  by (auto simp: listing_ok_def listing_order_def is_ok_iff)

lemma listing_order_cases:
  assumes "listing_ok q"
  shows "listing_order q = \<lparr>o_column = [], o_field = [], o_direction = []\<rparr>
    \<or> o_field (listing_order q) \<noteq> [] \<and> o_column (listing_order q) \<noteq> []
      \<and> o_direction (listing_order q) \<in> {''ASC'', ''DESC''}"
  using newOrder_Inr [OF listing_order_Inr [OF assms]] by blast

lemma listing_tok_Inr:
  assumes "listing_ok q"
  shows "encodePageToken (li_tokens q) (listing_token q w) = Inr (listing_tok q w)
    \<and> listing_tok q w \<noteq> [] \<and> decodePageToken (li_tokens q) (TrimSpace (listing_tok q w)) = Inr (Some (listing_token q w))"
proof -
  have "pt_last (listing_token q w) \<noteq> None" by (simp add: listing_token_def)
  then obtain b where "pt_marshal (li_tokens q) (listing_token q w) = Inr b" "b \<noteq> []"
    "pt_unmarshal (li_tokens q) b = Inr (listing_token q w)"
    using assms by (auto simp: listing_ok_def codec_ok_def)
  then show ?thesis by (simp add: encodePageToken_def listing_tok_def decodePageToken_def)
qed

lemma listing_token_matches:
  assumes "listing_ok q" and "w_uid (li_wire q) w \<noteq> []"
  shows "tokens_match (listing_order q) (TrimSpace (lq_filter (li_req q))) (listing_token q w)"
  using assms listing_order_cases [OF assms(1)]
  by (auto simp: tokens_match_def offset_validateToken_def filter_validateToken_def
      order_validateToken_def listing_token_def direction_name_def direction_value_def)

definition listing_page :: "('m, 'w) listing \<Rightarrow> 'm list \<Rightarrow> 'w list \<times> string" where
  "listing_page q R = (map (li_convert q) (take (nat (listing_size q)) R),
     if nat (listing_size q) < length R
     then listing_tok q (li_convert q (R ! (nat (listing_size q) - 1))) else [])"

lemma page_listing:
  "page (map (li_convert q) L) (nat (listing_size q)) (listing_tok q) k = listing_page q (drop k L)"
  if "0 < listing_size q"
  using that by (auto simp: page_def listing_page_def take_map drop_map nth_append)

lemma conds_ok_listing: "list_all (cond_ok m) (equality_conds cs @ sql_conds conv e)"
  by (auto simp: equality_conds_def sql_conds_def list_all_iff split: sum.splits)

lemma order_ok_listing:
  assumes "listing_ok q"
  shows "list_all (order_ok (li_model q)) (order_clauses (listing_order q))"
  using assms listing_order_cases [OF assms]
  by (auto simp: listing_ok_def order_clauses_def order_ok_def Let_def)

lemma Lister_List_run:
  assumes ok: "listing_ok q"
    and tok: "decodePageToken (li_tokens q) (TrimSpace t) = Inr tok"
    and par: "\<And>x. tok = Some x \<Longrightarrow> pt_parent x = TrimSpace (lq_parent (li_req q))
      \<and> tokens_match (listing_order q) (TrimSpace (lq_filter (li_req q))) x"
    and after: "list_all (cond_ok (li_model q)) (offset_conds (listing_order q) tok)"
  shows "listing_fetch q t = Inr (listing_page q (sort_rows (li_model q) (order_clauses (listing_order q))
    (filter (selects (li_model q) (offset_conds (listing_order q) tok @ listing_conds q)) (li_rows q))))"
proof -
  let ?n = "listing_size q" and ?o = "listing_order q" and ?f = "TrimSpace (lq_filter (li_req q))"
  let ?R = "sort_rows (li_model q) (order_clauses ?o)
    (filter (selects (li_model q) (offset_conds ?o tok @ listing_conds q)) (li_rows q))"
  define l where "l = \<lparr>l_builders = lister_builders (li_sql q) ?o tok ?f (li_clauses q) ?n,
    l_pageSize = ?n, l_pageToken = tok, l_convert = li_convert q,
    l_genNextPageToken = (\<lambda>w. encodePageToken (li_tokens q) (listing_token q w))\<rparr>"
  define qq where "qq = \<lparr>q_where = offset_conds ?o tok @ equality_conds (li_clauses q) @ sql_conds (li_sql q) ?f,
    q_order = order_clauses ?o, q_limit = Some (?n + 1)\<rparr>"
  have gen: "makePageTokenGenerator (li_tokens q) (li_wire q) (TrimSpace (lq_parent (li_req q))) ?f ?o
      = (\<lambda>w. encodePageToken (li_tokens q) (listing_token q w))"
    by (rule ext) (simp add: makePageTokenGenerator_def listing_token_def)
  have pp: "tok = None \<or> pt_parent (the tok) = TrimSpace (lq_parent (li_req q))"
    using par by (cases tok) auto
  have new: "newLister (li_tokens q) (li_sql q) (li_wire q) (li_columns q)
      ((li_req q)\<lparr>lq_page_token := t\<rparr>) (li_convert q) (li_clauses q) = Inr l"
    using tok pp listing_order_Inr [OF ok]
    by (auto simp: newLister_def Let_def gen l_def lister_builders_def listing_size_def)
  have n: "5 \<le> ?n" "?n \<le> 10000" using ok by (auto simp: listing_ok_def)
  have bq: "buildQuery tok (l_builders l) empty_query = Inr qq"
    using ok par n by (auto simp: l_def buildQuery_lister qq_def listing_ok_def)
  have conds: "sql_conds (li_sql q) ?f = sql_conds (li_sql q) (lq_filter (li_req q))"
    by (simp add: sql_conds_def)
  have fq: "Find (li_model q) None qq (li_rows q) = Inr (take (nat (?n + 1)) ?R)"
    using after conds_ok_listing [of "li_model q" "li_clauses q" "li_sql q" ?f] order_ok_listing [OF ok]
    by (simp add: Find_def qq_def listing_conds_def selects_def [abs_def] conds)
  have len: "int (length (take (nat (?n + 1)) ?R)) > ?n \<longleftrightarrow> nat ?n < length ?R" using n by auto
  have lst: "last (take (nat ?n) (map (li_convert q) (take (nat (?n + 1)) ?R))) = li_convert q (?R ! (nat ?n - 1))"
    if "nat ?n < length ?R"
  proof -
    have "take (nat ?n) (map (li_convert q) (take (nat (?n + 1)) ?R)) = map (li_convert q) (take (nat ?n) ?R)"
      using n by (simp add: take_map min_def)
    moreover have "take (nat ?n) ?R \<noteq> []" using that n by auto
    ultimately show ?thesis using that n by (simp add: last_map last_conv_nth)
  qed
  have "Lister_List (li_model q) None l (li_rows q) = Inr (listing_page q ?R)"
    using bq fq len lst listing_tok_Inr [OF ok] n
    by (auto simp: Lister_List_def Let_def listing_page_def l_def take_map min_def)
  then show ?thesis by (simp add: listing_fetch_def new)
qed

lemma offset_conds_token:
  assumes "listing_ok q" and "r \<in> set (li_rows q)"
  shows "offset_conds (listing_order q) (Some (listing_token q (li_convert q r))) = [after_cond q r]"
  using assms listing_order_cases [OF assms(1)]
  by (auto simp: offset_conds_def listing_token_def after_cond_def direction_value_def listing_ok_def)

text \<open>The rows of a listing follow one another in the order the offset condition tests.\<close>

lemma listing_rows_sorted:
  assumes ok: "listing_ok q"
  shows "sorted_wrt (\<lambda>a b. cond_holds (li_model q) (after_cond q a) b) (listing_rows q)"
proof -
  let ?m = "li_model q" and ?o = "listing_order q" and ?L = "listing_rows q"
  let ?sel = "filter (selects ?m (listing_conds q)) (li_rows q)"
  have dist: "distinct (map (m_text ?m ''id'') ?sel)"
  proof -
    have "mset (map (m_text ?m ''id'') ?L) = mset (map (m_text ?m ''id'') ?sel)"
      by (simp add: listing_rows_def mset_sort_rows)
    then show ?thesis using ok by (metis listing_ok_def mset_eq_imp_distinct_iff)
  qed
  have idk: "col_key ?m defaultOrderByColumn = (\<lambda>r. (0, 0, m_text ?m ''id'' r))"
    by (rule ext) (simp add: col_key_def defaultOrderByColumn_def)
  have kd: "distinct (map (col_key ?m defaultOrderByColumn) xs)"
    if "distinct (map (m_text ?m ''id'') xs)" for xs
    using that by (auto simp: idk distinct_map inj_on_def)
  have up: "sorted_wrt (\<lambda>a b. m_text ?m ''id'' a < m_text ?m ''id'' b)
      (sort_key (col_key ?m defaultOrderByColumn) xs)" if "distinct (map (m_text ?m ''id'') xs)" for xs
    using sorted_wrt_sort_key_strict [OF kd [OF that]] by (simp add: idk less_prod_def)
  show ?thesis
  proof (cases "o_field ?o = []")
    case True
    then have o: "?o = \<lparr>o_column = [], o_field = [], o_direction = []\<rparr>"
      using listing_order_cases [OF ok] by auto
    have L: "?L = sort_key (col_key ?m defaultOrderByColumn) ?sel"
      by (simp add: listing_rows_def order_clauses_def o sort_rows_def sort_col_def
          defaultOrderByDirection_def Let_def)
    show ?thesis using up [OF dist] by (simp add: L after_cond_def True defaultOrderByColumn_def)
  next
    case False
    then obtain f where f: "m_time ?m (o_column ?o) = Some f" and ci: "o_column ?o \<noteq> ''id''"
      and fv: "\<And>r. r \<in> set ?L \<Longrightarrow>
        f r = Some (AsTime_opt (w_timestamp (li_wire q) (li_convert q r) (o_field ?o)))"
      using ok by (auto simp: listing_ok_def)
    have dir: "o_direction ?o = ''ASC'' \<or> o_direction ?o = ''DESC''" "o_column ?o \<noteq> []"
      using listing_order_cases [OF ok] False by auto
    define t where "t r = AsTime_opt (w_timestamp (li_wire q) (li_convert q r) (o_field ?o))" for r
    have key: "col_key ?m (o_column ?o) r = (0, t r, [])" if "r \<in> set ?L" for r
      using fv [OF that] f ci by (simp add: col_key_def defaultOrderByColumn_def t_def)
    have hold: "cond_holds ?m (after_cond q a) b \<longleftrightarrow>
        (if o_direction ?o = ''DESC'' then t b < t a \<or> t b = t a \<and> m_text ?m ''id'' b < m_text ?m ''id'' a
         else t a < t b \<or> t b = t a \<and> m_text ?m ''id'' a < m_text ?m ''id'' b)"
      if "b \<in> set ?L" for a b
      using fv [OF that] f False by (simp add: after_cond_def t_def defaultOrderByColumn_def)
    let ?k = "col_key ?m (o_column ?o)"
    have two: "sorted_wrt (\<lambda>a b. ?k a < ?k b \<or> ?k a = ?k b \<and> m_text ?m ''id'' a < m_text ?m ''id'' b)
        (sort_key ?k (sort_key (col_key ?m defaultOrderByColumn) xs))"
      if "distinct (map (m_text ?m ''id'') xs)" for xs
      by (rule sorted_wrt_sort_key [OF up [OF that]])
    show ?thesis
    proof (cases "o_direction ?o = ''DESC''")
      case True
      have L: "?L = rev (sort_key ?k (sort_key (col_key ?m defaultOrderByColumn) (rev ?sel)))"
        using True dir(2) by (simp add: listing_rows_def order_clauses_def sort_rows_def sort_col_def Let_def)
      have "distinct (map (m_text ?m ''id'') (rev ?sel))" using dist by (simp add: rev_map flip: rev_map)
      from two [OF this] have "sorted_wrt (\<lambda>a b. ?k b < ?k a \<or> ?k b = ?k a \<and> m_text ?m ''id'' b < m_text ?m ''id'' a) ?L"
        unfolding L sorted_wrt_rev .
      then show ?thesis
        by (rule sorted_wrt_mono_rel [rotated]) (auto simp: hold key True less_prod_def)
    next
      case asc: False
      have L: "?L = sort_key ?k (sort_key (col_key ?m defaultOrderByColumn) ?sel)"
        using asc dir by (simp add: listing_rows_def order_clauses_def sort_rows_def sort_col_def Let_def)
      from two [OF dist] show ?thesis
        unfolding L [symmetric]
        by (rule sorted_wrt_mono_rel [rotated]) (auto simp: hold key asc less_prod_def)
    qed
  qed
qed

lemma cond_holds_asym:
  assumes ok: "listing_ok q" and ab: "a \<in> set (listing_rows q)" "b \<in> set (listing_rows q)"
    and h: "cond_holds (li_model q) (after_cond q a) b"
  shows "\<not> cond_holds (li_model q) (after_cond q b) a"
proof (cases "o_field (listing_order q) = []")
  case True
  then show ?thesis using h by (auto simp: after_cond_def defaultOrderByColumn_def)
next
  case False
  then obtain f where f: "m_time (li_model q) (o_column (listing_order q)) = Some f"
    and fv: "\<And>r. r \<in> set (listing_rows q) \<Longrightarrow>
      f r = Some (AsTime_opt (w_timestamp (li_wire q) (li_convert q r) (o_field (listing_order q))))"
    using ok by (auto simp: listing_ok_def)
  define t where "t r = AsTime_opt (w_timestamp (li_wire q) (li_convert q r) (o_field (listing_order q)))" for r
  have lex: "x < y \<or> y = x \<and> u < v \<Longrightarrow> \<not> (y < x \<or> x = y \<and> v < u)" for x y :: int and u v :: string
    by auto
  have c: "cond_holds (li_model q) (after_cond q x) y \<longleftrightarrow>
      (if o_direction (listing_order q) = ''DESC'' then t y < t x \<or> t y = t x \<and> m_text (li_model q) ''id'' y < m_text (li_model q) ''id'' x
       else t x < t y \<or> t y = t x \<and> m_text (li_model q) ''id'' x < m_text (li_model q) ''id'' y)"
    if "y \<in> set (listing_rows q)" for x y
    using fv [OF that] f False by (simp add: after_cond_def t_def defaultOrderByColumn_def)
  show ?thesis
  proof (cases "o_direction (listing_order q) = ''DESC''")
    case True
    then show ?thesis using h c [OF ab(1), of b] c [OF ab(2), of a] lex [of "t b" "t a"] by metis
  next
    case False
    then show ?thesis using h c [OF ab(1), of b] c [OF ab(2), of a] lex [of "t a" "t b"] by metis
  qed
qed

lemma filter_after_on:
  assumes "sorted_wrt P L" and "\<And>a b. a \<in> set L \<Longrightarrow> b \<in> set L \<Longrightarrow> P a b \<Longrightarrow> \<not> P b a" and "k < length L"
  shows "filter (P (L ! k)) L = drop (Suc k) L"
proof -
  have "sorted_wrt (\<lambda>a b. a \<in> set L \<and> b \<in> set L \<and> P a b) L"
    using assms(1) by (rule sorted_wrt_mono_rel [rotated]) simp
  from filter_after [OF this _ assms(3)]
  have "filter (\<lambda>b. L ! k \<in> set L \<and> b \<in> set L \<and> P (L ! k) b) L = drop (Suc k) L"
    using assms(2) by blast
  moreover have "filter (\<lambda>b. L ! k \<in> set L \<and> b \<in> set L \<and> P (L ! k) b) L = filter (P (L ! k)) L"
    using assms(3) by (intro filter_cong) auto
  ultimately show ?thesis by simp
qed

lemma listing_fetch_after:
  assumes ok: "listing_ok q" and k: "k < length (listing_rows q)"
  shows "listing_fetch q (listing_tok q (li_convert q (listing_rows q ! k)))
    = Inr (listing_page q (drop (Suc k) (listing_rows q)))"
proof -
  let ?r = "listing_rows q ! k" and ?m = "li_model q"
  have rin: "?r \<in> set (listing_rows q)" using k by simp
  then have row: "?r \<in> set (li_rows q)" by (auto simp: listing_rows_def)
  have uid: "w_uid (li_wire q) (li_convert q ?r) \<noteq> []" using ok row by (auto simp: listing_ok_def)
  note dec = listing_tok_Inr [OF ok, of "li_convert q ?r"]
  have oc: "offset_conds (listing_order q) (Some (listing_token q (li_convert q ?r))) = [after_cond q ?r]"
    by (rule offset_conds_token [OF ok row])
  have "list_all (cond_ok ?m) [after_cond q ?r]"
    using ok rin by (auto simp: after_cond_def listing_ok_def)
  then have "listing_fetch q (listing_tok q (li_convert q ?r)) = Inr (listing_page q (sort_rows ?m (order_clauses (listing_order q))
      (filter (selects ?m ([after_cond q ?r] @ listing_conds q)) (li_rows q))))"
    using Lister_List_run [OF ok conjunct2 [OF conjunct2 [OF dec]]] listing_token_matches [OF ok uid] oc
    by (auto simp: listing_token_def)
  moreover have "filter (selects ?m ([after_cond q ?r] @ listing_conds q)) (li_rows q)
      = filter (cond_holds ?m (after_cond q ?r)) (filter (selects ?m (listing_conds q)) (li_rows q))"
    by (simp add: selects_def [abs_def] conj_commute)
  moreover have "filter (cond_holds ?m (after_cond q ?r)) (listing_rows q) = drop (Suc k) (listing_rows q)"
    by (rule filter_after_on [OF listing_rows_sorted [OF ok] _ k])
      (use cond_holds_asym [OF ok] in blast)
  ultimately show ?thesis by (simp add: listing_rows_def filter_sort_rows)
qed

interpretation listing: keyset_pager listing_ok "\<lambda>q. map (li_convert q) (listing_rows q)"
  "\<lambda>q. nat (listing_size q)" listing_tok listing_fetch
proof
  fix q :: "('a, 'b) listing" assume ok: "listing_ok q"
  then have n: "0 < listing_size q" by (auto simp: listing_ok_def)
  then show "0 < nat (listing_size q)" by simp
  show "listing_tok q w \<noteq> []" for w using listing_tok_Inr [OF ok] by blast
  show "listing_fetch q [] = Inr (page (map (li_convert q) (listing_rows q)) (nat (listing_size q)) (listing_tok q) 0)"
    using Lister_List_run [OF ok, of "[]" None] n
    by (simp add: page_listing decodePageToken_def offset_conds_def listing_rows_def)
  show "listing_fetch q (listing_tok q (map (li_convert q) (listing_rows q) ! k)) =
      Inr (page (map (li_convert q) (listing_rows q)) (nat (listing_size q)) (listing_tok q) (Suc k))"
    if "k < length (map (li_convert q) (listing_rows q))" for k
    using listing_fetch_after [OF ok, of k] that n by (simp add: page_listing)
qed

subsection \<open>Listing results and records\<close>

definition results_listing :: "list_env \<Rightarrow> list_req \<Rightarrow> db \<Rightarrow> (db_result, pb_result) listing" where
  "results_listing le req s =
     \<lparr>li_model = results_model (le_sql_results le), li_wire = result_wire,
      li_columns = resultFieldsToColumns, li_req = req, li_convert = result_ToAPI,
      li_clauses = [\<lparr>ec_column = ''parent'', ec_value = TrimSpace (lq_parent req)\<rparr>],
      li_rows = results_tbl s, li_tokens = le_tokens le, li_sql = le_convert_results le\<rparr>"

lemma ListResults_fetch:
  assumes "lq_parent req \<noteq> []" and "e_check e (lq_parent req) ResourceResults PermissionList = None"
    and "e_fault e OpFind = None"
  shows "ListResults e le (req\<lparr>lq_page_token := t\<rparr>) s = listing_fetch (results_listing le req s) t"
  using assms by (simp add: ListResults_def listing_fetch_def results_listing_def OfResults_def
      split: sum.split)

definition results_selected :: "list_env \<Rightarrow> list_req \<Rightarrow> db_result \<Rightarrow> bool" where
  "results_selected le req r =
     ((TrimSpace (lq_parent req) = ''-'' \<or> r_parent r = TrimSpace (lq_parent req))
      \<and> (TrimSpace (lq_filter req) = [] \<or>
          (case le_convert_results le (TrimSpace (lq_filter req)) of
             Inl _ \<Rightarrow> True | Inr sql \<Rightarrow> le_sql_results le sql r)))"

lemma selects_results:
  "selects (results_model (le_sql_results le)) (listing_conds (results_listing le req s)) r
     \<longleftrightarrow> results_selected le req r"
  by (auto simp: selects_def listing_conds_def results_listing_def equality_conds_def sql_conds_def
      results_selected_def results_model_def split: sum.splits)

lemma results_listing_ok:
  assumes "srv_inv s" and "codec_ok (le_tokens le)" and "TrimSpace (lq_parent req) \<noteq> ''-''"
    and "newOrder (TrimSpace (lq_order_by req)) resultFieldsToColumns = Inr ord"
    and "o_field ord \<in> {[], ''create_time'', ''update_time''}"
    and "lq_page_size req = 0 \<or> 5 \<le> lq_page_size req \<and> lq_page_size req \<le> 10000"
    and "TrimSpace (lq_filter req) = [] \<or> is_ok (le_convert_results le (TrimSpace (lq_filter req)))"
  shows "listing_ok (results_listing le req s)"
proof -
  let ?q = "results_listing le req s"
  have ord: "listing_order ?q = ord" using assms(4) by (simp add: listing_order_def results_listing_def)
  have mem: "r \<in> set (results_tbl s) \<and> r_parent r = TrimSpace (lq_parent req)"
    if "r \<in> set (listing_rows ?q)" for r
  proof -
    have "r \<in> set (results_tbl s)" "results_selected le req r"
      using that by (auto simp: listing_rows_def results_listing_def selects_results [unfolded results_listing_def])
    then show ?thesis using assms(3) by (simp add: results_selected_def)
  qed
  have "distinct (listing_rows ?q)"
  proof -
    have "distinct (results_tbl s)"
      using srv_invD(1) [OF assms(1)] by (auto simp: db_wf_def tbl_wf_def distinct_map)
    then have "distinct (filter P (results_tbl s))" for P by simp
    then show ?thesis
      by (simp add: listing_rows_def results_listing_def)
        (metis mset_eq_imp_distinct_iff mset_sort_rows)
  qed
  moreover have "inj_on (m_text (li_model ?q) ''id'') (set (listing_rows ?q))"
    using mem results.wf_pk [OF db_wfD(1) [OF srv_invD(1) [OF assms(1)]]]
    by (intro inj_onI) (simp add: results_listing_def results_model_def r_pk_def)
  ultimately have d: "distinct (map (m_text (li_model ?q) ''id'') (listing_rows ?q))"
    by (simp add: distinct_map)
  have u: "\<forall>r\<in>set (li_rows ?q). w_uid (li_wire ?q) (li_convert ?q r) = m_text (li_model ?q) ''id'' r
      \<and> m_text (li_model ?q) ''id'' r \<noteq> []"
    using srv_invD(2) [OF assms(1)]
    by (simp add: results_listing_def result_wire_def results_model_def result_ToAPI_def result_row_ok_def)
  have cols: "o_field ord = ''create_time'' \<Longrightarrow> o_column ord = ''created_time''"
    "o_field ord = ''update_time'' \<Longrightarrow> o_column ord = ''updated_time''"
    using newOrder_Inr [OF assms(4)] by (auto simp: resultFieldsToColumns_def)
  have t: "o_field ord \<noteq> [] \<Longrightarrow> o_column ord \<noteq> ''id'' \<and> (\<exists>f. m_time (li_model ?q) (o_column ord) = Some f
      \<and> (\<forall>r\<in>set (listing_rows ?q). f r = Some (AsTime_opt (w_timestamp (li_wire ?q) (li_convert ?q r) (o_field ord)))))"
    using assms(5) cols
    by (auto simp: results_listing_def results_model_def result_wire_def result_getTimestamp_def
        result_ToAPI_def AsTime_opt_def)
  have n: "5 \<le> listing_size ?q \<and> listing_size ?q \<le> 10000"
    using assms(6) by (auto simp: listing_size_def results_listing_def defaultPageSize_def)
  show ?thesis
    unfolding listing_ok_def ord using assms(2,4,7) n u d t by (simp add: results_listing_def)
qed

text \<open>C2: Listing is complete: following the page tokens of ListResults from the empty token returns,
  after at most one call per stored result, every result of the namespace that the filter selects,
  each exactly once and in the requested order. The order column must be the identifier, the
  creation or the update time; the summary times can be NULL.\<close>

theorem list_results_complete:
  assumes "srv_inv s" and "codec_ok (le_tokens le)" and "lq_parent req \<noteq> []"
    and "TrimSpace (lq_parent req) \<noteq> ''-''"
    and "newOrder (TrimSpace (lq_order_by req)) resultFieldsToColumns = Inr ord"
    and "o_field ord \<in> {[], ''create_time'', ''update_time''}"
    and "lq_page_size req = 0 \<or> 5 \<le> lq_page_size req \<and> lq_page_size req \<le> 10000"
    and "TrimSpace (lq_filter req) = [] \<or> is_ok (le_convert_results le (TrimSpace (lq_filter req)))"
    and "e_check e (lq_parent req) ResourceResults PermissionList = None" and "e_fault e OpFind = None"
  shows "\<exists>rows. drain (Suc (length (results_tbl s))) (\<lambda>t. ListResults e le (req\<lparr>lq_page_token := t\<rparr>) s) []
      = Some (map result_ToAPI rows)
    \<and> rows = sort_rows (results_model (le_sql_results le)) (order_clauses ord)
        (filter (results_selected le req) (results_tbl s))
    \<and> mset rows = filter_mset (results_selected le req) (mset (results_tbl s)) \<and> distinct rows"
proof -
  let ?q = "results_listing le req s"
  have ok: "listing_ok ?q" by (rule results_listing_ok [OF assms(1,2,4,5,6,7,8)])
  have ord: "listing_order ?q = ord" using assms(5) by (simp add: listing_order_def results_listing_def)
  have rows: "listing_rows ?q = sort_rows (results_model (le_sql_results le)) (order_clauses ord)
      (filter (results_selected le req) (results_tbl s))"
    unfolding listing_rows_def ord
    by (simp add: results_listing_def selects_results [unfolded results_listing_def, abs_def])
  have f: "(\<lambda>t. ListResults e le (req\<lparr>lq_page_token := t\<rparr>) s) = listing_fetch ?q"
    by (rule ext) (rule ListResults_fetch [OF assms(3,9,10)])
  have m: "mset (listing_rows ?q) = filter_mset (results_selected le req) (mset (results_tbl s))"
    unfolding rows by (simp add: mset_sort_rows)
  have "length (listing_rows ?q) \<le> length (results_tbl s)"
    using m by (metis mset_filter length_filter_le size_mset)
  then have "drain (Suc (length (results_tbl s))) (listing_fetch ?q) [] = Some (map (li_convert ?q) (listing_rows ?q))"
    using listing.drain_all [OF ok, of "Suc (length (results_tbl s))"] by (simp del: drain.simps)
  moreover have "distinct (listing_rows ?q)" using ok by (auto simp: listing_ok_def distinct_map)
  ultimately show ?thesis using f m rows by (auto simp: results_listing_def)
qed

text \<open>A token codec with the assumed round trip exists.\<close>

instance timestamp_ext :: (countable) countable
proof (rule countable_classI [of "\<lambda>t. to_nat (seconds t, nanos t, timestamp.more t)"])
  fix x y :: "'a timestamp_scheme"
  assume "to_nat (seconds x, nanos x, timestamp.more x) = to_nat (seconds y, nanos y, timestamp.more y)"
  then show "x = y" by simp
qed

instance order_tok :: countable by countable_datatype
instance item_tok :: countable by countable_datatype
instance page_token :: countable by countable_datatype

definition nat_codec :: token_codec where
  "nat_codec = \<lparr>pt_marshal = (\<lambda>t. Inr (show_nat (to_nat t))), pt_unmarshal = (\<lambda>b. Inr (from_nat (read_nat b)))\<rparr>"

lemma nat_codec_ok [simp]: "codec_ok nat_codec"
  using show_nat_digits by (auto simp: codec_ok_def nat_codec_def)

definition sample_list_env :: list_env where
  "sample_list_env = \<lparr>le_tokens = nat_codec, le_convert_results = Inr, le_convert_records = Inr,
     le_sql_results = (\<lambda>_ _. True), le_sql_records = (\<lambda>_ _. True)\<rparr>"

definition sample_list_req :: "string \<Rightarrow> string \<Rightarrow> list_req" where
  "sample_list_req parent order_by = \<lparr>lq_parent = parent, lq_filter = [], lq_order_by = order_by,
     lq_page_size = 0, lq_page_token = []\<rparr>"

theorem list_results_complete_witness:
  "\<exists>rows. drain 2 (\<lambda>t. ListResults (open_env ''u9'' 9) sample_list_env
      ((sample_list_req ''ns'' ''create_time desc'')\<lparr>lq_page_token := t\<rparr>) sample_db) []
     = Some (map result_ToAPI rows) \<and> rows = results_tbl sample_db"
proof -
  let ?req = "sample_list_req ''ns'' ''create_time desc''"
  let ?ord = "\<lparr>o_column = ''created_time'', o_field = ''create_time'', o_direction = ''DESC''\<rparr>"
  have o: "newOrder (TrimSpace (lq_order_by ?req)) resultFieldsToColumns = Inr ?ord" by code_simp
  have p: "TrimSpace (lq_parent ?req) = ''ns''" by code_simp
  have f: "TrimSpace (lq_filter ?req) = []" by code_simp
  have "length (results_tbl sample_db) = 1" "r_parent (hd (results_tbl sample_db)) = ''ns''" by code_simp+
  then obtain x where r: "results_tbl sample_db = [x]" "r_parent x = ''ns''"
    by (auto simp: length_Suc_conv)
  have one: "sort_rows m ord [x] = [x]" for m :: "db_result model" and ord x
    by (induction ord) (simp_all add: sort_rows_def sort_col_def)
  have sel: "filter (results_selected sample_list_env ?req) (results_tbl sample_db) = results_tbl sample_db"
    using r p f by (simp add: results_selected_def)
  have "codec_ok (le_tokens sample_list_env)" "lq_parent ?req \<noteq> []" "lq_page_size ?req = 0"
    by (simp_all add: sample_list_env_def sample_list_req_def)
  then have "\<exists>rows. drain (Suc (length (results_tbl sample_db))) (\<lambda>t. ListResults (open_env ''u9'' 9) sample_list_env
      (?req\<lparr>lq_page_token := t\<rparr>) sample_db) [] = Some (map result_ToAPI rows)
      \<and> rows = sort_rows (results_model (le_sql_results sample_list_env)) (order_clauses ?ord) (results_tbl sample_db)"
    using list_results_complete [of sample_db sample_list_env ?req ?ord "open_env ''u9'' 9"] o p f sel
    by (simp del: drain.simps)
  moreover have "Suc (length (results_tbl sample_db)) = 2" using r(1) by simp
  ultimately show ?thesis using one r(1) by (metis (no_types, lifting))
qed

lemma Find_Inr:
  "Find m fault q rows = Inr models \<Longrightarrow> r \<in> set models \<Longrightarrow> c \<in> set (q_where q) \<Longrightarrow>
     r \<in> set rows \<and> cond_holds m c r"
  by (auto simp: Find_def Let_def list_all_iff split: option.splits if_splits dest!: in_set_takeD)

lemma newLister_Inr:
  assumes "newLister tc Convert wo cols req convert clauses = Inr l"
  shows "\<exists>tok ord. newOrder (TrimSpace (lq_order_by req)) cols = Inr ord
    \<and> l_builders l = lister_builders Convert ord tok (TrimSpace (lq_filter req)) clauses (l_pageSize l)
    \<and> l_pageToken l = tok \<and> l_convert l = convert"
proof -
  obtain tok ord where "decodePageToken tc (TrimSpace (lq_page_token req)) = Inr tok"
    "newOrder (TrimSpace (lq_order_by req)) cols = Inr ord"
    using assms by (auto simp: newLister_def Let_def split: sum.splits if_splits)
  with assms show ?thesis
    by (intro exI [of _ tok] exI [of _ ord]) (auto simp: newLister_def Let_def lister_builders_def split: if_splits)
qed



text \<open>A page token never reaches a result without the time it is ordered by: when results are
  ordered by a summary time, every page requested with a token contains only results that have that
  time, so results whose summary time is NULL and that do not fit on the first page are never listed.\<close>

theorem null_times_unreachable:
  assumes "ListResults e le req s = Inr (ws, t)"
    and "newOrder (TrimSpace (lq_order_by req)) resultFieldsToColumns = Inr ord"
    and "o_column ord = ''recordsummary_start_time''" and "TrimSpace (lq_page_token req) \<noteq> []"
  shows "\<forall>w\<in>set ws. \<exists>r\<in>set (results_tbl s). w = result_ToAPI r \<and> rs_start (r_summary r) \<noteq> None"
proof -
  let ?m = "results_model (le_sql_results le)"
  obtain l where l: "OfResults (le_tokens le) (le_convert_results le) req = Inr l"
    and run: "Lister_List ?m (e_fault e OpFind) l (results_tbl s) = Inr (ws, t)"
    using assms(1) by (auto simp: ListResults_def split: if_splits option.splits sum.splits)
  obtain tok ord' where lb: "newOrder (TrimSpace (lq_order_by req)) resultFieldsToColumns = Inr ord'"
      "l_builders l = lister_builders (le_convert_results le) ord' tok (TrimSpace (lq_filter req))
      [\<lparr>ec_column = ''parent'', ec_value = TrimSpace (lq_parent req)\<rparr>] (l_pageSize l)"
      "l_pageToken l = tok" "l_convert l = result_ToAPI"
    using newLister_Inr [OF l [unfolded OfResults_def]] by blast
  have o: "ord' = ord" using lb(1) assms(2) by simp
  obtain tk where tk: "tok = Some tk"
    using l assms(4) lb(3)
    by (auto simp: OfResults_def newLister_def Let_def decodePageToken_def split: sum.splits if_splits option.splits)
  obtain q where bq: "buildQuery tok (l_builders l) empty_query = Inr q"
    using run lb(3) by (auto simp: Lister_List_def split: sum.splits)
  note q = bq [unfolded lb(2) buildQuery_lister o]
  obtain models where m: "Find ?m (e_fault e OpFind) q (results_tbl s) = Inr models"
    using run lb(3) bq by (auto simp: Lister_List_def split: sum.splits)
  have "o_field ord \<noteq> []" using newOrder_Inr [OF assms(2)] assms(3) by auto
  then obtain lt tm uid where "AfterRow (o_column ord) lt tm uid \<in> set (q_where q)"
    using q tk by (auto simp: tokens_match_def order_validateToken_def offset_validateToken_def
        offset_conds_def split: option.splits)
  then have "\<forall>r\<in>set models. r \<in> set (results_tbl s) \<and> rs_start (r_summary r) \<noteq> None"
    using Find_Inr [OF m] assms(3) by (fastforce simp: results_model_def split: option.splits)
  moreover have "set ws \<subseteq> result_ToAPI ` set models"
    using run lb bq m by (auto simp: Lister_List_def Let_def split: sum.splits if_splits dest: in_set_takeD)
  ultimately show ?thesis by blast
qed

text \<open>A codec whose every token is the given one, to build requests with a token.\<close>

definition token_env :: "page_token \<Rightarrow> list_env" where
  "token_env t = sample_list_env\<lparr>le_tokens := \<lparr>pt_marshal = (\<lambda>_. Inr ''x''), pt_unmarshal = (\<lambda>_. Inr t)\<rparr>\<rparr>"

definition token_of :: "string \<Rightarrow> page_token" where
  "token_of field = PageToken ''ns'' [] (Some (ItemTok ''u0'' (Some (OrderTok field None 0))))"

definition token_req :: "string \<Rightarrow> list_req" where
  "token_req order_by = (sample_list_req ''ns'' order_by)\<lparr>lq_page_token := ''AA'', lq_page_size := 5\<rparr>"

theorem null_times_unreachable_witness:
  "\<exists>ws t. ListResults (open_env ''u9'' 9) (token_env (token_of ''summary.start_time''))
      (token_req ''summary.start_time'') sample_db = Inr (ws, t) \<and> ws = []"
proof -
  let ?l = "ListResults (open_env ''u9'' 9) (token_env (token_of ''summary.start_time''))
      (token_req ''summary.start_time'') sample_db"
  have o: "newOrder (TrimSpace (lq_order_by (token_req ''summary.start_time''))) resultFieldsToColumns
      = Inr \<lparr>o_column = ''recordsummary_start_time'', o_field = ''summary.start_time'', o_direction = ''ASC''\<rparr>"
    and t: "TrimSpace (lq_page_token (token_req ''summary.start_time'')) \<noteq> []"
    and n: "\<forall>r\<in>set (results_tbl sample_db). rs_start (r_summary r) = None" by code_simp+
  have "is_ok ?l" by (simp add: token_env_def sample_list_env_def) code_simp
  then obtain ws t where l: "?l = Inr (ws, t)" by (auto simp: is_ok_iff)
  have "ws = []" using null_times_unreachable [OF l o _ t] n by (auto simp: neq_Nil_conv)
  with l show ?thesis by blast
qed

text \<open>A page token of an ordered listing that is sent without the order clause passes every token
  check and then fails in the database with code Unknown, not with InvalidArgument: the order check
  is skipped when the request has no order, and the offset condition is built with an empty column.\<close>

theorem ordered_token_without_order_fails:
  assumes "lq_parent req \<noteq> []" and "e_check e (lq_parent req) ResourceResults PermissionList = None"
    and "e_fault e OpFind = None"
    and "decodePageToken (le_tokens le) (TrimSpace (lq_page_token req)) =
      Inr (Some (PageToken (TrimSpace (lq_parent req)) (TrimSpace (lq_filter req)) (Some (ItemTok uid (Some ot)))))"
    and "uid \<noteq> []" and "TrimSpace (lq_order_by req) = []" and "TrimSpace (lq_filter req) = []"
    and "5 \<le> lq_page_size req" and "lq_page_size req \<le> 10000"
  shows "ListResults e le req s = Inl (StatusErr Unknown ''syntax error'')"
proof -
  let ?tok = "Some (PageToken (TrimSpace (lq_parent req)) (TrimSpace (lq_filter req)) (Some (ItemTok uid (Some ot))))"
  let ?o = "\<lparr>o_column = [], o_field = [], o_direction = []\<rparr>"
  have o: "newOrder (TrimSpace (lq_order_by req)) resultFieldsToColumns = Inr ?o"
    using assms(6) by (simp add: newOrder_def parseOrderBy_def)
  obtain l where l: "OfResults (le_tokens le) (le_convert_results le) req = Inr l"
      "l_builders l = lister_builders (le_convert_results le) ?o ?tok (TrimSpace (lq_filter req))
        [\<lparr>ec_column = ''parent'', ec_value = TrimSpace (lq_parent req)\<rparr>] (lq_page_size req)"
      "l_pageToken l = ?tok"
    using assms(4,8) o by (simp add: OfResults_def newLister_def Let_def lister_builders_def)
  have "tokens_match ?o (TrimSpace (lq_filter req)) (the ?tok)"
    using assms(5) by (simp add: tokens_match_def offset_validateToken_def filter_validateToken_def
        order_validateToken_def)
  then obtain q where q: "buildQuery ?tok (l_builders l) empty_query = Inr q"
      "AfterRow [] (ot_direction ot = 1) (AsTime_opt (ot_value ot)) uid \<in> set (q_where q)"
    unfolding l(2) using assms(7-9) by (auto simp: buildQuery_lister offset_conds_def)
  have "Find (results_model (le_sql_results le)) None q (results_tbl s) = Inl (SqlStateErr ''42601'' ''syntax error'')"
    using q(2) by (fastforce simp: Find_def list_all_iff results_model_def)
  then show ?thesis
    using assms(1-3) l q(1)
    by (simp add: ListResults_def Lister_List_def Wrap_def gormCode_def sqlStateUniqueViolation_def
        sqlStateForeignKey_def)
qed

theorem ordered_token_without_order_fails_witness:
  "ListResults (open_env ''u9'' 9) (token_env (token_of ''create_time'')) (token_req []) sample_db
     = Inl (StatusErr Unknown ''syntax error'')"
proof -
  have req: "lq_parent (token_req []) = ''ns''" "TrimSpace ''ns'' = ''ns''" "TrimSpace ''AA'' = ''AA''"
    "lq_filter (token_req []) = []" "lq_order_by (token_req []) = []" "lq_page_size (token_req []) = 5"
    "lq_page_token (token_req []) = ''AA''"
    by code_simp+
  have d: "decode ''AA'' \<noteq> None" by code_simp
  have "decodePageToken (le_tokens (token_env (token_of ''create_time''))) ''AA'' = Inr (Some (token_of ''create_time''))"
    using d by (auto simp: decodePageToken_def token_env_def)
  then show ?thesis
    using ordered_token_without_order_fails [of "token_req []" "open_env ''u9'' 9"
        "token_env (token_of ''create_time'')" "''u0''" "OrderTok ''create_time'' None 0" sample_db] req
    by (simp add: token_of_def)
qed

end
