(* ===== verification/Aggregator.thy ===== *)
theory Aggregator
  imports Lister ServerSteps
begin

text \<open>
  Aggregation of record lists (\<^verbatim>\<open>lister/aggregator.go\<close>) and the handler
  \<^verbatim>\<open>GetRecordListSummary\<close> (\<^verbatim>\<open>summary.go\<close>). An aggregate query is a value: its conditions,
  the SELECT expressions in the order they were added, the GROUP BY column and the ORDER BY
  texts. The database's evaluation of such a query and the conversion of a scanned value to a
  protobuf value are parameters.
\<close>

subsection \<open>Query texts\<close>

definition sqlq :: "string \<Rightarrow> string" where
  "sqlq s = squote # s @ [squote]"

definition data_path :: "string \<Rightarrow> string \<Rightarrow> string" where
  "data_path a b = ''data->'' @ sqlq a @ ''->>'' @ sqlq b"

definition tstz :: "string \<Rightarrow> string" where
  "tstz s = ''('' @ s @ '')::TIMESTAMP WITH TIME ZONE''"

definition durationQuery :: string where
  "durationQuery = tstz (data_path ''status'' ''completionTime'') @ '' - '' @ tstz (data_path ''status'' ''startTime'')"

definition statusQuery :: string where
  "statusQuery = ''(data->'' @ sqlq ''status'' @ ''->'' @ sqlq ''conditions'' @ ''->0->>'' @ sqlq ''reason'' @ '')''"

definition groupByTimeQuery :: string where
  "groupByTimeQuery = tstz (data_path ''metadata'' ''creationTimestamp'')"

definition groupByParentQuery :: string where
  "groupByParentQuery = data_path ''metadata'' ''namespace''"

definition groupByPipelineQuery :: string where
  "groupByPipelineQuery = ''data->'' @ sqlq ''metadata'' @ ''->'' @ sqlq ''labels'' @ ''->>'' @ sqlq ''tekton.dev/pipeline''"

definition groupByRepositoryQuery :: string where
  "groupByRepositoryQuery =
     ''data->'' @ sqlq ''metadata'' @ ''->'' @ sqlq ''annotations'' @ ''->>'' @ sqlq ''pipelinesascode.tekton.dev/repository''"

definition startTimeQuery :: string where
  "startTimeQuery = tstz (data_path ''status'' ''startTime'')"

subsection \<open>Aggregate functions\<close>

record agg_query =
  a_where :: "cond list"
  a_selects :: "string list"
  a_group :: "string option"
  a_order :: "string list"

type_synonym aggregateFunc = "agg_query \<Rightarrow> agg_query"

definition Select :: "string \<Rightarrow> agg_query \<Rightarrow> agg_query" where
  "Select s q = q\<lparr>a_selects := a_selects q @ [s]\<rparr>"

definition getStatus :: "string \<Rightarrow> string \<Rightarrow> aggregateFunc" where
  "getStatus qry reason =
     Select
       (if reason = ''Succeeded''
        then ''COUNT(CASE WHEN '' @ qry @ '' IN ('' @ sqlq ''Succeeded'' @ '', '' @ sqlq ''Completed''
          @ '') THEN 1 END) AS '' @ ToLower reason
        else if reason = ''Others''
        then ''COUNT(CASE WHEN '' @ qry @ '' NOT IN ('' @ sqlq ''Failed'' @ '', '' @ sqlq ''Succeeded'' @ '', ''
          @ sqlq ''Cancelled'' @ '', '' @ sqlq ''Running'' @ '', '' @ sqlq ''Completed''
          @ '') THEN 1 END) AS '' @ ToLower reason
        else ''COUNT(CASE WHEN '' @ qry @ '' = '' @ sqlq reason @ '' THEN 1 END) AS '' @ ToLower reason)"

definition getCount :: "string \<Rightarrow> string \<Rightarrow> aggregateFunc" where
  "getCount qry countName = Select (''COUNT('' @ qry @ '') AS '' @ countName)"

definition getDuration :: "string \<Rightarrow> string \<Rightarrow> string \<Rightarrow> aggregateFunc" where
  "getDuration f qry val = Select (f @ ''('' @ qry @ '')::INTERVAL AS '' @ val)"

definition getTime :: "string \<Rightarrow> string \<Rightarrow> string \<Rightarrow> aggregateFunc" where
  "getTime f qry as = Select (f @ ''(EXTRACT(EPOCH FROM '' @ qry @ '')) AS '' @ as)"

definition summaryFuncs :: "(string \<times> aggregateFunc) list" where
  "summaryFuncs =
     [(''total'', getCount ''*'' ''total''),
      (''avg_duration'', getDuration ''AVG'' durationQuery ''avg_duration''),
      (''max_duration'', getDuration ''MAX'' durationQuery ''max_duration''),
      (''total_duration'', getDuration ''SUM'' durationQuery ''total_duration''),
      (''min_duration'', getDuration ''MIN'' durationQuery ''min_duration''),
      (''last_runtime'', getTime ''MAX'' startTimeQuery ''last_runtime''),
      (''succeeded'', getStatus statusQuery ''Succeeded''),
      (''failed'', getStatus statusQuery ''Failed''),
      (''cancelled'', getStatus statusQuery ''Cancelled''),
      (''running'', getStatus statusQuery ''Running''),
      (''others'', getStatus statusQuery ''Others'')]"

fun getAggregateFunc :: "string list \<Rightarrow> aggregateFunc list res" where
  "getAggregateFunc [] = Inr []"
| "getAggregateFunc (q # qs) =
     (case map_of summaryFuncs q of
        None \<Rightarrow> Inl (StatusErr InvalidArgument (''invalid aggregate query: '' @ q))
      | Some f \<Rightarrow> (case getAggregateFunc qs of Inl e \<Rightarrow> Inl e | Inr fs \<Rightarrow> Inr (f # fs)))"

definition validGroups :: "(string \<times> bool) list" where
  "validGroups =
     [(''year'', True), (''month'', True), (''week'', True), (''day'', True), (''hour'', True),
      (''minute'', True), (''pipeline'', False), (''namespace'', False), (''repository'', False)]"

definition groupBy :: "string \<Rightarrow> aggregateFunc" where
  "groupBy groupSelect q = (Select groupSelect q)\<lparr>a_group := Some ''group_value''\<rparr>"

definition group_error :: "string \<Rightarrow> go_error" where
  "group_error q = StatusErr InvalidArgument (''group_by does not recognize '' @ q)"

definition trunc_select :: "string \<Rightarrow> string \<Rightarrow> string" where
  "trunc_select period qry = ''EXTRACT(EPOCH FROM DATE_TRUNC('' @ sqlq period @ '', '' @ qry @ '')) AS group_value''"

definition checkAndBuildGroupQuery :: "string \<Rightarrow> string res" where
  "checkAndBuildGroupQuery q =
     (let parts = split_on (CHR '' '') q; p0 = hd parts in
      case map_of validGroups p0 of
        None \<Rightarrow> Inl (group_error q)
      | Some isTime \<Rightarrow>
          if isTime \<and> length parts = 1 then Inr (trunc_select p0 groupByTimeQuery)
          else if isTime \<and> length parts = 2
          then (if parts ! 1 \<noteq> ''completionTime'' \<and> parts ! 1 \<noteq> ''startTime''
                then Inl (group_error (parts ! 1))
                else Inr (trunc_select p0 (tstz (data_path ''status'' (parts ! 1)))))
          else if \<not> isTime \<and> length parts = 1
          then (if p0 = ''namespace'' then Inr (groupByParentQuery @ '' AS group_value'')
                else if p0 = ''pipeline''
                then Inr (''CONCAT('' @ groupByParentQuery @ '', '' @ sqlq ''/'' @ '', '' @ groupByPipelineQuery
                  @ '') AS group_value'')
                else if p0 = ''repository''
                then Inr (''CONCAT('' @ groupByParentQuery @ '', '' @ sqlq ''/'' @ '', '' @ groupByRepositoryQuery
                  @ '') AS group_value'')
                else Inr [])
          else Inl (group_error q))"

definition orderBy :: "string \<Rightarrow> aggregateFunc" where
  "orderBy orderSelect q = q\<lparr>a_order := a_order q @ [orderSelect]\<rparr>"

definition checkAndBuildOrderBy :: "string \<Rightarrow> string list \<Rightarrow> string res" where
  "checkAndBuildOrderBy q allowedFields =
     (let parts = split_on (CHR '' '') q in
      if length parts \<noteq> 2 \<or> orderByPattern q = None
      then Inl (StatusErr InvalidArgument (''order_by does not recognize '' @ q))
      else
        (let fieldName = parts ! 0; orderDirection = ToUpper (parts ! 1) in
         if \<not> List.member allowedFields fieldName
         then Inl (StatusErr InvalidArgument (''field name '' @ fieldName
           @ '' is not allowed, must be one of summary''))
         else Inr (fieldName @ '' '' @ orderDirection)))"

subsection \<open>The aggregator\<close>

record Aggregator =
  ag_builders :: "(query \<Rightarrow> query res) list"
  ag_aggregators :: "aggregateFunc list"

record summary_req =
  sq_parent :: string
  sq_filter :: string
  sq_group_by :: string
  sq_summary :: string
  sq_order_by :: string

definition summary_fields :: "string \<Rightarrow> string list" where
  "summary_fields s =
     (let summary = split_on (CHR '','') (TrimSpace s) in
      if length summary = 1 \<and> summary ! 0 = [] then summary @ [''total''] else summary)"

definition newAggregator ::
    "(string \<Rightarrow> string res) \<Rightarrow> summary_req \<Rightarrow> equalityClause list \<Rightarrow> Aggregator res" where
  "newAggregator Convert req clauses =
     (let summary = summary_fields (sq_summary req) in
      case getAggregateFunc summary of
        Inl e \<Rightarrow> Inl e
      | Inr aggregators \<Rightarrow>
     (let grp = TrimSpace (sq_group_by req) in
      case (if grp \<noteq> []
            then (case checkAndBuildGroupQuery grp of Inl e \<Rightarrow> Inl e | Inr g \<Rightarrow> Inr (aggregators @ [groupBy g]))
            else Inr aggregators) of
        Inl e \<Rightarrow> Inl e
      | Inr aggs1 \<Rightarrow>
     (let orderQuery = TrimSpace (sq_order_by req) in
      case (if orderQuery \<noteq> [] \<and> grp \<noteq> []
            then (case checkAndBuildOrderBy orderQuery summary of
                    Inl e \<Rightarrow> Inl e | Inr os \<Rightarrow> Inr (aggs1 @ [orderBy os]))
            else Inr aggs1) of
        Inl e \<Rightarrow> Inl e
      | Inr aggs2 \<Rightarrow>
          Inr \<lparr>ag_builders = [filter_build Convert (TrimSpace (sq_filter req)) clauses],
               ag_aggregators = aggs2\<rparr>)))"

fun agg_buildQuery :: "(query \<Rightarrow> query res) list \<Rightarrow> query \<Rightarrow> query res" where
  "agg_buildQuery [] q = Inr q"
| "agg_buildQuery (b # bs) q =
     (case b q of
        Inl err \<Rightarrow> Inl (StatusErr InvalidArgument (error_msg err))
      | Inr q' \<Rightarrow> agg_buildQuery bs q')"

definition applyAggregateFunc :: "aggregateFunc list \<Rightarrow> agg_query \<Rightarrow> agg_query" where
  "applyAggregateFunc fs q = fold (\<lambda>f acc. f acc) fs q"

text \<open>
  \<^verbatim>\<open>Scan\<close> fills the rows it could read before an error; the parameter answers with the error,
  if there is one, and those rows. A row is a list of column names with their values.
\<close>

record agg_env =
  ag_scan :: "agg_query \<Rightarrow> db_record list \<Rightarrow> gorm_error option \<times> (string \<times> string) list list"
  ag_new_value :: "string \<Rightarrow> string + string"

fun row_values :: "(string \<Rightarrow> string + string) \<Rightarrow> (string \<times> string) list \<Rightarrow> (string \<times> string) list res" where
  "row_values nv [] = Inr []"
| "row_values nv ((k, v) # kvs) =
     (case nv v of
        Inl e \<Rightarrow> Inl (PlainErr e)
      | Inr pv \<Rightarrow> (case row_values nv kvs of Inl e \<Rightarrow> Inl e | Inr m \<Rightarrow> Inr ((k, pv) # m)))"

fun toSummary :: "(string \<Rightarrow> string + string) \<Rightarrow> (string \<times> string) list list \<Rightarrow> (string \<times> string) list list res" where
  "toSummary nv [] = Inr []"
| "toSummary nv (r # rs) =
     (case row_values nv r of
        Inl e \<Rightarrow> Inl e
      | Inr m \<Rightarrow> (case toSummary nv rs of Inl e \<Rightarrow> Inl e | Inr ms \<Rightarrow> Inr (m # ms)))"

definition Aggregate :: "agg_env \<Rightarrow> Aggregator \<Rightarrow> db_record list \<Rightarrow> (string \<times> string) list list res" where
  "Aggregate ae a rows =
     (case agg_buildQuery (ag_builders a) empty_query of
        Inl e \<Rightarrow> Inl e
      | Inr q \<Rightarrow>
          (let aq = applyAggregateFunc (ag_aggregators a)
                 \<lparr>a_where = q_where q, a_selects = [], a_group = None, a_order = []\<rparr>;
               (_, summary) = ag_scan ae aq rows
           in toSummary (ag_new_value ae) summary))"

definition OfRecordList ::
    "(string \<Rightarrow> string res) \<Rightarrow> string \<Rightarrow> string \<Rightarrow> summary_req \<Rightarrow> Aggregator res" where
  "OfRecordList Convert resultParent resultName req =
     newAggregator Convert req
       [\<lparr>ec_column = ''parent'', ec_value = resultParent\<rparr>,
        \<lparr>ec_column = ''result_name'', ec_value = resultName\<rparr>]"

definition GetRecordListSummary ::
    "env \<Rightarrow> list_env \<Rightarrow> agg_env \<Rightarrow> summary_req \<Rightarrow> db \<Rightarrow> (string \<times> string) list list res" where
  "GetRecordListSummary e le ae req s =
     (if sq_parent req = [] then Inl (StatusErr InvalidArgument ''parent missing'')
      else (case result_ParseName (sq_parent req) of
              Inl err \<Rightarrow> Inl err
            | Inr (parent, resultName) \<Rightarrow>
                (case e_check e parent ResourceRecords PermissionGet of
                   Some err \<Rightarrow> Inl err
                 | None \<Rightarrow>
                     (case OfRecordList (le_convert_records le) parent resultName req of
                        Inl err \<Rightarrow> Inl err
                      | Inr a \<Rightarrow> Aggregate ae a (records_tbl s)))))"

subsection \<open>What a summary request can do\<close>

lemma Select_simps [simp]:
  "a_selects (Select x q) = a_selects q @ [x]" "a_order (Select x q) = a_order q" "a_group (Select x q) = a_group q"
  by (simp_all add: Select_def)

lemmas agg_defs = getStatus_def getCount_def getDuration_def getTime_def

definition empty_agg :: agg_query where
  "empty_agg = \<lparr>a_where = [], a_selects = [], a_group = None, a_order = []\<rparr>"

definition summary_selects :: "string list" where
  "summary_selects = map (\<lambda>kf. hd (a_selects (snd kf empty_agg))) summaryFuncs"

definition group_selects :: "string list" where
  "group_selects =
     [trunc_select p t. p \<leftarrow> [''year'', ''month'', ''week'', ''day'', ''hour'', ''minute''],
        t \<leftarrow> [groupByTimeQuery, tstz (data_path ''status'' ''completionTime''), tstz (data_path ''status'' ''startTime'')]]
     @ [groupByParentQuery @ '' AS group_value'',
        ''CONCAT('' @ groupByParentQuery @ '', '' @ sqlq ''/'' @ '', '' @ groupByPipelineQuery @ '') AS group_value'',
        ''CONCAT('' @ groupByParentQuery @ '', '' @ sqlq ''/'' @ '', '' @ groupByRepositoryQuery @ '') AS group_value'']"

lemma summary_func_effect:
  assumes "map_of summaryFuncs k = Some f"
  shows "\<exists>x\<in>set summary_selects. \<forall>q. f q = Select x q"
proof -
  have "(k, f) \<in> set summaryFuncs" using assms by (rule map_of_SomeD)
  then obtain x where x: "\<forall>q. f q = Select x q"
    unfolding summaryFuncs_def by (auto simp: agg_defs)
  then have "x = hd (a_selects (f empty_agg))" by (simp add: empty_agg_def)
  then have "x \<in> set summary_selects" using \<open>(k, f) \<in> set summaryFuncs\<close>
    unfolding summary_selects_def by (force intro: image_eqI [of _ _ "(k, f)"])
  with x show ?thesis by blast
qed

lemma getAggregateFunc_Inr:
  "getAggregateFunc qs = Inr fs \<Longrightarrow>
     set qs \<subseteq> fst ` set summaryFuncs \<and> (\<forall>f\<in>set fs. \<exists>x\<in>set summary_selects. \<forall>q. f q = Select x q)"
proof (induction qs arbitrary: fs)
  case (Cons k qs)
  then obtain f fs' where f: "map_of summaryFuncs k = Some f" and fs': "getAggregateFunc qs = Inr fs'" "fs = f # fs'"
    by (auto split: option.splits sum.splits)
  from Cons.IH [OF fs'(1)] summary_func_effect [OF f] map_of_SomeD [OF f] fs'(2) show ?case
    by (auto intro: rev_image_eqI)
qed simp

lemma split_on_hd_whole: "length (split_on c s) = 1 \<Longrightarrow> hd (split_on c s) = s"
  using join_split_on [of c s] by (cases "split_on c s") auto

lemma checkAndBuildGroupQuery_Inr:
  assumes "checkAndBuildGroupQuery q = Inr g"
  shows "g \<in> set group_selects"
proof -
  let ?p = "split_on (CHR '' '') q"
  obtain b where b: "map_of validGroups (hd ?p) = Some b"
    using assms by (auto simp: checkAndBuildGroupQuery_def Let_def split: option.splits)
  have mem: "(hd ?p, b) \<in> set validGroups" using b by (rule map_of_SomeD)
  show ?thesis
  proof (cases b)
    case True
    then have period: "hd ?p \<in> set [''year'', ''month'', ''week'', ''day'', ''hour'', ''minute'']"
      using mem by (auto simp: validGroups_def)
    have "g \<in> {trunc_select (hd ?p) groupByTimeQuery,
        trunc_select (hd ?p) (tstz (data_path ''status'' ''completionTime'')),
        trunc_select (hd ?p) (tstz (data_path ''status'' ''startTime''))}"
      using assms b True by (auto simp: checkAndBuildGroupQuery_def Let_def split: if_splits)
    then show ?thesis using period unfolding group_selects_def by auto
  next
    case False
    then have "hd ?p \<in> {''pipeline'', ''namespace'', ''repository''}" using mem by (auto simp: validGroups_def)
    then show ?thesis using assms b False unfolding group_selects_def
      by (auto simp: checkAndBuildGroupQuery_def Let_def split: if_splits)
  qed
qed

lemma checkAndBuildOrderBy_Inr:
  assumes "checkAndBuildOrderBy q allowed = Inr os"
  shows "\<exists>f d. os = f @ '' '' @ ToUpper d \<and> f \<in> set allowed \<and> q = f @ '' '' @ d \<and> orderByPattern q \<noteq> None"
proof -
  let ?p = "split_on (CHR '' '') q"
  have l: "length ?p = 2" and m: "?p ! 0 \<in> set allowed" and os: "os = ?p ! 0 @ '' '' @ ToUpper (?p ! 1)"
    and pat: "orderByPattern q \<noteq> None"
    using assms by (auto simp: checkAndBuildOrderBy_def Let_def split: if_splits)
  obtain f d where p: "?p = [f, d]" using l by (auto simp: length_Suc_conv numeral_2_eq_2)
  have "q = f @ '' '' @ d" using join_split_on [of "CHR '' ''" q] p by simp
  then show ?thesis using m os pat p by auto
qed

text \<open>The words an order text may end with, after white space.\<close>

lemma order_text_dir:
  assumes "list_all word_char f" and "f \<noteq> []" and "orderByPattern (f @ '' '' @ d) \<noteq> None"
  shows "dropWhile re_space d \<in> {[], ''ASC'', ''asc'', ''DESC'', ''desc''}"
proof -
  let ?P = "\<lambda>c. word_char c \<or> c = CHR ''.''"
  have sp: "\<not> ?P (CHR '' '')" "re_space (CHR '' '')" by (simp_all add: word_char_def re_space_def)
  have "dropWhile ?P (f @ '' '' @ d) = '' '' @ d"
    using assms(1) sp by (induction f) auto
  then have "dropWhile re_space (dropWhile ?P (f @ '' '' @ d)) = dropWhile re_space d" using sp by simp
  then show ?thesis using assms(3) by (auto simp: orderByPattern_def Let_def split: if_splits)
qed

lemma summary_names_word: "\<forall>f\<in>fst ` set summaryFuncs. list_all word_char f \<and> f \<noteq> []"
  unfolding summaryFuncs_def by (simp add: word_char_def)

lemma apply_selects:
  assumes "\<forall>f\<in>set fs. \<exists>x\<in>set xs. \<forall>q. f q = Select x q"
  shows "set (a_selects (applyAggregateFunc fs q)) \<subseteq> set (a_selects q) \<union> set xs
    \<and> a_order (applyAggregateFunc fs q) = a_order q"
  using assms
proof (induction fs arbitrary: q)
  case (Cons f fs)
  then obtain x where "x \<in> set xs" "f q = Select x q" by fastforce
  then show ?case using Cons.IH [of "f q"] Cons.prems by (auto simp: applyAggregateFunc_def)
qed (simp add: applyAggregateFunc_def)

text \<open>An accepted request: its aggregators are the summary functions, then the grouping if one is
  asked for, then the ordering if one is asked for as well.\<close>

lemma newAggregator_Inr:
  assumes "newAggregator Convert req clauses = Inr a"
  obtains fs gs os where "ag_aggregators a = fs @ gs @ os"
    and "getAggregateFunc (summary_fields (sq_summary req)) = Inr fs"
    and "gs = [] \<or> (\<exists>g. gs = [groupBy g] \<and> g \<in> set group_selects)"
    and "os = [] \<or> (\<exists>x. os = [orderBy x]
      \<and> checkAndBuildOrderBy (TrimSpace (sq_order_by req)) (summary_fields (sq_summary req)) = Inr x)"
proof -
  let ?sum = "summary_fields (sq_summary req)"
  obtain fs where fs: "getAggregateFunc ?sum = Inr fs"
    using assms by (auto simp: newAggregator_def Let_def split: sum.splits)
  obtain aggs1 where a1: "(if TrimSpace (sq_group_by req) \<noteq> []
      then (case checkAndBuildGroupQuery (TrimSpace (sq_group_by req)) of Inl e \<Rightarrow> Inl e | Inr g \<Rightarrow> Inr (fs @ [groupBy g]))
      else Inr fs) = Inr aggs1"
    using assms fs by (auto simp: newAggregator_def Let_def split: sum.splits)
  obtain gs where gs: "aggs1 = fs @ gs" "gs = [] \<or> (\<exists>g. gs = [groupBy g] \<and> g \<in> set group_selects)"
    using a1 checkAndBuildGroupQuery_Inr by (cases "TrimSpace (sq_group_by req) = []") (auto split: sum.splits)
  have "newAggregator Convert req clauses = (case (if TrimSpace (sq_order_by req) \<noteq> [] \<and> TrimSpace (sq_group_by req) \<noteq> []
      then (case checkAndBuildOrderBy (TrimSpace (sq_order_by req)) ?sum of Inl e \<Rightarrow> Inl e | Inr os \<Rightarrow> Inr (aggs1 @ [orderBy os]))
      else Inr aggs1) of Inl e \<Rightarrow> Inl e
      | Inr aggs2 \<Rightarrow> Inr \<lparr>ag_builders = [filter_build Convert (TrimSpace (sq_filter req)) clauses], ag_aggregators = aggs2\<rparr>)"
    unfolding newAggregator_def Let_def fs sum.case a1 ..
  then obtain os where "ag_aggregators a = fs @ gs @ os"
    and "os = [] \<or> (\<exists>x. os = [orderBy x] \<and> checkAndBuildOrderBy (TrimSpace (sq_order_by req)) ?sum = Inr x)"
    using assms gs(1) by (cases "TrimSpace (sq_order_by req) \<noteq> [] \<and> TrimSpace (sq_group_by req) \<noteq> []")
      (auto split: sum.splits)
  then show ?thesis using that fs gs(2) by blast
qed

lemma order_by_words:
  assumes "getAggregateFunc flds = Inr fs" and "checkAndBuildOrderBy q flds = Inr x"
  shows "\<exists>f d. x = f @ '' '' @ ToUpper d \<and> f \<in> fst ` set summaryFuncs
    \<and> dropWhile re_space d \<in> {[], ''ASC'', ''asc'', ''DESC'', ''desc''}"
proof -
  obtain f d where fd: "x = f @ '' '' @ ToUpper d" "f \<in> set flds" "orderByPattern (f @ '' '' @ d) \<noteq> None"
    using checkAndBuildOrderBy_Inr [OF assms(2)] by auto
  then have "f \<in> fst ` set summaryFuncs" using getAggregateFunc_Inr [OF assms(1)] by blast
  then show ?thesis using fd order_text_dir [of f d] summary_names_word by blast
qed

text \<open>C14: Request text never becomes aggregate SQL: when a summary request is accepted, every SELECT
  expression is one of the eleven summary or twenty-one grouping expressions of the code, and every
  ORDER BY text is the name of a summary function followed by white space and a direction.\<close>

theorem aggregate_sql_whitelisted:
  assumes "newAggregator Convert req clauses = Inr a"
  shows "set (a_selects (applyAggregateFunc (ag_aggregators a) empty_agg)) \<subseteq> set summary_selects \<union> set group_selects
    \<and> (\<forall>os\<in>set (a_order (applyAggregateFunc (ag_aggregators a) empty_agg)).
         \<exists>f d. os = f @ '' '' @ ToUpper d \<and> f \<in> fst ` set summaryFuncs
           \<and> dropWhile re_space d \<in> {[], ''ASC'', ''asc'', ''DESC'', ''desc''})"
proof -
  obtain fs gs os where ag: "ag_aggregators a = fs @ gs @ os" and fs: "getAggregateFunc (summary_fields (sq_summary req)) = Inr fs"
    and gs: "gs = [] \<or> (\<exists>g. gs = [groupBy g] \<and> g \<in> set group_selects)"
    and os: "os = [] \<or> (\<exists>x. os = [orderBy x] \<and> checkAndBuildOrderBy (TrimSpace (sq_order_by req)) (summary_fields (sq_summary req)) = Inr x)"
    by (rule newAggregator_Inr [OF assms])
  let ?q2 = "applyAggregateFunc gs (applyAggregateFunc fs empty_agg)"
  have g: "set (a_selects ?q2) \<subseteq> set summary_selects \<union> set group_selects" "a_order ?q2 = []"
    using gs apply_selects [OF conjunct2 [OF getAggregateFunc_Inr [OF fs]], of empty_agg]
    by (auto simp: applyAggregateFunc_def groupBy_def empty_agg_def)
  have run: "applyAggregateFunc (fs @ gs @ os) empty_agg = applyAggregateFunc os ?q2"
    by (simp add: applyAggregateFunc_def)
  from os show ?thesis unfolding ag run
  proof (elim disjE exE conjE)
    fix x assume x: "os = [orderBy x]"
      and c: "checkAndBuildOrderBy (TrimSpace (sq_order_by req)) (summary_fields (sq_summary req)) = Inr x"
    have "applyAggregateFunc os ?q2 = ?q2\<lparr>a_order := [x]\<rparr>"
      using x g(2) by (simp add: applyAggregateFunc_def orderBy_def)
    then show "set (a_selects (applyAggregateFunc os ?q2)) \<subseteq> set summary_selects \<union> set group_selects
      \<and> (\<forall>os'\<in>set (a_order (applyAggregateFunc os ?q2)). \<exists>f d. os' = f @ '' '' @ ToUpper d
        \<and> f \<in> fst ` set summaryFuncs \<and> dropWhile re_space d \<in> {[], ''ASC'', ''asc'', ''DESC'', ''desc''})"
      using g(1) order_by_words [OF fs c] by simp
  qed (use g in \<open>simp add: applyAggregateFunc_def\<close>)
qed

theorem aggregate_sql_whitelisted_witness:
  "\<exists>a. newAggregator Inr \<lparr>sq_parent = ''ns/results/-'', sq_filter = [], sq_group_by = ''week startTime'',
       sq_summary = ''total,failed'', sq_order_by = ''total desc''\<rparr> [] = Inr a
     \<and> set (a_selects (applyAggregateFunc (ag_aggregators a) empty_agg)) \<subseteq> set summary_selects \<union> set group_selects"
proof -
  let ?r = "newAggregator Inr \<lparr>sq_parent = ''ns/results/-'', sq_filter = [], sq_group_by = ''week startTime'',
       sq_summary = ''total,failed'', sq_order_by = ''total desc''\<rparr> []"
  have "is_ok ?r" by code_simp
  then obtain a where a: "?r = Inr a" by (auto simp: is_ok_iff)
  with aggregate_sql_whitelisted [OF a] show ?thesis by blast
qed

text \<open>The default summary never works: a request without a summary, for which the code means to
  compute the total, is always refused, because the empty name stays in the list beside the default.\<close>

theorem default_summary_rejected:
  assumes "TrimSpace (sq_summary req) = []"
  shows "newAggregator Convert req clauses = Inl (StatusErr InvalidArgument ''invalid aggregate query: '')"
proof -
  have "summary_fields (sq_summary req) = [[], ''total'']" using assms by (simp add: summary_fields_def)
  moreover have "map_of summaryFuncs [] = None" by (simp add: summaryFuncs_def)
  ultimately show ?thesis by (simp add: newAggregator_def)
qed

theorem default_summary_rejected_witness:
  "newAggregator Inr \<lparr>sq_parent = ''ns/results/-'', sq_filter = [], sq_group_by = [], sq_summary = [],
     sq_order_by = []\<rparr> [] = Inl (StatusErr InvalidArgument ''invalid aggregate query: '')"
  by (rule default_summary_rejected) simp

text \<open>Database errors of an aggregation are dropped: whenever the database fails the aggregate
  query of an accepted request, the call still succeeds, with an empty summary.\<close>

theorem aggregate_hides_database_errors:
  assumes "result_ParseName (sq_parent req) = Inr (parent, resultName)"
    and "e_check e parent ResourceRecords PermissionGet = None"
    and "is_ok (OfRecordList (le_convert_records le) parent resultName req)"
    and "TrimSpace (sq_filter req) = []" and "\<And>q rows. \<exists>err. ag_scan ae q rows = (Some err, [])"
  shows "GetRecordListSummary e le ae req s = Inr []"
proof -
  have "sq_parent req \<noteq> []" using assms(1) by (metis result_ParseName_Nil)
  obtain a where a: "OfRecordList (le_convert_records le) parent resultName req = Inr a"
    using assms(3) by (auto simp: is_ok_iff)
  then obtain clauses where b: "ag_builders a = [filter_build (le_convert_records le) (TrimSpace (sq_filter req)) clauses]"
    by (auto simp: OfRecordList_def newAggregator_def Let_def split: sum.splits)
  have "snd (ag_scan ae q rows) = []" for q rows using assms(5) [of q rows] by auto
  then show ?thesis using \<open>sq_parent req \<noteq> []\<close> assms(1,2,4) a b
    by (simp add: GetRecordListSummary_def Aggregate_def filter_build_def Let_def split_beta)
qed

theorem aggregate_hides_database_errors_witness:
  "GetRecordListSummary (open_env ''u9'' 9)
     \<lparr>le_tokens = \<lparr>pt_marshal = (\<lambda>_. Inl []), pt_unmarshal = (\<lambda>_. Inl [])\<rparr>, le_convert_results = Inr,
      le_convert_records = Inr, le_sql_results = (\<lambda>_ _. True), le_sql_records = (\<lambda>_ _. True)\<rparr>
     \<lparr>ag_scan = (\<lambda>_ _. (Some (DriverErr ''connection lost''), [])), ag_new_value = Inr\<rparr>
     \<lparr>sq_parent = ''ns/results/-'', sq_filter = [], sq_group_by = [], sq_summary = ''total'', sq_order_by = []\<rparr>
     sample_db = Inr []"
proof (rule aggregate_hides_database_errors)
  show "result_ParseName (sq_parent \<lparr>sq_parent = ''ns/results/-'', sq_filter = [], sq_group_by = [],
      sq_summary = ''total'', sq_order_by = []\<rparr>) = Inr (''ns'', ''-'')" by code_simp
  show "is_ok (OfRecordList (le_convert_records
     \<lparr>le_tokens = \<lparr>pt_marshal = (\<lambda>_. Inl []), pt_unmarshal = (\<lambda>_. Inl [])\<rparr>, le_convert_results = Inr,
      le_convert_records = Inr, le_sql_results = (\<lambda>_ _. True), le_sql_records = (\<lambda>_ _. True)\<rparr>) ''ns'' ''-''
     \<lparr>sq_parent = ''ns/results/-'', sq_filter = [], sq_group_by = [], sq_summary = ''total'', sq_order_by = []\<rparr>)"
    by code_simp
qed simp_all

end
