(* ===== verification/Cel2Sql.thy ===== *)
theory Cel2Sql
  imports Prelude
begin

text \<open>
  The translation of CEL filters to SQL (\<^verbatim>\<open>pkg/api/server/cel2sql\<close>). The input is the
  checked expression the CEL library delivers: an expression tree whose nodes carry identifiers,
  with the types and the constant references the checker recorded for them (record \<open>checked\<close>).
  Parsing and type checking are the library's work and a parameter of \<open>Convert\<close>; so is the
  column naming of gorm. A double is represented by the text \<^verbatim>\<open>%f\<close> prints, a timestamp by its
  RFC 3339 text. The query builder only appends, so an operation returns the text it appends; a
  nil dereference and an index out of range are the outcome \<open>CelPanic\<close>.
  A checked call has as many arguments as its overload declares, so an operator with fewer arguments
  than it uses does not occur; those branches are closed by \<open>CelPanic\<close> or an empty result.
\<close>

subsection \<open>Checked expressions\<close>

datatype const = NullValue | BoolValue bool | Int64Value int | Uint64Value int | DoubleValue string
  | StringValue string | BytesValue string | DurationValue int | TimestampValue string

datatype expr =
    ConstE int const
  | IdentE int string
  | SelectE int expr string
  | CallE int "expr option" string "expr list"
  | ListE int "expr list"
  | OtherE int

datatype ctype = TDyn | TPrimitive string | TMessage string | TWellKnown string | TOther

record checked =
  TypeMap :: "int \<Rightarrow> ctype option"
  ReferenceMap :: "int \<Rightarrow> const option"
  Positions :: "int \<Rightarrow> int"
  LineOffsets :: "int list"
  ColumnName :: "string \<Rightarrow> string"

datatype cel_err = CelErr string | CelPanic

type_synonym 'a cel = "cel_err + 'a"

fun expr_id :: "expr \<Rightarrow> int" where
  "expr_id (ConstE i _) = i"
| "expr_id (IdentE i _) = i"
| "expr_id (SelectE i _ _) = i"
| "expr_id (CallE i _ _ _) = i"
| "expr_id (ListE i _) = i"
| "expr_id (OtherE i) = i"

subsection \<open>Errors\<close>

definition ErrUnsupportedExpression :: cel_err where
  "ErrUnsupportedExpression = CelErr ''unsupported CEL''"

text \<open>The line is the number of the first line offset beyond the column, or the number of lines.\<close>

fun error_line :: "int list \<Rightarrow> int \<Rightarrow> nat \<Rightarrow> nat \<Rightarrow> nat" where
  "error_line [] column i line = line"
| "error_line (off # offs) column i line =
     (if off > column then i + 1 else error_line offs column (i + 1) (i + 1))"

definition unsupportedExprError :: "checked \<Rightarrow> int \<Rightarrow> string \<Rightarrow> cel_err" where
  "unsupportedExprError c i name =
     (let column = Positions c i; line = error_line (LineOffsets c) column 0 0 in
      CelErr (''unsupported CEL '' @ (if name \<noteq> [] then name @ '' '' else []) @ ''statement at line ''
        @ show_nat line @ '', column '' @ show_int column))"

subsection \<open>Types\<close>

definition isDyn :: "checked \<Rightarrow> expr \<Rightarrow> bool" where
  "isDyn c e = (TypeMap c (expr_id e) = Some TDyn)"

definition isString :: "checked \<Rightarrow> expr \<Rightarrow> bool" where
  "isString c e = (TypeMap c (expr_id e) = Some (TPrimitive ''STRING''))"

definition isRecordSummary :: "checked \<Rightarrow> expr \<Rightarrow> bool" where
  "isRecordSummary c e = (TypeMap c (expr_id e) = Some (TMessage ''tekton.results.v1alpha2.RecordSummary''))"

definition coerceWellKnownType :: "string \<Rightarrow> string" where
  "coerceWellKnownType w = (if w = ''TIMESTAMP'' then ''::TIMESTAMP WITH TIME ZONE'' else [])"

definition coerceToTypeOf :: "checked \<Rightarrow> expr \<Rightarrow> string cel" where
  "coerceToTypeOf c e =
     (case TypeMap c (expr_id e) of
        None \<Rightarrow> Inl ErrUnsupportedExpression
      | Some t \<Rightarrow> Inr (case t of TWellKnown w \<Rightarrow> coerceWellKnownType w | _ \<Rightarrow> []))"

subsection \<open>Operators\<close>

definition unaryOperators :: "(string \<times> string) list" where
  "unaryOperators = [(''!_'', ''NOT'')]"

definition binaryOperators :: "(string \<times> string) list" where
  "binaryOperators =
     [(''_&&_'', ''AND''), (''_||_'', ''OR''), (''_==_'', ''=''), (''_!=_'', ''<>''), (''_<_'', ''<''),
      (''_<=_'', ''<=''), (''_>_'', ''>''), (''_>=_'', ''>=''), (''_+_'', ''+''), (''_-_'', ''-''),
      (''_*_'', ''*''), (''_/_'', ''/''), (''_%_'', ''%''), (''@in'', ''IN'')]"

definition postgresqlConcatOperator :: string where "postgresqlConcatOperator = ''||''"

definition isUnaryOperator :: "string \<Rightarrow> bool" where
  "isUnaryOperator f = (map_of unaryOperators f \<noteq> None)"

definition isBinaryOperator :: "string \<Rightarrow> bool" where
  "isBinaryOperator f = (map_of binaryOperators f \<noteq> None)"

definition isAddOperator :: "string \<Rightarrow> bool" where
  "isAddOperator f = (f = ''_+_'')"

definition isIndexOperator :: "string \<Rightarrow> bool" where
  "isIndexOperator f = (f = ''_[_]'')"

fun isIndexExpr :: "expr \<Rightarrow> bool" where
  "isIndexExpr (CallE _ _ f _) = isIndexOperator f"
| "isIndexExpr _ = False"

fun call_args :: "expr \<Rightarrow> expr list" where
  "call_args (CallE _ _ _ as) = as"
| "call_args _ = []"

text \<open>\<^verbatim>\<open>GetConstExpr().GetStringValue()\<close>: empty for anything but a string constant.\<close>

fun GetStringValue :: "expr \<Rightarrow> string" where
  "GetStringValue (ConstE _ (StringValue s)) = s"
| "GetStringValue _ = []"

fun is_string_const :: "expr \<Rightarrow> bool" where
  "is_string_const (ConstE _ (StringValue s)) = True"
| "is_string_const _ = False"

subsection \<open>Constants and identifiers\<close>

definition sq :: "string \<Rightarrow> string" where
  "sq s = squote # s @ [squote]"

fun interpretConstExpr :: "checked \<Rightarrow> int \<Rightarrow> const \<Rightarrow> string cel" where
  "interpretConstExpr c i NullValue = Inr ''NULL''"
| "interpretConstExpr c i (BoolValue b) = Inr (if b then ''TRUE'' else ''FALSE'')"
| "interpretConstExpr c i (Int64Value n) = Inr (show_int n)"
| "interpretConstExpr c i (Uint64Value n) = Inr (show_int 0)"
| "interpretConstExpr c i (DoubleValue d) = Inr d"
| "interpretConstExpr c i (StringValue s) = Inr (sq s)"
| "interpretConstExpr c i (DurationValue n) = Inr (sq (show_int n @ '' SECONDS''))"
| "interpretConstExpr c i (TimestampValue t) = Inr (''TIMESTAMP WITH TIME ZONE '' @ sq t)"
| "interpretConstExpr c i (BytesValue _) = Inl (unsupportedExprError c i ''constant'')"

definition identToColumn :: "(string \<times> string) list" where
  "identToColumn = [(''uid'', ''id''), (''create_time'', ''created_time''),
     (''update_time'', ''updated_time''), (''data_type'', ''type'')]"

definition interpretIdentExpr :: "checked \<Rightarrow> int \<Rightarrow> string \<Rightarrow> string cel" where
  "interpretIdentExpr c i name =
     (case ReferenceMap c i of
        Some k \<Rightarrow> interpretConstExpr c i k
      | None \<Rightarrow> Inr (case map_of identToColumn name of None \<Rightarrow> name | Some column \<Rightarrow> column))"

subsection \<open>Selections\<close>

datatype field = Unquoted string | SingleQuoted string

fun field_String :: "field \<Rightarrow> string" where
  "field_String (Unquoted s) = s"
| "field_String (SingleQuoted s) = sq s"

fun field_text :: "field \<Rightarrow> string" where
  "field_text (Unquoted s) = s"
| "field_text (SingleQuoted s) = s"

text \<open>The key of an index: a last argument that is no constant is a nil constant.\<close>

definition getIndexKey :: "checked \<Rightarrow> expr list \<Rightarrow> field cel" where
  "getIndexKey c args =
     (case last args of
        ConstE i k \<Rightarrow>
          (case k of
             Int64Value n \<Rightarrow> Inr (Unquoted (show_int n))
           | StringValue s \<Rightarrow> Inr (SingleQuoted s)
           | _ \<Rightarrow> Inl (unsupportedExprError c i ''constant''))
      | _ \<Rightarrow> Inl CelPanic)"

fun getSelectFields :: "checked \<Rightarrow> expr \<Rightarrow> field list cel" where
  "getSelectFields c (SelectE i operand fld) =
     (case getSelectFields c operand of Inl e \<Rightarrow> Inl e | Inr fs \<Rightarrow> Inr (SingleQuoted fld # fs))"
| "getSelectFields c (CallE i tgt f args) =
     (if \<not> isIndexOperator f then Inl (unsupportedExprError c i ''function'')
      else (case args of
              [a, b] \<Rightarrow>
                (case getIndexKey c [a, b] of
                   Inl e \<Rightarrow> Inl e
                 | Inr index \<Rightarrow>
                     (case getSelectFields c a of Inl e \<Rightarrow> Inl e | Inr fs \<Rightarrow> Inr (index # fs)))
            | _ \<Rightarrow> Inl ErrUnsupportedExpression))"
| "getSelectFields c (IdentE i name) = Inr [Unquoted name]"
| "getSelectFields c _ = Inl ErrUnsupportedExpression"

definition translateToJSONAccessors :: "field list \<Rightarrow> string" where
  "translateToJSONAccessors fieldPath =
     ''('' @ concat (map (\<lambda>f. field_String f @ ''->'') (butlast fieldPath))
       @ ''>'' @ field_String (last fieldPath) @ '')''"

definition translateToRecordSummaryColumn :: "checked \<Rightarrow> field list \<Rightarrow> string cel" where
  "translateToRecordSummaryColumn c fieldPath =
     (if length fieldPath < 2 then Inl CelPanic
      else Inr (''recordsummary_'' @ ColumnName c (field_text (fieldPath ! 1))))"

fun additional_fields :: "expr list \<Rightarrow> field list cel" where
  "additional_fields [] = Inr []"
| "additional_fields (e # es) =
     (case e of
        ConstE _ _ \<Rightarrow>
          (case additional_fields es of Inl x \<Rightarrow> Inl x | Inr fs \<Rightarrow> Inr (SingleQuoted (GetStringValue e) # fs))
      | _ \<Rightarrow> Inl ErrUnsupportedExpression)"

definition interpretSelectExpr :: "checked \<Rightarrow> int \<Rightarrow> expr \<Rightarrow> string \<Rightarrow> expr list \<Rightarrow> string cel" where
  "interpretSelectExpr c i operand fld additionalExprs =
     (case getSelectFields c (SelectE i operand fld) of
        Inl e \<Rightarrow> Inl e
      | Inr flds \<Rightarrow>
     (case additional_fields additionalExprs of
        Inl e \<Rightarrow> Inl e
      | Inr extra \<Rightarrow>
          (let reversedFields = rev flds @ extra in
           if isDyn c operand then Inr (translateToJSONAccessors reversedFields)
           else if isRecordSummary c operand then translateToRecordSummaryColumn c reversedFields
           else (case unsupportedExprError c i ''select'' of
                   CelErr m \<Rightarrow> Inl (CelErr (m @ ''. '' @ field_String (hd reversedFields) @ '': not recognized field''))
                 | CelPanic \<Rightarrow> Inl CelPanic))))"

subsection \<open>Concatenations\<close>

definition mayBeTranslatedToStringConcatExpression :: "checked \<Rightarrow> string \<Rightarrow> expr \<Rightarrow> expr \<Rightarrow> bool" where
  "mayBeTranslatedToStringConcatExpression c f arg1 arg2 =
     (isAddOperator f \<and> (isString c arg1 \<or> isString c arg2))"

fun allStringConcatArgs :: "expr \<Rightarrow> expr list" where
  "allStringConcatArgs (CallE i t f args) =
     (if isAddOperator f
      then (case args of a # b # _ \<Rightarrow> allStringConcatArgs a @ allStringConcatArgs b | _ \<Rightarrow> [])
      else [])"
| "allStringConcatArgs e = [e]"

definition mayBeTranslatedToJSONPathContainsExpression :: "checked \<Rightarrow> expr \<Rightarrow> string \<Rightarrow> expr \<Rightarrow> bool" where
  "mayBeTranslatedToJSONPathContainsExpression c arg1 function arg2 =
     (is_string_const arg2 \<and> isIndexExpr arg1 \<and> function = ''_==_''
      \<and> (case call_args arg1 of [] \<Rightarrow> True | a # _ \<Rightarrow> \<not> isDyn c a))"

definition json_contains :: "expr \<Rightarrow> expr \<Rightarrow> string" where
  "json_contains key arg2 =
     '' @> '' @ sq (''{'' @ [dquote] @ GetStringValue key @ [dquote] @ '':'' @ [dquote] @ GetStringValue arg2
       @ [dquote] @ ''}'') @ ''::jsonb''"

subsection \<open>Expressions\<close>

definition binary_sql_operator :: "checked \<Rightarrow> string \<Rightarrow> expr \<Rightarrow> expr \<Rightarrow> string" where
  "binary_sql_operator c f arg1 arg2 =
     (if (isString c arg1 \<or> isString c arg2) \<and> isAddOperator f then postgresqlConcatOperator
      else (case map_of binaryOperators f of None \<Rightarrow> [] | Some x \<Rightarrow> x))"

text \<open>The implicit coercion of a dynamically typed argument to the type of the other one.\<close>

definition coercion :: "checked \<Rightarrow> expr \<Rightarrow> expr \<Rightarrow> string cel" where
  "coercion c arg other = (if isDyn c arg then coerceToTypeOf c other else Inr [])"

definition bind_cel :: "'a cel \<Rightarrow> ('a \<Rightarrow> 'b cel) \<Rightarrow> 'b cel" where
  "bind_cel r f = (case r of Inl e \<Rightarrow> Inl e | Inr x \<Rightarrow> f x)"

lemma bind_cel_simps [simp]: "bind_cel (Inl e) f = Inl e" "bind_cel (Inr x) f = f x"
  by (simp_all add: bind_cel_def)

lemma bind_cel_Inr: "bind_cel r f = Inr y \<longleftrightarrow> (\<exists>x. r = Inr x \<and> f x = Inr y)"
  by (cases r) simp_all

lemma bind_cel_cong [fundef_cong]:
  "r = r' \<Longrightarrow> (\<And>x. r' = Inr x \<Longrightarrow> f x = g x) \<Longrightarrow> bind_cel r f = bind_cel r' g"
  by (cases r') simp_all

text \<open>The functions with a fixed infix or EXTRACT form: their SQL field and whether one is subtracted.\<close>

definition extract_field :: "string \<Rightarrow> (string \<times> bool) option" where
  "extract_field f =
     (if f = ''getDate'' then Some (''DAY'', False)
      else if f = ''getDayOfMonth'' then Some (''DAY'', True)
      else if f = ''getDayOfWeek'' then Some (''DOW'', False)
      else if f = ''getDayOfYear'' then Some (''DOY'', True)
      else if f = ''getFullYear'' then Some (''YEAR'', False)
      else None)"

definition extract_text :: "checked \<Rightarrow> string \<Rightarrow> bool \<Rightarrow> expr \<Rightarrow> string \<Rightarrow> string" where
  "extract_text c field decrement tgt t =
     (if decrement then ''('' else []) @ ''EXTRACT('' @ field @ '' FROM '' @ t
     @ (if isDyn c tgt then coerceWellKnownType ''TIMESTAMP'' else []) @ '')''
     @ (if decrement then '' - 1)'' else [])"

lemma size_list_append [simp]: "size_list f (xs @ ys) = size_list f xs + size_list f ys"
  by (induction xs) simp_all

lemma size_allStringConcatArgs: "size_list size (allStringConcatArgs e) \<le> size e + 1"
proof (induction e rule: allStringConcatArgs.induct)
  case (1 i t f args)
  show ?case
  proof (cases "isAddOperator f \<and> (\<exists>a b r. args = a # b # r)")
    case True
    then obtain a b r where ab: "args = a # b # r" "isAddOperator f" by blast
    then show ?thesis using 1 [OF ab(2) ab(1) refl] by simp
  next
    case False
    then show ?thesis by (auto split: list.split)
  qed
qed simp_all

lemma size_concat_args [termination_simp]:
  "size_list size (allStringConcatArgs (CallE i t f args)) < size (CallE i t f args)"
proof (cases "isAddOperator f \<and> (\<exists>a b r. args = a # b # r)")
  case True
  then obtain a b r where ab: "args = a # b # r" "isAddOperator f" by blast
  then show ?thesis using size_allStringConcatArgs [of a] size_allStringConcatArgs [of b] by simp
next
  case False
  then show ?thesis by (auto split: list.split)
qed

lemma size_butlast [termination_simp]: "size_list size (butlast xs) \<le> size_list size xs"
  by (induction xs) auto

lemma size_call_args: "size_list size (call_args e) \<le> size e"
  by (cases e) simp_all

lemma size_json_args [termination_simp]: "size_list size (butlast (call_args e)) \<le> size e"
  using size_butlast [of "call_args e"] size_call_args [of e] by linarith

function (sequential) interpretExpr :: "checked \<Rightarrow> expr \<Rightarrow> string cel"
  and interpretArgs :: "checked \<Rightarrow> expr list \<Rightarrow> string list cel" where
  "interpretExpr c (ConstE i k) = interpretConstExpr c i k"
| "interpretExpr c (IdentE i name) = interpretIdentExpr c i name"
| "interpretExpr c (SelectE i operand fld) = interpretSelectExpr c i operand fld []"
| "interpretExpr c (CallE i tgt f args) =
     (if isUnaryOperator f
      then (case args of
              [] \<Rightarrow> Inl CelPanic
            | a # _ \<Rightarrow> bind_cel (interpretExpr c a)
                (\<lambda>t. Inr (the (map_of unaryOperators f) @ '' '' @ ''('' @ t @ '')'')))
      else if isBinaryOperator f
      then (case args of
              arg1 # arg2 # _ \<Rightarrow>
                if mayBeTranslatedToStringConcatExpression c f arg1 arg2
                then bind_cel (interpretArgs c (allStringConcatArgs (CallE i tgt f args)))
                  (\<lambda>ts. Inr (''CONCAT('' @ join '', '' ts @ '')''))
                else if mayBeTranslatedToJSONPathContainsExpression c arg1 f arg2
                then (if call_args arg1 = [] then Inl CelPanic
                      else bind_cel (interpretArgs c (butlast (call_args arg1)))
                        (\<lambda>ts. Inr (concat ts @ json_contains (last (call_args arg1)) arg2)))
                else if mayBeTranslatedToJSONPathContainsExpression c arg2 f arg1
                then (if call_args arg2 = [] then Inl CelPanic
                      else bind_cel (interpretArgs c (butlast (call_args arg2)))
                        (\<lambda>ts. Inr (concat ts @ json_contains (last (call_args arg2)) arg1)))
                else bind_cel (interpretExpr c arg1) (\<lambda>t1.
                     bind_cel (coercion c arg1 arg2) (\<lambda>c1.
                     bind_cel (interpretExpr c arg2) (\<lambda>t2.
                     bind_cel (coercion c arg2 arg1) (\<lambda>c2.
                     Inr (''('' @ t1 @ c1 @ '' '' @ binary_sql_operator c f arg1 arg2 @ '' '' @ t2 @ c2 @ '')'')))))
            | _ \<Rightarrow> Inl CelPanic)
      else if isIndexOperator f
      then (case args of
              a0 # a1 # _ \<Rightarrow>
                (case a0 of
                   SelectE j operand fld \<Rightarrow> interpretSelectExpr c i operand fld [a1]
                 | IdentE j name \<Rightarrow> bind_cel (interpretIdentExpr c j name)
                     (\<lambda>t. Inr (t @ ''->>'' @ sq (GetStringValue a1)))
                 | _ \<Rightarrow> Inl (unsupportedExprError c (expr_id a1) ''index''))
            | _ \<Rightarrow> Inl CelPanic)
      else if f = ''contains''
      then (case (args, tgt) of
              (a # _, Some t) \<Rightarrow> bind_cel (interpretExpr c a) (\<lambda>x. bind_cel (interpretExpr c t)
                (\<lambda>y. Inr (''POSITION('' @ x @ '' IN '' @ y @ '') <> 0'')))
            | _ \<Rightarrow> Inl CelPanic)
      else if f = ''endsWith'' \<or> f = ''startsWith'' \<or> f = ''matches''
      then (case (args, tgt) of
              (a # _, Some t) \<Rightarrow> bind_cel (interpretExpr c t) (\<lambda>x. bind_cel (interpretExpr c a)
                (\<lambda>y. Inr (x @ '' ''
                  @ (if f = ''endsWith'' then ''LIKE '' @ sq ''%'' @ '' ||''
                     else if f = ''startsWith'' then ''LIKE'' else ''~'') @ '' '' @ y
                  @ (if f = ''startsWith'' then '' || '' @ sq ''%'' else []))))
            | _ \<Rightarrow> Inl CelPanic)
      else if f = ''timestamp''
      then (case args of
              [] \<Rightarrow> Inl CelPanic
            | a # _ \<Rightarrow> bind_cel (interpretExpr c a) (\<lambda>x. Inr (x @ ''::TIMESTAMP WITH TIME ZONE'')))
      else (case extract_field f of
              Some (field, decrement) \<Rightarrow>
                (case tgt of
                   None \<Rightarrow> Inl CelPanic
                 | Some t \<Rightarrow> bind_cel (interpretExpr c t) (\<lambda>x. Inr (extract_text c field decrement t x)))
            | None \<Rightarrow> Inl (unsupportedExprError c i ([CHR 0x60] @ f @ [CHR 0x60] @ '' function''))))"
| "interpretExpr c (ListE i es) =
     bind_cel (interpretArgs c es) (\<lambda>ts. Inr (''('' @ join '', '' ts @ '')''))"
| "interpretExpr c (OtherE i) = Inl (unsupportedExprError c i [])"
| "interpretArgs c [] = Inr []"
| "interpretArgs c (e # es) =
     bind_cel (interpretExpr c e) (\<lambda>t. bind_cel (interpretArgs c es) (\<lambda>ts. Inr (t # ts)))"
  by pat_completeness auto
termination
  by (relation "measure (\<lambda>x. case x of Inl (_, e) \<Rightarrow> size e | Inr (_, es) \<Rightarrow> size_list size es)")
    (auto simp: size_concat_args less_Suc_eq_le le_imp_less_Suc intro: le_trans [OF size_json_args]
      le_trans [OF add_mono [OF size_allStringConcatArgs size_allStringConcatArgs]])

definition interpret_query :: "checked \<Rightarrow> expr \<Rightarrow> string cel" where
  "interpret_query c e = bind_cel (interpretExpr c e) (\<lambda>q. Inr (TrimSpace q))"

text \<open>
  \<^verbatim>\<open>Convert\<close>: compiling the filter is the library's (an error, or the checked expression with
  whether its type is boolean and the name of the type).
\<close>

definition Convert ::
    "(string \<Rightarrow> string + (checked \<times> expr \<times> bool \<times> string)) \<Rightarrow> string \<Rightarrow> string cel" where
  "Convert Compile filters =
     (case Compile filters of
        Inl e \<Rightarrow> Inl (CelErr (''error compiling CEL filters: '' @ e))
      | Inr (c, e, isBool, typeName) \<Rightarrow>
          if \<not> isBool then Inl (CelErr (''expected boolean expression, but got '' @ typeName))
          else interpret_query c e)"

end
