(* ===== verification/Cel2SqlProps.thy ===== *)
theory Cel2SqlProps
  imports Cel2Sql
begin

text \<open>
  What the translation promises of its SQL text. The scanner \<open>scan\<close> reads a SQL text as the
  database's lexer does as far as the structure is concerned: string literals and parentheses.
\<close>

subsection \<open>The structure of SQL text\<close>

fun scan :: "string \<Rightarrow> bool \<times> nat \<Rightarrow> (bool \<times> nat) option" where
  "scan [] st = Some st"
| "scan (ch # cs) (True, d) = scan cs (ch \<noteq> squote, d)"
| "scan (ch # cs) (False, d) =
     (if ch = squote then scan cs (True, d)
      else if ch = CHR ''('' then scan cs (False, Suc d)
      else if ch = CHR '')'' then (case d of 0 \<Rightarrow> None | Suc d' \<Rightarrow> scan cs (False, d'))
      else scan cs (False, d))"

text \<open>A closed text opens no literal it does not close and never closes a parenthesis it did not open.\<close>

definition closed :: "string \<Rightarrow> bool" where
  "closed s = (\<forall>d. scan s (False, d) = Some (False, d))"

definition plain_text :: "string \<Rightarrow> bool" where
  "plain_text s = list_all (\<lambda>c. c \<noteq> squote \<and> c \<noteq> CHR ''('' \<and> c \<noteq> CHR '')'') s"

lemma scan_append: "scan (s @ t) st = (case scan s st of None \<Rightarrow> None | Some st' \<Rightarrow> scan t st')"
  by (induction s st rule: scan.induct) (auto split: nat.splits)

lemma closed_Nil [simp]: "closed []"
  by (simp add: closed_def)

lemma closed_append [simp]: "closed s \<Longrightarrow> closed t \<Longrightarrow> closed (s @ t)"
  by (simp add: closed_def scan_append)

lemma closed_Cons [simp]:
  "c \<noteq> squote \<Longrightarrow> c \<noteq> CHR ''('' \<Longrightarrow> c \<noteq> CHR '')'' \<Longrightarrow> closed (c # s) = closed s"
  by (simp add: closed_def)

lemma closed_plain: "plain_text s \<Longrightarrow> closed s"
  by (induction s) (simp_all add: closed_def plain_text_def)

lemma scan_literal: "squote \<notin> set s \<Longrightarrow> scan s (True, d) = Some (True, d)"
  by (induction s) auto

lemma closed_sq [simp]: "squote \<notin> set s \<Longrightarrow> closed (sq s)"
  by (simp add: closed_def sq_def scan_append scan_literal)

lemma closed_paren: "closed s \<Longrightarrow> closed (''('' @ s @ '')'')"
  by (simp add: closed_def scan_append)

lemma closed_concat: "(\<And>t. t \<in> set ts \<Longrightarrow> closed t) \<Longrightarrow> closed (concat ts)"
  by (induction ts) simp_all

lemma closed_comma: "closed '', ''"
  by simp

lemma closed_join: "(\<And>t. t \<in> set ts \<Longrightarrow> closed t) \<Longrightarrow> closed (join '', '' ts)"
proof (induction "'', ''" ts rule: join.induct)
  case (3 x y ys)
  have "closed x" "closed (join '', '' (y # ys))" using 3 by simp_all
  then have "closed (x @ '', '' @ join '', '' (y # ys))" using closed_comma by (intro closed_append)
  then show ?case by simp
qed simp_all

lemma plain_digits: "list_all digit_char s \<Longrightarrow> plain_text s"
  by (induction s) (auto simp: plain_text_def digit_char_def)

lemma plain_show_int [simp]: "plain_text (show_int i)"
  using show_nat_digits plain_digits by (auto simp: show_int_def plain_text_def)

lemma no_quote_plain: "plain_text s \<Longrightarrow> squote \<notin> set s"
  by (auto simp: plain_text_def list_all_iff)

subsection \<open>Expressions without quotes\<close>

text \<open>
  Expressions whose string constants and index keys contain no quote, and whose identifiers and
  fields are identifiers; a field of the record summary is selected from the summary variable.
\<close>

fun safe_const :: "const \<Rightarrow> bool" where
  "safe_const (StringValue s) = (squote \<notin> set s)"
| "safe_const (TimestampValue t) = (squote \<notin> set t)"
| "safe_const (DoubleValue d) = plain_text d"
| "safe_const _ = True"

definition summary_direct :: "checked \<Rightarrow> expr \<Rightarrow> bool" where
  "summary_direct c e = (isRecordSummary c e \<longrightarrow> (case e of IdentE _ _ \<Rightarrow> True | _ \<Rightarrow> False))"

fun safe_expr :: "checked \<Rightarrow> expr \<Rightarrow> bool" where
  "safe_expr c (ConstE i k) = safe_const k"
| "safe_expr c (IdentE i n) =
     (plain_text n \<and> (case ReferenceMap c i of None \<Rightarrow> True | Some k \<Rightarrow> safe_const k))"
| "safe_expr c (SelectE i e f) = (plain_text f \<and> summary_direct c e \<and> safe_expr c e)"
| "safe_expr c (CallE i t f as) =
     ((case t of None \<Rightarrow> True | Some e \<Rightarrow> safe_expr c e) \<and> list_all (safe_expr c) as)"
| "safe_expr c (ListE i es) = list_all (safe_expr c) es"
| "safe_expr c (OtherE i) = True"

lemma closed_const: "safe_const k \<Longrightarrow> interpretConstExpr c i k = Inr q \<Longrightarrow> closed q"
proof (cases k)
  case (DurationValue n)
  assume "interpretConstExpr c i k = Inr q"
  moreover have "squote \<notin> set (show_int n @ '' SECONDS'')"
    using no_quote_plain [OF plain_show_int [of n]] by simp
  ultimately show ?thesis using DurationValue closed_sq [of "show_int n @ '' SECONDS''"] by auto
next
  case (TimestampValue t)
  assume "safe_const k" "interpretConstExpr c i k = Inr q"
  then show ?thesis using TimestampValue by auto
qed (auto intro: closed_plain plain_show_int)

lemma closed_ident:
  assumes "safe_expr c (IdentE i n)" and "interpretIdentExpr c i n = Inr q"
  shows "closed q"
proof (cases "ReferenceMap c i")
  case None
  have "plain_text (case map_of identToColumn n of None \<Rightarrow> n | Some column \<Rightarrow> column)"
    using assms(1) by (auto simp: identToColumn_def plain_text_def)
  then show ?thesis using assms(2) None by (auto simp: interpretIdentExpr_def intro: closed_plain)
next
  case (Some k)
  then show ?thesis using assms closed_const by (auto simp: interpretIdentExpr_def)
qed

fun field_ok :: "field \<Rightarrow> bool" where
  "field_ok (Unquoted s) = plain_text s"
| "field_ok (SingleQuoted s) = (squote \<notin> set s)"

lemma closed_field: "field_ok f \<Longrightarrow> closed (field_String f)"
  by (cases f) (auto intro: closed_plain)

lemma getSelectFields_ok:
  "safe_expr c e \<Longrightarrow> getSelectFields c e = Inr fs \<Longrightarrow> fs \<noteq> [] \<and> list_all field_ok fs"
proof (induction c e arbitrary: fs rule: getSelectFields.induct)
  case (1 c i operand fld)
  then show ?case by (auto dest: no_quote_plain split: sum.splits)
next
  case (2 c i tgt f args)
  then obtain a b index fs' where ab: "args = [a, b]" "isIndexOperator f" "getIndexKey c [a, b] = Inr index"
      "getSelectFields c a = Inr fs'" "fs = index # fs'"
    by (auto split: if_splits list.splits sum.splits)
  have "field_ok index"
  proof (cases b)
    case (ConstE j k)
    then show ?thesis using ab(1,3) 2(2) by (cases k) (auto simp: getIndexKey_def)
  qed (use ab in \<open>auto simp: getIndexKey_def\<close>)
  moreover have "fs' \<noteq> [] \<and> list_all field_ok fs'"
    using 2(1) [of a "[b]" b "[]" index fs'] 2(2) ab by auto
  ultimately show ?case using ab by simp
qed auto

lemma additional_fields_ok:
  "list_all (safe_expr c) es \<Longrightarrow> additional_fields es = Inr fs \<Longrightarrow> list_all field_ok fs"
proof (induction es arbitrary: fs)
  case (Cons e es)
  then obtain i k fs' where e: "e = ConstE i k" "additional_fields es = Inr fs'"
      "fs = SingleQuoted (GetStringValue e) # fs'"
    by (auto split: expr.splits sum.splits)
  then show ?case using Cons by (cases k) auto
qed simp

lemma closed_accessors:
  assumes "fs \<noteq> []" and "list_all field_ok fs"
  shows "closed (translateToJSONAccessors fs)"
proof -
  have arrow: "closed ''->''" "closed ''>''" by simp_all
  have "closed (field_String f @ ''->'')" if "f \<in> set fs" for f
    using that assms(2) closed_field arrow(1) by (auto simp: list_all_iff intro: closed_append)
  then have "closed (concat (map (\<lambda>f. field_String f @ ''->'') (butlast fs)))"
    by (intro closed_concat) (auto dest: in_set_butlastD)
  moreover have "closed (field_String (last fs))" using assms closed_field by (simp add: list_all_iff)
  ultimately have "closed (''('' @ (concat (map (\<lambda>f. field_String f @ ''->'') (butlast fs))
      @ ''>'' @ field_String (last fs)) @ '')'')"
    using arrow(2) by (intro closed_paren closed_append)
  then show ?thesis by (simp add: translateToJSONAccessors_def)
qed

lemma closed_select:
  assumes "safe_expr c (SelectE i operand fld)" and "list_all (safe_expr c) extra"
    and col: "\<And>x. plain_text x \<Longrightarrow> plain_text (ColumnName c x)"
    and "interpretSelectExpr c i operand fld extra = Inr q"
  shows "closed q"
proof -
  obtain fs as where fs: "getSelectFields c (SelectE i operand fld) = Inr fs" "additional_fields extra = Inr as"
    using assms(4) by (auto simp: interpretSelectExpr_def split: sum.splits)
  have ok: "fs \<noteq> []" "list_all field_ok (rev fs @ as)"
    using getSelectFields_ok [OF assms(1) fs(1)] additional_fields_ok [OF assms(2) fs(2)] by auto
  show ?thesis
  proof (cases "isDyn c operand")
    case True
    then have "q = translateToJSONAccessors (rev fs @ as)"
      using assms(4) fs by (simp add: interpretSelectExpr_def del: getSelectFields.simps)
    then show ?thesis using closed_accessors [of "rev fs @ as"] ok by simp
  next
    case False
    then have r: "isRecordSummary c operand" "translateToRecordSummaryColumn c (rev fs @ as) = Inr q"
      using assms(4) fs by (auto simp: interpretSelectExpr_def Let_def split: if_splits cel_err.splits
          simp del: getSelectFields.simps)
    then obtain j n where op: "operand = IdentE j n"
      using assms(1) by (auto simp: summary_direct_def split: expr.splits)
    then have "fs = [SingleQuoted fld, Unquoted n]" using fs(1) by auto
    then have "q = ''recordsummary_'' @ ColumnName c fld"
      using r(2) by (simp add: translateToRecordSummaryColumn_def)
    moreover have "closed (ColumnName c fld)" using col assms(1) by (auto intro: closed_plain)
    ultimately show ?thesis by simp
  qed
qed

subsection \<open>Translated filters are closed\<close>

lemma plain_operator:
  "plain_text (binary_sql_operator c f a b)"
proof -
  have "\<forall>kv\<in>set binaryOperators. plain_text (snd kv)" by code_simp
  then show ?thesis
    by (auto simp: binary_sql_operator_def postgresqlConcatOperator_def plain_text_def
        split: option.splits dest!: map_of_SomeD)
qed

lemma closed_coercion: "coercion c a b = Inr t \<Longrightarrow> closed t"
  by (auto simp: coercion_def coerceToTypeOf_def coerceWellKnownType_def split: if_splits option.splits ctype.splits)

lemma safe_concat_args:
  "safe_expr c e \<Longrightarrow> list_all (safe_expr c) (allStringConcatArgs e)"
  by (induction e rule: allStringConcatArgs.induct) (auto split: list.splits)

lemma safe_call_args: "safe_expr c e \<Longrightarrow> list_all (safe_expr c) (call_args e)"
  by (cases e) auto

lemma list_all_butlast: "list_all P xs \<Longrightarrow> list_all P (butlast xs)"
  by (auto simp: list_all_iff dest: in_set_butlastD)

lemma safe_string_value: "safe_expr c e \<Longrightarrow> squote \<notin> set (GetStringValue e)"
  by (cases e rule: GetStringValue.cases) auto

lemma closed_json_contains: "safe_expr c k \<Longrightarrow> safe_expr c v \<Longrightarrow> closed (json_contains k v)"
  using safe_string_value [of c k] safe_string_value [of c v] by (simp add: json_contains_def)

lemma closed_wrap: "closed s \<Longrightarrow> closed (CHR ''('' # s @ [CHR '')''])"
  using closed_paren by simp

lemma closed_extract: "closed x \<Longrightarrow> plain_text field \<Longrightarrow> closed (extract_text c field dec t x)"
proof -
  assume a: "closed x" "plain_text field"
  let ?co = "if isDyn c t then coerceWellKnownType ''TIMESTAMP'' else []"
  have "closed (''('' @ (field @ '' FROM '' @ x @ ?co) @ '')'')"
    by (rule closed_paren) (use a closed_plain in \<open>simp add: coerceWellKnownType_def\<close>)
  then have core: "closed (''EXTRACT'' @ (''('' @ (field @ '' FROM '' @ x @ ?co) @ '')''))" by simp
  show ?thesis
  proof (cases dec)
    case True
    have "closed (''('' @ ((''EXTRACT'' @ (''('' @ (field @ '' FROM '' @ x @ ?co) @ '')'')) @ '' - 1'') @ '')'')"
      by (rule closed_paren, rule closed_append, rule core) simp
    then show ?thesis using True by (simp add: extract_text_def)
  next
    case False
    then show ?thesis using core by (simp add: extract_text_def)
  qed
qed

lemma extract_field_plain: "extract_field f = Some (field, dec) \<Longrightarrow> plain_text field"
  by (auto simp: extract_field_def plain_text_def split: if_splits)

lemma size_member: "x \<in> set xs \<Longrightarrow> size x < size_list size xs"
  by (induction xs) auto

lemma interpretArgs_closed:
  assumes "\<And>e q. e \<in> set es \<Longrightarrow> interpretExpr c e = Inr q \<Longrightarrow> closed q" and "interpretArgs c es = Inr ts"
  shows "t \<in> set ts \<Longrightarrow> closed t"
  using assms
proof (induction es arbitrary: ts t)
  case (Cons e es)
  then obtain u us where u: "interpretExpr c e = Inr u" "interpretArgs c es = Inr us" "ts = u # us"
    by (auto simp: bind_cel_Inr)
  show ?case
  proof (cases "t = u")
    case True
    then show ?thesis using Cons.prems(2) [of e u] u(1) by simp
  next
    case False
    then have "t \<in> set us" using Cons.prems(1) u(3) by simp
    moreover have "\<And>x q. x \<in> set es \<Longrightarrow> interpretExpr c x = Inr q \<Longrightarrow> closed q"
      using Cons.prems(2) by (meson list.set_intros(2))
    ultimately show ?thesis using Cons.IH u(2) by blast
  qed
qed simp

text \<open>One step of the translation, given that its parts translate to closed text; gorm's column names
  of identifiers are identifiers.\<close>

definition columns_plain :: "checked \<Rightarrow> bool" where
  "columns_plain c = (\<forall>x. plain_text x \<longrightarrow> plain_text (ColumnName c x))"

definition parts_closed :: "checked \<Rightarrow> expr \<Rightarrow> bool" where
  "parts_closed c e = (columns_plain c \<and>
     (\<forall>y q. size y < size e \<longrightarrow> safe_expr c y \<longrightarrow> interpretExpr c y = Inr q \<longrightarrow> closed q))"

lemma part:
  "parts_closed c e \<Longrightarrow> size y < size e \<Longrightarrow> safe_expr c y \<Longrightarrow> interpretExpr c y = Inr q \<Longrightarrow> closed q"
  by (auto simp: parts_closed_def)

lemma parts:
  assumes pc: "parts_closed c e" and "size_list size es \<le> size e" and "list_all (safe_expr c) es" and "interpretArgs c es = Inr ts"
  shows "t \<in> set ts \<Longrightarrow> closed t"
proof (rule interpretArgs_closed [OF _ assms(4)])
  fix x q assume x: "x \<in> set es" "interpretExpr c x = Inr q"
  have "size x < size e" using size_member [OF x(1)] assms(2) by linarith
  then show "closed q" using part [OF pc] x assms(3) by (auto simp: list_all_iff)
qed

lemma json_part:
  assumes pc: "parts_closed c e" and "size a < size e" and "safe_expr c a" and "safe_expr c v" and "call_args a \<noteq> []"
    and "interpretArgs c (butlast (call_args a)) = Inr ts"
  shows "closed (concat ts @ json_contains (last (call_args a)) v)"
proof -
  have s: "list_all (safe_expr c) (call_args a)" using assms(3) by (rule safe_call_args)
  have "size_list size (butlast (call_args a)) \<le> size e" using size_json_args [of a] assms(2) by linarith
  then have "closed (concat ts)"
    using closed_concat parts [OF pc _ list_all_butlast [OF s] assms(6)] by blast
  moreover have "closed (json_contains (last (call_args a)) v)"
    by (rule closed_json_contains [of c]) (use s assms(4,5) in \<open>auto simp: list_all_iff\<close>)
  ultimately show ?thesis by simp
qed

lemma binary_part:
  assumes pc: "parts_closed c e" and e: "e = CallE i tgt f (arg1 # arg2 # r)" and "safe_expr c e" and b: "isBinaryOperator f"
    and u: "\<not> isUnaryOperator f" and out: "interpretExpr c e = Inr q"
  shows "closed q"
proof -
  have s: "safe_expr c arg1" "safe_expr c arg2" using assms(2,3) by auto
  have sz: "size arg1 < size e" "size arg2 < size e" using e by auto
  show ?thesis
  proof (cases "mayBeTranslatedToStringConcatExpression c f arg1 arg2")
    case True
    then obtain ts where ts: "interpretArgs c (allStringConcatArgs e) = Inr ts" "q = ''CONCAT('' @ join '', '' ts @ '')''"
      using out u b unfolding e by (auto simp: bind_cel_Inr simp del: allStringConcatArgs.simps)
    have "size_list size (allStringConcatArgs e) \<le> size e"
      using size_concat_args [of i tgt f "arg1 # arg2 # r"] e by simp
    then have "closed (join '', '' ts)"
      using closed_join parts [OF pc _ safe_concat_args [OF assms(3)] ts(1)] by blast
    then show ?thesis using closed_wrap ts(2) by simp
  next
    case nc: False
    show ?thesis
    proof (cases "mayBeTranslatedToJSONPathContainsExpression c arg1 f arg2")
      case True
      then obtain ts where "call_args arg1 \<noteq> []" "interpretArgs c (butlast (call_args arg1)) = Inr ts"
          "q = concat ts @ json_contains (last (call_args arg1)) arg2"
        using out u b nc unfolding e by (auto simp: bind_cel_Inr split: if_splits)
      then show ?thesis using json_part [OF pc sz(1) s] by simp
    next
      case nj: False
      show ?thesis
      proof (cases "mayBeTranslatedToJSONPathContainsExpression c arg2 f arg1")
        case True
        then obtain ts where "call_args arg2 \<noteq> []" "interpretArgs c (butlast (call_args arg2)) = Inr ts"
            "q = concat ts @ json_contains (last (call_args arg2)) arg1"
          using out u b nc nj unfolding e by (auto simp: bind_cel_Inr split: if_splits)
        then show ?thesis using json_part [OF pc sz(2) s(2,1)] by simp
      next
        case False
        then obtain t1 c1 t2 c2 where p: "interpretExpr c arg1 = Inr t1" "coercion c arg1 arg2 = Inr c1"
            "interpretExpr c arg2 = Inr t2" "coercion c arg2 arg1 = Inr c2"
            "q = ''('' @ (t1 @ c1 @ '' '' @ binary_sql_operator c f arg1 arg2 @ '' '' @ t2 @ c2) @ '')''"
          using out u b nc nj unfolding e by (auto simp: bind_cel_Inr)
        have "closed t1" "closed t2" using part [OF pc] sz s p(1,3) by blast+
        then show ?thesis unfolding p(5)
          using closed_coercion p(2,4) closed_plain [OF plain_operator] by (intro closed_paren) simp
      qed
    qed
  qed
qed

lemma call_part:
  assumes pc: "parts_closed c e" and e: "e = CallE i tgt f args" and safe: "safe_expr c e" and out: "interpretExpr c e = Inr q"
  shows "closed q"
proof -
  have arg: "closed x" if "a \<in> set args" "interpretExpr c a = Inr x" for a x
    using part [OF pc, of a x] size_member [OF that(1)] that safe e by (auto simp: list_all_iff)
  have tg: "closed x" if "tgt = Some t" "interpretExpr c t = Inr x" for t x
    using part [OF pc, of t x] that safe e by auto
  consider (unary) "isUnaryOperator f" | (binary) "\<not> isUnaryOperator f" "isBinaryOperator f"
    | (index) "\<not> isUnaryOperator f" "\<not> isBinaryOperator f" "isIndexOperator f"
    | (fn) "\<not> isUnaryOperator f" "\<not> isBinaryOperator f" "\<not> isIndexOperator f" by blast
  then show ?thesis
  proof cases
    case unary
    then have "f = ''!_''" by (auto simp: isUnaryOperator_def unaryOperators_def split: if_splits)
    then obtain a r t where "args = a # r" "interpretExpr c a = Inr t" "q = ''NOT '' @ ''('' @ t @ '')''"
      using out unary unfolding e by (auto simp: bind_cel_Inr unaryOperators_def split: list.splits)
    then show ?thesis using arg [of a t] closed_wrap by simp
  next
    case binary
    then obtain a1 a2 r where "args = a1 # a2 # r" using out unfolding e by (auto split: list.splits)
    then show ?thesis using binary_part [OF pc, of i tgt f a1 a2 r q] binary e safe out by blast
  next
    case index
    then obtain a0 a1 r where a: "args = a0 # a1 # r" using out unfolding e by (auto split: list.splits)
    have s: "safe_expr c a0" "safe_expr c a1" using safe e a by auto
    show ?thesis
    proof (cases a0)
      case (SelectE j op fld)
      have "safe_expr c (SelectE i op fld)" "list_all (safe_expr c) [a1]" using s SelectE by simp_all
      moreover have "interpretSelectExpr c i op fld [a1] = Inr q" using out index a SelectE unfolding e by simp
      ultimately show ?thesis using closed_select [of c i op fld "[a1]" q] pc
        by (auto simp: parts_closed_def columns_plain_def)
    next
      case (IdentE j n)
      then obtain t where "interpretIdentExpr c j n = Inr t" "q = t @ ''->>'' @ sq (GetStringValue a1)"
        using out index a unfolding e by (auto simp: bind_cel_Inr)
      then show ?thesis using closed_ident [of c j n t] s IdentE safe_string_value [of c a1] by simp
    qed (use out index a e in auto)
  next
    case fn
    show ?thesis
    proof (cases "f = ''contains''")
      case True
      then obtain a r t x y where "args = a # r" "tgt = Some t" "interpretExpr c a = Inr x" "interpretExpr c t = Inr y"
          "q = ''POSITION'' @ (''('' @ (x @ '' IN '' @ y) @ '')'') @ '' <> 0''"
        using out fn unfolding e by (auto simp: bind_cel_Inr split: list.splits option.splits)
      moreover from this have "closed x" "closed y" using arg tg by auto
      then have "closed (''('' @ (x @ '' IN '' @ y) @ '')'')" by (intro closed_paren) simp
      ultimately show ?thesis using closed_append [of "''('' @ (x @ '' IN '' @ y) @ '')''" "'' <> 0''"] by simp
    next
      case nc: False
      show ?thesis
      proof (cases "f = ''endsWith'' \<or> f = ''startsWith'' \<or> f = ''matches''")
        case True
        then obtain a r t x y where "args = a # r" "tgt = Some t" "interpretExpr c t = Inr x" "interpretExpr c a = Inr y"
            "q = x @ '' '' @ (if f = ''endsWith'' then ''LIKE '' @ sq ''%'' @ '' ||''
                     else if f = ''startsWith'' then ''LIKE'' else ''~'') @ '' '' @ y
                  @ (if f = ''startsWith'' then '' || '' @ sq ''%'' else [])"
          using out fn nc unfolding e
          by (cases args; cases tgt) (simp_all add: bind_cel_Inr, blast)
        moreover from this have "closed x" "closed y" using arg tg by auto
        ultimately show ?thesis by simp
      next
        case False
        show ?thesis
        proof (cases "f = ''timestamp''")
          case True
          then obtain a r x where "args = a # r" "interpretExpr c a = Inr x" "q = x @ ''::TIMESTAMP WITH TIME ZONE''"
            using out fn unfolding e by (auto simp: bind_cel_Inr split: list.splits)
          moreover from this have "closed x" using arg by auto
          ultimately show ?thesis by simp
        next
          case nt: False
          then obtain field dec t x where "extract_field f = Some (field, dec)" "tgt = Some t"
              "interpretExpr c t = Inr x" "q = extract_text c field dec t x"
            using out fn nc False unfolding e by (auto simp: bind_cel_Inr split: list.splits option.splits)
          then show ?thesis using tg closed_extract extract_field_plain by blast
        qed
      qed
    qed
  qed
qed

lemma interpretExpr_closed:
  assumes "columns_plain c"
  shows "safe_expr c e \<Longrightarrow> interpretExpr c e = Inr q \<Longrightarrow> closed q"
proof (induction e arbitrary: q rule: measure_induct_rule [of size])
  case (less e)
  then have pc: "parts_closed c e" using assms by (auto simp: parts_closed_def)
  show ?case
  proof (cases e)
    case (ConstE i k)
    then show ?thesis using less.prems closed_const by auto
  next
    case (IdentE i n)
    then show ?thesis using less.prems closed_ident [of c i n q] by auto
  next
    case (SelectE i op f)
    then show ?thesis using less.prems closed_select [of c i op f "[]" q] assms
      by (auto simp: columns_plain_def)
  next
    case (CallE i t f as)
    then show ?thesis using call_part [OF pc] less.prems by blast
  next
    case (ListE i es)
    then obtain ts where ts: "interpretArgs c es = Inr ts" "q = ''('' @ join '', '' ts @ '')''"
      using less.prems by (auto simp: bind_cel_Inr)
    have "closed (join '', '' ts)"
      using closed_join parts [OF pc _ _ ts(1)] less.prems(1) ListE by simp
    then show ?thesis using ts(2) closed_wrap by simp
  qed (use less.prems in auto)
qed


subsection \<open>The filter of a request\<close>

lemma scan_space: "list_all is_space s \<Longrightarrow> scan s (b, d) = Some (b, d)"
  by (induction s) (cases b; auto simp: is_space_def)+

lemma closed_TrimSpace:
  assumes "closed q"
  shows "closed (TrimSpace q)"
proof -
  define t where "t = dropWhile is_space q"
  have q: "q = takeWhile is_space q @ t" by (simp add: t_def)
  have t: "t = TrimSpace q @ rev (takeWhile is_space (rev t))"
    by (metis TrimSpace_def rev_append rev_rev_ident t_def takeWhile_dropWhile_id)
  have sp: "list_all is_space (takeWhile is_space q)" "list_all is_space (rev (takeWhile is_space (rev t)))"
    by (auto simp: list_all_iff dest: set_takeWhileD)
  have "scan (TrimSpace q) (False, d) = Some (False, d)" for d
  proof -
    have "scan (takeWhile is_space q @ TrimSpace q @ rev (takeWhile is_space (rev t))) (False, d)
        = Some (False, d)"
      using assms q t unfolding closed_def by metis
    then have "(case scan (TrimSpace q) (False, d) of
        None \<Rightarrow> None | Some st \<Rightarrow> scan (rev (takeWhile is_space (rev t))) st) = Some (False, d)"
      using sp(1) by (simp add: scan_append scan_space)
    then show ?thesis using scan_space [OF sp(2)] by (auto split: option.splits)
  qed
  then show ?thesis by (simp add: closed_def)
qed

text \<open>A checked filter with no types recorded, for the examples below.\<close>

definition bare_checked :: checked where
  "bare_checked = \<lparr>TypeMap = (\<lambda>i. None), ReferenceMap = (\<lambda>i. None), Positions = (\<lambda>i. 0),
     LineOffsets = [], ColumnName = (\<lambda>s. [])\<rparr>"

definition name_filter :: "string \<Rightarrow> expr" where
  "name_filter s = CallE 1 None ''_==_'' [IdentE 2 ''name'', ConstE 3 (StringValue s)]"

text \<open>C15: The SQL of a filter whose constants and keys contain no quote is closed: it ends every
  string literal it starts and closes only parentheses it opened, so placed between the parentheses
  of a condition it cannot change what surrounds it.\<close>

theorem filter_sql_closed:
  assumes "Compile f = Inr (c, e, isBool, typeName)" and "columns_plain c" and "safe_expr c e"
    and "Convert Compile f = Inr q"
  shows "closed q"
proof -
  obtain t where "interpretExpr c e = Inr t" "q = TrimSpace t"
    using assms(1,4) by (auto simp: Convert_def interpret_query_def bind_cel_Inr split: if_splits)
  then show ?thesis using interpretExpr_closed [OF assms(2,3)] closed_TrimSpace by simp
qed

theorem filter_sql_closed_witness:
  "closed (''(name = '' @ sq ''a(b'' @ '')'')"
proof -
  have "Convert (\<lambda>f. Inr (bare_checked, name_filter ''a(b'', True, ''bool'')) [] =
      Inr (''(name = '' @ sq ''a(b'' @ '')'')"
    by code_simp
  moreover have "columns_plain bare_checked" by (simp add: columns_plain_def bare_checked_def plain_text_def)
  moreover have "safe_expr bare_checked (name_filter ''a(b'')" by code_simp
  ultimately show ?thesis
    using filter_sql_closed [of "\<lambda>f. Inr (bare_checked, name_filter ''a(b'', True, ''bool'')" "[]"
        bare_checked "name_filter ''a(b''" True "''bool''"] by simp
qed

text \<open>A string constant of a filter reaches the SQL unescaped: the constant's own quotes end the
  literal, and there is a comparison of the name with a constant whose SQL, between parentheses,
  closes the surrounding parentheses and adds an alternative that is always true.\<close>

theorem string_constants_unescaped:
  "(\<forall>c s. \<not> isDyn c (IdentE 2 ''name'') \<and> \<not> isDyn c (ConstE 3 (StringValue s)) \<and> ReferenceMap c 2 = None
      \<longrightarrow> interpretExpr c (name_filter s) = Inr (''(name = '' @ squote # s @ squote # '')''))
   \<and> interpretExpr bare_checked (name_filter (squote # '')) OR ((TRUE OR name = '' @ [squote])) =
       Inr (''(name = '' @ [squote, squote] @ '')) OR ((TRUE OR name = '' @ [squote, squote] @ '')'')
   \<and> \<not> closed (''(name = '' @ [squote, squote] @ '')) OR ((TRUE OR name = '' @ [squote, squote] @ '')'')"
proof -
  have "interpretExpr c (name_filter s) = Inr (''(name = '' @ squote # s @ squote # '')'')"
    if "\<not> isDyn c (IdentE 2 ''name'')" "\<not> isDyn c (ConstE 3 (StringValue s))" "ReferenceMap c 2 = None" for c s
    using that
    by (simp add: name_filter_def isUnaryOperator_def unaryOperators_def isBinaryOperator_def
        binaryOperators_def mayBeTranslatedToStringConcatExpression_def isAddOperator_def
        mayBeTranslatedToJSONPathContainsExpression_def coercion_def interpretIdentExpr_def
        identToColumn_def binary_sql_operator_def sq_def)
  moreover have "interpretExpr bare_checked (name_filter (squote # '')) OR ((TRUE OR name = '' @ [squote])) =
       Inr (''(name = '' @ [squote, squote] @ '')) OR ((TRUE OR name = '' @ [squote, squote] @ '')'')"
    by code_simp
  moreover have "scan (''(name = '' @ [squote, squote] @ '')) OR ((TRUE OR name = '' @ [squote, squote] @ '')'')
      (False, 0) = None"
    by code_simp
  ultimately show ?thesis unfolding closed_def by (metis option.distinct(1))
qed

theorem string_constants_unescaped_witness:
  "interpretExpr bare_checked (name_filter ''a'') = Inr (''(name = '' @ squote # ''a'' @ squote # '')'')"
  using string_constants_unescaped by (simp add: isDyn_def bare_checked_def)

text \<open>
  An unsigned constant is printed through the accessor of signed ones, so its value is lost; a call
  inside a concatenation is left out of it; the global form of \<^verbatim>\<open>matches\<close> has no target and is a nil
  dereference.
\<close>

theorem unsigned_constants_lose_their_value:
  "interpretExpr c (CallE i t ''_==_'' [IdentE k x, ConstE j (Uint64Value m)]) =
   interpretExpr c (CallE i t ''_==_'' [IdentE k x, ConstE j (Uint64Value n)])"
  by (simp add: isUnaryOperator_def unaryOperators_def isBinaryOperator_def binaryOperators_def
      mayBeTranslatedToStringConcatExpression_def isAddOperator_def
      mayBeTranslatedToJSONPathContainsExpression_def coercion_def binary_sql_operator_def
      isDyn_def isString_def coerceToTypeOf_def)

theorem calls_are_dropped_from_concatenations:
  "allStringConcatArgs (CallE i t ''_+_'' [a, CallE j t' ''string'' args]) = allStringConcatArgs a"
  by (simp add: isAddOperator_def)

theorem global_matches_panics: "interpretExpr c (CallE i None ''matches'' [a, b]) = Inl CelPanic"
  by (simp add: isUnaryOperator_def unaryOperators_def isBinaryOperator_def binaryOperators_def
      isIndexOperator_def)

end
