(* ===== verification/BufferedWriter.thy ===== *)
theory BufferedWriter
  imports Prelude "HOL-Library.Sublist"
begin

text \<open>
  The buffered log sender (\<^verbatim>\<open>pkg/logs/writer.go\<close>). Bytes are characters. The sender is the
  stream of the request: the record keeps the messages it accepted, and \<open>send_err\<close> gives the
  error of the n-th call of \<^verbatim>\<open>Send\<close>, if any. \<^verbatim>\<open>append\<close> on the buffer's bytes and the copy of the
  rest into the reset buffer are list operations: the copy is overlap-safe in Go, and a sent slice
  is serialised before \<^verbatim>\<open>Send\<close> returns. The buffer's own \<^verbatim>\<open>Write\<close> does not fail.
\<close>

subsection \<open>The sender and the writer\<close>

datatype message = HttpBody string string | LogMsg string string

datatype sender = HTTPSender | LogSender | OtherSender

record BufferedLog =
  bl_sender :: sender
  bl_name :: string
  bl_size :: int
  bl_buffer :: string
  bl_sent :: "message list"
  bl_calls :: nat

definition writer_DefaultBufferSize :: int where "writer_DefaultBufferSize = 64 * 1024"

definition NewBufferedWriter :: "string \<Rightarrow> int \<Rightarrow> BufferedLog" where
  "NewBufferedWriter name sz =
     (let size' = (if sz < 1 then writer_DefaultBufferSize else sz) in
      \<lparr>bl_sender = LogSender, bl_name = name, bl_size = size', bl_buffer = [], bl_sent = [], bl_calls = 0\<rparr>)"

definition NewBufferedHTTPWriter :: "string \<Rightarrow> int \<Rightarrow> BufferedLog" where
  "NewBufferedHTTPWriter name sz =
     (let size' = (if sz < 1 then writer_DefaultBufferSize else sz) in
      \<lparr>bl_sender = HTTPSender, bl_name = name, bl_size = size', bl_buffer = [], bl_sent = [], bl_calls = 0\<rparr>)"

type_synonym send_err = "nat \<Rightarrow> string option"

fun message_of :: "sender \<Rightarrow> string \<Rightarrow> string \<Rightarrow> message option" where
  "message_of HTTPSender name p = Some (HttpBody ''text/plain'' p)"
| "message_of LogSender name p = Some (LogMsg name p)"
| "message_of OtherSender name p = None"

definition sendBytes :: "send_err \<Rightarrow> BufferedLog \<Rightarrow> string \<Rightarrow> int res \<times> BufferedLog" where
  "sendBytes err w p =
     (case message_of (bl_sender w) (bl_name w) p of
        None \<Rightarrow> (Inr (int (length p)), w)
      | Some m \<Rightarrow>
          (case err (bl_calls w) of
             Some x \<Rightarrow> (Inl (PlainErr x), w\<lparr>bl_calls := bl_calls w + 1\<rparr>)
           | None \<Rightarrow> (Inr (int (length p)), w\<lparr>bl_sent := bl_sent w @ [m], bl_calls := bl_calls w + 1\<rparr>)))"

text \<open>A slice \<^verbatim>\<open>bts[a:b]\<close> within bounds.\<close>

definition slice :: "string \<Rightarrow> int \<Rightarrow> int \<Rightarrow> string" where
  "slice bts a b = take (nat (b - a)) (drop (nat a) bts)"

text \<open>The loop of \<^verbatim>\<open>Write\<close>: chunk \<open>i\<close> of the given number.\<close>

function send_chunks :: "send_err \<Rightarrow> string \<Rightarrow> int \<Rightarrow> int \<Rightarrow> BufferedLog \<Rightarrow> go_error option \<times> BufferedLog" where
  "send_chunks err allBts amountChunks i w =
     (if i < amountChunks
      then (let offSet = i * bl_size w in
            case sendBytes err w (slice allBts offSet (offSet + bl_size w)) of
              (Inl e, w') \<Rightarrow> (Some e, w')
            | (Inr _, w') \<Rightarrow> send_chunks err allBts amountChunks (i + 1) w')
      else (None, w))"
  by pat_completeness auto
termination by (relation "measure (\<lambda>(err, a, n, i, w). nat (n - i))") auto

declare send_chunks.simps [simp del]

definition Write :: "send_err \<Rightarrow> BufferedLog \<Rightarrow> string \<Rightarrow> int res \<times> BufferedLog" where
  "Write err w p =
     (let allBts = bl_buffer w @ p;
          btsLength = int (length allBts);
          remainBytes = btsLength mod bl_size w;
          amountChunks = (btsLength - remainBytes) div bl_size w
      in case send_chunks err allBts amountChunks 0 w of
           (Some e, w') \<Rightarrow> (Inl e, w')
         | (None, w') \<Rightarrow>
             (let b = (if remainBytes > 0 then slice allBts (amountChunks * bl_size w) btsLength else [])
              in (Inr (int (length p)), w'\<lparr>bl_buffer := b\<rparr>)))"

definition Flush :: "send_err \<Rightarrow> BufferedLog \<Rightarrow> int res \<times> BufferedLog" where
  "Flush err w = (if length (bl_buffer w) > 0 then sendBytes err w (bl_buffer w) else (Inr 0, w))"

subsection \<open>The reference: cutting a text into pieces\<close>

text \<open>The full pieces of a text and what is left after them.\<close>

function pieces :: "nat \<Rightarrow> string \<Rightarrow> string list" where
  "pieces n s = (if n = 0 \<or> length s < n then [] else take n s # pieces n (drop n s))"
  by pat_completeness auto
termination by (relation "measure (\<lambda>(n, s). length s)") auto

declare pieces.simps [simp del]

definition rest :: "nat \<Rightarrow> string \<Rightarrow> string" where
  "rest n s = drop (length s - length s mod n) s"

lemma pieces_less [simp]: "length s < n \<Longrightarrow> pieces n s = []"
  by (subst pieces.simps) simp

lemma pieces_step: "0 < n \<Longrightarrow> length t = n \<Longrightarrow> pieces n (t @ s) = t # pieces n s"
  by (subst pieces.simps) simp

lemma pieces_size: "p \<in> set (pieces n s) \<Longrightarrow> length p = n"
proof (induction n s rule: pieces.induct)
  case (1 n s)
  then show ?case by (cases "n = 0 \<or> length s < n") (auto simp: pieces.simps [of n s])
qed

lemma rest_less [simp]: "length s < n \<Longrightarrow> rest n s = s"
  by (simp add: rest_def)

lemma rest_step: "0 < n \<Longrightarrow> length t = n \<Longrightarrow> rest n (t @ s) = rest n s"
proof -
  assume a: "0 < n" "length t = n"
  have "n + length s - length s mod n = n + (length s - length s mod n)"
    by (simp add: mod_less_eq_dividend)
  moreover have "length s mod n \<le> length s" by simp
  then have "n \<le> n + length s - length s mod n" by linarith
  ultimately show ?thesis using a by (simp add: rest_def)
qed

lemma length_rest: "0 < n \<Longrightarrow> length (rest n s) < n"
  by (simp add: rest_def mod_less_eq_dividend)

lemma pieces_induct:
  assumes "0 < n" and "\<And>s. length s < n \<Longrightarrow> P s" and "\<And>t s. length t = n \<Longrightarrow> P s \<Longrightarrow> P (t @ s)"
  shows "P s"
proof (induction s rule: length_induct)
  case (1 s)
  show ?case
  proof (cases "length s < n")
    case False
    then have "P (take n s @ drop n s)" using 1 assms(1) by (intro assms(3)) auto
    then show ?thesis by simp
  qed (rule assms(2))
qed

lemma pieces_rest:
  assumes "0 < n"
  shows "concat (pieces n s) @ rest n s = s"
  using assms by (induction s rule: pieces_induct [OF assms]) (simp_all add: pieces_step rest_step)

text \<open>Cutting a prefix first, and its rest with what follows, cuts the whole.\<close>

lemma pieces_append:
  assumes "0 < n"
  shows "pieces n (s @ p) = pieces n s @ pieces n (rest n s @ p)"
  using assms by (induction s rule: pieces_induct [OF assms]) (simp_all add: pieces_step rest_step)

lemma rest_append:
  assumes "0 < n"
  shows "rest n (s @ p) = rest n (rest n s @ p)"
  using assms by (induction s rule: pieces_induct [OF assms]) (simp_all add: pieces_step rest_step)


subsection \<open>The loop sends the pieces\<close>

fun send_list :: "send_err \<Rightarrow> BufferedLog \<Rightarrow> string list \<Rightarrow> go_error option \<times> BufferedLog" where
  "send_list err w [] = (None, w)"
| "send_list err w (p # ps) =
     (case sendBytes err w p of (Inl e, w') \<Rightarrow> (Some e, w') | (Inr _, w') \<Rightarrow> send_list err w' ps)"

definition same_writer :: "BufferedLog \<Rightarrow> BufferedLog \<Rightarrow> bool" where
  "same_writer w w' = (bl_sender w' = bl_sender w \<and> bl_name w' = bl_name w \<and> bl_size w' = bl_size w
     \<and> bl_buffer w' = bl_buffer w)"

lemma sendBytes_same: "sendBytes err w p = (r, w') \<Longrightarrow> same_writer w w'"
  by (auto simp: sendBytes_def same_writer_def split: option.splits)

lemma send_list_same: "send_list err w ps = (r, w') \<Longrightarrow> same_writer w w'"
proof (induction ps arbitrary: w)
  case (Cons p ps)
  obtain x u where s: "sendBytes err w p = (x, u)" by fastforce
  show ?case
  proof (cases x)
    case (Inr y)
    then show ?thesis using Cons s sendBytes_same [OF s] by (auto simp: same_writer_def)
  qed (use Cons s sendBytes_same [OF s] in auto)
qed (simp add: same_writer_def)

lemma send_chunks_eq:
  assumes "bl_size w = int n" and "0 < n"
  shows "i \<le> length s div n \<Longrightarrow>
    send_chunks err s (int (length s div n)) (int i) w = send_list err w (pieces n (drop (i * n) s))"
  using assms(1)
proof (induction "length s div n - i" arbitrary: i w)
  case 0
  then have i: "i = length s div n" by simp
  have "length (drop (i * n) s) < n" using i assms(2) by (simp add: minus_div_mult_eq_mod)
  then show ?case using i by (subst send_chunks.simps) simp
next
  case (Suc k)
  then have i: "i < length s div n" by simp
  have "(i + 1) * n \<le> length s div n * n" using i by (intro mult_le_mono1) simp
  then have "(i + 1) * n \<le> length s" by (rule le_trans) (rule div_times_less_eq_dividend)
  then have le: "i * n + n \<le> length s" by simp
  have sl: "slice s (int i * bl_size w) (int i * bl_size w + bl_size w) = take n (drop (i * n) s)"
    using Suc.prems(2) by (simp add: slice_def nat_mult_distrib flip: of_nat_mult)
  have pc: "pieces n (drop (i * n) s) = take n (drop (i * n) s) # pieces n (drop ((i + 1) * n) s)"
    using pieces_step [of n "take n (drop (i * n) s)" "drop ((i + 1) * n) s"] le assms(2)
    by (simp add: add.commute flip: drop_drop)
  obtain x u where s: "sendBytes err w (take n (drop (i * n) s)) = (x, u)" by fastforce
  have "send_chunks err s (int (length s div n)) (int (i + 1)) u = send_list err u (pieces n (drop ((i + 1) * n) s))"
    using Suc.hyps(2) Suc.prems i sendBytes_same [OF s] by (intro Suc.hyps(1)) (simp_all add: same_writer_def)
  then show ?case using i s sl pc
    by (subst send_chunks.simps) (simp add: add.commute split: sum.splits)
qed

lemma Write_eq:
  assumes "0 < bl_size w"
  shows "Write err w p =
    (case send_list err w (pieces (nat (bl_size w)) (bl_buffer w @ p)) of
       (Some e, w') \<Rightarrow> (Inl e, w')
     | (None, w') \<Rightarrow> (Inr (int (length p)), w'\<lparr>bl_buffer := rest (nat (bl_size w)) (bl_buffer w @ p)\<rparr>))"
proof -
  define n where "n = nat (bl_size w)"
  define s where "s = bl_buffer w @ p"
  have n: "bl_size w = int n" "0 < n" using assms by (auto simp: n_def)
  have am: "(int (length s) - int (length s) mod int n) div int n = int (length s div n)"
    by (metis of_nat_div minus_mod_eq_mult_div n(2) nonzero_mult_div_cancel_left of_nat_0_less_iff less_irrefl)
  have r: "(if 0 < int (length s) mod int n then slice s (int (length s div n) * int n) (int (length s)) else []) = rest n s"
  proof -
    have "length s div n * n = length s - length s mod n" by (simp add: minus_mod_eq_div_mult)
    moreover have "int (length s) mod int n = int (length s mod n)" by (simp add: zmod_int)
    moreover have "nat (int (length s) - int (length s mod n)) = length s - length s mod n" by simp
    ultimately show ?thesis by (simp add: slice_def rest_def nat_mult_distrib flip: of_nat_mult)
  qed
  have "send_chunks err s (int (length s div n)) 0 w = send_list err w (pieces n s)"
    using send_chunks_eq [of w n 0 s err] n by simp
  then show ?thesis unfolding Write_def Let_def s_def [symmetric] n(1) am r nat_int
    by simp
qed

subsection \<open>What was sent\<close>

fun payload :: "message \<Rightarrow> string" where
  "payload (HttpBody _ p) = p"
| "payload (LogMsg _ p) = p"

definition sent_text :: "BufferedLog \<Rightarrow> string" where
  "sent_text w = concat (map payload (bl_sent w))"

text \<open>A writer of the constructors, between two calls.\<close>

definition good_writer :: "BufferedLog \<Rightarrow> bool" where
  "good_writer w = (bl_sender w \<noteq> OtherSender \<and> 0 < bl_size w \<and> int (length (bl_buffer w)) < bl_size w)"

lemma sendBytes_cases:
  assumes "bl_sender w \<noteq> OtherSender"
  obtains x where "err (bl_calls w) = Some x"
      and "sendBytes err w p = (Inl (PlainErr x), w\<lparr>bl_calls := bl_calls w + 1\<rparr>)"
    | m where "err (bl_calls w) = None" and "payload m = p" and "message_of (bl_sender w) (bl_name w) p = Some m"
      and "sendBytes err w p = (Inr (int (length p)), w\<lparr>bl_sent := bl_sent w @ [m], bl_calls := bl_calls w + 1\<rparr>)"
  using assms by (cases "bl_sender w"; cases "err (bl_calls w)") (simp_all add: sendBytes_def, (metis payload.simps)+)

lemma send_list_cases:
  assumes "bl_sender w \<noteq> OtherSender" and "send_list err w ps = (r, w')"
  shows "\<exists>k \<le> length ps. map payload (bl_sent w') = map payload (bl_sent w) @ take k ps \<and> (r = None \<longleftrightarrow> k = length ps)"
  using assms
proof (induction ps arbitrary: w)
  case (Cons p ps)
  from Cons.prems(1) show ?case
  proof (cases rule: sendBytes_cases [of w err p])
    case (1 x)
    then show ?thesis using Cons.prems(2) by (intro exI [of _ 0]) auto
  next
    case (2 m)
    define u where "u = w\<lparr>bl_sent := bl_sent w @ [m], bl_calls := bl_calls w + 1\<rparr>"
    obtain k where "k \<le> length ps" "map payload (bl_sent w') = map payload (bl_sent u) @ take k ps"
      "r = None \<longleftrightarrow> k = length ps"
      using Cons.IH [of u] Cons.prems 2 by (auto simp: u_def)
    then show ?thesis using 2 by (intro exI [of _ "Suc k"]) (auto simp: u_def)
  qed
qed simp

lemma send_list_no_error: "(\<And>i. err i = None) \<Longrightarrow> fst (send_list err w ps) = None"
proof (induction ps arbitrary: w)
  case (Cons p ps)
  then show ?case by (cases "bl_sender w") (simp_all add: sendBytes_def)
qed simp


text \<open>Several writes, as a copy loop makes them: it stops at the first error.\<close>

fun write_all :: "send_err \<Rightarrow> BufferedLog \<Rightarrow> string list \<Rightarrow> go_error option \<times> BufferedLog" where
  "write_all err w [] = (None, w)"
| "write_all err w (p # ps) =
     (case Write err w p of (Inl e, w') \<Rightarrow> (Some e, w') | (Inr _, w') \<Rightarrow> write_all err w' ps)"

text \<open>The copy loop followed by a flush, which is skipped after an error.\<close>

definition copy_flush :: "send_err \<Rightarrow> BufferedLog \<Rightarrow> string list \<Rightarrow> go_error option \<times> BufferedLog" where
  "copy_flush err w ps =
     (case write_all err w ps of
        (Some e, w') \<Rightarrow> (Some e, w')
      | (None, w') \<Rightarrow> (case Flush err w' of (Inl e, w'') \<Rightarrow> (Some e, w'') | (Inr _, w'') \<Rightarrow> (None, w'')))"

text \<open>The writer has sent the full pieces of the text and holds the rest.\<close>

definition cut :: "BufferedLog \<Rightarrow> string \<Rightarrow> bool" where
  "cut w s = (map payload (bl_sent w) = pieces (nat (bl_size w)) s \<and> bl_buffer w = rest (nat (bl_size w)) s)"

lemma cut_append:
  assumes "good_writer w" and "cut w s"
  shows "pieces (nat (bl_size w)) (s @ p) = map payload (bl_sent w) @ pieces (nat (bl_size w)) (bl_buffer w @ p)"
    and "rest (nat (bl_size w)) (s @ p) = rest (nat (bl_size w)) (bl_buffer w @ p)"
proof -
  have n: "0 < nat (bl_size w)" using assms(1) by (simp add: good_writer_def)
  have b: "bl_buffer w = rest (nat (bl_size w)) s" "map payload (bl_sent w) = pieces (nat (bl_size w)) s"
    using assms(2) by (simp_all add: cut_def)
  show "pieces (nat (bl_size w)) (s @ p) = map payload (bl_sent w) @ pieces (nat (bl_size w)) (bl_buffer w @ p)"
    unfolding b by (rule pieces_append [OF n])
  show "rest (nat (bl_size w)) (s @ p) = rest (nat (bl_size w)) (bl_buffer w @ p)"
    unfolding b by (rule rest_append [OF n])
qed

lemma Write_cut:
  assumes "good_writer w" and "cut w s" and "Write err w p = (Inr k, w')"
  shows "good_writer w' \<and> cut w' (s @ p) \<and> bl_size w' = bl_size w \<and> k = int (length p)"
proof -
  define n where "n = nat (bl_size w)"
  have pos: "0 < bl_size w" using assms(1) by (simp add: good_writer_def)
  then have n: "bl_size w = int n" "0 < n" "bl_sender w \<noteq> OtherSender"
    using assms(1) by (simp_all add: good_writer_def n_def)
  obtain r u where u: "send_list err w (pieces n (bl_buffer w @ p)) = (r, u)" by fastforce
  have w': "r = None" "w' = u\<lparr>bl_buffer := rest n (bl_buffer w @ p)\<rparr>" "k = int (length p)"
    using assms(3) Write_eq [OF pos, of err p, folded n_def] unfolding u by (auto split: option.splits)
  obtain j where "j \<le> length (pieces n (bl_buffer w @ p))"
      "map payload (bl_sent u) = map payload (bl_sent w) @ take j (pieces n (bl_buffer w @ p))"
      "j = length (pieces n (bl_buffer w @ p))"
    using send_list_cases [OF n(3) u] w'(1) by auto
  then have "map payload (bl_sent u) = pieces n (s @ p)" "rest n (bl_buffer w @ p) = rest n (s @ p)"
    using cut_append [OF assms(1,2), of p, folded n_def] by simp_all
  then show ?thesis using w' n send_list_same [OF u] length_rest [of n "s @ p"]
    by (auto simp: cut_def good_writer_def same_writer_def)
qed

lemma Write_error:
  assumes "good_writer w" and "cut w s" and "Write err w p = (Inl e, w')"
  shows "prefix (sent_text w') (s @ p)"
proof -
  define n where "n = nat (bl_size w)"
  have pos: "0 < bl_size w" using assms(1) by (simp add: good_writer_def)
  then have n: "bl_size w = int n" "0 < n" "bl_sender w \<noteq> OtherSender"
    using assms(1) by (simp_all add: good_writer_def n_def)
  obtain r u where u: "send_list err w (pieces n (bl_buffer w @ p)) = (r, u)" by fastforce
  have w': "w' = u"
    using assms(3) Write_eq [OF pos, of err p, folded n_def] unfolding u by (auto split: option.splits)
  obtain j where "map payload (bl_sent u) = map payload (bl_sent w) @ take j (pieces n (bl_buffer w @ p))"
    using send_list_cases [OF n(3) u] by auto
  moreover have "pieces n (s @ p) = map payload (bl_sent w) @ pieces n (bl_buffer w @ p)"
    using cut_append(1) [OF assms(1,2), of p, folded n_def] .
  ultimately have "concat (pieces n (s @ p)) = sent_text w' @ concat (drop j (pieces n (bl_buffer w @ p)))"
    using w' by (simp add: sent_text_def flip: concat_append)
  then show ?thesis using pieces_rest [OF n(2), of "s @ p"] by (metis append.assoc prefixI)
qed

lemma cut_prefix: "good_writer w \<Longrightarrow> cut w s \<Longrightarrow> sent_text w @ bl_buffer w = s"
  by (simp add: cut_def sent_text_def pieces_rest good_writer_def)

lemma write_all_cut:
  "good_writer w \<Longrightarrow> cut w s \<Longrightarrow> write_all err w ps = (None, w') \<Longrightarrow>
    good_writer w' \<and> cut w' (s @ concat ps) \<and> bl_size w' = bl_size w"
proof (induction ps arbitrary: w s)
  case (Cons p ps)
  obtain k u where u: "Write err w p = (Inr k, u)" "write_all err u ps = (None, w')"
    using Cons.prems(3) by (auto split: sum.splits prod.splits)
  show ?case using Cons.IH [OF _ _ u(2), of "s @ p"] Write_cut [OF Cons.prems(1,2) u(1)] by simp
qed simp

lemma write_all_prefix:
  "good_writer w \<Longrightarrow> cut w s \<Longrightarrow> write_all err w ps = (r, w') \<Longrightarrow> prefix (sent_text w') (s @ concat ps)"
proof (induction ps arbitrary: w s)
  case Nil
  then show ?case using cut_prefix [of w s] by auto
next
  case (Cons p ps)
  obtain x u where x: "Write err w p = (x, u)" by fastforce
  show ?case
  proof (cases x)
    case (Inl e)
    then have "prefix (sent_text u) (s @ p)" using Write_error Cons.prems x by blast
    then have "prefix (sent_text u) (s @ concat (p # ps))" using prefix_prefix [of _ "s @ p"] by simp
    then show ?thesis using x Inl Cons.prems(3) by simp
  next
    case (Inr k)
    then show ?thesis using Cons.IH [of u "s @ p"] Write_cut [of w s err p k u] Cons.prems x by simp
  qed
qed

lemma write_all_no_error: "good_writer w \<Longrightarrow> (\<And>i. err i = None) \<Longrightarrow> fst (write_all err w ps) = None"
proof (induction ps arbitrary: w)
  case (Cons p ps)
  define n where "n = nat (bl_size w)"
  obtain r u where u: "send_list err w (pieces n (bl_buffer w @ p)) = (r, u)" by fastforce
  then have "r = None" using send_list_no_error [of err w] Cons.prems(2) by (metis fst_conv)
  then have W: "Write err w p = (Inr (int (length p)), u\<lparr>bl_buffer := rest n (bl_buffer w @ p)\<rparr>)"
    using Write_eq [of w err p] u Cons.prems(1) by (simp add: good_writer_def n_def)
  have "good_writer (u\<lparr>bl_buffer := rest n (bl_buffer w @ p)\<rparr>)"
    using Cons.prems(1) send_list_same [OF u] length_rest [of n "bl_buffer w @ p"]
    by (auto simp: good_writer_def same_writer_def n_def)
  then show ?case using Cons.IH [OF _ Cons.prems(2)] W by simp
qed simp


subsection \<open>Properties\<close>

definition new_writers :: "string \<Rightarrow> int \<Rightarrow> BufferedLog list" where
  "new_writers name sz = [NewBufferedWriter name sz, NewBufferedHTTPWriter name sz]"

definition chunk_size :: "int \<Rightarrow> nat" where
  "chunk_size sz = (if sz < 1 then 65536 else nat sz)"

text \<open>The specification: the full pieces of the text, then a shorter last one if something is left.\<close>

definition cut_text :: "nat \<Rightarrow> string \<Rightarrow> string list" where
  "cut_text n s = pieces n s @ (if rest n s = [] then [] else [rest n s])"

lemma new_writer:
  assumes "w \<in> set (new_writers name sz)"
  shows "good_writer w" "cut w []" "nat (bl_size w) = chunk_size sz"
proof -
  have "w = NewBufferedWriter name sz \<or> w = NewBufferedHTTPWriter name sz"
    using assms by (auto simp: new_writers_def)
  then show g: "good_writer w" and "nat (bl_size w) = chunk_size sz"
    by (auto simp: NewBufferedWriter_def NewBufferedHTTPWriter_def good_writer_def chunk_size_def
        writer_DefaultBufferSize_def Let_def)
  from \<open>w = NewBufferedWriter name sz \<or> w = NewBufferedHTTPWriter name sz\<close> g show "cut w []"
    by (auto simp: NewBufferedWriter_def NewBufferedHTTPWriter_def cut_def good_writer_def Let_def)
qed

lemma cut_text_concat: "0 < n \<Longrightarrow> concat (cut_text n s) = s"
  using pieces_rest [of n s] by (auto simp: cut_text_def)

lemma cut_text_size: "0 < n \<Longrightarrow> p \<in> set (cut_text n s) \<Longrightarrow> 0 < length p \<and> length p \<le> n"
  using pieces_size [of p n s] length_rest [of n s] by (auto simp: cut_text_def split: if_splits)

lemma flush_cut:
  assumes "good_writer w" and "cut w s" and "Flush err w = (Inr k, w')"
  shows "map payload (bl_sent w') = cut_text (nat (bl_size w)) s"
proof (cases "bl_buffer w = []")
  case False
  have "bl_sender w \<noteq> OtherSender" using assms(1) by (simp add: good_writer_def)
  then show ?thesis using False assms(2,3)
    by (cases rule: sendBytes_cases [of w err "bl_buffer w"]) (auto simp: Flush_def cut_def cut_text_def)
qed (use assms in \<open>auto simp: Flush_def cut_def cut_text_def\<close>)

lemma Flush_no_error:
  assumes "bl_sender w \<noteq> OtherSender" and "err = (\<lambda>i. None)"
  shows "\<exists>k w'. Flush err w = (Inr k, w')"
  using assms by (cases rule: sendBytes_cases [of w err "bl_buffer w"]) (auto simp: Flush_def)

lemma copy_flush_None:
  assumes "w \<in> set (new_writers name sz)" and "copy_flush err w ps = (None, w')"
  shows "map payload (bl_sent w') = cut_text (chunk_size sz) (concat ps)"
proof -
  obtain u k where u: "write_all err w ps = (None, u)" "Flush err u = (Inr k, w')"
    using assms(2) by (auto simp: copy_flush_def split: prod.splits option.splits sum.splits)
  then have "good_writer u" "cut u (concat ps)" "bl_size u = bl_size w"
    using write_all_cut [OF new_writer(1,2) [OF assms(1)], of err ps u] by simp_all
  then show ?thesis using flush_cut [OF _ _ u(2)] new_writer(3) [OF assms(1)] by simp
qed

text \<open>C16: A new buffered sender, given any sequence of writes followed by a flush, and a stream that
  accepts what is sent, sends exactly the cuts of the concatenated text: messages of the configured
  size and a shorter last one, never an empty message, however the text was split into writes.\<close>

theorem buffered_log_refines_cutting:
  assumes "w \<in> set (new_writers name sz)" and "err = (\<lambda>i. None)"
  shows "\<exists>w'. copy_flush err w ps = (None, w')
    \<and> map payload (bl_sent w') = cut_text (chunk_size sz) (concat ps)
    \<and> sent_text w' = concat ps
    \<and> list_all (\<lambda>m. 0 < length (payload m) \<and> length (payload m) \<le> chunk_size sz) (bl_sent w')"
proof -
  have n: "0 < chunk_size sz" by (simp add: chunk_size_def)
  obtain u where u: "write_all err w ps = (None, u)"
    using write_all_no_error [OF new_writer(1) [OF assms(1)], of err ps] assms(2) by (metis prod.collapse)
  have "bl_sender u \<noteq> OtherSender"
    using write_all_cut [OF new_writer(1,2) [OF assms(1)] u] by (simp add: good_writer_def)
  then have "\<exists>k w'. Flush err u = (Inr k, w')"
    using Flush_no_error assms(2) by blast
  then obtain w' where w': "copy_flush err w ps = (None, w')" using u by (auto simp: copy_flush_def)
  have m: "map payload (bl_sent w') = cut_text (chunk_size sz) (concat ps)"
    by (rule copy_flush_None [OF assms(1) w'])
  then have "list_all (\<lambda>p. 0 < length p \<and> length p \<le> chunk_size sz) (map payload (bl_sent w'))"
    unfolding m list_all_iff using cut_text_size [OF n] by blast
  then have "list_all (\<lambda>m. 0 < length (payload m) \<and> length (payload m) \<le> chunk_size sz) (bl_sent w')"
    unfolding list.pred_map comp_def .
  then show ?thesis using w' m cut_text_concat [OF n] by (simp add: sent_text_def)
qed

theorem buffered_log_refines_cutting_witness:
  "map payload (bl_sent (snd (copy_flush (\<lambda>i. None) (NewBufferedWriter ''n'' 2) [''a'', ''bcd'', ''e''])))
    = [''ab'', ''cd'', ''e'']"
proof -
  have "NewBufferedWriter ''n'' 2 \<in> set (new_writers ''n'' 2)" by (simp add: new_writers_def)
  then have "map payload (bl_sent (snd (copy_flush (\<lambda>i. None) (NewBufferedWriter ''n'' 2) [''a'', ''bcd'', ''e''])))
      = cut_text (chunk_size 2) (concat [''a'', ''bcd'', ''e''])"
    using buffered_log_refines_cutting [of "NewBufferedWriter ''n'' 2" "''n''" 2 "\<lambda>i. None" "[''a'', ''bcd'', ''e'']"]
    by auto
  then show ?thesis by (simp add: cut_text_def chunk_size_def pieces.simps rest_def)
qed

text \<open>Whatever the stream rejects, what the sender has sent when the copy loop stops is a prefix of
  the text, and the whole text when no error is returned: nothing is lost, repeated or reordered.\<close>

theorem buffered_log_sends_prefix:
  assumes "w \<in> set (new_writers name sz)" and "copy_flush err w ps = (r, w')"
  shows "prefix (sent_text w') (concat ps) \<and> (r = None \<longrightarrow> sent_text w' = concat ps)"
proof (cases r)
  case None
  then show ?thesis using copy_flush_None [OF assms(1), of err ps w'] assms(2) cut_text_concat [of "chunk_size sz"]
    by (simp add: sent_text_def chunk_size_def)
next
  case (Some e)
  obtain x u where u: "write_all err w ps = (x, u)" by fastforce
  note g = new_writer(1,2) [OF assms(1)]
  show ?thesis
  proof (cases x)
    case None
    then have c: "good_writer u" "cut u (concat ps)" using write_all_cut [OF g] u by auto
    obtain e' where "Flush err u = (Inl e', w')"
      using assms(2) u None Some by (auto simp: copy_flush_def split: prod.splits sum.splits)
    then have "bl_sent w' = bl_sent u"
      by (auto simp: Flush_def sendBytes_def split: if_splits option.splits)
    then show ?thesis using Some cut_prefix [OF c] by (metis option.distinct(1) prefixI sent_text_def)
  next
    case (Some y)
    then have "w' = u" using assms(2) u by (simp add: copy_flush_def)
    then show ?thesis using write_all_prefix [OF g u] \<open>r = Some e\<close> by simp
  qed
qed

theorem buffered_log_sends_prefix_witness:
  "prefix (sent_text (snd (copy_flush (\<lambda>i. if i = 1 then Some ''down'' else None)
     (NewBufferedWriter ''n'' 2) [''abcde'']))) ''abcde''"
  using buffered_log_sends_prefix [of "NewBufferedWriter ''n'' 2" "''n''" 2]
  by (metis concat.simps append_Nil2 list.set_intros(1) new_writers_def prod.collapse)

text \<open>A flush leaves the buffer as it is, so a second one sends the rest again.\<close>

theorem second_flush_resends:
  "map payload (bl_sent (snd (Flush (\<lambda>i. None) (snd (Flush (\<lambda>i. None)
     (snd (Write (\<lambda>i. None) (NewBufferedWriter ''n'' 2) ''abc''))))))) = [''ab'', ''c'', ''c'']"
  by code_simp

end
