(* ===== verification/LogStore.thy ===== *)
theory LogStore
  imports Resources BufferedWriter
begin

text \<open>
  Log storage (\<^verbatim>\<open>pkg/api/server/v1alpha2/log\<close>): the paths of log files, the three stream
  implementations (\<^verbatim>\<open>file.go\<close>, \<^verbatim>\<open>s3.go\<close>, \<^verbatim>\<open>gcs.go\<close>) and their construction from a record. A
  \<^verbatim>\<open>Stream\<close> value is a record of its methods over the world they act on: the files, the state of
  the S3 stream object, and the remote object store, which is abstract. The operating system's
  failures are a parameter (record \<open>osys\<close>; directories are implicit, and an error about one is such
  a failure); so are the S3 and bucket clients, with every failure they can report. How a copy
  loop of the standard library cuts a text into writes is the parameter \<open>os_cut\<close>.
\<close>

subsection \<open>Paths\<close>

text \<open>\<^verbatim>\<open>filepath.Clean\<close>: the segments kept so far are in reverse.\<close>

fun clean_segs :: "bool \<Rightarrow> string list \<Rightarrow> string list \<Rightarrow> string list" where
  "clean_segs rooted acc [] = rev acc"
| "clean_segs rooted acc (x # xs) =
     (if x = [] \<or> x = ''.'' then clean_segs rooted acc xs
      else if x = ''..''
      then (case acc of
              [] \<Rightarrow> clean_segs rooted (if rooted then [] else [''..'']) xs
            | a # as \<Rightarrow> clean_segs rooted (if a = ''..'' then x # acc else as) xs)
      else clean_segs rooted (x # acc) xs)"

definition Clean :: "string \<Rightarrow> string" where
  "Clean p =
     (if p = [] then ''.''
      else (let rooted = (hd p = CHR ''/''); segs = clean_segs rooted [] (split_on CHR ''/'' p) in
            if rooted then ''/'' @ join ''/'' segs
            else if segs = [] then ''.'' else join ''/'' segs))"

definition Dir :: "string \<Rightarrow> string" where
  "Dir p = Clean (rev (dropWhile (\<lambda>c. c \<noteq> CHR ''/'') (rev p)))"

text \<open>\<^verbatim>\<open>filepath.Join\<close>: empty elements are ignored; the empty string when nothing is left.\<close>

definition Join :: "string list \<Rightarrow> string" where
  "Join elems =
     (let es = filter (\<lambda>x. x \<noteq> []) elems in if es = [] then [] else Clean (join ''/'' es))"

definition FilePath :: "log \<Rightarrow> string res" where
  "FilePath l =
     (let filePath = Join [l_namespace l, l_uid l, l_name l] in
      if filePath = [] then Inl (PlainErr ''invalid file path'') else Inr filePath)"

subsection \<open>The world and the streams\<close>

record s3Stream =
  s3_buffer :: string
  s3_key :: string
  s3_partNumber :: int
  s3_partSize :: int
  s3_uploadID :: string
  s3_parts :: "(int \<times> string) list"
  s3_multiPartSize :: int

record 'o world =
  w_files :: "(string, string) fmap"
  w_s3 :: s3Stream
  w_objects :: 'o

record 'o stream =
  s_Type :: string
  s_ReadFrom :: "string \<Rightarrow> 'o world \<Rightarrow> (int \<times> go_error option) \<times> 'o world"
  s_WriteTo :: "send_err \<Rightarrow> BufferedLog \<Rightarrow> 'o world \<Rightarrow> go_error option \<times> BufferedLog"
  s_Delete :: "'o world \<Rightarrow> go_error option \<times> 'o world"
  s_Flush :: "'o world \<Rightarrow> go_error option \<times> 'o world"

text \<open>
  The operating system: the error of an operation on a path, how many bytes a failing read or
  write transferred, and how reads cut a file.
\<close>

datatype os_op = OsStat | OsOpen | OsRead | OsMkdirAll | OsOpenFile | OsWrite | OsClose | OsRemoveAll

record osys =
  os_err :: "os_op \<Rightarrow> string \<Rightarrow> string option"
  os_moved :: "string \<Rightarrow> nat"
  os_cut :: "string \<Rightarrow> string list"

text \<open>The S3 client: its calls on a key, over the state of the store.\<close>

record 'o s3Client =
  c_initConfig :: "string option"
  c_CreateMultipartUpload :: "string \<Rightarrow> 'o \<Rightarrow> (string + string) \<times> 'o"
  c_UploadPart :: "string \<Rightarrow> string \<Rightarrow> int \<Rightarrow> string \<Rightarrow> int \<Rightarrow> 'o \<Rightarrow> (string + string) \<times> 'o"
  c_AbortMultipartUpload :: "string \<Rightarrow> string \<Rightarrow> 'o \<Rightarrow> 'o"
  c_CompleteMultipartUpload :: "string \<Rightarrow> string \<Rightarrow> (int \<times> string) list \<Rightarrow> 'o \<Rightarrow> string option \<times> 'o"
  c_GetObject :: "string \<Rightarrow> 'o \<Rightarrow> string + (string list \<times> string option \<times> string option)"
  c_DeleteObject :: "string \<Rightarrow> 'o \<Rightarrow> string option \<times> 'o"

text \<open>
  The bucket of \<^verbatim>\<open>gocloud.dev\<close>: getting a client, opening and closing the bucket, a reader's
  content, a writer's creation, the bytes it accepted, and closing it, which commits the data.
\<close>

record 'o gcsBucket =
  g_client :: "string option"
  g_OpenBucket :: "string option"
  g_CloseBucket :: "string option"
  g_NewReader :: "string \<Rightarrow> 'o \<Rightarrow> string + (string list \<times> string option)"
  g_NewWriter :: "string \<Rightarrow> 'o \<Rightarrow> string option"
  g_ReadFrom :: "string \<Rightarrow> string \<Rightarrow> 'o \<Rightarrow> string + int"
  g_CloseWriter :: "string \<Rightarrow> string \<Rightarrow> 'o \<Rightarrow> string option \<times> 'o"
  g_Delete :: "string \<Rightarrow> 'o \<Rightarrow> string option \<times> 'o"

record 'o backends =
  b_os :: osys
  b_s3 :: "'o s3Client"
  b_gcs :: "'o gcsBucket"
  S3_MULTI_PART_SIZE :: int

subsection \<open>Files\<close>

definition fileStream_WriteTo ::
    "osys \<Rightarrow> string \<Rightarrow> send_err \<Rightarrow> BufferedLog \<Rightarrow> 'o world \<Rightarrow> go_error option \<times> BufferedLog" where
  "fileStream_WriteTo fos path err w x =
     (case (os_err fos OsStat path, fmlookup (w_files x) path) of
        (Some e, _) \<Rightarrow> (Some (PlainErr (''failed to stat '' @ path @ '': '' @ e)), w)
      | (None, None) \<Rightarrow> (Some (PlainErr (''failed to stat '' @ path @ '': no such file or directory'')), w)
      | (None, Some content) \<Rightarrow>
     (case os_err fos OsOpen path of
        Some e \<Rightarrow> (Some (PlainErr (''failed to open file '' @ path @ '': '' @ e)), w)
      | None \<Rightarrow>
     (case os_err fos OsRead path of
        Some e \<Rightarrow>
          (case write_all err w (os_cut fos (take (os_moved fos path) content)) of
             (Some we, w') \<Rightarrow> (Some we, w') | (None, w') \<Rightarrow> (Some (PlainErr e), w'))
      | None \<Rightarrow>
          (case write_all err w (os_cut fos content) of
             (Some we, w') \<Rightarrow> (Some we, w')
           | (None, w') \<Rightarrow> (map_option PlainErr (os_err fos OsClose path), w')))))"

definition file_append :: "string \<Rightarrow> string \<Rightarrow> 'o world \<Rightarrow> 'o world" where
  "file_append path data x =
     x\<lparr>w_files := fmupd path ((case fmlookup (w_files x) path of None \<Rightarrow> [] | Some c \<Rightarrow> c) @ data) (w_files x)\<rparr>"

definition fileStream_ReadFrom ::
    "osys \<Rightarrow> string \<Rightarrow> string \<Rightarrow> 'o world \<Rightarrow> (int \<times> go_error option) \<times> 'o world" where
  "fileStream_ReadFrom fos path data x =
     (case os_err fos OsMkdirAll (Dir path) of
        Some e \<Rightarrow> ((0, Some (PlainErr (''failed to create directory '' @ Dir path @ '', '' @ e))), x)
      | None \<Rightarrow>
     (case os_err fos OsOpenFile path of
        Some e \<Rightarrow> ((0, Some (PlainErr (''failed to open file '' @ path @ '': '' @ e))), x)
      | None \<Rightarrow>
     (case os_err fos OsWrite path of
        Some e \<Rightarrow>
          (let part = take (os_moved fos path) data in
           ((int (length part), Some (PlainErr e)), file_append path part x))
      | None \<Rightarrow>
          ((int (length data), map_option PlainErr (os_err fos OsClose path)), file_append path data x))))"

text \<open>\<^verbatim>\<open>os.RemoveAll\<close> removes the path and everything below it.\<close>

definition below :: "string \<Rightarrow> string \<Rightarrow> bool" where
  "below path f = (f = path \<or> HasPrefix f (path @ ''/''))"

definition fileStream_Delete :: "osys \<Rightarrow> string \<Rightarrow> 'o world \<Rightarrow> go_error option \<times> 'o world" where
  "fileStream_Delete fos path x =
     (case os_err fos OsRemoveAll path of
        Some e \<Rightarrow> (Some (PlainErr e), x)
      | None \<Rightarrow> (None, x\<lparr>w_files := fmfilter (\<lambda>f. \<not> below path f) (w_files x)\<rparr>))"

definition fileStream_Flush :: "'o world \<Rightarrow> go_error option \<times> 'o world" where
  "fileStream_Flush x = (None, x)"

text \<open>The path the stream sets on the log when it has none.\<close>

definition set_path :: "log \<Rightarrow> log res" where
  "set_path l =
     (if ls_path (l_status l) = []
      then (case FilePath l of
              Inl e \<Rightarrow> Inl e
            | Inr p \<Rightarrow> Inr (l\<lparr>l_status := (l_status l)\<lparr>ls_path := p\<rparr>\<rparr>))
      else Inr l)"

definition NewFileStream :: "osys \<Rightarrow> server_config \<Rightarrow> log \<Rightarrow> 'o stream res \<times> log" where
  "NewFileStream fos cfg l =
     (case set_path l of
        Inl e \<Rightarrow> (Inl e, l)
      | Inr l' \<Rightarrow>
          (let path = Join [LOGS_PATH cfg, ls_path (l_status l')] in
           (Inr \<lparr>s_Type = FileLogType, s_ReadFrom = fileStream_ReadFrom fos path,
                 s_WriteTo = fileStream_WriteTo fos path, s_Delete = fileStream_Delete fos path,
                 s_Flush = fileStream_Flush\<rparr>, l')))"


subsection \<open>S3\<close>

definition defaultS3MultiPartSize :: int where "defaultS3MultiPartSize = 1024 * 1024 * 5"

text \<open>
  One attempt to upload the buffer as a part; an attempt consumes the buffer, and a failed one
  aborts the upload. The result is the error, the stream object and the store.
\<close>

definition uploadMultiPart ::
    "'o s3Client \<Rightarrow> int \<Rightarrow> int \<Rightarrow> s3Stream \<Rightarrow> 'o \<Rightarrow> go_error option \<times> s3Stream \<times> 'o" where
  "uploadMultiPart c partNumber partSize st obj =
     (if partSize = 0 then (None, st, obj)
      else (case c_UploadPart c (s3_key st) (s3_uploadID st) partNumber (s3_buffer st) partSize obj of
              (Inl e, obj') \<Rightarrow>
                (Some (PlainErr e), st\<lparr>s3_buffer := []\<rparr>, c_AbortMultipartUpload c (s3_key st) (s3_uploadID st) obj')
            | (Inr etag, obj') \<Rightarrow>
                (None, st\<lparr>s3_buffer := [], s3_parts := s3_parts st @ [(partNumber, etag)],
                          s3_partNumber := s3_partNumber st + 1\<rparr>, obj')))"

definition s3Stream_ReadFrom ::
    "'o s3Client \<Rightarrow> string \<Rightarrow> 'o world \<Rightarrow> (int \<times> go_error option) \<times> 'o world" where
  "s3Stream_ReadFrom c data x =
     (let st = (w_s3 x)\<lparr>s3_buffer := s3_buffer (w_s3 x) @ data\<rparr>;
          sz = s3_partSize st + int (length data)
      in if sz \<ge> s3_multiPartSize st
         then (case uploadMultiPart c (s3_partNumber st) sz st (w_objects x) of
                 (Some e, st', obj) \<Rightarrow> ((0, Some e), x\<lparr>w_s3 := st', w_objects := obj\<rparr>)
               | (None, st', obj) \<Rightarrow>
                   ((0, None), x\<lparr>w_s3 := st'\<lparr>s3_partSize := 0, s3_buffer := []\<rparr>, w_objects := obj\<rparr>))
         else ((sz, None), x\<lparr>w_s3 := st\<lparr>s3_partSize := sz\<rparr>\<rparr>))"

definition s3Stream_Flush :: "'o s3Client \<Rightarrow> 'o world \<Rightarrow> go_error option \<times> 'o world" where
  "s3Stream_Flush c x =
     (case uploadMultiPart c (s3_partNumber (w_s3 x)) (int (length (s3_buffer (w_s3 x)))) (w_s3 x) (w_objects x) of
        (Some e, st, obj) \<Rightarrow> (Some e, x\<lparr>w_s3 := st, w_objects := obj\<rparr>)
      | (None, st, obj) \<Rightarrow>
          (case c_CompleteMultipartUpload c (s3_key st) (s3_uploadID st) (s3_parts st) obj of
             (e, obj') \<Rightarrow> (map_option PlainErr e, x\<lparr>w_s3 := st, w_objects := obj'\<rparr>)))"

text \<open>The copy loop over the pieces a body delivers; a read or close error comes after them.\<close>

definition copy_body ::
    "send_err \<Rightarrow> BufferedLog \<Rightarrow> string list \<Rightarrow> string option \<Rightarrow> go_error option \<times> BufferedLog" where
  "copy_body err w ps readErr =
     (case write_all err w ps of
        (Some e, w') \<Rightarrow> (Some e, w')
      | (None, w') \<Rightarrow> (map_option PlainErr readErr, w'))"

definition s3Stream_WriteTo ::
    "'o s3Client \<Rightarrow> send_err \<Rightarrow> BufferedLog \<Rightarrow> 'o world \<Rightarrow> go_error option \<times> BufferedLog" where
  "s3Stream_WriteTo c err w x =
     (case c_GetObject c (s3_key (w_s3 x)) (w_objects x) of
        Inl e \<Rightarrow> (Some (PlainErr e), w)
      | Inr (ps, readErr, closeErr) \<Rightarrow>
          (case copy_body err w ps readErr of
             (Some e, w') \<Rightarrow> (Some e, w')
           | (None, w') \<Rightarrow> (map_option PlainErr closeErr, w')))"

definition s3Stream_Delete :: "'o s3Client \<Rightarrow> 'o world \<Rightarrow> go_error option \<times> 'o world" where
  "s3Stream_Delete c x =
     (case c_DeleteObject c (s3_key (w_s3 x)) (w_objects x) of
        (e, obj) \<Rightarrow> (map_option PlainErr e, x\<lparr>w_objects := obj\<rparr>))"

definition NewS3Stream :: "'o backends \<Rightarrow> server_config \<Rightarrow> log \<Rightarrow> 'o world \<Rightarrow> 'o stream res \<times> log \<times> 'o world" where
  "NewS3Stream b cfg l x =
     (case set_path l of
        Inl e \<Rightarrow> (Inl e, l, x)
      | Inr l' \<Rightarrow>
     (let filePath = Join [LOGS_PATH cfg, ls_path (l_status l')]; c = b_s3 b in
     (case c_initConfig c of
        Some e \<Rightarrow> (Inl (PlainErr e), l', x)
      | None \<Rightarrow>
     (case c_CreateMultipartUpload c filePath (w_objects x) of
        (Inl e, obj) \<Rightarrow> (Inl (PlainErr e), l', x\<lparr>w_objects := obj\<rparr>)
      | (Inr uploadID, obj) \<Rightarrow>
          (let multiPartSize = (if S3_MULTI_PART_SIZE b = 0 then defaultS3MultiPartSize else S3_MULTI_PART_SIZE b);
               st = \<lparr>s3_buffer = [], s3_key = filePath, s3_partNumber = 1, s3_partSize = 0,
                     s3_uploadID = uploadID, s3_parts = [], s3_multiPartSize = multiPartSize\<rparr>
           in (Inr \<lparr>s_Type = S3LogType, s_ReadFrom = s3Stream_ReadFrom c, s_WriteTo = s3Stream_WriteTo c,
                    s_Delete = s3Stream_Delete c, s_Flush = s3Stream_Flush c\<rparr>, l',
               x\<lparr>w_s3 := st, w_objects := obj\<rparr>))))))"

subsection \<open>Google Cloud Storage\<close>

text \<open>A deferred close of the bucket reports its error only when there is none yet.\<close>

definition defer_close :: "string option \<Rightarrow> string \<Rightarrow> go_error option \<Rightarrow> go_error option" where
  "defer_close cerr sfx err =
     (case (err, cerr) of
        (None, Some e) \<Rightarrow> Some (PlainErr (''could not close bucket: '' @ e @ sfx))
      | _ \<Rightarrow> err)"

definition for_key :: "string \<Rightarrow> string" where
  "for_key key = '' for the key: '' @ key"

definition gcsStream_WriteTo ::
    "'o gcsBucket \<Rightarrow> string \<Rightarrow> send_err \<Rightarrow> BufferedLog \<Rightarrow> 'o world \<Rightarrow> go_error option \<times> BufferedLog" where
  "gcsStream_WriteTo g key err w x =
     (case g_OpenBucket g of
        Some e \<Rightarrow> (Some (PlainErr (''could not open bucket: '' @ e)), w)
      | None \<Rightarrow>
     (case g_NewReader g key (w_objects x) of
        Inl e \<Rightarrow> (Some (PlainErr (''could not create bucket reader: '' @ e @ for_key key)), w)
      | Inr (ps, readErr) \<Rightarrow>
          (case copy_body err w ps readErr of
             (Some e, w') \<Rightarrow> (Some (PlainErr (''could not read data from bucket: '' @ error_msg e @ for_key key)), w')
           | (None, w') \<Rightarrow> (defer_close (g_CloseBucket g) [] None, w'))))"

text \<open>
  The deferred close of the writer assigns its own error, also the nil one, over the error of the
  write; the deferred close of the bucket comes after it.
\<close>

definition gcsStream_ReadFrom ::
    "'o gcsBucket \<Rightarrow> string \<Rightarrow> string \<Rightarrow> 'o world \<Rightarrow> (int \<times> go_error option) \<times> 'o world" where
  "gcsStream_ReadFrom g key data x =
     (case g_OpenBucket g of
        Some e \<Rightarrow> ((0, Some (PlainErr (''could not open bucket: '' @ e @ for_key key))), x)
      | None \<Rightarrow>
     (case g_NewWriter g key (w_objects x) of
        Some e \<Rightarrow> ((0, Some (PlainErr (''could not create bucket writer: '' @ e @ for_key key))), x)
      | None \<Rightarrow>
     (let n = (case g_ReadFrom g key data (w_objects x) of Inl _ \<Rightarrow> 0 | Inr k \<Rightarrow> k) in
     (case g_CloseWriter g key data (w_objects x) of
        (cerr, obj) \<Rightarrow>
          (let err = (case cerr of
                        None \<Rightarrow> None
                      | Some e \<Rightarrow> Some (PlainErr (''could not flush data to bucket: '' @ e @ for_key key)))
           in ((n, defer_close (g_CloseBucket g) (for_key key) err), x\<lparr>w_objects := obj\<rparr>))))))"

definition gcsStream_Flush :: "'o world \<Rightarrow> go_error option \<times> 'o world" where
  "gcsStream_Flush x = (None, x)"

definition gcsStream_Delete :: "'o gcsBucket \<Rightarrow> string \<Rightarrow> 'o world \<Rightarrow> go_error option \<times> 'o world" where
  "gcsStream_Delete g key x =
     (case g_OpenBucket g of
        Some e \<Rightarrow> (Some (PlainErr (''could not open bucket: '' @ e @ for_key key)), x)
      | None \<Rightarrow>
     (case g_Delete g key (w_objects x) of
        (Some e, obj) \<Rightarrow> (Some (PlainErr (''could not delete bucket data: '' @ e @ for_key key)), x\<lparr>w_objects := obj\<rparr>)
      | (None, obj) \<Rightarrow> (defer_close (g_CloseBucket g) (for_key key) None, x\<lparr>w_objects := obj\<rparr>)))"

definition NewGCSStream :: "'o backends \<Rightarrow> server_config \<Rightarrow> log \<Rightarrow> 'o stream res \<times> log" where
  "NewGCSStream b cfg l =
     (case set_path l of
        Inl e \<Rightarrow> (Inl e, l)
      | Inr l' \<Rightarrow>
     (let filePath = Join [LOGS_PATH cfg, ls_path (l_status l')]; g = b_gcs b in
     (case g_client g of
        Some e \<Rightarrow> (Inl (PlainErr e), l')
      | None \<Rightarrow>
          (Inr \<lparr>s_Type = GCSLogType, s_ReadFrom = gcsStream_ReadFrom g filePath,
                s_WriteTo = gcsStream_WriteTo g filePath, s_Delete = gcsStream_Delete g filePath,
                s_Flush = gcsStream_Flush\<rparr>, l'))))"

subsection \<open>The stream of a record\<close>

definition NewStream :: "'o backends \<Rightarrow> server_config \<Rightarrow> log \<Rightarrow> 'o world \<Rightarrow> 'o stream res \<times> log \<times> 'o world" where
  "NewStream b cfg l x =
     (if l_type l = FileLogType then (case NewFileStream (b_os b) cfg l of (r, l') \<Rightarrow> (r, l', x))
      else if l_type l = S3LogType then NewS3Stream b cfg l x
      else if l_type l = GCSLogType then (case NewGCSStream b cfg l of (r, l') \<Rightarrow> (r, l', x))
      else (Inl (PlainErr (''log streamer type '' @ l_type l @ '' is not supported'')), l, x))"

definition ToStream ::
    "codec \<Rightarrow> 'o backends \<Rightarrow> server_config \<Rightarrow> db_record \<Rightarrow> 'o world \<Rightarrow> 'o stream res \<times> log option \<times> 'o world" where
  "ToStream jc b cfg rec x =
     (if d_type rec \<noteq> LogRecordType \<and> d_type rec \<noteq> LogRecordTypeV2
      then (Inl (PlainErr (''record type '' @ d_type rec @ '' cannot stream logs'')), None, x)
      else (case unmarshal_log jc (d_data rec) of
              Inl e \<Rightarrow> (Inl (PlainErr (''could not decode Log record: '' @ e)), None, x)
            | Inr l \<Rightarrow> (case NewStream b cfg l x of (r, l', x') \<Rightarrow> (r, Some l', x'))))"

end
