(* ===== verification/LogHandlers.thy ===== *)
theory LogHandlers
  imports Server LogStore
begin

text \<open>
  The handlers of the Logs service that read, write and delete one log
  (\<^verbatim>\<open>pkg/api/server/v1alpha2/logs.go\<close>). The receiving side of an upload is the list of messages the
  stream delivers, the error that ends it (\<open>EOF\<close> at its regular end) and the error of the closing
  answer. The JSON path of the query by the resource's uid is a parameter, as the JSON codec is.
  A handler acts on the database and on the world of the log stores.
\<close>

subsection \<open>Reading a log\<close>

text \<open>
  The first condition names only fields of the associated result, which are no columns of the
  records table, so the query has just the second condition.
\<close>

definition getLogRecord :: "env \<Rightarrow> (string \<Rightarrow> string option) \<Rightarrow> string \<Rightarrow> string \<Rightarrow> string \<Rightarrow> db \<Rightarrow> db_record res" where
  "getLogRecord e resource_uid parent result name s =
     (case exec e OpFirst (first_record (\<lambda>d. resource_uid (d_data d) = Some name) s) of
        Inl err \<Rightarrow> Inl (wrap err)
      | Inr d \<Rightarrow> Inr d)"

record 'o log_env =
  le_env :: env
  le_uid_of :: "string \<Rightarrow> string option"
  le_backends :: "'o backends"
  le_send :: send_err

definition le_stream :: "'o log_env \<Rightarrow> db_record \<Rightarrow> 'o world \<Rightarrow> 'o stream res \<times> log option \<times> 'o world" where
  "le_stream le rec x = ToStream (e_codec (le_env le)) (le_backends le) (e_config (le_env le)) rec x"

text \<open>Whether the log object says that there is something to read.\<close>

definition log_exists :: "log \<Rightarrow> bool" where
  "log_exists l =
     (if l_api_version l = ''results.tekton.dev/v1alpha3''
      then ls_is_stored (l_status l) \<and> ls_size (l_status l) \<noteq> 0
      else ls_size (l_status l) \<noteq> 0)"

definition GetLog :: "'o log_env \<Rightarrow> string \<Rightarrow> db \<Rightarrow> 'o world \<Rightarrow> go_error option \<times> message list \<times> 'o world" where
  "GetLog le nm s x =
     (let e = le_env le; streamErr = StatusErr Internal ''Error streaming log'' in
     (case log_ParseName nm of
        Inl err \<Rightarrow> (Some (StatusErr InvalidArgument ''Invalid Name''), [], x)
      | Inr (parent, res, name) \<Rightarrow>
     (case e_check e parent ResourceLogs PermissionGet of
        Some err \<Rightarrow> (Some err, [], x)
      | None \<Rightarrow>
     (case getRecord e parent res name s of
        Inl err \<Rightarrow> (Some err, [], x)
      | Inr rec0 \<Rightarrow>
     (case (if d_type rec0 \<noteq> LogRecordType \<and> d_type rec0 \<noteq> LogRecordTypeV2
            then getLogRecord e (le_uid_of le) parent res name s else Inr rec0) of
        Inl err \<Rightarrow> (Some err, [], x)
      | Inr rec \<Rightarrow>
     (case le_stream le rec x of
        (Inl err, _, x') \<Rightarrow> (Some streamErr, [], x')
      | (Inr stream, object, x') \<Rightarrow>
     if \<not> log_exists (the object) then (Some (StatusErr NotFound ''Log doesn't exist''), [], x')
     else
     (case s_WriteTo stream (le_send le) (NewBufferedHTTPWriter nm (LOGS_BUFFER_SIZE (e_config e))) x' of
        (Some err, w) \<Rightarrow> (Some streamErr, bl_sent w, x')
      | (None, w) \<Rightarrow>
          (case Flush (le_send le) w of
             (Inl err, w') \<Rightarrow> (Some streamErr, bl_sent w', x')
           | (Inr _, w') \<Rightarrow> (None, bl_sent w', x')))))))))"

subsection \<open>Writing a log\<close>

record log_summary =
  sm_record :: string
  sm_bytes :: int

definition isNilOrEOF :: "go_error option \<Rightarrow> bool" where
  "isNilOrEOF err = (err = None \<or> err = Some EOF)"

definition err_text :: "go_error option \<Rightarrow> string" where
  "err_text err = (case err of None \<Rightarrow> [] | Some e \<Rightarrow> error_msg e)"

definition flush_error :: "go_error \<Rightarrow> go_error option \<Rightarrow> go_error" where
  "flush_error f returnErr =
     PlainErr (''got flush error '' @ error_msg f @ '' with returnErr: '' @ err_text returnErr)"

text \<open>Flushing a stream that may be nil; without a flush error the given answer is returned.\<close>

definition flush_then :: "'o stream option \<Rightarrow> go_error option \<Rightarrow> go_error option \<Rightarrow> 'o world \<Rightarrow> go_error option \<times> 'o world" where
  "flush_then stream returnErr answer x =
     (case stream of
        None \<Rightarrow> (answer, x)
      | Some st \<Rightarrow>
          (case s_Flush st x of
             (Some f, x') \<Rightarrow> (Some (flush_error f returnErr), x')
           | (None, x') \<Rightarrow> (answer, x')))"

text \<open>The status an upload leaves on the log object.\<close>

definition upload_status :: "log \<Rightarrow> int \<Rightarrow> go_error option \<Rightarrow> bool \<Rightarrow> log" where
  "upload_status l written returnErr isRetryableErr =
     (let st = (l_status l)\<lparr>ls_size := written, ls_is_stored := (returnErr = Some EOF)\<rparr> in
      l\<lparr>l_status := (if \<not> isNilOrEOF returnErr
                      then st\<lparr>ls_error := err_text returnErr, ls_retryable := isRetryableErr\<rparr>
                      else st)\<rparr>)"

definition upload_request :: "env \<Rightarrow> db_record \<Rightarrow> string \<Rightarrow> update_record_req" where
  "upload_request e rec data =
     \<lparr>ud_record = Some ((record_ToAPI rec)\<lparr>pd_update := Some (ts_New (e_now e)),
         pd_data := Some \<lparr>any_type = d_type rec, any_value = data\<rparr>\<rparr>),
      ud_etag = d_etag rec\<rparr>"

definition handleReturn ::
    "'o log_env \<Rightarrow> go_error option \<Rightarrow> db_record option \<Rightarrow> log option \<Rightarrow> int \<Rightarrow> 'o stream option \<Rightarrow>
      go_error option \<Rightarrow> bool \<Rightarrow> db \<Rightarrow> 'o world \<Rightarrow> go_error option \<times> log_summary option \<times> db \<times> 'o world" where
  "handleReturn le closeErr rec object written stream returnErr isRetryableErr s x =
     (let e = le_env le in
     (case (rec, object) of
        (Some r, Some l) \<Rightarrow>
          (case marshal_log (e_codec e) (upload_status l written returnErr isRetryableErr) of
             Inl m \<Rightarrow>
               (case flush_then stream returnErr (if isNilOrEOF returnErr then Some (PlainErr m) else returnErr) x of
                  (a, x') \<Rightarrow> (a, None, s, x'))
           | Inr data \<Rightarrow>
               (case UpdateRecord e (upload_request e r data) s of
                  (Inl err, s') \<Rightarrow>
                    (case flush_then stream returnErr (if isNilOrEOF returnErr then Some err else returnErr) x of
                       (a, x') \<Rightarrow> (a, None, s', x'))
                | (Inr _, s') \<Rightarrow>
                    if returnErr = Some EOF
                    then (case (case stream of None \<Rightarrow> (None, x) | Some st \<Rightarrow> s_Flush st x) of
                            (Some f, x') \<Rightarrow> (Some f, None, s', x')
                          | (None, x') \<Rightarrow>
                              (closeErr,
                               Some \<lparr>sm_record = pd_name (record_ToAPI r), sm_bytes = written\<rparr>, s', x'))
                    else (case flush_then stream returnErr returnErr x of (a, x') \<Rightarrow> (a, None, s', x'))))
      | _ \<Rightarrow> (case flush_then stream returnErr returnErr x of (a, x') \<Rightarrow> (a, None, s, x'))))"

text \<open>The variables of the receive loop.\<close>

record 'o upload =
  up_name :: string
  up_parent :: string
  up_result :: string
  up_record :: string
  up_written :: int
  up_rec :: "db_record option"
  up_object :: "log option"
  up_stream :: "'o stream option"

definition new_upload :: "'o upload" where
  "new_upload = \<lparr>up_name = [], up_parent = [], up_result = [], up_record = [], up_written = 0,
     up_rec = None, up_object = None, up_stream = None\<rparr>"

text \<open>
  The body of the loop: the new variables with the world they leave, or the error that ends the
  upload with its retryable flag.
\<close>

definition first_message :: "env \<Rightarrow> string \<Rightarrow> 'o upload \<Rightarrow> (go_error \<times> bool) option \<times> 'o upload" where
  "first_message e name u =
     (if up_name u \<noteq> [] then (None, u)
      else (case log_ParseName name of
              Inl err \<Rightarrow> (Some (err, True), u\<lparr>up_name := name\<rparr>)
            | Inr (parent, res, rec) \<Rightarrow>
                (let u' = u\<lparr>up_name := name, up_parent := parent, up_result := res, up_record := rec\<rparr> in
                 (case e_check e parent ResourceLogs PermissionUpdate of
                    Some err \<Rightarrow> (Some (err, False), u')
                  | None \<Rightarrow> (None, u')))))"

definition fetch_record :: "env \<Rightarrow> db \<Rightarrow> 'o upload \<Rightarrow> (go_error \<times> bool) option \<times> 'o upload" where
  "fetch_record e s u =
     (case up_rec u of
        Some r \<Rightarrow> (None, u)
      | None \<Rightarrow>
          (case getRecord e (up_parent u) (up_result u) (up_record u) s of
             Inl err \<Rightarrow> (Some (err, True), u)
           | Inr r \<Rightarrow> (None, u\<lparr>up_rec := Some r\<rparr>)))"

definition open_stream :: "'o log_env \<Rightarrow> 'o upload \<Rightarrow> 'o world \<Rightarrow> (go_error \<times> bool) option \<times> 'o upload \<times> 'o world" where
  "open_stream le u x =
     (case up_stream u of
        Some st \<Rightarrow> (None, u, x)
      | None \<Rightarrow>
          (case le_stream le (the (up_rec u)) x of
             (Inl err, l, x') \<Rightarrow> (Some (err, False), u\<lparr>up_object := l\<rparr>, x')
           | (Inr st, l, x') \<Rightarrow> (None, u\<lparr>up_stream := Some st, up_object := l\<rparr>, x')))"

definition receive ::
    "'o log_env \<Rightarrow> string \<times> string \<Rightarrow> db \<Rightarrow> 'o upload \<Rightarrow> 'o world \<Rightarrow> (go_error \<times> bool) option \<times> 'o upload \<times> 'o world" where
  "receive le m s u x =
     (case first_message (le_env le) (fst m) u of
        (Some err, u1) \<Rightarrow> (Some err, u1, x)
      | (None, u1) \<Rightarrow>
     if up_name u1 \<noteq> fst m
     then (Some (PlainErr ''cannot put logs for multiple records in the same server'', False), u1, x)
     else
     (case fetch_record (le_env le) s u1 of
        (Some err, u2) \<Rightarrow> (Some err, u2, x)
      | (None, u2) \<Rightarrow>
     (case open_stream le u2 x of
        (Some err, u3, x1) \<Rightarrow> (Some err, u3, x1)
      | (None, u3, x1) \<Rightarrow>
     (case s_ReadFrom (the (up_stream u3)) (snd m) x1 of
        ((written, err), x2) \<Rightarrow>
          (map_option (\<lambda>er. (er, True)) err, u3\<lparr>up_written := up_written u3 + written\<rparr>, x2)))))"

fun UpdateLog_loop ::
    "'o log_env \<Rightarrow> go_error option \<Rightarrow> (string \<times> string) list \<Rightarrow> go_error \<Rightarrow> 'o upload \<Rightarrow> db \<Rightarrow> 'o world \<Rightarrow>
      go_error option \<times> log_summary option \<times> db \<times> 'o world" where
  "UpdateLog_loop le closeErr [] recvErr u s x =
     handleReturn le closeErr (up_rec u) (up_object u) (up_written u) (up_stream u) (Some recvErr) True s x"
| "UpdateLog_loop le closeErr (m # ms) recvErr u s x =
     (case receive le m s u x of
        (Some (err, retryable), u', x') \<Rightarrow>
          handleReturn le closeErr (up_rec u') (up_object u') (up_written u') (up_stream u') (Some err) retryable s x'
      | (None, u', x') \<Rightarrow> UpdateLog_loop le closeErr ms recvErr u' s x')"

definition UpdateLog ::
    "'o log_env \<Rightarrow> go_error option \<Rightarrow> (string \<times> string) list \<Rightarrow> go_error \<Rightarrow> db \<Rightarrow> 'o world \<Rightarrow>
      go_error option \<times> log_summary option \<times> db \<times> 'o world" where
  "UpdateLog le closeErr msgs recvErr s x = UpdateLog_loop le closeErr msgs recvErr new_upload s x"

subsection \<open>Deleting a log\<close>

definition DeleteLog :: "'o log_env \<Rightarrow> string \<Rightarrow> db \<Rightarrow> 'o world \<Rightarrow> unit res \<times> db \<times> 'o world" where
  "DeleteLog le nm s x =
     (let e = le_env le in
     (case log_ParseName nm of
        Inl err \<Rightarrow> (Inl err, s, x)
      | Inr (parent, res, name) \<Rightarrow>
     (case e_check e parent ResourceLogs PermissionDelete of
        Some err \<Rightarrow> (Inl err, s, x)
      | None \<Rightarrow>
     (case getRecord e parent res name s of
        Inl err \<Rightarrow> (Inl err, s, x)
      | Inr rec0 \<Rightarrow>
     (case (if d_type rec0 \<noteq> LogRecordType then getLogRecord e (le_uid_of le) parent res name s else Inr rec0) of
        Inl err \<Rightarrow> (Inl err, s, x)
      | Inr rec \<Rightarrow>
     (case le_stream le rec x of
        (Inl err, _, x') \<Rightarrow> (Inl err, s, x')
      | (Inr stream, _, x') \<Rightarrow>
     (case s_Delete stream x' of
        (Some err, x'') \<Rightarrow> (Inl err, s, x'')
      | (None, x'') \<Rightarrow>
          (case DeleteRecord_del e rec s of (r, s') \<Rightarrow> (r, s', x'')))))))))"

end
