(* ===== verification/LogProps.thy ===== *)
theory LogProps
  imports LogHandlers
begin

text \<open>
  What the log handlers promise: an upload to the file store is what a later download returns, no
  handler touches database or stores without the permission on the namespace of the name, and what
  the three stores keep of a sequence of messages.
\<close>

subsection \<open>Sinks\<close>

text \<open>
  The contract of something texts are written to, piece by piece: an accepted piece is appended to
  its content.
\<close>

fun feed :: "(string \<Rightarrow> 'x \<Rightarrow> bool \<times> 'x) \<Rightarrow> string list \<Rightarrow> 'x \<Rightarrow> bool \<times> 'x" where
  "feed f [] x = (True, x)"
| "feed f (p # ps) x = (case f p x of (ok, x') \<Rightarrow> if ok then feed f ps x' else (False, x'))"

locale sink =
  fixes put :: "string \<Rightarrow> 'x \<Rightarrow> bool \<times> 'x" and content :: "'x \<Rightarrow> string" and good :: "'x \<Rightarrow> bool"
  assumes put_appends: "good x \<Longrightarrow> put p x = (True, x') \<Longrightarrow> content x' = content x @ p \<and> good x'"
begin

lemma feed_appends: "good x \<Longrightarrow> feed put ps x = (True, x') \<Longrightarrow> content x' = content x @ concat ps \<and> good x'"
proof (induction ps arbitrary: x)
  case (Cons p ps)
  obtain ok u where u: "put p x = (ok, u)" by fastforce
  with Cons.prems(2) have "ok" "feed put ps u = (True, x')" by (auto split: if_splits)
  then show ?case using Cons.IH [of u] put_appends [OF Cons.prems(1)] u by auto
qed simp

lemma cutting_is_irrelevant:
  assumes "good x" and "feed put ps x = (True, y)" and "feed put qs x = (True, z)" and "concat ps = concat qs"
  shows "content y = content z"
  using assms feed_appends by metis

end

definition file_content :: "string \<Rightarrow> 'o world \<Rightarrow> string" where
  "file_content path x = (case fmlookup (w_files x) path of None \<Rightarrow> [] | Some c \<Rightarrow> c)"

definition file_put :: "osys \<Rightarrow> string \<Rightarrow> string \<Rightarrow> 'o world \<Rightarrow> bool \<times> 'o world" where
  "file_put fos path data x = (case fileStream_ReadFrom fos path data x of ((n, e), x') \<Rightarrow> (e = None, x'))"

definition writer_put :: "send_err \<Rightarrow> string \<Rightarrow> BufferedLog \<Rightarrow> bool \<times> BufferedLog" where
  "writer_put err data w = (case Write err w data of (r, w') \<Rightarrow> (is_ok r, w'))"

lemma file_append_simps [simp]:
  "file_content path (file_append path a x) = file_content path x @ a"
  "file_append path b (file_append path a x) = file_append path (a @ b) x"
  "fmlookup (w_files (file_append path a x)) path = Some (file_content path x @ a)"
  "w_objects (file_append path a x) = w_objects x" "w_s3 (file_append path a x) = w_s3 x"
  by (simp_all add: file_append_def file_content_def fmap_ext)

interpretation file_sink: sink "file_put fos path" "file_content path" "\<lambda>x. True" for fos path
  by unfold_locales
    (auto simp: file_put_def fileStream_ReadFrom_def Let_def split: option.splits)

interpretation buffered_sink: sink "writer_put err" "\<lambda>w. sent_text w @ bl_buffer w"
  "\<lambda>w. good_writer w \<and> (\<exists>s. cut w s)" for err
proof
  fix w p w'
  assume "good_writer w \<and> (\<exists>s. cut w s)" "writer_put err p w = (True, w')"
  then obtain s k where "good_writer w" "cut w s" "Write err w p = (Inr k, w')"
    by (auto simp: writer_put_def is_ok_iff split: prod.splits)
  then show "sent_text w' @ bl_buffer w' = (sent_text w @ bl_buffer w) @ p
      \<and> good_writer w' \<and> (\<exists>s. cut w' s)"
    using Write_cut [of w s err p k w'] cut_prefix [of w s] cut_prefix [of w' "s @ p"] by auto
qed

subsection \<open>Paths of logs\<close>

text \<open>A path segment that cleaning leaves alone.\<close>

definition plain_seg :: "string \<Rightarrow> bool" where
  "plain_seg x = (x \<noteq> [] \<and> x \<noteq> ''.'' \<and> x \<noteq> ''..'' \<and> CHR ''/'' \<notin> set x)"

lemma split_on_join:
  "xs \<noteq> [] \<Longrightarrow> (\<And>x. x \<in> set xs \<Longrightarrow> CHR ''/'' \<notin> set x) \<Longrightarrow> split_on CHR ''/'' (join ''/'' xs) = xs"
proof (induction xs rule: induct_list012)
  case (3 x y zs)
  then show ?case using split_on_append [of "CHR ''/''" x] by simp
qed (simp_all add: split_on_no_sep)

lemma clean_segs_plain: "list_all plain_seg xs \<Longrightarrow> clean_segs r acc xs = rev acc @ xs"
  by (induction xs arbitrary: acc) (auto simp: plain_seg_def)

lemma Join_plain:
  assumes "xs \<noteq> []" and "list_all plain_seg xs"
  shows "Join xs = join ''/'' xs"
proof -
  have f: "filter (\<lambda>x. x \<noteq> []) xs = xs" using assms(2) by (auto simp: list_all_iff plain_seg_def)
  have s: "split_on CHR ''/'' (join ''/'' xs) = xs"
    using assms by (intro split_on_join) (auto simp: list_all_iff plain_seg_def)
  obtain y ys where y: "xs = y # ys" using assms(1) by (cases xs) auto
  then have "y \<noteq> []" "hd y \<noteq> CHR ''/''" using assms(2) by (cases y; auto simp: plain_seg_def)+
  then have "join ''/'' xs \<noteq> []" "hd (join ''/'' xs) \<noteq> CHR ''/''" unfolding y by (cases ys; simp)+
  then show ?thesis using assms f s clean_segs_plain [of xs False "[]"]
    by (simp add: Join_def Clean_def Let_def)
qed


lemma clean_segs_append: "list_all plain_seg ys \<Longrightarrow> clean_segs r acc (xs @ ys) = clean_segs r acc xs @ ys"
proof (induction xs arbitrary: acc)
  case (Cons x xs)
  then show ?case by (cases acc) simp_all
qed (simp add: clean_segs_plain)

lemma clean_segs_slash_free:
  "(\<And>x. x \<in> set xs \<union> set acc \<Longrightarrow> CHR ''/'' \<notin> set x) \<Longrightarrow> y \<in> set (clean_segs r acc xs) \<Longrightarrow> CHR ''/'' \<notin> set y"
proof (induction xs arbitrary: acc)
  case (Cons x xs)
  show ?case
  proof (cases "x = [] \<or> x = ''.''")
    case True
    then show ?thesis using Cons.IH [of acc] Cons.prems by simp
  next
    case False
    show ?thesis
    proof (cases "x = ''..''")
      case True
      then show ?thesis using Cons.IH [of "if r then [] else [x]"] Cons.IH [of "x # acc"] Cons.IH [of "tl acc"] Cons.prems
        by (cases acc) (auto split: if_splits)
    next
      case n: False
      then show ?thesis using False Cons.IH [of "x # acc"] Cons.prems by simp
    qed
  qed
qed auto

lemma split_on_slash: "split_on CHR ''/'' (a @ CHR ''/'' # b) = split_on CHR ''/'' a @ split_on CHR ''/'' b"
proof (induction a)
  case (Cons c a)
  then show ?case by (cases "split_on CHR ''/'' a") (auto split: list.splits)
qed simp

definition log_segs :: "log \<Rightarrow> string list" where
  "log_segs l = [l_namespace l, l_uid l, l_name l]"

text \<open>The file of a log under a storage directory: the directory's own cleaned path, then the log's.\<close>

lemma Join_log:
  assumes "root \<noteq> []" and "ts \<noteq> []" and "list_all plain_seg ts"
  shows "Join [root, join ''/'' ts] =
    (let segs = clean_segs (hd root = CHR ''/'') [] (split_on CHR ''/'' root) in
     (if hd root = CHR ''/'' then ''/'' else []) @ join ''/'' (segs @ ts))"
proof -
  have ne: "join ''/'' ts \<noteq> []" using assms(2,3) by (cases ts; cases "tl ts") (auto simp: plain_seg_def)
  have "split_on CHR ''/'' (join ''/'' ts) = ts"
    using assms(2,3) by (intro split_on_join) (auto simp: list_all_iff plain_seg_def)
  then have "split_on CHR ''/'' (root @ CHR ''/'' # join ''/'' ts) = split_on CHR ''/'' root @ ts"
    by (simp add: split_on_slash)
  then show ?thesis using assms ne clean_segs_append [OF assms(3)]
    by (simp add: Join_def Clean_def Let_def)
qed

text \<open>Logs without a stored path whose namespace, uid and name are plain path segments are kept in
  different files, whatever the storage directory, as soon as they differ in one of the three.\<close>

theorem log_files_distinct:
  assumes "list_all plain_seg (log_segs l)" and "list_all plain_seg (log_segs l')" and "root \<noteq> []"
    and "FilePath l = Inr p" and "FilePath l' = Inr p'" and "Join [root, p] = Join [root, p']"
  shows "log_segs l = log_segs l'"
proof -
  let ?segs = "clean_segs (hd root = CHR ''/'') [] (split_on CHR ''/'' root)"
  have p: "p = join ''/'' (log_segs l)" "p' = join ''/'' (log_segs l')"
    using assms Join_plain [of "log_segs l"] Join_plain [of "log_segs l'"]
    by (auto simp: FilePath_def log_segs_def Let_def split: if_splits)
  have eq: "join ''/'' (?segs @ log_segs l) = join ''/'' (?segs @ log_segs l')"
    using assms(6) Join_log [OF assms(3) _ assms(1)] Join_log [OF assms(3) _ assms(2)]
    unfolding p by (auto simp: log_segs_def Let_def split: if_splits)
  have "split_on CHR ''/'' (join ''/'' (?segs @ log_segs k)) = ?segs @ log_segs k"
    if "list_all plain_seg (log_segs k)" for k
  proof (rule split_on_join)
    show "?segs @ log_segs k \<noteq> []" by (simp add: log_segs_def)
    show "CHR ''/'' \<notin> set x" if "x \<in> set (?segs @ log_segs k)" for x
    proof (cases "x \<in> set (log_segs k)")
      case True
      then show ?thesis using \<open>list_all plain_seg (log_segs k)\<close> by (simp add: list_all_iff plain_seg_def)
    next
      case False
      then have "x \<in> set ?segs" using that by simp
      then show ?thesis using split_on_elem_no_sep
        by (intro clean_segs_slash_free [of "split_on CHR ''/'' root" "[]" x]) auto
    qed
  qed
  then show ?thesis using eq assms(1,2) by (metis same_append_eq)
qed

definition sample_log :: "string \<Rightarrow> string \<Rightarrow> log" where
  "sample_log uid path = zero_log\<lparr>l_namespace := ''ns'', l_uid := uid, l_name := ''n'', l_type := ''File'',
     l_status := \<lparr>ls_path = path, ls_size = 1, ls_is_stored = True, ls_error = [], ls_retryable = False\<rparr>\<rparr>"

theorem log_files_distinct_witness:
  "Join [''/logs'', ''ns/u1/n''] \<noteq> Join [''/logs'', ''ns/u2/n'']"
proof -
  have "list_all plain_seg (log_segs (sample_log ''u1'' []))" "list_all plain_seg (log_segs (sample_log ''u2'' []))"
    "FilePath (sample_log ''u1'' []) = Inr ''ns/u1/n''" "FilePath (sample_log ''u2'' []) = Inr ''ns/u2/n''"
    "log_segs (sample_log ''u1'' []) \<noteq> log_segs (sample_log ''u2'' [])"
    by code_simp+
  then show ?thesis
    using log_files_distinct [of "sample_log ''u1'' []" "sample_log ''u2'' []" "''/logs''" "''ns/u1/n''" "''ns/u2/n''"]
    by blast
qed


subsection \<open>Uploading to the file store and reading back\<close>

text \<open>An operating system that does not fail and whose copy loops deliver the whole text.\<close>

definition quiet_os :: "osys \<Rightarrow> bool" where
  "quiet_os fos = ((\<forall>op p. os_err fos op p = None) \<and> (\<forall>s. concat (os_cut fos s) = s))"

text \<open>Encoding and decoding the log object gives it back.\<close>

definition json_faithful :: "codec \<Rightarrow> log \<Rightarrow> bool" where
  "json_faithful jc l = (case marshal_log jc l of Inl _ \<Rightarrow> False | Inr b \<Rightarrow> b \<noteq> [] \<and> unmarshal_log jc b = Inr l)"

lemma json_faithfulE:
  assumes "json_faithful jc l"
  obtains b where "marshal_log jc l = Inr b" and "b \<noteq> []" and "unmarshal_log jc b = Inr l"
  using assms by (auto simp: json_faithful_def split: sum.splits)

definition all_granted :: "env \<Rightarrow> string \<Rightarrow> bool" where
  "all_granted e ns = (e_check e ns ResourceLogs PermissionUpdate = None
     \<and> e_check e ns ResourceLogs PermissionGet = None \<and> e_check e ns ResourceRecords PermissionUpdate = None)"

definition quiet_env :: "env \<Rightarrow> bool" where
  "quiet_env e = ((\<forall>op. e_fault e op = None) \<and> time_in_range (e_now e) \<and> e_now e \<noteq> zero_time)"

definition file_stream :: "osys \<Rightarrow> string \<Rightarrow> 'o stream" where
  "file_stream fos path = \<lparr>s_Type = FileLogType, s_ReadFrom = fileStream_ReadFrom fos path,
     s_WriteTo = fileStream_WriteTo fos path, s_Delete = fileStream_Delete fos path, s_Flush = fileStream_Flush\<rparr>"

lemma quiet_ReadFrom:
  "quiet_os fos \<Longrightarrow> fileStream_ReadFrom fos path data x = ((int (length data), None), file_append path data x)"
  by (simp add: quiet_os_def fileStream_ReadFrom_def)

lemma le_stream_file:
  assumes "d_type d = LogRecordType" and "unmarshal_log (e_codec (le_env le)) (d_data d) = Inr l"
    and "l_type l = FileLogType" and "set_path l = Inr l'"
  shows "le_stream le d x = (Inr (file_stream (b_os (le_backends le))
      (Join [LOGS_PATH (e_config (le_env le)), ls_path (l_status l')])), Some l', x)"
  using assms by (simp add: le_stream_def ToStream_def NewStream_def NewFileStream_def file_stream_def Let_def)

lemma UpdateLog_loop_file:
  assumes "quiet_os fos"
  shows "list_all (\<lambda>m. fst m = nm) ms \<Longrightarrow> up_name u = nm \<Longrightarrow> nm \<noteq> [] \<Longrightarrow> up_rec u = Some d \<Longrightarrow>
    up_stream u = Some (file_stream fos path) \<Longrightarrow>
    UpdateLog_loop le c ms EOF u s (file_append path a x) =
      handleReturn le c (Some d) (up_object u) (up_written u + int (length (concat (map snd ms))))
        (Some (file_stream fos path)) (Some EOF) True s (file_append path (a @ concat (map snd ms)) x)"
proof (induction ms arbitrary: u a)
  case (Cons m ms)
  have "receive le m s u (file_append path a x) =
      (None, u\<lparr>up_written := up_written u + int (length (snd m))\<rparr>, file_append path (a @ snd m) x)"
    using Cons.prems assms
    by (simp add: receive_def first_message_def fetch_record_def open_stream_def file_stream_def quiet_ReadFrom)
  then show ?case using Cons.prems Cons.IH [of "u\<lparr>up_written := up_written u + int (length (snd m))\<rparr>" "a @ snd m"]
    by (simp add: algebra_simps)
qed simp

lemma getRecord_of:
  assumes "srv_inv s" and "d \<in> set (records_tbl s)" and "e_fault e OpFirst = None"
  shows "getRecord e (d_parent d) (d_result_name d) (d_name d) s = Inr d"
proof -
  have "record_row_ok d" using assms(1,2) by (simp add: srv_inv_def)
  then have "first_record (record_cond (d_parent d) (d_result_name d) (d_name d)) s = Inr d"
    using first_record_unique [OF srv_invD(1) [OF assms(1)]] assms(2) seg_ok_nonempty
    by (auto simp: record_row_ok_def)
  then show ?thesis using assms(3) by (simp add: getRecord_def)
qed

text \<open>The update of the record at the end of an upload.\<close>

lemma upload_updates_record:
  assumes "srv_inv s" and "d \<in> set (records_tbl s)" and "d_type d = LogRecordType" and "quiet_env e"
    and "e_check e (d_parent d) ResourceRecords PermissionUpdate = None"
    and "marshal_log (e_codec e) l = Inr b" "b \<noteq> []" "unmarshal_log (e_codec e) b = Inr l" and "l_type l \<noteq> []"
    and "marshal_log (e_codec e) (Log_Default l) = Inr b'"
  shows "\<exists>p store s'. UpdateRecord e (upload_request e d b) s = (Inr p, s') \<and> store \<in> set (records_tbl s')
    \<and> d_parent store = d_parent d \<and> d_result_name store = d_result_name d \<and> d_name store = d_name d
    \<and> d_type store = LogRecordType \<and> d_data store = b' \<and> srv_inv s'"
proof -
  have ok: "record_row_ok d" using assms(1,2) by (simp add: srv_inv_def)
  define pb where "pb = merged_record e d (the (ud_record (upload_request e d b)))"
  have data: "pd_data pb = Some \<lparr>any_type = LogRecordType, any_value = b\<rparr>"
    using assms(3,7) by (simp add: pb_def merged_record_def record_Merge_def record_ClearOutputOnly_def
        upload_request_def merge_any_def merge_scalar_def LogRecordType_def Let_def)
  have val: "validateData (e_codec e) (pd_data pb) = None"
    using assms(8) by (simp add: data validateData_def GetType_def LogRecordType_def ValidateType_def typeSize_def)
  have lts: "log_ToStorage (e_codec e) (e_config e) pb = Inr b'"
    using assms(7-10) by (simp add: log_ToStorage_def data GetValue_def Log_Default_def Let_def)
  define store where "store = \<lparr>d_parent = d_parent d, d_result_id = d_result_id d, d_result_name = d_result_name d,
    d_id = d_id d, d_name = d_name d, d_type = LogRecordType, d_data = b', d_created = d_created d,
    d_updated = e_now e, d_etag = etag_of (d_id d) (e_now e)\<rparr>"
  have cr: "pick_time (pd_created (record_ToAPI d)) (pd_create (record_ToAPI d)) = d_created d"
    using ok by (simp add: record_ToAPI_def record_row_ok_def)
  have idn: "d_id d \<noteq> []" using ok by (simp add: record_row_ok_def)
  have "record_ToStorage (e_codec e) (e_config e) (d_parent d) (d_result_name d) (d_result_id d) (d_name d) pb
      = Inr (store\<lparr>d_etag := pd_etag pb\<rparr>)"
    using val lts cr idn assms(4)
      merged_record_simps [of e d "the (ud_record (upload_request e d b))", folded pb_def]
    by (simp add: record_ToStorage_def data store_def GetType_def Let_def pick_time_same quiet_env_def)
  moreover have "record_UpdateEtag (store\<lparr>d_etag := pd_etag pb\<rparr>) = Inr store"
    using idn assms(4) by (simp add: record_UpdateEtag_def store_def quiet_env_def)
  moreover obtain s' where s': "save_record store s = Inr s'"
  proof -
    obtain rows where "tbl_save d_pk d_uk store (records_tbl s) = Inr rows"
      using records.save_update_ok [OF db_wfD(2) [OF srv_invD(1) [OF assms(1)]] assms(2), of store]
      by (auto simp: d_pk_def d_uk_def store_def)
    moreover have "fk_ok store s"
      using db_wfD(3) [OF srv_invD(1) [OF assms(1)] assms(2)] by (auto simp: fk_ok_def store_def)
    ultimately show ?thesis using that by (simp add: save_record_def)
  qed
  moreover have "record_ParseName (pd_name (record_ToAPI d)) = Inr (d_parent d, d_result_name d, d_name d)"
    using ok by (simp add: record_ToAPI_name record_ParseName_FormatName record_row_ok_def)
  ultimately have upd: "UpdateRecord e (upload_request e d b) s = (Inr (pb\<lparr>pd_etag := d_etag store\<rparr>), s')"
    using assms(4,5) getRecord_of [OF assms(1,2)]
    by (simp add: UpdateRecord_def record_GetName_def upload_request_def quiet_env_def pb_def Let_def)
  have "store \<in> set (records_tbl s')" using save_record_tables [OF s'] by simp
  then show ?thesis using upd srv_inv_UpdateRecord [OF assms(1) upd] by (auto simp: store_def)
qed


lemma set_path_type: "set_path l = Inr l' \<Longrightarrow> l_type l' = l_type l"
  by (auto simp: set_path_def split: if_splits sum.splits)

lemma set_path_idem: "set_path l = Inr l' \<Longrightarrow> ls_path (l_status l') \<noteq> []"
  by (auto simp: set_path_def FilePath_def Let_def split: if_splits sum.splits)

lemma quiet_WriteTo:
  assumes "quiet_os fos" and "fmlookup (w_files x) path = Some c" and "w = NewBufferedHTTPWriter nm sz"
    and "err = (\<lambda>i. None)"
  shows "\<exists>w'. fileStream_WriteTo fos path err w x = (None, w') \<and> (\<exists>k w''. Flush err w' = (Inr k, w'') \<and> sent_text w'' = c)"
proof -
  have w: "w \<in> set (new_writers nm sz)" using assms(3) by (simp add: new_writers_def)
  obtain w' where w': "write_all err w (os_cut fos c) = (None, w')"
    using write_all_no_error [OF new_writer(1) [OF w], of err "os_cut fos c"] assms(4) by (metis prod.collapse)
  have "fileStream_WriteTo fos path err w x = (None, w')"
    using assms(1,2) w' by (simp add: fileStream_WriteTo_def quiet_os_def)
  moreover have "bl_sender w' \<noteq> OtherSender"
    using write_all_cut [OF new_writer(1,2) [OF w] w'] by (simp add: good_writer_def)
  then obtain k w'' where f: "Flush err w' = (Inr k, w'')"
    using Flush_no_error assms(4) by blast
  moreover have "sent_text w'' = c"
    using copy_flush_None [OF w, of err "os_cut fos c" w''] w' f assms(1) cut_text_concat [of "chunk_size sz"]
    by (simp add: copy_flush_def sent_text_def quiet_os_def chunk_size_def)
  ultimately show ?thesis by blast
qed

text \<open>The two halves of the round trip: what the upload loop hands to the end of the upload, and what
  a download sends of a file that exists.\<close>

lemma log_name_of_row:
  assumes "srv_inv s" and "d \<in> set (records_tbl s)"
  shows "log_ParseName (log_FormatName (result_FormatName (d_parent d) (d_result_name d)) (d_name d))
    = Inr (d_parent d, d_result_name d, d_name d)"
  using assms by (simp add: log_ParseName_FormatName record_row_ok_def srv_inv_def)

lemma file_upload_returns:
  fixes le :: "'o log_env" and x :: "'o world"
  assumes "srv_inv s" and "d \<in> set (records_tbl s)" and "d_type d = LogRecordType"
    and "nm = log_FormatName (result_FormatName (d_parent d) (d_result_name d)) (d_name d)"
    and "unmarshal_log (e_codec (le_env le)) (d_data d) = Inr l" and "l_type l = FileLogType"
    and "set_path l = Inr l'"
    and "path = Join [LOGS_PATH (e_config (le_env le)), ls_path (l_status l')]"
    and "msgs \<noteq> []" and "list_all (\<lambda>m. fst m = nm) msgs" and "body = concat (map snd msgs)"
    and "all_granted (le_env le) (d_parent d)" and "quiet_env (le_env le)" and "quiet_os (b_os (le_backends le))"
  shows "UpdateLog le None msgs EOF s x = handleReturn le None (Some d) (Some l') (int (length body))
      (Some (file_stream (b_os (le_backends le)) path)) (Some EOF) True s (file_append path body x)"
proof -
  let ?e = "le_env le" and ?fos = "b_os (le_backends le)"
  have nm: "log_ParseName nm = Inr (d_parent d, d_result_name d, d_name d)" "nm \<noteq> []"
    unfolding assms(4) using log_name_of_row [OF assms(1,2)] by (simp_all add: log_FormatName_def)
  obtain m ms where ms: "msgs = m # ms" using assms(9) by (cases msgs) auto
  define u :: "'o upload" where "u = new_upload\<lparr>up_name := nm, up_parent := d_parent d, up_result := d_result_name d,
    up_record := d_name d, up_written := int (length (snd m)), up_rec := Some d,
    up_stream := Some (file_stream ?fos path), up_object := Some l'\<rparr>"
  have "receive le m s new_upload x = (None, u, file_append path (snd m) x)"
    using assms(10) ms nm assms(12,13) getRecord_of [OF assms(1,2), of ?e] le_stream_file [OF assms(3,5,6,7), of x] assms(8,14)
    by (simp add: receive_def first_message_def fetch_record_def open_stream_def u_def new_upload_def
        all_granted_def quiet_env_def file_stream_def quiet_ReadFrom)
  then show ?thesis
    using UpdateLog_loop_file [OF assms(14), of nm ms u d path le None s "snd m" x] assms(10,11) ms nm(2)
    by (simp add: UpdateLog_def u_def)
qed

lemma get_file_log:
  assumes "srv_inv s" and "d \<in> set (records_tbl s)" and "d_type d = LogRecordType"
    and "nm = log_FormatName (result_FormatName (d_parent d) (d_result_name d)) (d_name d)"
    and "unmarshal_log (e_codec (le_env le)) (d_data d) = Inr l" and "l_type l = FileLogType"
    and "set_path l = Inr l'" and "log_exists l'"
    and "path = Join [LOGS_PATH (e_config (le_env le)), ls_path (l_status l')]" and "fmlookup (w_files x) path = Some c"
    and "all_granted (le_env le) (d_parent d)" and "quiet_env (le_env le)" and "quiet_os (b_os (le_backends le))"
    and "le_send le = (\<lambda>i. None)"
  shows "\<exists>out. GetLog le nm s x = (None, out, x) \<and> concat (map payload out) = c"
proof -
  let ?e = "le_env le" and ?fos = "b_os (le_backends le)"
  have nm: "log_ParseName nm = Inr (d_parent d, d_result_name d, d_name d)"
    unfolding assms(4) by (rule log_name_of_row [OF assms(1,2)])
  obtain w' k w'' where w: "fileStream_WriteTo ?fos path (le_send le)
      (NewBufferedHTTPWriter nm (LOGS_BUFFER_SIZE (e_config ?e))) x = (None, w')"
      "Flush (le_send le) w' = (Inr k, w'')" "sent_text w'' = c"
    using quiet_WriteTo [where x = x and path = path and nm = nm
        and sz = "LOGS_BUFFER_SIZE (e_config ?e)", OF assms(13,10) refl assms(14)]
    by blast
  have "getRecord ?e (d_parent d) (d_result_name d) (d_name d) s = Inr d"
    using getRecord_of [OF assms(1,2), of ?e] assms(12) by (simp add: quiet_env_def)
  then have "GetLog le nm s x = (None, bl_sent w'', x)"
    using nm assms(3,8,9,11) le_stream_file [OF assms(3,5-7), of x] w by (simp add: GetLog_def all_granted_def file_stream_def Let_def)
  then show ?thesis using w(3) by (auto simp: sent_text_def)
qed

text \<open>C17: A log uploaded to the file store in any number of messages is what a later download of its
  name sends, byte for byte and after whatever the file already held; the upload answers the number
  of bytes received. The operating system and the database do not fail, the JSON encoding of the log
  object is faithful, the caller has the permissions and the text is not empty.\<close>

theorem upload_then_get_log:
  fixes le :: "'o log_env" and x :: "'o world"
  assumes "srv_inv s" and "d \<in> set (records_tbl s)" and "d_type d = LogRecordType"
    and "nm = log_FormatName (result_FormatName (d_parent d) (d_result_name d)) (d_name d)"
    and "unmarshal_log (e_codec (le_env le)) (d_data d) = Inr l" and "l_type l = FileLogType"
    and "set_path l = Inr l'"
    and "path = Join [LOGS_PATH (e_config (le_env le)), ls_path (l_status l')]"
    and "msgs \<noteq> []" and "list_all (\<lambda>m. fst m = nm) msgs" and "body = concat (map snd msgs)" and "body \<noteq> []"
    and "all_granted (le_env le) (d_parent d)" and "quiet_env (le_env le)"
    and "quiet_os (b_os (le_backends le))" and "le_send le = (\<lambda>i. None)"
    and "json_faithful (e_codec (le_env le)) (upload_status l' (int (length body)) (Some EOF) True)"
    and "json_faithful (e_codec (le_env le)) (Log_Default (upload_status l' (int (length body)) (Some EOF) True))"
  shows "\<exists>s' x' out. UpdateLog le None msgs EOF s x =
      (None, Some \<lparr>sm_record = pd_name (record_ToAPI d), sm_bytes = int (length body)\<rparr>, s', x')
    \<and> GetLog le nm s' x' = (None, out, x') \<and> concat (map payload out) = file_content path x @ body"
proof -
  let ?e = "le_env le" and ?fos = "b_os (le_backends le)"
  define L where "L = upload_status l' (int (length body)) (Some EOF) True"
  obtain b where b: "marshal_log (e_codec ?e) L = Inr b" "b \<noteq> []" "unmarshal_log (e_codec ?e) b = Inr L"
    using assms(17) json_faithfulE unfolding L_def by blast
  obtain b' where b': "marshal_log (e_codec ?e) (Log_Default L) = Inr b'"
      "unmarshal_log (e_codec ?e) b' = Inr (Log_Default L)"
    using assms(18) json_faithfulE unfolding L_def by blast
  have Lty: "l_type L = FileLogType" using set_path_type [OF assms(7)] assms(6) by (simp add: L_def upload_status_def Let_def)
  obtain p store s' where s': "UpdateRecord ?e (upload_request ?e d b) s = (Inr p, s')"
      "store \<in> set (records_tbl s')" "d_parent store = d_parent d" "d_result_name store = d_result_name d"
      "d_name store = d_name d" "d_type store = LogRecordType" "d_data store = b'" "srv_inv s'"
    using upload_updates_record [OF assms(1-3,14) _ b _ b'(1)] assms(13) Lty by (auto simp: all_granted_def FileLogType_def)
  have fin: "UpdateLog le None msgs EOF s x =
      (None, Some \<lparr>sm_record = pd_name (record_ToAPI d), sm_bytes = int (length body)\<rparr>, s', file_append path body x)"
    unfolding file_upload_returns [OF assms(1-11,13-15)] using s'(1) b(1)
    by (simp add: handleReturn_def file_stream_def fileStream_Flush_def flip: L_def)
  have "set_path (Log_Default L) = Inr (Log_Default L)"
    using set_path_idem [OF assms(7)] by (simp add: set_path_def Log_Default_def L_def upload_status_def Let_def)
  moreover have "ls_path (l_status (Log_Default L)) = ls_path (l_status l')" "log_exists (Log_Default L)"
      "l_type (Log_Default L) = FileLogType"
    using assms(12) Lty by (simp_all add: Log_Default_def L_def upload_status_def log_exists_def Let_def)
  ultimately show ?thesis
    using get_file_log [OF s'(8,2,6), of nm le "Log_Default L" "Log_Default L" path "file_append path body x"]
      s'(3-5,7) b'(2) assms(4,8,13-16) fin by (auto simp: file_append_simps)
qed


subsection \<open>A sample log service\<close>

text \<open>
  A codec that knows one log object, an operating system that does not fail, an object store that
  holds one text per key and whose writers replace it.
\<close>

definition uploaded_log :: log where
  "uploaded_log = Log_Default (upload_status (sample_log ''u'' ''ns/u/n'') 5 (Some EOF) True)"

definition sample_codec :: codec where
  "sample_codec = \<lparr>json_check = (\<lambda>_ _. None),
     unmarshal_log = (\<lambda>b. Inr (if b = ''2'' then Log_Default uploaded_log
        else Log_Default (sample_log ''u'' (if b = ''3'' then ''../etc/passwd'' else ''ns/u/n'')))),
     marshal_log = (\<lambda>l. Inr (if l = uploaded_log then ''2'' else ''1''))\<rparr>"

definition quiet_sys :: osys where
  "quiet_sys = \<lparr>os_err = (\<lambda>_ _. None), os_moved = (\<lambda>_. 0), os_cut = (\<lambda>s. [s])\<rparr>"

definition sample_s3 :: "string list s3Client" where
  "sample_s3 = \<lparr>c_initConfig = None, c_CreateMultipartUpload = (\<lambda>_ obj. (Inr ''id'', obj)),
     c_UploadPart = (\<lambda>_ _ _ body _ obj. (Inr ''etag'', obj @ [body])), c_AbortMultipartUpload = (\<lambda>_ _ obj. obj),
     c_CompleteMultipartUpload = (\<lambda>_ _ _ obj. (None, obj)), c_GetObject = (\<lambda>_ obj. Inr (obj, None, None)),
     c_DeleteObject = (\<lambda>_ obj. (None, []))\<rparr>"

definition sample_gcs :: "string list gcsBucket" where
  "sample_gcs = \<lparr>g_client = None, g_OpenBucket = None, g_CloseBucket = None, g_NewReader = (\<lambda>_ obj. Inr (obj, None)),
     g_NewWriter = (\<lambda>_ _. None), g_ReadFrom = (\<lambda>_ data _. Inr (int (length data))),
     g_CloseWriter = (\<lambda>_ data _. (None, [data])), g_Delete = (\<lambda>_ _. (None, []))\<rparr>"

definition sample_le :: "string list log_env" where
  "sample_le = \<lparr>le_env = \<lparr>e_check = AllowAll_Check, e_uid = ''v'', e_now = 9, e_codec = sample_codec,
       e_config = \<lparr>LOGS_API = True, LOGS_TYPE = ''File'', LOGS_PATH = ''/logs'', LOGS_BUFFER_SIZE = 2\<rparr>,
       e_fault = (\<lambda>_. None)\<rparr>,
     le_uid_of = (\<lambda>_. None),
     le_backends = \<lparr>b_os = quiet_sys, b_s3 = sample_s3, b_gcs = sample_gcs, S3_MULTI_PART_SIZE = 0\<rparr>,
     le_send = (\<lambda>_. None)\<rparr>"

definition sample_world :: "string list world" where
  "sample_world = \<lparr>w_files = fmempty, w_s3 = \<lparr>s3_buffer = [], s3_key = [], s3_partNumber = 1, s3_partSize = 0,
     s3_uploadID = [], s3_parts = [], s3_multiPartSize = 4\<rparr>, w_objects = []\<rparr>"

definition log_row :: "string \<Rightarrow> db_record" where
  "log_row data = \<lparr>d_parent = ''ns'', d_result_id = ''r1'', d_result_name = ''r'', d_id = ''d1'', d_name = ''n'',
     d_type = LogRecordType, d_data = data, d_created = 5, d_updated = 6, d_etag = etag_of ''d1'' 6\<rparr>"

definition log_db :: "string \<Rightarrow> db" where
  "log_db data = \<lparr>results_tbl = [\<lparr>r_parent = ''ns'', r_id = ''r1'', r_name = ''r'', r_annotations = fmempty,
       r_created = 5, r_updated = 5, r_summary = empty_summary, r_etag = etag_of ''r1'' 5\<rparr>],
     records_tbl = [log_row data]\<rparr>"

lemma srv_inv_log_db: "srv_inv (log_db ''1'')"
  by code_simp

theorem upload_then_get_log_witness:
  "\<exists>s' x' out. UpdateLog sample_le None [(''ns/results/r/logs/n'', ''hel''), (''ns/results/r/logs/n'', ''lo'')] EOF
      (log_db ''1'') sample_world
      = (None, Some \<lparr>sm_record = ''ns/results/r/records/n'', sm_bytes = 5\<rparr>, s', x')
    \<and> GetLog sample_le ''ns/results/r/logs/n'' s' x' = (None, out, x') \<and> concat (map payload out) = ''hello''"
proof -
  define l where "l = Log_Default (sample_log ''u'' ''ns/u/n'')"
  define msgs where "msgs = [(''ns/results/r/logs/n'', ''hel''), (''ns/results/r/logs/n'', ''lo'')]"
  have up: "upload_status l (int (length (concat (map snd msgs)))) (Some EOF) True = uploaded_log"
    unfolding l_def msgs_def by code_simp
  have c: "json_faithful sample_codec uploaded_log" "json_faithful sample_codec (Log_Default uploaded_log)"
    "unmarshal_log sample_codec (d_data (log_row ''1'')) = Inr l"
    "l_type l = FileLogType" "set_path l = Inr l" "ls_path (l_status l) = ''ns/u/n''"
    "list_all (\<lambda>m. fst m = ''ns/results/r/logs/n'') msgs" "concat (map snd msgs) = ''hello''" "msgs \<noteq> []"
    unfolding l_def msgs_def by code_simp+
  have e: "all_granted (le_env sample_le) (d_parent (log_row ''1''))" "quiet_env (le_env sample_le)"
    "quiet_os (b_os (le_backends sample_le))" "le_send sample_le = (\<lambda>i. None)"
    "e_codec (le_env sample_le) = sample_codec"
    by (simp_all add: all_granted_def quiet_env_def quiet_os_def sample_le_def AllowAll_Check_def quiet_sys_def
        time_in_range_def zero_time_def)
  have r: "log_row ''1'' \<in> set (records_tbl (log_db ''1''))" "d_type (log_row ''1'') = LogRecordType"
    "pd_name (record_ToAPI (log_row ''1'')) = ''ns/results/r/records/n''"
    "log_FormatName (result_FormatName (d_parent (log_row ''1'')) (d_result_name (log_row ''1''))) (d_name (log_row ''1''))
      = ''ns/results/r/logs/n''"
    by (simp_all add: log_db_def log_row_def record_ToAPI_def log_FormatName_def result_FormatName_def)
  show ?thesis
    using upload_then_get_log [OF srv_inv_log_db r(1,2) r(4) [symmetric], of sample_le l l _ msgs _ sample_world, OF _ c(4,5) refl c(9,7) refl _ e(1-4)]
      c e(5) up r(3) unfolding msgs_def by (simp add: file_content_def sample_world_def)
qed


subsection \<open>Permissions\<close>

definition log_target :: "string \<Rightarrow> string option" where
  "log_target nm = (case log_ParseName nm of Inl _ \<Rightarrow> None | Inr (parent, _, _) \<Rightarrow> Some parent)"

lemma handleReturn_nothing: "handleReturn le c rec None w None err r s x = (err, None, s, x)"
  by (cases rec) (simp_all add: handleReturn_def flush_then_def Let_def)

lemma UpdateLog_permission:
  assumes "snd (snd (UpdateLog le c msgs recvErr s x)) \<noteq> (s, x)"
  shows "\<exists>ns. msgs \<noteq> [] \<and> log_target (fst (hd msgs)) = Some ns
    \<and> e_check (le_env le) ns ResourceLogs PermissionUpdate = None"
proof (cases msgs)
  case Nil
  then show ?thesis using assms by (simp add: UpdateLog_def new_upload_def handleReturn_nothing)
next
  case (Cons m ms)
  show ?thesis
  proof (cases "first_message (le_env le) (fst m) (new_upload :: 'a upload)")
    case (Pair r u)
    show ?thesis
    proof (cases r)
      case None
      then show ?thesis using Pair Cons
        by (auto simp: first_message_def new_upload_def log_target_def Let_def split: sum.splits option.splits)
    next
      case (Some er)
      then have "up_object u = None" "up_stream u = None" using Pair
        by (auto simp: first_message_def new_upload_def Let_def split: sum.splits option.splits)
      then show ?thesis using assms Pair Some Cons
        by (cases er) (simp add: UpdateLog_def receive_def handleReturn_nothing)
    qed
  qed
qed

text \<open>C18: The log handlers change the database or a log store only when the checker granted the
  verb on logs in the namespace of the log's name: of the name in the first message for an upload.\<close>

theorem logs_need_permission:
  "(snd (snd (UpdateLog le c msgs recvErr s x)) \<noteq> (s, x) \<longrightarrow>
      (\<exists>ns. msgs \<noteq> [] \<and> log_target (fst (hd msgs)) = Some ns
         \<and> e_check (le_env le) ns ResourceLogs PermissionUpdate = None))
   \<and> (snd (DeleteLog le nm s x) \<noteq> (s, x) \<longrightarrow>
      (\<exists>ns. log_target nm = Some ns \<and> e_check (le_env le) ns ResourceLogs PermissionDelete = None))
   \<and> (snd (GetLog le nm s x) \<noteq> ([], x) \<longrightarrow>
      (\<exists>ns. log_target nm = Some ns \<and> e_check (le_env le) ns ResourceLogs PermissionGet = None))"
  using UpdateLog_permission [of le c msgs recvErr s x]
  by (auto simp: DeleteLog_def GetLog_def log_target_def Let_def split: sum.splits option.splits)

theorem logs_need_permission_witness:
  "\<exists>ns. log_target ''ns/results/r/logs/n'' = Some ns
     \<and> e_check (le_env sample_le) ns ResourceLogs PermissionDelete = None"
proof -
  have "length (records_tbl (fst (snd (DeleteLog sample_le ''ns/results/r/logs/n'' (log_db ''1'') sample_world)))) = 0"
    by code_simp
  then have "snd (DeleteLog sample_le ''ns/results/r/logs/n'' (log_db ''1'') sample_world) \<noteq> (log_db ''1'', sample_world)"
    by (metis fst_conv length_0_conv list.distinct(1) log_db_def db.select_convs(2))
  then show ?thesis using logs_need_permission [of sample_le] by blast
qed

text \<open>
  The path in the status of the stored log object is used as it is, and it comes from the record's
  data: a log record whose path climbs out of the storage directory makes a delete of that log remove
  any file the server may remove.
\<close>

theorem stored_paths_are_not_confined:
  "Join [''/logs'', ''../etc/passwd''] = ''/etc/passwd''
   \<and> fmdom' (w_files (snd (snd (DeleteLog sample_le ''ns/results/r/logs/n'' (log_db ''3'')
        (sample_world\<lparr>w_files := fmap_of_list [(''/etc/passwd'', ''root''), (''/logs/a'', ''b'')]\<rparr>))))) = {''/logs/a''}"
  by code_simp

subsection \<open>Object stores\<close>

text \<open>An S3 store that keeps the body of an accepted part after those before it.\<close>

definition keeps_parts :: "'o s3Client \<Rightarrow> ('o \<Rightarrow> string) \<Rightarrow> bool" where
  "keeps_parts c kept = (\<forall>key i n body sz obj etag obj'.
     c_UploadPart c key i n body sz obj = (Inr etag, obj') \<longrightarrow> kept obj' = kept obj @ body)"

definition s3_put :: "'o s3Client \<Rightarrow> string \<Rightarrow> 'o world \<Rightarrow> bool \<times> 'o world" where
  "s3_put c data x = (case s3Stream_ReadFrom c data x of ((n, e), x') \<Rightarrow> (e = None, x'))"

definition s3_text :: "('o \<Rightarrow> string) \<Rightarrow> 'o world \<Rightarrow> string" where
  "s3_text kept x = kept (w_objects x) @ s3_buffer (w_s3 x)"

definition s3_good :: "'o world \<Rightarrow> bool" where
  "s3_good x = (s3_partSize (w_s3 x) = int (length (s3_buffer (w_s3 x))) \<and> 0 < s3_multiPartSize (w_s3 x))"

lemma upload_keeps:
  assumes "keeps_parts c kept" and "uploadMultiPart c n sz st obj = (None, st', obj')"
    and "sz = int (length (s3_buffer st))"
  shows "kept obj' = kept obj @ s3_buffer st \<and> s3_buffer st' = [] \<and> s3_multiPartSize st' = s3_multiPartSize st"
  using assms by (auto simp: uploadMultiPart_def keeps_parts_def split: if_splits prod.splits sum.splits)

lemma s3_sink:
  assumes "keeps_parts c kept"
  shows "sink (s3_put c) (s3_text kept) s3_good"
proof
  fix x p x'
  assume a: "s3_good x" "s3_put c p x = (True, x')"
  define st where "st = (w_s3 x)\<lparr>s3_buffer := s3_buffer (w_s3 x) @ p\<rparr>"
  define sz where "sz = s3_partSize st + int (length p)"
  have sz: "sz = int (length (s3_buffer st))" "0 < s3_multiPartSize st" using a(1) by (simp_all add: s3_good_def sz_def st_def)
  show "s3_text kept x' = s3_text kept x @ p \<and> s3_good x'"
  proof (cases "sz \<ge> s3_multiPartSize st")
    case False
    then have "x' = x\<lparr>w_s3 := st\<lparr>s3_partSize := sz\<rparr>\<rparr>"
      using a(2) by (auto simp: s3_put_def s3Stream_ReadFrom_def Let_def st_def sz_def)
    then show ?thesis using sz by (simp add: s3_text_def s3_good_def st_def)
  next
    case True
    obtain e st' obj where u: "uploadMultiPart c (s3_partNumber st) sz st (w_objects x) = (e, st', obj)"
      by (metis prod_cases3)
    with a(2) True have e: "e = None" "x' = x\<lparr>w_s3 := st'\<lparr>s3_partSize := 0, s3_buffer := []\<rparr>, w_objects := obj\<rparr>"
      by (auto simp: s3_put_def s3Stream_ReadFrom_def Let_def st_def sz_def split: option.splits)
    then show ?thesis using upload_keeps [OF assms u [unfolded e(1)] sz(1)] sz(2)
      by (simp add: s3_text_def s3_good_def st_def)
  qed
qed



text \<open>
  But the size the S3 stream answers is that of the part being filled: a piece that completes a
  part counts nothing, so an upload of one such piece is recorded with size zero, and a download
  then answers that the log does not exist.
\<close>

theorem s3_size_is_lost:
  assumes "s3_good x" and "s3_multiPartSize (w_s3 x) \<le> s3_partSize (w_s3 x) + int (length data)"
    and "s3Stream_ReadFrom c data x = ((n, None), x')"
  shows "n = 0 \<and> \<not> log_exists (upload_status l n (Some EOF) True)"
  using assms
  by (auto simp: s3Stream_ReadFrom_def log_exists_def upload_status_def Let_def split: prod.splits option.splits)

text \<open>A bucket whose writers replace what the key held.\<close>

definition overwrites :: "'o gcsBucket \<Rightarrow> (string \<Rightarrow> 'o \<Rightarrow> string) \<Rightarrow> bool" where
  "overwrites g stored = (\<forall>key data obj obj'. g_CloseWriter g key data obj = (None, obj') \<longrightarrow> stored key obj' = data)"

definition gcs_put :: "'o gcsBucket \<Rightarrow> string \<Rightarrow> string \<Rightarrow> 'o world \<Rightarrow> bool \<times> 'o world" where
  "gcs_put g key data x = (case gcsStream_ReadFrom g key data x of ((n, e), x') \<Rightarrow> (e = None, x'))"

lemma gcs_put_stored: "overwrites g stored \<Longrightarrow> gcs_put g key p x = (True, x') \<Longrightarrow> stored key (w_objects x') = p"
  by (auto simp: gcs_put_def gcsStream_ReadFrom_def defer_close_def overwrites_def Let_def
      split: option.splits prod.splits)

text \<open>The GCS stream opens a new writer on the object for every message it is given, and such a
  writer replaces the object: of an upload in several messages only the last one is kept.\<close>

theorem gcs_keeps_last_message:
  assumes "overwrites g stored"
  shows "ps \<noteq> [] \<Longrightarrow> feed (gcs_put g key) ps x = (True, y) \<Longrightarrow> stored key (w_objects y) = last ps"
proof (induction ps arbitrary: x)
  case (Cons p ps)
  obtain ok u where u: "gcs_put g key p x = (ok, u)" by fastforce
  with Cons.prems(2) have "ok" "feed (gcs_put g key) ps u = (True, y)" by (auto split: if_splits)
  then show ?case using Cons.IH [of u] gcs_put_stored [OF assms] u by (cases ps) auto
qed simp

theorem gcs_keeps_last_message_witness:
  "concat (w_objects (snd (feed (gcs_put sample_gcs ''k'') [''abc'', ''de''] sample_world))) = ''de''"
proof -
  have "overwrites sample_gcs (\<lambda>key. concat)" by (simp add: overwrites_def sample_gcs_def)
  moreover define y where "y = snd (feed (gcs_put sample_gcs ''k'') [''abc'', ''de''] sample_world)"
  moreover have "fst (feed (gcs_put sample_gcs ''k'') [''abc'', ''de''] sample_world)" by code_simp
  then have "feed (gcs_put sample_gcs ''k'') [''abc'', ''de''] sample_world = (True, y)"
    unfolding y_def by (simp add: prod_eq_iff)
  ultimately have "concat (w_objects y) = ''de''"
    using gcs_keeps_last_message [of sample_gcs "\<lambda>key. concat" "[''abc'', ''de'']" "''k''" sample_world y] by simp
  then show ?thesis by (simp add: y_def)
qed

text \<open>The deferred close of the writer also hides the error of the write itself.\<close>

theorem gcs_hides_write_errors:
  assumes "g_OpenBucket g = None" and "g_CloseBucket g = None" and "g_NewWriter g key (w_objects x) = None"
    and "g_ReadFrom g key data (w_objects x) = Inl e" and "fst (g_CloseWriter g key data (w_objects x)) = None"
  shows "fst (gcsStream_ReadFrom g key data x) = (0, None)"
  using assms by (auto simp: gcsStream_ReadFrom_def defer_close_def Let_def split: prod.splits)

end
