(* ===== verification/LogList.thy ===== *)
theory LogList
  imports Server Base64 "HOL-Library.Multiset"
begin

text \<open>
  Listing logs: \<^verbatim>\<open>ListLogs\<close> of \<^verbatim>\<open>pkg/api/server/v1alpha2/logs.go\<close> with its ordering
  (\<^verbatim>\<open>ordering.go\<close>), its page size and token (\<^verbatim>\<open>pagination.go\<close>, \<^verbatim>\<open>db/pagination\<close>) and the evaluation of
  a filter (\<^verbatim>\<open>pkg/api/server/cel\<close>). Compiling and running a CEL program, the protobuf bytes of the
  token and the order in which the database delivers rows are parameters; the loop over batches has
  fuel, and theorem \<open>list_logs_terminates\<close> says how much is enough.
\<close>

subsection \<open>Ordering\<close>

text \<open>\<^verbatim>\<open>strings.Fields\<close>.\<close>

fun split_space :: "string \<Rightarrow> string list" where
  "split_space [] = [[]]"
| "split_space (c # cs) =
     (if is_space c then [] # split_space cs
      else (case split_space cs of [] \<Rightarrow> [[c]] | w # ws \<Rightarrow> (c # w) # ws))"

definition Fields :: "string \<Rightarrow> string list" where
  "Fields s = filter (\<lambda>w. w \<noteq> []) (split_space s)"

definition allowedOrderByFields :: "string list" where
  "allowedOrderByFields = [''created_time'', ''updated_time'']"

definition isAllowedField :: "string \<Rightarrow> bool" where
  "isAllowedField name = (name \<in> set allowedOrderByFields)"

text \<open>\<^verbatim>\<open>%q\<close>, up to the escapes of special characters.\<close>

definition percent_q :: "string \<Rightarrow> string" where
  "percent_q s = dquote # s @ [dquote]"

definition orderByDirection :: "string \<Rightarrow> string \<Rightarrow> string res" where
  "orderByDirection field direction =
     (if ToLower direction = ''asc'' then Inr (field @ '' ASC'')
      else if ToLower direction = ''desc'' then Inr (field @ '' DESC'')
      else Inl (StatusErr InvalidArgument (''invalid sort direction '' @ percent_q direction)))"

definition normalizeOrderByField :: "string \<Rightarrow> string res" where
  "normalizeOrderByField field =
     (let direct = (\<lambda>fieldName direction.
            if \<not> isAllowedField fieldName
            then Inl (StatusErr InvalidArgument (''order by '' @ fieldName @ '' not supported''))
            else if direction = [] then Inr fieldName
            else orderByDirection fieldName direction)
      in case Fields field of
           [f] \<Rightarrow> direct f []
         | [f, d] \<Rightarrow> direct f d
         | _ \<Rightarrow> Inl (StatusErr InvalidArgument (''invalid order_by '' @ percent_q field)))"

fun normalize_all :: "string list \<Rightarrow> string list res" where
  "normalize_all [] = Inr []"
| "normalize_all (f # fs) =
     (case normalizeOrderByField f of
        Inl e \<Rightarrow> Inl e
      | Inr ob \<Rightarrow> (case normalize_all fs of Inl e \<Rightarrow> Inl e | Inr obs \<Rightarrow> Inr (ob # obs)))"

definition logs_orderBy :: "string \<Rightarrow> string res" where
  "logs_orderBy flds =
     (if TrimSpace flds = [] then Inr []
      else (case normalize_all (split_on CHR '','' flds) of Inl e \<Rightarrow> Inl e | Inr obs \<Rightarrow> Inr (join '','' obs)))"

subsection \<open>Pages\<close>

definition logs_minPageSize :: int where "logs_minPageSize = 50"
definition logs_maxPageSize :: int where "logs_maxPageSize = 10000"

definition pageSize :: "int \<Rightarrow> int res" where
  "pageSize n =
     (if n < 0 then Inl (StatusErr InvalidArgument ''PageSize should be greater than 0'')
      else if n = 0 then Inr logs_minPageSize
      else if n > logs_maxPageSize then Inr logs_maxPageSize
      else Inr n)"

text \<open>The protobuf bytes of a page identifier: a name and a filter.\<close>

record page_codec =
  pi_marshal :: "string \<times> string \<Rightarrow> string + string"
  pi_unmarshal :: "string \<Rightarrow> string + string \<times> string"

definition EncodeToken :: "page_codec \<Rightarrow> string \<Rightarrow> string \<Rightarrow> string + string" where
  "EncodeToken pc name flt =
     (case pi_marshal pc (name, flt) of Inl e \<Rightarrow> Inl e | Inr tokenByte \<Rightarrow> Inr (encode (encode tokenByte)))"

text \<open>The decoding buffer has the length computed from the text; what decoding leaves is zero.\<close>

definition DecodeToken :: "page_codec \<Rightarrow> string \<Rightarrow> string + string \<times> string" where
  "DecodeToken pc token =
     (case decode token of
        None \<Rightarrow> Inl ''illegal base64 data''
      | Some encodedToken \<Rightarrow>
     (case decode encodedToken of
        None \<Rightarrow> Inl ''illegal base64 data''
      | Some bytes \<Rightarrow>
          pi_unmarshal pc (bytes @ replicate (length encodedToken * 6 div 8 - length bytes) (CHR 0x00))))"

definition pageStart :: "page_codec \<Rightarrow> string \<Rightarrow> string \<Rightarrow> string res" where
  "pageStart pc token flt =
     (if token = [] then Inr []
      else (case DecodeToken pc token of
              Inl e \<Rightarrow> Inl (StatusErr InvalidArgument (''invalid PageToken: '' @ e))
            | Inr (tokenName, tokenFilter) \<Rightarrow>
                if flt \<noteq> tokenFilter
                then Inl (StatusErr InvalidArgument ''filter does not match previous query'')
                else Inr tokenName))"

text \<open>
  The batcher: the ratio is kept as its numerator and denominator, so the quotient is exact where
  the code rounds to a 64-bit float.
\<close>

record Batcher =
  bt_want :: int
  bt_min :: int
  bt_max :: int
  bt_ratio :: "int \<times> int"

definition NewBatcher :: "int \<Rightarrow> int \<Rightarrow> int \<Rightarrow> Batcher" where
  "NewBatcher want mini maxi = \<lparr>bt_want = want, bt_min = mini, bt_max = maxi, bt_ratio = (1, 1)\<rparr>"

definition Batcher_Update :: "int \<Rightarrow> int \<Rightarrow> Batcher \<Rightarrow> Batcher" where
  "Batcher_Update matched tot b = b\<lparr>bt_ratio := (matched, tot)\<rparr>"

definition Batcher_Next :: "Batcher \<Rightarrow> int" where
  "Batcher_Next b =
     (let n = - ((- (bt_want b * snd (bt_ratio b))) div fst (bt_ratio b)) in
      if n > bt_max b then bt_max b else n)"

subsection \<open>Filters\<close>

text \<open>
  A CEL program evaluates the name, the data type and the data of a record to a boolean, to a value
  of another type, or to an error.
\<close>

type_synonym program = "string \<times> string \<times> string \<Rightarrow> string + (bool + string)"

record cel_lib =
  cel_Compile :: "string \<Rightarrow> string + string"
  cel_Program :: "string \<Rightarrow> string + program"
  json_map :: "string \<Rightarrow> string option"

definition allowAll :: program where
  "allowAll v = Inr (Inl True)"

definition ParseFilter :: "cel_lib \<Rightarrow> string \<Rightarrow> program res" where
  "ParseFilter c flt =
     (if flt = [] then Inr allowAll
      else (case cel_Compile c flt of
              Inl e \<Rightarrow> Inl (StatusErr InvalidArgument (''error parsing filter: '' @ e))
            | Inr ast \<Rightarrow>
                (case cel_Program c ast of
                   Inl e \<Rightarrow> Inl (StatusErr InvalidArgument (''error creating filter query evaluator: '' @ e))
                 | Inr prg \<Rightarrow> Inr prg)))"

definition cel_Match :: "program \<Rightarrow> string \<times> string \<times> string \<Rightarrow> bool res" where
  "cel_Match prg v =
     (case prg v of
        Inl e \<Rightarrow> Inl (StatusErr InvalidArgument (''failed to evaluate filter: '' @ e))
      | Inr (Inr ty) \<Rightarrow> Inl (StatusErr InvalidArgument (''expected boolean result, got '' @ ty))
      | Inr (Inl b) \<Rightarrow> Inr b)"

definition record_Match :: "cel_lib \<Rightarrow> pb_record \<Rightarrow> program \<Rightarrow> bool res" where
  "record_Match c r prg =
     (case (case pd_data r of None \<Rightarrow> None | Some a \<Rightarrow> json_map c (any_value a)) of
        Some e \<Rightarrow> Inl (PlainErr e)
      | None \<Rightarrow> cel_Match prg (pd_name r, GetType (pd_data r), GetValue (pd_data r)))"

subsection \<open>Listing\<close>

text \<open>
  The environment of a list request; \<open>ll_arrange\<close> is the order in which the database delivers rows
  for an ORDER BY text, which is any order when the text is empty.
\<close>

record list_env =
  ll_env :: env
  ll_page :: page_codec
  ll_cel :: cel_lib
  ll_arrange :: "string \<Rightarrow> db_record list \<Rightarrow> db_record list"

definition log_row_cond :: "string \<Rightarrow> string \<Rightarrow> string \<Rightarrow> db_record \<Rightarrow> bool" where
  "log_row_cond parent resultName start d =
     (d_type d = LogRecordType \<and> start < d_id d
      \<and> (parent = ''-'' \<or> d_parent d = parent) \<and> (resultName = ''-'' \<or> d_result_name d = resultName))"

definition find_logs ::
    "list_env \<Rightarrow> string \<Rightarrow> string \<Rightarrow> string \<Rightarrow> string \<Rightarrow> int \<Rightarrow> db \<Rightarrow> gorm_error + db_record list" where
  "find_logs le parent resultName start sortOrder n s =
     exec (ll_env le) OpFind
       (Inr (take (nat n) (ll_arrange le sortOrder (filter (log_row_cond parent resultName start) (records_tbl s)))))"

text \<open>The rows of a batch that match, appended to those found; the flag says that the page is full.\<close>

fun match_rows ::
    "cel_lib \<Rightarrow> program \<Rightarrow> int \<Rightarrow> db_record list \<Rightarrow> pb_record list \<Rightarrow> (pb_record list \<times> bool) res" where
  "match_rows c prg n [] acc = Inr (acc, False)"
| "match_rows c prg n (r # rows) acc =
     (let api = record_ToAPI r in
      case record_Match c api prg of
        Inl e \<Rightarrow> Inl e
      | Inr False \<Rightarrow> match_rows c prg n rows acc
      | Inr True \<Rightarrow>
          (case record_ParseName (pd_name api) of
             Inl e \<Rightarrow> Inl e
           | Inr (parent, resultName, recordName) \<Rightarrow>
               (let acc' = acc @ [api\<lparr>pd_name := log_FormatName (result_FormatName parent resultName) recordName\<rparr>] in
                if int (length acc') \<ge> n then Inr (acc', True) else match_rows c prg n rows acc')))"

fun batch_loop ::
    "nat \<Rightarrow> list_env \<Rightarrow> program \<Rightarrow> string \<Rightarrow> string \<Rightarrow> int \<Rightarrow> string \<Rightarrow> db \<Rightarrow> string \<Rightarrow> Batcher \<Rightarrow> pb_record list \<Rightarrow>
      pb_record list res option" where
  "batch_loop 0 le prg parent resultName n sortOrder s start batcher acc = None"
| "batch_loop (Suc fuel) le prg parent resultName n sortOrder s start batcher acc =
     (if \<not> int (length acc) < n then Some (Inr acc)
      else
      (let batchSize = Batcher_Next batcher in
       case find_logs le parent resultName start sortOrder batchSize s of
         Inl e \<Rightarrow> Some (Inl (wrap e))
       | Inr dbrecords \<Rightarrow>
      (case match_rows (ll_cel le) prg n dbrecords acc of
         Inl e \<Rightarrow> Some (Inl e)
       | Inr (acc', True) \<Rightarrow> Some (Inr acc')
       | Inr (acc', False) \<Rightarrow>
           if int (length dbrecords) < batchSize then Some (Inr acc')
           else batch_loop fuel le prg parent resultName n sortOrder s (d_id (last dbrecords))
                  (Batcher_Update (int (length dbrecords)) batchSize batcher) acc')))"

definition getFilteredPaginatedSortedLogRecords ::
    "nat \<Rightarrow> list_env \<Rightarrow> string \<Rightarrow> string \<Rightarrow> int \<Rightarrow> program \<Rightarrow> string \<Rightarrow> db \<Rightarrow> pb_record list res option" where
  "getFilteredPaginatedSortedLogRecords fuel le parent0 start n prg sortOrder s =
     (case result_ParseName parent0 of
        Inl e \<Rightarrow> Some (Inl e)
      | Inr (parent, resultName) \<Rightarrow>
          batch_loop fuel le prg parent resultName n sortOrder s start
            (NewBatcher n logs_minPageSize logs_maxPageSize) [])"

record list_logs_req =
  lq_parent :: string
  lq_filter :: string
  lq_order_by :: string
  lq_page_size :: int
  lq_page_token :: string

definition ListLogs :: "nat \<Rightarrow> list_env \<Rightarrow> list_logs_req \<Rightarrow> db \<Rightarrow> (pb_record list \<times> string) res option" where
  "ListLogs fuel le req s =
     (if lq_parent req = [] then Some (Inl (StatusErr InvalidArgument ''Parent missing''))
      else
      (case result_ParseName (lq_parent req) of
         Inl e \<Rightarrow> Some (Inl (StatusErr InvalidArgument ''Invalid Name''))
       | Inr (parent, _) \<Rightarrow>
      (case e_check (ll_env le) parent ResourceLogs PermissionList of
         Some e \<Rightarrow> Some (Inl e)
       | None \<Rightarrow>
      (case pageSize (lq_page_size req) of
         Inl e \<Rightarrow> Some (Inl e)
       | Inr userPageSize \<Rightarrow>
      (case pageStart (ll_page le) (lq_page_token req) (lq_filter req) of
         Inl e \<Rightarrow> Some (Inl e)
       | Inr start \<Rightarrow>
      (case logs_orderBy (lq_order_by req) of
         Inl e \<Rightarrow> Some (Inl e)
       | Inr sortOrder \<Rightarrow>
      (case ParseFilter (ll_cel le) (lq_filter req) of
         Inl e \<Rightarrow> Some (Inl e)
       | Inr prg \<Rightarrow>
      (case getFilteredPaginatedSortedLogRecords fuel le (lq_parent req) start (userPageSize + 1) prg sortOrder s of
         None \<Rightarrow> None
       | Some (Inl e) \<Rightarrow> Some (Inl e)
       | Some (Inr recs) \<Rightarrow>
           if int (length recs) > userPageSize
           then (case EncodeToken (ll_page le) (pd_uid (last recs)) (lq_filter req) of
                   Inl e \<Rightarrow> Some (Inl (PlainErr e))
                 | Inr nextToken \<Rightarrow> Some (Inr (butlast recs, nextToken)))
           else Some (Inr (recs, []))))))))))"


subsection \<open>The batches\<close>

definition arranges :: "list_env \<Rightarrow> bool" where
  "arranges le = (\<forall>ord rows. mset (ll_arrange le ord rows) = mset rows)"

text \<open>In the loop the ratio is always one, so a batch has the wanted size or the maximum.\<close>

definition even_batcher :: "Batcher \<Rightarrow> bool" where
  "even_batcher b = (fst (bt_ratio b) = snd (bt_ratio b) \<and> 0 < fst (bt_ratio b) \<and> 1 \<le> bt_want b \<and> 1 \<le> bt_max b)"

lemma Next_even: "even_batcher b \<Longrightarrow> Batcher_Next b = min (bt_want b) (bt_max b)"
proof -
  assume "even_batcher b"
  then have "fst (bt_ratio b) = snd (bt_ratio b)" "fst (bt_ratio b) \<noteq> 0" by (auto simp: even_batcher_def)
  then have "(- (bt_want b * snd (bt_ratio b))) div fst (bt_ratio b) = - bt_want b"
    by (metis minus_mult_left nonzero_mult_div_cancel_right)
  then show ?thesis by (simp add: Batcher_Next_def Let_def)
qed

lemma even_Update: "even_batcher b \<Longrightarrow> 0 < m \<Longrightarrow> even_batcher (Batcher_Update m m b)"
  by (simp add: even_batcher_def Batcher_Update_def)

lemma filter_shorter:
  assumes "\<And>x. P x \<Longrightarrow> Q x" and "y \<in> set xs" and "Q y" and "\<not> P y"
  shows "length (filter P xs) < length (filter Q xs)"
  using assms(2)
proof (induction xs)
  case (Cons x xs)
  have le: "length (filter P xs) \<le> length (filter Q xs)"
    using assms(1) by (induction xs) auto
  show ?case
  proof (cases "y = x")
    case True
    then show ?thesis using le assms by simp
  next
    case False
    then have "length (filter P xs) < length (filter Q xs)" using Cons by simp
    then show ?thesis using assms(1) [of x] by auto
  qed
qed simp

lemma find_logs_rows:
  assumes "arranges le" and "find_logs le parent resultName start ord n s = Inr rows" and "d \<in> set rows"
  shows "d \<in> set (records_tbl s) \<and> log_row_cond parent resultName start d"
proof -
  have "d \<in> set (ll_arrange le ord (filter (log_row_cond parent resultName start) (records_tbl s)))"
    using assms(2,3) by (auto simp: find_logs_def exec_Inr dest: in_set_takeD)
  moreover have "mset (ll_arrange le ord (filter (log_row_cond parent resultName start) (records_tbl s)))
      = mset (filter (log_row_cond parent resultName start) (records_tbl s))"
    using assms(1) by (simp add: arranges_def)
  ultimately have "d \<in> set (filter (log_row_cond parent resultName start) (records_tbl s))"
    by (metis set_mset_mset)
  then show ?thesis by simp
qed

lemma full_batch:
  assumes "even_batcher b" and "find_logs le parent resultName start ord (Batcher_Next b) s = Inr rows"
    and "\<not> int (length rows) < Batcher_Next b"
  shows "rows \<noteq> []" and "even_batcher (Batcher_Update (int (length rows)) (Batcher_Next b) b)"
proof -
  have n: "1 \<le> Batcher_Next b" using Next_even [OF assms(1)] assms(1) by (simp add: even_batcher_def)
  have len: "int (length rows) = Batcher_Next b"
    using assms(2,3) n by (auto simp: find_logs_def exec_Inr)
  then show "rows \<noteq> []" using n by auto
  show "even_batcher (Batcher_Update (int (length rows)) (Batcher_Next b) b)"
    using even_Update [OF assms(1)] len n by simp
qed

lemma batch_loop_returns:
  assumes "arranges le"
  shows "even_batcher b \<Longrightarrow> length (filter (\<lambda>d. start < d_id d) (records_tbl s)) < fuel \<Longrightarrow>
    batch_loop fuel le prg parent resultName n ord s start b acc \<noteq> None"
proof (induction fuel arbitrary: start b acc)
  case (Suc fuel)
  show ?case
  proof (cases "find_logs le parent resultName start ord (Batcher_Next b) s")
    case (Inr rows)
    show ?thesis
    proof (cases "int (length rows) < Batcher_Next b")
      case False
      have "rows \<noteq> []" using full_batch [OF Suc.prems(1) Inr False] by blast
      then have l: "last rows \<in> set (records_tbl s)" "start < d_id (last rows)"
        using find_logs_rows [OF assms Inr, of "last rows"] by (auto simp: log_row_cond_def)
      have "length (filter (\<lambda>d. d_id (last rows) < d_id d) (records_tbl s))
          < length (filter (\<lambda>d. start < d_id d) (records_tbl s))"
        by (rule filter_shorter [of _ _ "last rows"]) (use l in auto)
      then have "length (filter (\<lambda>d. d_id (last rows) < d_id d) (records_tbl s)) < fuel" using Suc.prems(2) by simp
      moreover have "even_batcher (Batcher_Update (int (length rows)) (Batcher_Next b) b)"
        using full_batch [OF Suc.prems(1) Inr False] by blast
      ultimately show ?thesis using Suc.IH Inr by (auto simp: Let_def split: sum.splits bool.splits)
    qed (use Inr in \<open>auto simp: Let_def split: sum.splits bool.splits\<close>)
  qed (auto simp: Let_def)
qed simp

lemma NewBatcher_even: "1 \<le> n \<Longrightarrow> even_batcher (NewBatcher n mini logs_maxPageSize)"
  by (simp add: even_batcher_def NewBatcher_def logs_maxPageSize_def)

lemma pageSize_bounds: "pageSize k = Inr n \<Longrightarrow> 1 \<le> n \<and> n \<le> logs_maxPageSize"
  by (auto simp: pageSize_def logs_minPageSize_def logs_maxPageSize_def split: if_splits)

text \<open>Listing logs ends: one batch more than there are rows is enough, whatever the filter, the
  order clause and the order the database chooses.\<close>

theorem list_logs_terminates:
  assumes "arranges le" and "length (records_tbl s) < fuel"
  shows "ListLogs fuel le req s \<noteq> None"
proof -
  have "getFilteredPaginatedSortedLogRecords fuel le p start (n + 1) prg ord s \<noteq> None"
    if "pageSize k = Inr n" for p start n prg ord k
  proof -
    have "length (filter (\<lambda>d. start < d_id d) (records_tbl s)) < fuel"
      using assms(2) length_filter_le [of "\<lambda>d. start < d_id d" "records_tbl s"] by linarith
    then show ?thesis
      using batch_loop_returns [OF assms(1) NewBatcher_even [of "n + 1"]] pageSize_bounds [OF that]
      by (auto simp: getFilteredPaginatedSortedLogRecords_def split: sum.splits)
  qed
  then show ?thesis by (auto simp: ListLogs_def split: sum.splits option.splits) (metis option.distinct(1))
qed

text \<open>A sample request environment; the page identifier is encoded by marking the characters of the name.\<close>

fun mark_pair :: "string \<times> string \<Rightarrow> string" where
  "mark_pair ([], b) = CHR '';'' # b"
| "mark_pair (c # a, b) = CHR ''x'' # c # mark_pair (a, b)"

fun unmark_pair :: "string \<Rightarrow> string \<times> string" where
  "unmark_pair (x # c # s) = (if x = CHR ''x'' then (c # fst (unmark_pair s), snd (unmark_pair s)) else ([], c # s))"
| "unmark_pair s = ([], [])"

lemma unmark_mark: "unmark_pair (mark_pair p) = p"
proof (induction p rule: mark_pair.induct)
  case (1 b)
  then show ?case by (cases b) simp_all
qed simp

definition plain_list_env :: list_env where
  "plain_list_env = \<lparr>ll_env = \<lparr>e_check = AllowAll_Check, e_uid = [], e_now = 1,
       e_codec = \<lparr>json_check = (\<lambda>_ _. None), unmarshal_log = (\<lambda>_. Inl []), marshal_log = (\<lambda>_. Inl [])\<rparr>,
       e_config = \<lparr>LOGS_API = True, LOGS_TYPE = [], LOGS_PATH = [], LOGS_BUFFER_SIZE = 0\<rparr>, e_fault = (\<lambda>_. None)\<rparr>,
     ll_page = \<lparr>pi_marshal = (\<lambda>p. Inr (mark_pair p)), pi_unmarshal = (\<lambda>s. Inr (unmark_pair s))\<rparr>,
     ll_cel = \<lparr>cel_Compile = Inr, cel_Program = (\<lambda>_. Inr allowAll), json_map = (\<lambda>_. None)\<rparr>,
     ll_arrange = (\<lambda>_ rows. rows)\<rparr>"

definition plain_row :: "string \<Rightarrow> db_record" where
  "plain_row i = \<lparr>d_parent = ''ns'', d_result_id = ''r1'', d_result_name = ''r'', d_id = i, d_name = i,
     d_type = LogRecordType, d_data = ''{}'', d_created = 5, d_updated = 6, d_etag = []\<rparr>"

definition plain_req :: "string \<Rightarrow> list_logs_req" where
  "plain_req tok = \<lparr>lq_parent = ''ns/results/r'', lq_filter = [], lq_order_by = [], lq_page_size = 1, lq_page_token = tok\<rparr>"

definition plain_db :: db where
  "plain_db = \<lparr>results_tbl = [], records_tbl = [plain_row ''a'', plain_row ''b'', plain_row ''c'']\<rparr>"

theorem list_logs_terminates_witness: "ListLogs 4 plain_list_env (plain_req []) plain_db \<noteq> None"
  by (rule list_logs_terminates) (simp_all add: arranges_def plain_list_env_def plain_db_def)


subsection \<open>Pages and rows\<close>

lemma record_Match_True_uid: "pd_uid (record_ToAPI d\<lparr>pd_name := x\<rparr>) = d_id d"
  by (simp add: record_ToAPI_def)

lemma match_rows_uids:
  "match_rows c prg n rows acc = Inr (acc', full) \<Longrightarrow> r \<in> set acc' \<Longrightarrow>
    r \<in> set acc \<or> (\<exists>d\<in>set rows. pd_uid r = d_id d)"
proof (induction rows arbitrary: acc)
  case (Cons d rows)
  show ?case
  proof (cases "record_Match c (record_ToAPI d) prg")
    case (Inr m)
    show ?thesis
    proof (cases m)
      case True
      obtain p q k where n: "record_ParseName (pd_name (record_ToAPI d)) = Inr (p, q, k)"
        using Cons.prems(1) Inr True by (auto simp: Let_def split: sum.splits)
      define acc1 where "acc1 = acc @ [record_ToAPI d\<lparr>pd_name := log_FormatName (result_FormatName p q) k\<rparr>]"
      have "acc' = acc1 \<or> match_rows c prg n rows acc1 = Inr (acc', full)"
        using Cons.prems(1) Inr True n by (auto simp: acc1_def Let_def split: if_splits)
      then have "r \<in> set acc1 \<or> (\<exists>d\<in>set rows. pd_uid r = d_id d)" using Cons.IH Cons.prems(2) by blast
      then show ?thesis by (auto simp: acc1_def record_Match_True_uid)
    next
      case False
      then show ?thesis using Cons Inr by auto
    qed
  qed (use Cons in auto)
qed simp

lemma batch_loop_uids:
  assumes "arranges le"
  shows "even_batcher b \<Longrightarrow>
    batch_loop fuel le prg parent resultName n ord s start b acc = Some (Inr recs) \<Longrightarrow> r \<in> set recs \<Longrightarrow>
    r \<in> set acc \<or> (\<exists>d\<in>set (records_tbl s). log_row_cond parent resultName start d \<and> pd_uid r = d_id d)"
proof (induction fuel arbitrary: start b acc)
  case (Suc fuel)
  show ?case
  proof (cases "int (length acc) < n")
    case True
    obtain rows where f: "find_logs le parent resultName start ord (Batcher_Next b) s = Inr rows"
      using Suc.prems(2) True by (auto simp: Let_def split: sum.splits)
    obtain acc' full where m: "match_rows (ll_cel le) prg n rows acc = Inr (acc', full)"
      using Suc.prems(2) True f by (auto simp: Let_def split: sum.splits)
    have rows: "\<And>d. d \<in> set rows \<Longrightarrow> d \<in> set (records_tbl s) \<and> log_row_cond parent resultName start d"
      using find_logs_rows [OF assms f] .
    show ?thesis
    proof (cases "full \<or> int (length rows) < Batcher_Next b")
      case t: True
      then have "recs = acc'" using Suc.prems(2) True f m by (auto simp: Let_def split: bool.splits)
      then show ?thesis using match_rows_uids [OF m, of r] Suc.prems(3) rows by blast
    next
      case False
      then have b: "batch_loop fuel le prg parent resultName n ord s (d_id (last rows))
          (Batcher_Update (int (length rows)) (Batcher_Next b) b) acc' = Some (Inr recs)"
        using Suc.prems(2) True f m by (auto simp: Let_def)
      have ne: "rows \<noteq> []" and ev: "even_batcher (Batcher_Update (int (length rows)) (Batcher_Next b) b)"
        using full_batch [OF Suc.prems(1) f] False by auto
      have "log_row_cond parent resultName start d" if "log_row_cond parent resultName (d_id (last rows)) d" for d
        using that rows [OF last_in_set [OF ne]] by (auto simp: log_row_cond_def dest: less_trans)
      then show ?thesis using Suc.IH [OF ev b Suc.prems(3)] match_rows_uids [OF m, of r] rows by blast
    qed
  qed (use Suc.prems in auto)
qed simp

lemma token_round_trip:
  assumes "pi_marshal pc (name, flt) = Inr bytes" and "pi_unmarshal pc bytes = Inr (name, flt)"
  shows "\<exists>tok. EncodeToken pc name flt = Inr tok \<and> DecodeToken pc tok = Inr (name, flt)"
proof -
  have "length (encode bytes) * 6 div 8 = length bytes"
    by (induction bytes rule: encode.induct) simp_all
  then show ?thesis using assms by (simp add: EncodeToken_def DecodeToken_def)
qed


lemma ListLogs_Inr:
  assumes "ListLogs fuel le req s = Some (Inr (page, tok))"
  obtains parent res n start ord prg recs where
    "result_ParseName (lq_parent req) = Inr (parent, res)"
    and "e_check (ll_env le) parent ResourceLogs PermissionList = None"
    and "pageSize (lq_page_size req) = Inr n"
    and "pageStart (ll_page le) (lq_page_token req) (lq_filter req) = Inr start"
    and "batch_loop fuel le prg parent res (n + 1) ord s start (NewBatcher (n + 1) logs_minPageSize logs_maxPageSize) []
        = Some (Inr recs)"
    and "if int (length recs) > n
      then page = butlast recs \<and> EncodeToken (ll_page le) (pd_uid (last recs)) (lq_filter req) = Inr tok
      else page = recs \<and> tok = []"
  using assms
  by (auto simp: ListLogs_def getFilteredPaginatedSortedLogRecords_def split: if_splits sum.splits option.splits)

lemma page_uids:
  assumes "arranges le" and "ListLogs fuel le req s = Some (Inr (page, tok))"
    and "pageStart (ll_page le) (lq_page_token req) (lq_filter req) = Inr start" and "q \<in> set page"
  shows "start < pd_uid q"
  using assms(2)
proof (rule ListLogs_Inr)
  fix parent res n start' ord prg recs
  assume a: "pageSize (lq_page_size req) = Inr n"
    "pageStart (ll_page le) (lq_page_token req) (lq_filter req) = Inr start'"
    "batch_loop fuel le prg parent res (n + 1) ord s start' (NewBatcher (n + 1) logs_minPageSize logs_maxPageSize) []
      = Some (Inr recs)"
    "if int (length recs) > n
     then page = butlast recs \<and> EncodeToken (ll_page le) (pd_uid (last recs)) (lq_filter req) = Inr tok
     else page = recs \<and> tok = []"
  have "q \<in> set recs" using a(4) assms(4) by (auto split: if_splits dest: in_set_butlastD)
  then show ?thesis
    using batch_loop_uids [OF assms(1) NewBatcher_even a(3), of q] pageSize_bounds [OF a(1)] a(2) assms(3)
    by (auto simp: log_row_cond_def)
qed

text \<open>A page of logs with a next-page token leaves out a row the query had fetched, and the page
  the token leads to starts after that row: the row at every page boundary is in neither page.\<close>

theorem list_logs_skips_a_row:
  assumes "arranges le" and "ListLogs fuel le req s = Some (Inr (page, tok))" and "tok \<noteq> []"
    and "\<And>name flt. \<exists>b. pi_marshal (ll_page le) (name, flt) = Inr b \<and> pi_unmarshal (ll_page le) b = Inr (name, flt)"
    and "ListLogs fuel' le (req\<lparr>lq_page_token := tok\<rparr>) s = Some (Inr (page', tok'))"
  shows "\<exists>d\<in>set (records_tbl s). d_type d = LogRecordType
    \<and> list_all (\<lambda>q. d_id d < pd_uid q) page'
    \<and> (\<forall>start. pageStart (ll_page le) (lq_page_token req) (lq_filter req) = Inr start \<longrightarrow> start < d_id d)
    \<and> EncodeToken (ll_page le) (d_id d) (lq_filter req) = Inr tok"
  using assms(2)
proof (rule ListLogs_Inr)
  fix parent res n start ord prg recs
  assume a: "pageSize (lq_page_size req) = Inr n"
    "pageStart (ll_page le) (lq_page_token req) (lq_filter req) = Inr start"
    "batch_loop fuel le prg parent res (n + 1) ord s start (NewBatcher (n + 1) logs_minPageSize logs_maxPageSize) []
      = Some (Inr recs)"
    "if int (length recs) > n
     then page = butlast recs \<and> EncodeToken (ll_page le) (pd_uid (last recs)) (lq_filter req) = Inr tok
     else page = recs \<and> tok = []"
  have n: "1 \<le> n" using pageSize_bounds [OF a(1)] by simp
  then have r: "last recs \<in> set recs" "EncodeToken (ll_page le) (pd_uid (last recs)) (lq_filter req) = Inr tok"
    using a(4) assms(3) by (cases recs; auto split: if_splits)+
  then obtain d where d: "d \<in> set (records_tbl s)" "log_row_cond parent res start d" "pd_uid (last recs) = d_id d"
    using batch_loop_uids [OF assms(1) NewBatcher_even a(3)] n by auto
  obtain b where "pi_marshal (ll_page le) (d_id d, lq_filter req) = Inr b"
      "pi_unmarshal (ll_page le) b = Inr (d_id d, lq_filter req)"
    using assms(4) by blast
  then have "DecodeToken (ll_page le) tok = Inr (d_id d, lq_filter req)"
    using token_round_trip r(2) d(3) by fastforce
  then have "pageStart (ll_page le) tok (lq_filter req) = Inr (d_id d)" using assms(3) by (simp add: pageStart_def)
  then have "list_all (\<lambda>q. d_id d < pd_uid q) page'"
    using page_uids [OF assms(1,5)] by (simp add: list_all_iff)
  then show ?thesis using d r(2) a(2) by (auto simp: log_row_cond_def)
qed


theorem list_logs_skips_a_row_witness:
  "\<exists>page tok page' tok'. ListLogs 4 plain_list_env (plain_req []) plain_db = Some (Inr (page, tok))
     \<and> ListLogs 4 plain_list_env (plain_req tok) plain_db = Some (Inr (page', tok'))
     \<and> map pd_uid page = [''a''] \<and> map pd_uid page' = [''c'']
     \<and> (\<exists>d\<in>set (records_tbl plain_db). d_type d = LogRecordType \<and> list_all (\<lambda>q. d_id d < pd_uid q) page')"
proof -
  define r where "r = ListLogs 4 plain_list_env (plain_req []) plain_db"
  have c: "(case r of Some (Inr (page, tok)) \<Rightarrow> map pd_uid page = [''a''] \<and> tok \<noteq> []
      \<and> (case ListLogs 4 plain_list_env (plain_req tok) plain_db of
           Some (Inr (page', tok')) \<Rightarrow> map pd_uid page' = [''c''] | _ \<Rightarrow> False)
    | _ \<Rightarrow> False)"
    unfolding r_def by code_simp
  obtain page tok where r: "r = Some (Inr (page, tok))"
    using c by (cases r) (simp, metis (no_types, lifting) old.sum.exhaust option.simps(5) prod.exhaust sum.case(1))
  then have c': "map pd_uid page = [''a'']" "tok \<noteq> []"
    "(case ListLogs 4 plain_list_env (plain_req tok) plain_db of
        Some (Inr (page', tok')) \<Rightarrow> map pd_uid page' = [''c''] | _ \<Rightarrow> False)"
    using c by simp_all
  obtain page' tok' where r': "ListLogs 4 plain_list_env (plain_req tok) plain_db = Some (Inr (page', tok'))"
    using c'(3) by (cases "ListLogs 4 plain_list_env (plain_req tok) plain_db") (auto split: sum.splits)
  have p: "ListLogs 4 plain_list_env (plain_req []) plain_db = Some (Inr (page, tok))"
      "map pd_uid page = [''a'']" "tok \<noteq> []" "map pd_uid page' = [''c'']"
      "ListLogs 4 plain_list_env (plain_req tok) plain_db = Some (Inr (page', tok'))"
    using r r' c' unfolding r_def by simp_all
  have "arranges plain_list_env" by (simp add: arranges_def plain_list_env_def)
  moreover have "\<exists>b. pi_marshal (ll_page plain_list_env) (name, flt) = Inr b
      \<and> pi_unmarshal (ll_page plain_list_env) b = Inr (name, flt)" for name flt
    by (simp add: plain_list_env_def unmark_mark)
  moreover have "(plain_req [])\<lparr>lq_page_token := tok\<rparr> = plain_req tok" by (simp add: plain_req_def)
  ultimately have d: "\<exists>d\<in>set (records_tbl plain_db). d_type d = LogRecordType \<and> list_all (\<lambda>q. d_id d < pd_uid q) page'"
    using list_logs_skips_a_row [OF _ p(1,3), of 4 page' tok'] p(5) by fastforce
  show ?thesis
    by (intro exI [of _ page] exI [of _ tok] exI [of _ page'] exI [of _ tok'] conjI p(1,2,4,5) d)
qed

text \<open>The batch size never follows the matches: the loop reports every fetched row as matched.\<close>

theorem batches_never_adapt:
  assumes "even_batcher b" and "find_logs le parent resultName start ord (Batcher_Next b) s = Inr rows"
    and "\<not> int (length rows) < Batcher_Next b"
  shows "Batcher_Next (Batcher_Update (int (length rows)) (Batcher_Next b) b) = Batcher_Next b"
  using Next_even [OF assms(1)] Next_even [OF full_batch(2) [OF assms]] by (simp add: Batcher_Update_def)

end
