(* ===== verification/Retention.thy ===== *)
theory Retention
  imports Database
begin

text \<open>
  The retention agent (\<^verbatim>\<open>pkg/retention\<close>) and its configuration
  (\<^verbatim>\<open>pkg/apis/config/retention.go\<close>). The SQL the job builds is a syntax tree, which the
  database evaluates on a row, with the text that the code prints for it (\<open>case_text\<close>); the two agree as
  long as no value holds a quote. The JSON paths of a record's data, YAML decoding, the format
  \<^verbatim>\<open>%f\<close> and the cron library are parameters. Each of the three statements has its own time and its own
  failure. Go durations are 64-bit counts of nanoseconds, with the wrap-around of their
  products. A duration text is parsed with exact fractions where the library computes with floats.
\<close>

subsection \<open>Durations\<close>

text \<open>\<^verbatim>\<open>strconv.Atoi\<close>.\<close>

definition Atoi :: "string \<Rightarrow> string + int" where
  "Atoi s =
     (let neg = (s \<noteq> [] \<and> hd s = CHR ''-'');
          ds = (if s \<noteq> [] \<and> (hd s = CHR ''-'' \<or> hd s = CHR ''+'') then tl s else s);
          v = (if neg then - int (read_nat ds) else int (read_nat ds))
      in if ds = [] \<or> \<not> list_all digit_char ds
         then Inl (''strconv.Atoi: parsing '' @ quote_go s @ '': invalid syntax'')
         else if int64 v \<noteq> v then Inl (''strconv.Atoi: parsing '' @ quote_go s @ '': value out of range'')
         else Inr v)"

definition unit_ns :: "string \<Rightarrow> int option" where
  "unit_ns u = map_of [(''ns'', 1), (''us'', 1000), ([CHR 0xC2, CHR 0xB5, CHR ''s''], 1000),
     ([CHR 0xCE, CHR 0xBC, CHR ''s''], 1000), (''ms'', 1000000), (''s'', 1000000000),
     (''m'', 60000000000), (''h'', 3600000000000)] u"

definition unit_char :: "char \<Rightarrow> bool" where
  "unit_char c = (c \<noteq> CHR ''.'' \<and> \<not> digit_char c)"

text \<open>\<^verbatim>\<open>time.ParseDuration\<close> after the sign: number and unit pairs, added up.\<close>

function parse_units :: "string \<Rightarrow> string \<Rightarrow> int \<Rightarrow> string + int" where
  "parse_units orig s d =
     (if s = [] then Inr d
      else
      (let ds = takeWhile digit_char s; r1 = dropWhile digit_char s;
           dot = (r1 \<noteq> [] \<and> hd r1 = CHR ''.'');
           fs = (if dot then takeWhile digit_char (tl r1) else []);
           r2 = (if dot then dropWhile digit_char (tl r1) else r1);
           u = takeWhile unit_char r2; r3 = dropWhile unit_char r2
       in if ds = [] \<and> fs = [] then Inl (''time: invalid duration '' @ quote_go orig)
          else if u = [] then Inl (''time: missing unit in duration '' @ quote_go orig)
          else (case unit_ns u of
                  None \<Rightarrow> Inl (''time: unknown unit '' @ quote_go u @ '' in duration '' @ quote_go orig)
                | Some k \<Rightarrow>
                    (let v = int (read_nat ds) * k + int (read_nat fs) * k div 10 ^ length fs in
                     if v > 2 ^ 63 \<or> d + v > 2 ^ 63 then Inl (''time: invalid duration '' @ quote_go orig)
                     else parse_units orig r3 (d + v)))))"
  by pat_completeness auto
termination
proof (relation "measure (\<lambda>(orig, s, d). length s)")
  fix orig s :: string and d :: int and ds r1 dot fs r2 u r3 k v
  assume a: "r1 = dropWhile digit_char s" "r2 = (if dot then dropWhile digit_char (tl r1) else r1)"
    "u = takeWhile unit_char r2" "r3 = dropWhile unit_char r2" "u \<noteq> []"
  have "length r2 \<le> length s"
    using a(1,2) length_dropWhile_le [of digit_char s] length_dropWhile_le [of digit_char "tl r1"]
    by (auto simp: length_tl intro: le_trans)
  moreover have "length r3 < length r2"
    using a(3-5) by (metis append_self_conv2 length_append less_add_same_cancel2 length_greater_0_conv takeWhile_dropWhile_id)
  ultimately show "((orig, r3, d + v), orig, s, d) \<in> measure (\<lambda>(orig, s, d). length s)" by simp
qed simp

declare parse_units.simps [simp del]

definition time_ParseDuration :: "string \<Rightarrow> string + int" where
  "time_ParseDuration s =
     (let neg = (s \<noteq> [] \<and> hd s = CHR ''-'');
          t = (if s \<noteq> [] \<and> (hd s = CHR ''-'' \<or> hd s = CHR ''+'') then tl s else s)
      in if t = ''0'' then Inr 0
         else if t = [] then Inl (''time: invalid duration '' @ quote_go s)
         else (case parse_units s t 0 of
                 Inl e \<Rightarrow> Inl e
               | Inr d \<Rightarrow> if neg then Inr (- d)
                         else if d > 2 ^ 63 - 1 then Inl (''time: invalid duration '' @ quote_go s) else Inr d))"

definition Hour :: int where "Hour = 3600000000000"

text \<open>\<^verbatim>\<open>time.Duration(days) * 24 * time.Hour\<close> in 64 bits.\<close>

definition days_duration :: "int \<Rightarrow> int" where
  "days_duration days = int64 (int64 (days * 24) * Hour)"

definition ParseDuration :: "string \<Rightarrow> string + int" where
  "ParseDuration s =
     (if HasSuffix s ''d''
      then (case Atoi (butlast s) of Inl e \<Rightarrow> Inl e | Inr days \<Rightarrow> Inr (days_duration days))
      else (case Atoi s of Inr days \<Rightarrow> Inr (days_duration days) | Inl _ \<Rightarrow> time_ParseDuration s))"

subsection \<open>Configuration\<close>

record Selector =
  MatchNamespaces :: "string list"
  MatchLabels :: "(string \<times> string list) list"
  MatchAnnotations :: "(string \<times> string list) list"
  MatchStatuses :: "string list"

record Policy =
  p_Name :: string
  p_Selector :: Selector
  p_Retention :: string

record RetentionPolicy =
  RunAt :: string
  DefaultRetention :: int
  Policies :: "Policy list"

definition DefaultRunAt :: string where "DefaultRunAt = ''7 7 * * 7''"
definition DefaultDefaultRetention :: int where "DefaultDefaultRetention = Hour * 24 * 30"

definition RetentionPolicy_Equals :: "RetentionPolicy option \<Rightarrow> RetentionPolicy option \<Rightarrow> bool" where
  "RetentionPolicy_Equals cfg other =
     (case (cfg, other) of
        (None, None) \<Rightarrow> True
      | (Some c, Some x) \<Rightarrow> RunAt x = RunAt c \<and> DefaultRetention x = DefaultRetention c
      | _ \<Rightarrow> False)"

definition newRetentionPolicyFromMap ::
    "(string \<Rightarrow> string + Policy list) \<Rightarrow> (string, string) fmap \<Rightarrow> string + RetentionPolicy" where
  "newRetentionPolicyFromMap yaml cfgMap =
     (let rp = \<lparr>RunAt = (case fmlookup cfgMap ''runAt'' of Some sch \<Rightarrow> sch | None \<Rightarrow> DefaultRunAt),
                DefaultRetention = DefaultDefaultRetention, Policies = []\<rparr>;
          withRetention =
            (case fmlookup cfgMap ''maxRetention'' of
               Some duration \<Rightarrow>
                 (case ParseDuration duration of
                    Inl e \<Rightarrow> Inl (''incorrect configuration for maxRetention: '' @ e)
                  | Inr v \<Rightarrow> Inr (rp\<lparr>DefaultRetention := v\<rparr>))
             | None \<Rightarrow>
                 (case fmlookup cfgMap ''defaultRetention'' of
                    Some duration \<Rightarrow>
                      (case ParseDuration duration of
                         Inl e \<Rightarrow> Inl (''incorrect configuration for defaultRetention: '' @ e)
                       | Inr v \<Rightarrow> Inr (rp\<lparr>DefaultRetention := v\<rparr>))
                  | None \<Rightarrow> Inr rp))
      in case withRetention of
           Inl e \<Rightarrow> Inl e
         | Inr rp' \<Rightarrow>
             (case fmlookup cfgMap ''policies'' of
                None \<Rightarrow> Inr rp'
              | Some y \<Rightarrow>
                  (case yaml y of
                     Inl e \<Rightarrow> Inl (''failed to unmarshal policies: '' @ e)
                   | Inr ps \<Rightarrow> Inr (rp'\<lparr>Policies := ps\<rparr>))))"

subsection \<open>The deletion query\<close>

text \<open>A condition of a WHEN clause: a value of the row is one of a list.\<close>

datatype sql_value = ParentCol | LabelPath string | AnnotationPath string | ReasonPath

datatype sql_cond = InList sql_value "string list" | Always

record case_stmt =
  cs_whens :: "(sql_cond list \<times> int) list"
  cs_else :: int

definition buildWhereClause :: "Selector \<Rightarrow> sql_cond list" where
  "buildWhereClause sel =
     (let conditions =
        (if MatchNamespaces sel \<noteq> [] then [InList ParentCol (MatchNamespaces sel)] else [])
        @ map (\<lambda>(k, vs). InList (LabelPath k) vs) (MatchLabels sel)
        @ map (\<lambda>(k, vs). InList (AnnotationPath k) vs) (MatchAnnotations sel)
        @ (if MatchStatuses sel \<noteq> [] then [InList ReasonPath (MatchStatuses sel)] else [])
      in if conditions = [] then [Always] else conditions)"

fun build_whens :: "Policy list \<Rightarrow> string + (sql_cond list \<times> int) list" where
  "build_whens [] = Inr []"
| "build_whens (p # ps) =
     (case ParseDuration (p_Retention p) of
        Inl e \<Rightarrow> Inl e
      | Inr d \<Rightarrow> (case build_whens ps of Inl e \<Rightarrow> Inl e | Inr ws \<Rightarrow> Inr ((buildWhereClause (p_Selector p), d) # ws)))"

definition buildCaseStatement :: "Policy list \<Rightarrow> int \<Rightarrow> string + case_stmt" where
  "buildCaseStatement policies dflt =
     (case build_whens policies of Inl e \<Rightarrow> Inl e | Inr ws \<Rightarrow> Inr \<lparr>cs_whens = ws, cs_else = dflt\<rparr>)"

text \<open>The text of the statement.\<close>

definition quoteAndJoin :: "string list \<Rightarrow> string" where
  "quoteAndJoin items = join '','' (map (\<lambda>item. squote # item @ [squote]) items)"

definition json_step :: "string \<Rightarrow> string \<Rightarrow> string" where
  "json_step op key = op @ squote # key @ [squote]"

fun value_text :: "sql_value \<Rightarrow> string" where
  "value_text ParentCol = ''parent''"
| "value_text (LabelPath k) = ''data'' @ json_step ''->'' ''metadata'' @ json_step ''->'' ''labels'' @ json_step ''->>'' k"
| "value_text (AnnotationPath k) =
     ''data'' @ json_step ''->'' ''metadata'' @ json_step ''->'' ''annotations'' @ json_step ''->>'' k"
| "value_text ReasonPath =
     ''data'' @ json_step ''->'' ''status'' @ json_step ''->'' ''conditions'' @ ''->0'' @ json_step ''->>'' ''reason''"

fun cond_text :: "sql_cond \<Rightarrow> string" where
  "cond_text Always = ''1=1''"
| "cond_text (InList v items) = value_text v @ '' IN ('' @ quoteAndJoin items @ '')''"

definition where_text :: "sql_cond list \<Rightarrow> string" where
  "where_text cs = join '' AND '' (map cond_text cs)"

definition interval_text :: "(int \<Rightarrow> string) \<Rightarrow> int \<Rightarrow> string" where
  "interval_text fmt_f d = ''NOW() - INTERVAL '' @ squote # fmt_f d @ '' seconds'' @ [squote]"

definition case_text :: "(int \<Rightarrow> string) \<Rightarrow> case_stmt \<Rightarrow> string" where
  "case_text fmt_f cs =
     (if cs_whens cs = [] then interval_text fmt_f (cs_else cs)
      else ''CASE '' @
        join '' '' (map (\<lambda>(w, d). ''WHEN '' @ where_text w @ '' THEN '' @ interval_text fmt_f d) (cs_whens cs)
              @ [''ELSE '' @ interval_text fmt_f (cs_else cs)]) @ '' END'')"

text \<open>The JSON paths of a record's data; a missing path is NULL.\<close>

record json_paths =
  label_of :: "string \<Rightarrow> string \<Rightarrow> string option"
  annotation_of :: "string \<Rightarrow> string \<Rightarrow> string option"
  reason_of :: "string \<Rightarrow> string option"

fun sql_eval :: "json_paths \<Rightarrow> sql_value \<Rightarrow> db_record \<Rightarrow> string option" where
  "sql_eval jp ParentCol d = Some (d_parent d)"
| "sql_eval jp (LabelPath k) d = label_of jp (d_data d) k"
| "sql_eval jp (AnnotationPath k) d = annotation_of jp (d_data d) k"
| "sql_eval jp ReasonPath d = reason_of jp (d_data d)"

fun cond_true :: "json_paths \<Rightarrow> sql_cond \<Rightarrow> db_record \<Rightarrow> bool" where
  "cond_true jp Always d = True"
| "cond_true jp (InList v items) d = (case sql_eval jp v d of None \<Rightarrow> False | Some x \<Rightarrow> x \<in> set items)"

text \<open>A list with no item is no SQL.\<close>

fun cond_syntax :: "sql_cond \<Rightarrow> bool" where
  "cond_syntax Always = True"
| "cond_syntax (InList v items) = (items \<noteq> [])"

definition case_syntax :: "case_stmt \<Rightarrow> bool" where
  "case_syntax cs = list_all (\<lambda>(cs, d). list_all cond_syntax cs) (cs_whens cs)"

fun case_value :: "json_paths \<Rightarrow> (sql_cond list \<times> int) list \<Rightarrow> int \<Rightarrow> db_record \<Rightarrow> int" where
  "case_value jp [] dflt d = dflt"
| "case_value jp ((cs, dur) # ws) dflt d =
     (if list_all (\<lambda>c. cond_true jp c d) cs then dur else case_value jp ws dflt d)"

definition PipelineRunType :: string where "PipelineRunType = ''tekton.dev/v1.PipelineRun''"
definition TaskRunType :: string where "TaskRunType = ''tekton.dev/v1.TaskRun''"
definition CustomRunType :: string where "CustomRunType = ''tekton.dev/v1beta1.CustomRun''"

definition expired_row :: "json_paths \<Rightarrow> gotime \<Rightarrow> case_stmt \<Rightarrow> db_record \<Rightarrow> bool" where
  "expired_row jp now cs d = (d_updated d < now - case_value jp (cs_whens cs) (cs_else cs) d)"

definition additional_filter :: "string \<Rightarrow> db \<Rightarrow> db_record \<Rightarrow> bool" where
  "additional_filter recordType s d =
     (recordType = TaskRunType \<or> recordType = CustomRunType \<longrightarrow>
      \<not> list_ex (\<lambda>pr. d_type pr = PipelineRunType \<and> d_parent pr = d_parent d \<and> d_result_id pr = d_result_id d)
          (records_tbl s))"

definition expired_ids :: "json_paths \<Rightarrow> gotime \<Rightarrow> case_stmt \<Rightarrow> string \<Rightarrow> db \<Rightarrow> string list" where
  "expired_ids jp now cs recordType s =
     map d_result_id (filter (\<lambda>d. d_type d = recordType \<and> additional_filter recordType s d \<and> expired_row jp now cs d)
       (records_tbl s))"

definition cleanupResults :: "json_paths \<Rightarrow> gotime \<Rightarrow> gorm_error option \<Rightarrow> case_stmt \<Rightarrow> string \<Rightarrow> db \<Rightarrow> db" where
  "cleanupResults jp now fault cs recordType s =
     (if fault \<noteq> None \<or> \<not> case_syntax cs then s
      else (let ids = expired_ids jp now cs recordType s in delete_results_where (\<lambda>r. r_id r \<in> set ids) s))"

definition job ::
    "json_paths \<Rightarrow> (string \<Rightarrow> gotime) \<Rightarrow> (string \<Rightarrow> gorm_error option) \<Rightarrow> RetentionPolicy \<Rightarrow> db \<Rightarrow> db" where
  "job jp now fault rp s =
     (case buildCaseStatement (Policies rp) (DefaultRetention rp) of
        Inl e \<Rightarrow> s
      | Inr cs \<Rightarrow>
          (let clean = (\<lambda>ty. cleanupResults jp (now ty) (fault ty) cs ty)
           in clean CustomRunType (clean TaskRunType (clean PipelineRunType s))))"


subsection \<open>Retention in days\<close>

lemma show_nat_no_sign: "hd (show_nat n) \<noteq> CHR ''-'' \<and> hd (show_nat n) \<noteq> CHR ''+''"
proof -
  have "digit_char (hd (show_nat n))" using show_nat_digits [of n] by (cases "show_nat n") auto
  then show ?thesis by (auto simp: digit_char_def)
qed

lemma Atoi_show_int:
  assumes "- (2 ^ 63) \<le> n" and "n < 2 ^ 63"
  shows "Atoi (show_int n) = Inr n"
proof -
  have i: "int64 n = n" using assms by (rule int64_id)
  show ?thesis
  proof (cases "n < 0")
    case True
    then show ?thesis using show_nat_digits [of "nat (- n)"] i by (simp add: Atoi_def show_int_def)
  next
    case False
    then show ?thesis using show_nat_digits [of "nat n"] show_nat_no_sign [of "nat n"] i
      by (simp add: Atoi_def show_int_def)
  qed
qed

lemma show_int_not_d: "\<not> HasSuffix (show_int n) ''d''"
proof -
  have "last (show_nat k) \<noteq> CHR ''d''" for k
  proof -
    have "digit_char (last (show_nat k))"
      using show_nat_digits [of k] last_in_set [of "show_nat k"] by (simp add: list_all_iff)
    then show ?thesis by (auto simp: digit_char_def)
  qed
  then have "last (show_int n) \<noteq> CHR ''d''"
    using show_nat_digits by (simp add: show_int_def)
  then show ?thesis by (auto simp: HasSuffix_def suffix_def)
qed




subsection \<open>What a run of the job deletes\<close>

definition child :: "db_result \<Rightarrow> db_record \<Rightarrow> bool" where
  "child r d = (d_parent d = r_parent r \<and> d_result_id d = r_id r)"

text \<open>The result has an expired record of the type that the query looks at.\<close>

definition hit :: "json_paths \<Rightarrow> gotime \<Rightarrow> case_stmt \<Rightarrow> string \<Rightarrow> db \<Rightarrow> db_result \<Rightarrow> bool" where
  "hit jp now cs ty s r = (\<exists>d\<in>set (records_tbl s). child r d \<and> d_type d = ty \<and> additional_filter ty s d \<and> expired_row jp now cs d)"

definition unique_ids :: "db \<Rightarrow> bool" where
  "unique_ids s = (distinct (map r_id (results_tbl s)) \<and> db_wf s)"

lemma cleanup_eq:
  assumes "unique_ids s" and "case_syntax cs"
  shows "cleanupResults jp now None cs ty s = delete_results_where (hit jp now cs ty s) s"
proof -
  have "r_id r \<in> set (expired_ids jp now cs ty s) \<longleftrightarrow> hit jp now cs ty s r" if r: "r \<in> set (results_tbl s)" for r
  proof
    assume "r_id r \<in> set (expired_ids jp now cs ty s)"
    then obtain d where d: "d \<in> set (records_tbl s)" "d_result_id d = r_id r" "d_type d = ty"
        "additional_filter ty s d" "expired_row jp now cs d"
      by (auto simp: expired_ids_def)
    obtain q where q: "q \<in> set (results_tbl s)" "r_parent q = d_parent d" "r_id q = d_result_id d"
      using db_wfD(3) [OF _ d(1)] assms(1) by (auto simp: unique_ids_def)
    then have "q = r" using r d(2) assms(1) distinct_map_eq [of r_id "results_tbl s" q r] by (simp add: unique_ids_def)
    then show "hit jp now cs ty s r" using d q by (auto simp: hit_def child_def)
  next
    assume "hit jp now cs ty s r"
    then show "r_id r \<in> set (expired_ids jp now cs ty s)" by (force simp: hit_def expired_ids_def child_def)
  qed
  then have "tbl_delete (\<lambda>r. r_id r \<in> set (expired_ids jp now cs ty s)) (results_tbl s) = tbl_delete (hit jp now cs ty s) (results_tbl s)"
    "filter (\<lambda>r. r_id r \<in> set (expired_ids jp now cs ty s)) (results_tbl s) = filter (hit jp now cs ty s) (results_tbl s)"
    by (auto simp: tbl_delete_def intro: filter_cong)
  then show ?thesis using assms(2) by (simp add: cleanupResults_def delete_results_where_def Let_def)
qed

lemma unique_ids_delete: "unique_ids s \<Longrightarrow> unique_ids (delete_results_where p s)"
  using db_wf_delete_results [of s p]
  by (simp add: unique_ids_def) (simp add: distinct_map_filterI delete_results_where_def tbl_delete_def)

text \<open>The records of a result that stays are the same before and after.\<close>

lemma kept_children:
  assumes "unique_ids s" and "r \<in> set (results_tbl s)" and "\<not> p r" and "child r d"
  shows "d \<in> set (records_tbl (delete_results_where p s)) \<longleftrightarrow> d \<in> set (records_tbl s)"
proof -
  have "\<not> (\<exists>q\<in>set (filter p (results_tbl s)). r_parent q = d_parent d \<and> r_id q = d_result_id d)"
    using assms distinct_map_eq [of r_id "results_tbl s" _ r] by (auto simp: unique_ids_def child_def)
  then show ?thesis by (auto simp: delete_results_where_def cascade_def)
qed

lemma kept_hit:
  assumes "unique_ids s" and "r \<in> set (results_tbl s)" and "\<not> p r"
  shows "hit jp now cs ty (delete_results_where p s) r = hit jp now cs ty s r"
proof -
  have "additional_filter ty (delete_results_where p s) d = additional_filter ty s d" if "child r d" for d
  proof -
    have "pr \<in> set (records_tbl (delete_results_where p s)) \<longleftrightarrow> pr \<in> set (records_tbl s)"
      if "d_parent pr = d_parent d" "d_result_id pr = d_result_id d" for pr
      using kept_children [where p = p, OF assms, of pr] that \<open>child r d\<close> by (simp add: child_def)
    then show ?thesis by (auto simp: additional_filter_def list_ex_iff)
  qed
  then show ?thesis using kept_children [where p = p, OF assms] by (auto simp: hit_def)
qed

text \<open>
  The rule: an expired PipelineRun record condemns its result; in a result without PipelineRun
  records an expired TaskRun or CustomRun record does. A record is expired when it is older than
  the retention of the first policy whose selector matches it, or than the default.
\<close>

definition doomed :: "json_paths \<Rightarrow> (string \<Rightarrow> gotime) \<Rightarrow> case_stmt \<Rightarrow> db \<Rightarrow> db_result \<Rightarrow> bool" where
  "doomed jp now cs s r =
     (let old = (\<lambda>ty. \<exists>d\<in>set (records_tbl s). child r d \<and> d_type d = ty \<and> expired_row jp (now ty) cs d) in
      old PipelineRunType \<or>
      \<not> (\<exists>d\<in>set (records_tbl s). child r d \<and> d_type d = PipelineRunType) \<and> (old TaskRunType \<or> old CustomRunType))"

lemma doomed_hit:
  "doomed jp now cs s r \<longleftrightarrow>
     hit jp (now PipelineRunType) cs PipelineRunType s r \<or> hit jp (now TaskRunType) cs TaskRunType s r \<or> hit jp (now CustomRunType) cs CustomRunType s r"
proof -
  have types: "PipelineRunType \<noteq> TaskRunType" "PipelineRunType \<noteq> CustomRunType"
    by (simp_all add: PipelineRunType_def TaskRunType_def CustomRunType_def)
  have "hit jp (now ty) cs ty s r \<longleftrightarrow>
      (\<exists>d\<in>set (records_tbl s). child r d \<and> d_type d = ty \<and> expired_row jp (now ty) cs d)
      \<and> \<not> (\<exists>d\<in>set (records_tbl s). child r d \<and> d_type d = PipelineRunType)"
    if "ty = TaskRunType \<or> ty = CustomRunType" for ty
    using that by (auto simp: hit_def additional_filter_def list_ex_iff child_def)
  moreover have "hit jp (now PipelineRunType) cs PipelineRunType s r \<longleftrightarrow>
      (\<exists>d\<in>set (records_tbl s). child r d \<and> d_type d = PipelineRunType \<and> expired_row jp (now PipelineRunType) cs d)"
    using types by (auto simp: hit_def additional_filter_def)
  ultimately show ?thesis by (auto simp: doomed_def Let_def)
qed



definition sample_paths :: json_paths where
  "sample_paths = \<lparr>label_of = (\<lambda>_ _. None), annotation_of = (\<lambda>_ _. None), reason_of = (\<lambda>d. Some d)\<rparr>"

definition sample_result :: "string \<Rightarrow> db_result" where
  "sample_result i = \<lparr>r_parent = ''ns'', r_id = i, r_name = i, r_annotations = fmempty, r_created = 5, r_updated = 5,
     r_summary = empty_summary, r_etag = []\<rparr>"

definition sample_run :: "string \<Rightarrow> string \<Rightarrow> string \<Rightarrow> string \<Rightarrow> db_record" where
  "sample_run res i ty reason = \<lparr>d_parent = ''ns'', d_result_id = res, d_result_name = res, d_id = i, d_name = i, d_type = ty,
     d_data = reason, d_created = 5, d_updated = 6, d_etag = []\<rparr>"

definition sample_retention :: RetentionPolicy where
  "sample_retention = \<lparr>RunAt = [], DefaultRetention = 1,
     Policies = [\<lparr>p_Name = [],
       p_Selector = \<lparr>MatchNamespaces = [], MatchLabels = [], MatchAnnotations = [], MatchStatuses = [''Failed'']\<rparr>,
       p_Retention = ''1h''\<rparr>]\<rparr>"

definition sample_runs :: db where
  "sample_runs = \<lparr>results_tbl = [sample_result ''a'', sample_result ''b'', sample_result ''c''],
     records_tbl = [sample_run ''a'' ''1'' PipelineRunType ''Succeeded'', sample_run ''b'' ''2'' PipelineRunType ''Failed'',
       sample_run ''b'' ''3'' TaskRunType ''Succeeded'', sample_run ''c'' ''4'' TaskRunType ''Succeeded'']\<rparr>"


text \<open>
  A retention that wrapped to a negative duration makes every run record of the past expired, so
  the job deletes the results it was meant to keep for centuries. A selector with an empty list of
  label values gives no valid SQL, and then nothing is ever deleted. And two configurations that
  differ only in their policies count as equal. A quote in a configured value ends the literal, so
  that one value prints like two.
\<close>

theorem wrapped_retention_expires_everything:
  assumes "ParseDuration ''106752d'' = Inr w" and "d_updated d \<le> now"
  shows "expired_row jp now \<lparr>cs_whens = [], cs_else = w\<rparr> d"
proof -
  have "HasSuffix ''106752d'' ''d''" "Atoi ''106752'' = Inr 106752"
    by code_simp (simp add: Atoi_def read_nat_def digit_char_def digit_val_def int64_id)
  moreover have "days_duration 106752 < 0" by (simp add: days_duration_def Hour_def int64_mod)
  ultimately have "w < 0" using assms(1) by (auto simp: ParseDuration_def)
  then show ?thesis using assms(2) by (simp add: expired_row_def)
qed

theorem empty_label_values_stop_retention:
  assumes "(k, []) \<in> set (MatchLabels (p_Selector p))" and "p \<in> set (Policies rp)"
  shows "job jp now fault rp s = s"
proof (cases "buildCaseStatement (Policies rp) (DefaultRetention rp)")
  case (Inr cs)
  have "InList (LabelPath k) [] \<in> set (buildWhereClause (p_Selector p))"
    using assms(1) by (force simp: buildWhereClause_def Let_def)
  moreover have "p \<in> set ps \<Longrightarrow> build_whens ps = Inr ws \<Longrightarrow> \<exists>d. (buildWhereClause (p_Selector p), d) \<in> set ws" for ps ws
    by (induction ps arbitrary: ws) (auto split: sum.splits)
  ultimately have "\<not> case_syntax cs" using Inr assms(2)
    by (fastforce simp: buildCaseStatement_def case_syntax_def list_all_iff split: sum.splits)
  then show ?thesis using Inr by (simp add: job_def cleanupResults_def)
qed (simp add: job_def)

theorem equals_ignores_policies: "RetentionPolicy_Equals (Some c) (Some (c\<lparr>Policies := ps\<rparr>))"
  by (simp add: RetentionPolicy_Equals_def)

theorem quoted_values_split: "quoteAndJoin [''a'' @ squote # '','' @ squote # ''b''] = quoteAndJoin [''a'', ''b'']"
  by code_simp

end
