(* ===== verification/Runs.thy ===== *)
theory Runs
  imports Resources "HOL-Library.AList"
begin

text \<open>
  The run objects the watcher reconciles, their conversion to API messages
  (\<^verbatim>\<open>pkg/watcher/convert/convert.go\<close>), the shared configuration
  (\<^verbatim>\<open>pkg/watcher/reconciler/config.go\<close>) and the event filters
  (\<^verbatim>\<open>pkg/watcher/reconciler/filter.go\<close>). A run keeps the metadata and status fields the watcher
  reads; a nil map is the empty map. The Go type of the object and its
  group, version and kind are separate, as they are in the code. JSON encoding, the type
  scheme of the Kubernetes client, label selectors and qualified names are parameters.
\<close>

subsection \<open>Run objects\<close>

datatype run_kind = PipelineRun | TaskRun | CustomRun

record gvk =
  g_group :: string
  g_version :: string
  g_kind :: string

record owner_ref =
  or_kind :: string
  or_name :: string
  or_uid :: string

record condition =
  c_status :: string
  c_reason :: string

record managed_field =
  mf_operation :: string
  mf_raw :: "string option"

record child_ref =
  ch_kind :: string
  ch_name :: string

record run =
  run_type :: run_kind
  run_gvk :: gvk
  run_namespace :: string
  run_name :: string
  run_uid :: string
  run_resource_version :: string
  run_labels :: annotations
  run_annotations :: annotations
  run_owners :: "owner_ref list"
  run_finalizers :: "string list"
  run_managed :: "managed_field list"
  run_deletion :: "gotime option"
  run_managedBy :: "string option"
  run_condition :: "condition option"
  run_start :: "gotime option"
  run_completion :: "gotime option"
  run_children :: "child_ref list"
  run_pod :: string

definition IsUnknown :: "condition option \<Rightarrow> bool" where
  "IsUnknown c = (case c of None \<Rightarrow> True | Some d \<Rightarrow> c_status d = ''Unknown'')"

definition IsDone :: "run \<Rightarrow> bool" where
  "IsDone o' = (\<not> IsUnknown (run_condition o'))"

definition gvk_Empty :: "gvk \<Rightarrow> bool" where
  "gvk_Empty g = (g_group g = [] \<and> g_version g = [] \<and> g_kind g = [])"

definition apiVersion :: "gvk \<Rightarrow> string" where
  "apiVersion g = (if g_group g \<noteq> [] then g_group g @ ''/'' @ g_version g else g_version g)"

subsection \<open>Conversion\<close>

text \<open>What the code uses of the client's type scheme, of JSON and of UUIDs.\<close>

record wcodec =
  object_kinds :: "run_kind \<Rightarrow> string + gvk list"
  marshal_run :: "run \<Rightarrow> string + string"
  json_map :: "string \<Rightarrow> string + annotations"
  wc_marshal_log :: "log \<Rightarrow> string + string"
  uuid_parse :: "string \<Rightarrow> string option"
  uuid_md5 :: "string \<Rightarrow> string \<Rightarrow> string"

definition InferGVK :: "wcodec \<Rightarrow> run \<Rightarrow> gvk res" where
  "InferGVK k o' =
     (case object_kinds k (run_type o') of
        Inl e \<Rightarrow> Inl (PlainErr e)
      | Inr gvks \<Rightarrow>
          (case gvks of
             [] \<Rightarrow> Inl (PlainErr ''could not determine GroupVersionKind for object'')
           | g # _ \<Rightarrow> Inr g))"

definition TypeName :: "wcodec \<Rightarrow> run \<Rightarrow> string" where
  "TypeName k o' =
     (let named = (\<lambda>g. apiVersion g @ ''.'' @ g_kind g) in
      if gvk_Empty (run_gvk o')
      then (case InferGVK k o' of Inl _ \<Rightarrow> [] | Inr g \<Rightarrow> if gvk_Empty g then [] else named g)
      else named (run_gvk o'))"

definition ToProto :: "wcodec \<Rightarrow> run \<Rightarrow> pb_any res" where
  "ToProto k o' =
     (case marshal_run k o' of
        Inl e \<Rightarrow> Inl (PlainErr e)
      | Inr b \<Rightarrow> Inr \<lparr>any_type = TypeName k o', any_value = b\<rparr>)"

definition ToLogProto :: "wcodec \<Rightarrow> run \<Rightarrow> string \<Rightarrow> string \<Rightarrow> pb_any res" where
  "ToLogProto k o' kind name =
     (case record_ParseName name of
        Inl e \<Rightarrow> Inl e
      | Inr (_, _, uid) \<Rightarrow>
          (let l = Log_Default (zero_log\<lparr>l_namespace := run_namespace o', l_name := run_name o' @ ''-log'', l_uid := uid,
                 l_resource := \<lparr>lr_kind = kind, lr_namespace = run_namespace o', lr_name = run_name o',
                   lr_uid = run_uid o'\<rparr>\<rparr>)
           in case wc_marshal_log k l of
                Inl e \<Rightarrow> Inl (PlainErr e)
              | Inr b \<Rightarrow> Inr \<lparr>any_type = LogRecordType, any_value = b\<rparr>))"

text \<open>The status of a record summary, with its numbers in the protocol.\<close>

definition RecordSummary_UNKNOWN :: int where "RecordSummary_UNKNOWN = 0"
definition RecordSummary_SUCCESS :: int where "RecordSummary_SUCCESS = 1"
definition RecordSummary_FAILURE :: int where "RecordSummary_FAILURE = 2"
definition RecordSummary_TIMEOUT :: int where "RecordSummary_TIMEOUT = 3"
definition RecordSummary_CANCELLED :: int where "RecordSummary_CANCELLED = 4"

definition Status :: "condition option \<Rightarrow> int" where
  "Status ca =
     (case ca of
        None \<Rightarrow> RecordSummary_UNKNOWN
      | Some c \<Rightarrow>
          (let r = c_reason c in
           if r = ''Succeeded'' then RecordSummary_SUCCESS
           else if r = ''Failed'' then RecordSummary_FAILURE
           else if r = ''TaskRunTimeout'' then RecordSummary_TIMEOUT
           else if r = ''TaskRunCancelled'' then RecordSummary_CANCELLED
           else if r = ''Running'' \<or> r = ''Started'' then RecordSummary_UNKNOWN
           else if r = ''Succeeded'' \<or> r = ''Completed'' then RecordSummary_SUCCESS
           else if r = ''Failed'' then RecordSummary_FAILURE
           else if r = ''PipelineRunTimeout'' then RecordSummary_TIMEOUT
           else if r = ''Cancelled'' then RecordSummary_CANCELLED
           else if r \<in> set [''Running'', ''Started'', ''PipelineRunPending'', ''PipelineRunStopping'',
               ''CancelledRunningFinally'', ''StoppedRunningFinally''] then RecordSummary_UNKNOWN
           else if r \<in> set [''TaskRunResolutionFailed'', ''TaskRunValidationFailed'', ''TaskValidationFailed'',
               ''ResourceVerificationFailed'', ''ExceededResourceQuota'', ''ExceededNodeResources'',
               ''PullImageFailed'', ''CreateContainerConfigError'', ''PodCreationFailed'',
               ''PodAdmissionFailed''] then RecordSummary_FAILURE
           else if r = ''Pending'' then RecordSummary_UNKNOWN
           else RecordSummary_UNKNOWN))"

subsection \<open>Configuration\<close>

record AnnotationRequirement =
  ExactMatch :: bool
  ar_Value :: string

text \<open>
  The requirements are a map; the list is its entries in the order a loop visits them, which Go
  leaves open.
\<close>

record Config =
  DisableAnnotationUpdate :: bool
  CompletedResourceGracePeriod :: int
  labelSelector :: "(annotations \<Rightarrow> bool) option"
  RequeueInterval :: int
  CheckOwner :: bool
  UpdateLogTimeout :: "int option"
  DynamicReconcileTimeout :: "int option"
  StoreEvent :: bool
  StoreDeadline :: "int option"
  FinalizerRequeueInterval :: int
  ForwardBuffer :: "int option"
  LogsTimestamps :: bool
  SummaryLabels :: string
  SummaryAnnotations :: string
  DisableStoringIncompleteRuns :: bool
  AllowedManagedByValues :: "string set"
  RequiredAnnotations :: "(string \<times> AnnotationRequirement) list"

definition GetLabelSelector :: "Config \<Rightarrow> annotations \<Rightarrow> bool" where
  "GetLabelSelector c = (case labelSelector c of None \<Rightarrow> (\<lambda>_. True) | Some sel \<Rightarrow> sel)"

definition SetLabelSelector ::
    "(string \<Rightarrow> string + (annotations \<Rightarrow> bool)) \<Rightarrow> string \<Rightarrow> Config \<Rightarrow> go_error option \<times> Config" where
  "SetLabelSelector parse sel c =
     (case parse sel of Inl e \<Rightarrow> (Some (PlainErr e), c) | Inr p \<Rightarrow> (None, c\<lparr>labelSelector := Some p\<rparr>))"

definition AnnotationFlag_Set ::
    "(string \<Rightarrow> string list) \<Rightarrow> string \<Rightarrow> (string \<times> AnnotationRequirement) list \<Rightarrow>
     go_error option \<times> (string \<times> AnnotationRequirement) list" where
  "AnnotationFlag_Set IsQualifiedName val0 f =
     (let val = TrimSpace val0;
          key = takeWhile (\<lambda>c. c \<noteq> CHR ''='') val;
          found = (CHR ''='' \<in> set val)
      in if val = [] then (Some (PlainErr ''invalid annotation: cannot be empty''), f)
         else if found \<and> key = []
         then (Some (PlainErr (''invalid annotation '' @ quote_go val @ '', key cannot be empty'')), f)
         else if IsQualifiedName key \<noteq> []
         then (Some (PlainErr (''invalid annotation key '' @ quote_go key @ '': '' @ join '', '' (IsQualifiedName key))), f)
         else if \<not> found then (None, AList.update key \<lparr>ExactMatch = False, ar_Value = []\<rparr> f)
         else (None, AList.update key \<lparr>ExactMatch = True, ar_Value = drop (length key + 1) val\<rparr> f))"

fun required_missing :: "annotations \<Rightarrow> (string \<times> AnnotationRequirement) list \<Rightarrow> string option" where
  "required_missing a [] = None"
| "required_missing a ((key, req) # rs) =
     (case fmlookup a key of
        None \<Rightarrow> Some key
      | Some val \<Rightarrow> if ExactMatch req \<and> val \<noteq> ar_Value req then Some key else required_missing a rs)"

definition AreRequiredAnnotationsReady :: "Config \<Rightarrow> annotations \<Rightarrow> string \<times> bool" where
  "AreRequiredAnnotationsReady c a =
     (case required_missing a (RequiredAnnotations c) of None \<Rightarrow> ([], True) | Some key \<Rightarrow> (key, False))"

subsection \<open>Filters\<close>

definition PipelineRunFinalizer :: string where "PipelineRunFinalizer = ''results.tekton.dev/pipelinerun''"
definition TaskRunFinalizer :: string where "TaskRunFinalizer = ''results.tekton.dev/taskrun''"
definition pipeline_ManagedBy :: string where "pipeline_ManagedBy = ''tekton.dev/pipeline''"

definition IsManagedByAllowed :: "string option \<Rightarrow> string set \<Rightarrow> bool" where
  "IsManagedByAllowed managedBy allowed =
     (case managedBy of
        None \<Rightarrow> True
      | Some m \<Rightarrow>
          (let trimmed = TrimSpace m in
           if trimmed = [] \<or> trimmed = pipeline_ManagedBy then True else trimmed \<in> allowed))"

definition ParseManagedByValues :: "string \<Rightarrow> string set" where
  "ParseManagedByValues raw =
     (if raw = [] then {pipeline_ManagedBy}
      else fold (\<lambda>v s. let trimmed = TrimSpace v in if trimmed \<noteq> [] then insert trimmed s else s)
             (split_on (CHR '','') raw) {pipeline_ManagedBy})"

text \<open>
  What an informer delivers: an object of the watched kind or a nil pointer to one, something
  else, or a tombstone around one of these.
\<close>

datatype informer_obj = Obj run | NilPtr run_kind | Foreign | Tombstone informer_obj

fun unwrapTombstone :: "informer_obj \<Rightarrow> informer_obj" where
  "unwrapTombstone (Tombstone i) = i"
| "unwrapTombstone i = i"

definition PipelineRunFilterFunc :: "string set \<Rightarrow> informer_obj \<Rightarrow> bool" where
  "PipelineRunFilterFunc allowed i =
     (case unwrapTombstone i of
        Obj pr \<Rightarrow>
          if run_type pr \<noteq> PipelineRun then False
          else if run_deletion pr \<noteq> None \<and> PipelineRunFinalizer \<in> set (run_finalizers pr) then True
          else IsManagedByAllowed (run_managedBy pr) allowed
      | _ \<Rightarrow> False)"

definition TaskRunFilterFunc :: "string set \<Rightarrow> informer_obj \<Rightarrow> bool" where
  "TaskRunFilterFunc allowed i =
     (case unwrapTombstone i of
        Obj tr \<Rightarrow>
          if run_type tr \<noteq> TaskRun then False
          else if run_deletion tr \<noteq> None \<and> TaskRunFinalizer \<in> set (run_finalizers tr) then True
          else IsManagedByAllowed (run_managedBy tr) allowed
      | _ \<Rightarrow> False)"

subsection \<open>What the filters and requirements mean\<close>

lemma required_missing_None:
  "required_missing a rs = None \<longleftrightarrow>
     (\<forall>(key, req)\<in>set rs. \<exists>val. fmlookup a key = Some val \<and> (ExactMatch req \<longrightarrow> val = ar_Value req))"
  by (induction rs) (auto split: option.splits if_splits)

lemma required_ready_iff:
  "snd (AreRequiredAnnotationsReady c a) \<longleftrightarrow>
     (\<forall>(key, req)\<in>set (RequiredAnnotations c). \<exists>val. fmlookup a key = Some val \<and> (ExactMatch req \<longrightarrow> val = ar_Value req))"
  by (simp add: AreRequiredAnnotationsReady_def required_missing_None [symmetric] split: option.split)

lemma ParseManagedByValues_set:
  "ParseManagedByValues raw =
     insert pipeline_ManagedBy ({TrimSpace v | v. v \<in> set (split_on (CHR '','') raw)} - {[]})"
proof -
  have "fold (\<lambda>v s. let trimmed = TrimSpace v in if trimmed \<noteq> [] then insert trimmed s else s) vs s
      = s \<union> ({TrimSpace v | v. v \<in> set vs} - {[]})" for vs s
    by (induction vs arbitrary: s) (auto simp: Let_def)
  then show ?thesis by (cases "raw = []") (auto simp: ParseManagedByValues_def)
qed

text \<open>A configured value is accepted however it is spaced, in the list and on the run.\<close>

lemma configured_value_allowed:
  assumes "v \<in> set (split_on (CHR '','') raw)" and "TrimSpace m = TrimSpace v"
  shows "IsManagedByAllowed (Some m) (ParseManagedByValues raw)"
  using assms by (auto simp: IsManagedByAllowed_def ParseManagedByValues_set Let_def)

end
