(* ===== verification/ResultsClient.thy ===== *)
theory ResultsClient
  imports Runs ServerSteps BufferedWriter
begin

text \<open>
  The watcher's client of the Results API (\<^verbatim>\<open>pkg/watcher/results/\<close>): which result and record a run
  belongs to, and the upserts of result, record, log record and event list. Its calls run against the
  handlers of the API server. A call carries a number, and the record \<open>outside\<close> says for each number what
  other clients did to the database before it, in which environment the server ran it, and
  whether the request or its answer was lost.
\<close>

subsection \<open>Remote calls\<close>

datatype net = Delivered | Lost go_error | AnswerLost go_error

datatype kube_error = KConflict string | KNotFound string | KOther string

record k8s_event =
  ev_name :: string
  ev_namespace :: string
  ev_created :: gotime
  ev_meta :: string
  ev_body :: string

text \<open>What the log reader of the Tekton command line gives: the captured standard output, or where it
  failed.\<close>

datatype tkn = NoReader string | ReadFailed string | WriteFailed string | Captured string

text \<open>Everything outside the watcher that its behaviour depends on.\<close>

record outside =
  x_env :: "nat \<Rightarrow> env"
  x_others :: "nat \<Rightarrow> db \<Rightarrow> db"
  x_net :: "nat \<Rightarrow> net"
  x_codec :: wcodec
  x_now :: "nat \<Rightarrow> gotime"
  x_kube :: "nat \<Rightarrow> kube_error option"
  x_lister :: "run_kind \<Rightarrow> string \<Rightarrow> string \<Rightarrow> kube_error + annotations"
  x_events :: "nat \<Rightarrow> string \<Rightarrow> kube_error + k8s_event list"
  x_marshal_events :: "k8s_event list \<Rightarrow> string + string"
  x_open :: "nat \<Rightarrow> go_error option"
  x_tkn :: "string \<Rightarrow> run \<Rightarrow> tkn"
  x_send :: send_err
  x_close :: "go_error option"

text \<open>The requests the watcher sends to the cluster, and the hooks it calls.\<close>

datatype effect =
    PatchReq string annotations bool "kube_error option"
  | MergePatchReq string "string list" string "kube_error option"
  | DeleteReq string string "kube_error option"
  | AfterDeletion
  | AfterStorage
  | NotStored string string
  | SendLogSpawned
  | LogStreamed "message list"

record world =
  w_calls :: nat
  w_db :: db
  w_trace :: "effect list"

text \<open>An error crosses the wire as a status.\<close>

fun wire_err :: "go_error \<Rightarrow> go_error" where
  "wire_err (StatusErr c m) = StatusErr c m"
| "wire_err err = StatusErr Unknown (error_msg err)"

definition rpc :: "outside \<Rightarrow> (env \<Rightarrow> db \<Rightarrow> 'a res \<times> db) \<Rightarrow> world \<Rightarrow> 'a res \<times> world" where
  "rpc x f w =
     (let n = w_calls w; s = x_others x n (w_db w);
          (r, s') = f (x_env x n) s;
          answer = (case r of Inl err \<Rightarrow> Inl (wire_err err) | Inr a \<Rightarrow> Inr a)
      in case x_net x n of
           Lost err \<Rightarrow> (Inl err, w\<lparr>w_calls := n + 1, w_db := s\<rparr>)
         | AnswerLost err \<Rightarrow> (Inl err, w\<lparr>w_calls := n + 1, w_db := s'\<rparr>)
         | Delivered \<Rightarrow> (answer, w\<lparr>w_calls := n + 1, w_db := s'\<rparr>))"

definition rpc_GetResult :: "outside \<Rightarrow> string \<Rightarrow> world \<Rightarrow> pb_result res \<times> world" where
  "rpc_GetResult x nm = rpc x (\<lambda>e s. (GetResult e nm s, s))"

definition rpc_GetRecord :: "outside \<Rightarrow> string \<Rightarrow> world \<Rightarrow> pb_record res \<times> world" where
  "rpc_GetRecord x nm = rpc x (\<lambda>e s. (GetRecord e nm s, s))"

definition rpc_CreateResult :: "outside \<Rightarrow> create_result_req \<Rightarrow> world \<Rightarrow> pb_result res \<times> world" where
  "rpc_CreateResult x req = rpc x (\<lambda>e. CreateResult e req)"

definition rpc_UpdateResult :: "outside \<Rightarrow> update_result_req \<Rightarrow> world \<Rightarrow> pb_result res \<times> world" where
  "rpc_UpdateResult x req = rpc x (\<lambda>e. UpdateResult e req)"

definition rpc_CreateRecord :: "outside \<Rightarrow> create_record_req \<Rightarrow> world \<Rightarrow> pb_record res \<times> world" where
  "rpc_CreateRecord x req = rpc x (\<lambda>e. CreateRecord e req)"

definition rpc_UpdateRecord :: "outside \<Rightarrow> update_record_req \<Rightarrow> world \<Rightarrow> pb_record res \<times> world" where
  "rpc_UpdateRecord x req = rpc x (\<lambda>e. UpdateRecord e req)"

lemmas rpc_defs = rpc_GetResult_def rpc_GetRecord_def rpc_CreateResult_def rpc_UpdateResult_def
  rpc_CreateRecord_def rpc_UpdateRecord_def

subsection \<open>Names\<close>

definition an_Result :: string where "an_Result = ''results.tekton.dev/result''"
definition an_Record :: string where "an_Record = ''results.tekton.dev/record''"
definition an_Log :: string where "an_Log = ''results.tekton.dev/log''"
definition an_EventList :: string where "an_EventList = ''results.tekton.dev/eventlist''"
definition an_Stored :: string where "an_Stored = ''results.tekton.dev/stored''"
definition an_ResultAnnotations :: string where "an_ResultAnnotations = ''results.tekton.dev/resultAnnotations''"
definition an_RecordSummaryAnnotations :: string where
  "an_RecordSummaryAnnotations = ''results.tekton.dev/recordSummaryAnnotations''"
definition an_ChildReadyForDeletion :: string where
  "an_ChildReadyForDeletion = ''results.tekton.dev/childReadyForDeletion''"
definition objectName :: string where "objectName = ''object.metadata.name''"

definition defaultName :: "run \<Rightarrow> string" where
  "defaultName ob = run_uid ob"

definition isTopLevelRecord :: "run \<Rightarrow> bool" where
  "isTopLevelRecord ob = (run_owners ob = [])"

definition resultName :: "run \<Rightarrow> string" where
  "resultName ob =
     (case fmlookup (run_annotations ob) an_Result of
        Some v \<Rightarrow> v
      | None \<Rightarrow>
          (let part =
             (case fmlookup (run_labels ob) ''triggers.tekton.dev/triggers-eventid'' of
                Some v \<Rightarrow> v
              | None \<Rightarrow>
                  (case find (\<lambda>r. ToLower (or_kind r) = ''pipelinerun'') (run_owners ob) of
                     Some owner \<Rightarrow> or_uid owner
                   | None \<Rightarrow> []))
           in result_FormatName (run_namespace ob) (if part = [] then defaultName ob else part)))"

definition recordName :: "string \<Rightarrow> run \<Rightarrow> string" where
  "recordName parent ob =
     (case (if isTopLevelRecord ob then fmlookup (run_annotations ob) an_Record else None) of
        Some name \<Rightarrow> name
      | None \<Rightarrow> record_FormatName parent (defaultName ob))"

definition parentName :: "run \<Rightarrow> string" where
  "parentName ob =
     (case fmlookup (run_annotations ob) an_Result of
        Some v \<Rightarrow> hd (split_on (CHR ''/'') v)
      | None \<Rightarrow> run_namespace ob)"

subsection \<open>Upserting the result\<close>

definition getStartTime :: "run \<Rightarrow> timestamp option" where
  "getStartTime ob = newTS (run_start ob)"

definition getEndTime :: "run \<Rightarrow> timestamp option" where
  "getEndTime ob = newTS (run_completion ob)"

definition parseAnnotations :: "wcodec \<Rightarrow> string \<Rightarrow> string \<Rightarrow> annotations res" where
  "parseAnnotations k key v =
     (case json_map k v of
        Inl e \<Rightarrow> Inl (PlainErr (''error parsing annotation '' @ key @ '': '' @ e))
      | Inr a \<Rightarrow> Inr a)"

definition copyKeys :: "annotations \<Rightarrow> annotations \<Rightarrow> annotations" where
  "copyKeys src dst = fmadd dst src"

text \<open>
  The annotations that go into the result or its summary, and whether they are the very map
  of the message that was read: then what the code writes to the one shows in the other.
\<close>

definition merged_annotations :: "wcodec \<Rightarrow> run \<Rightarrow> string \<Rightarrow> annotations \<Rightarrow> (annotations option \<times> bool) res" where
  "merged_annotations k ob key existing =
     (case fmlookup (run_annotations ob) key of
        None \<Rightarrow> Inr (None, False)
      | Some v \<Rightarrow>
          (case parseAnnotations k key v of
             Inl e \<Rightarrow> Inl e
           | Inr a \<Rightarrow> if existing \<noteq> fmempty then Inr (Some (copyKeys a existing), True)
                     else Inr (Some a, False)))"

definition summary_keys :: "string \<Rightarrow> string list" where
  "summary_keys s = (let ks = split_on (CHR '','') s in if hd ks \<noteq> [] then ks else [])"

definition add_labels :: "string list \<Rightarrow> annotations \<Rightarrow> annotations \<Rightarrow> annotations" where
  "add_labels ks labels a =
     fold (\<lambda>v a. case fmlookup labels v of None \<Rightarrow> a | Some y \<Rightarrow> fmupd v y a) ks a"

text \<open>
  The message for the result and what building it did to the message that was read.
\<close>

definition build_result ::
    "wcodec \<Rightarrow> Config \<Rightarrow> run \<Rightarrow> pb_result option \<Rightarrow> (pb_result \<times> pb_result option) res" where
  "build_result k cfg ob cur =
     (let resName = resultName ob; top = isTopLevelRecord ob;
          curAnn = (case cur of None \<Rightarrow> fmempty | Some c \<Rightarrow> pr_annotations c);
          curSum = (case cur of None \<Rightarrow> fmempty
                     | Some c \<Rightarrow> (case pr_summary c of None \<Rightarrow> fmempty | Some sm \<Rightarrow> s_annotations sm))
      in case merged_annotations k ob an_ResultAnnotations curAnn of
           Inl e \<Rightarrow> Inl e
         | Inr (ra, shared) \<Rightarrow>
         (let anns0 = (case ra of None \<Rightarrow> fmempty | Some a \<Rightarrow> a) in
          if \<not> top
          then Inr ((blank_result resName)\<lparr>pr_annotations := anns0\<rparr>,
                 map_option (\<lambda>c. if shared then c\<lparr>pr_annotations := anns0\<rparr> else c) cur)
          else
          (case merged_annotations k ob an_RecordSummaryAnnotations curSum of
             Inl e \<Rightarrow> Inl e
           | Inr (sa, sharedSum) \<Rightarrow>
          (let sanns = (case sa of None \<Rightarrow> fmempty | Some a \<Rightarrow> a);
               anns = fmupd objectName (run_name ob)
                 (add_labels (summary_keys (SummaryAnnotations cfg)) (run_labels ob)
                   (add_labels (summary_keys (SummaryLabels cfg)) (run_labels ob) anns0));
               summary = \<lparr>s_record = recordName resName ob, s_type = TypeName k ob, s_start = getStartTime ob,
                 s_end = getEndTime ob, s_status = Status (run_condition ob), s_annotations = sanns\<rparr>
           in Inr ((blank_result resName)\<lparr>pr_annotations := anns, pr_summary := Some summary\<rparr>,
                map_option (\<lambda>c.
                  (if shared then c\<lparr>pr_annotations := anns\<rparr> else c)
                  \<lparr>pr_summary := (if sharedSum then map_option (\<lambda>sm. sm\<lparr>s_annotations := sanns\<rparr>) (pr_summary c)
                                 else pr_summary c)\<rparr>) cur)))))"

definition ensureResult :: "outside \<Rightarrow> Config \<Rightarrow> run \<Rightarrow> world \<Rightarrow> pb_result res \<times> world" where
  "ensureResult x cfg ob w =
     (let resName = resultName ob in
      case rpc_GetResult x resName w of
        (Inl err, w1) \<Rightarrow>
          if status_code err \<noteq> NotFound
          then (Inl (StatusErr (status_code err) (''GetResult('' @ resName @ ''): '' @ error_msg err)), w1)
          else
          (case build_result (x_codec x) cfg ob None of
             Inl e \<Rightarrow> (Inl e, w1)
           | Inr (res, _) \<Rightarrow>
          (case rpc_CreateResult x \<lparr>cr_parent = parentName ob, cr_result = Some res\<rparr> w1 of
             (Inr created, w2) \<Rightarrow> (Inr created, w2)
           | (Inl err2, w2) \<Rightarrow>
               if status_code err2 = AlreadyExists then rpc_GetResult x resName w2 else (Inl err2, w2)))
      | (Inr cur, w1) \<Rightarrow>
          (case build_result (x_codec x) cfg ob (Some cur) of
             Inl e \<Rightarrow> (Inl e, w1)
           | Inr (res, cur') \<Rightarrow>
               if \<not> isTopLevelRecord ob then (Inr (the cur'), w1)
               else if pr_summary (the cur') = pr_summary res then (Inr (the cur'), w1)
               else rpc_UpdateResult x \<lparr>ur_name = resName, ur_result = Some res, ur_etag = []\<rparr> w1))"

subsection \<open>Upserting the record\<close>

definition upsertRecord :: "outside \<Rightarrow> string \<Rightarrow> run \<Rightarrow> world \<Rightarrow> pb_record res \<times> world" where
  "upsertRecord x parent ob w =
     (let recName = recordName parent ob in
      case ToProto (x_codec x) ob of
        Inl e \<Rightarrow> (Inl e, w)
      | Inr data \<Rightarrow>
     (case rpc_GetRecord x recName w of
        (Inl err, w1) \<Rightarrow>
          if status_code err \<noteq> NotFound then (Inl err, w1)
          else rpc_CreateRecord x \<lparr>cd_parent = parent,
                 cd_record = Some ((blank_record recName)\<lparr>pd_data := Some data\<rparr>)\<rparr> w1
      | (Inr cur, w1) \<Rightarrow>
          if Some data = pd_data cur then (Inr cur, w1)
          else rpc_UpdateRecord x \<lparr>ud_record = Some (cur\<lparr>pd_data := Some data\<rparr>), ud_etag = pd_etag cur\<rparr> w1))"

definition Put :: "outside \<Rightarrow> Config \<Rightarrow> run \<Rightarrow> world \<Rightarrow> (pb_result \<times> pb_record) res \<times> world" where
  "Put x cfg ob w =
     (case ensureResult x cfg ob w of
        (Inl e, w1) \<Rightarrow> (Inl e, w1)
      | (Inr res, w1) \<Rightarrow>
     (case upsertRecord x (pr_name res) ob w1 of
        (Inl e, w2) \<Rightarrow> (Inl e, w2)
      | (Inr d, w2) \<Rightarrow> (Inr (res, d), w2)))"

subsection \<open>Log records and event lists\<close>

definition getLogRecordName :: "wcodec \<Rightarrow> pb_result \<Rightarrow> run \<Rightarrow> string" where
  "getLogRecordName k res ob =
     (let fresh = (case uuid_parse k (pr_uid res) of
                     None \<Rightarrow> []
                   | Some u \<Rightarrow> record_FormatName (pr_name res) (uuid_md5 k u (run_uid ob)))
      in case fmlookup (run_annotations ob) an_Log of
           None \<Rightarrow> fresh
         | Some name \<Rightarrow>
             (case log_ParseName name of
                Inl _ \<Rightarrow> fresh
              | Inr (_, _, nm) \<Rightarrow> record_FormatName (pr_name res) nm))"

definition createLogRecord :: "outside \<Rightarrow> pb_result \<Rightarrow> run \<Rightarrow> world \<Rightarrow> pb_record res \<times> world" where
  "createLogRecord x res ob w =
     (let name = getLogRecordName (x_codec x) res ob in
      case rpc_GetRecord x name w of
        (Inr d, w1) \<Rightarrow> (Inr d, w1)
      | (Inl err, w1) \<Rightarrow>
          if status_code err \<noteq> NotFound then (Inl err, w1)
          else (case ToLogProto (x_codec x) ob (g_kind (run_gvk ob)) name of
                  Inl e \<Rightarrow> (Inl e, w1)
                | Inr data \<Rightarrow> rpc_CreateRecord x \<lparr>cd_parent = pr_name res,
                    cd_record = Some ((blank_record name)\<lparr>pd_data := Some data\<rparr>)\<rparr> w1))"

definition PutLog :: "outside \<Rightarrow> Config \<Rightarrow> run \<Rightarrow> world \<Rightarrow> pb_record res \<times> world" where
  "PutLog x cfg ob w =
     (case ensureResult x cfg ob w of
        (Inl e, w1) \<Rightarrow> (Inl e, w1)
      | (Inr res, w1) \<Rightarrow> createLogRecord x res ob w1)"

text \<open>A record that is looked up and need not exist.\<close>

definition optional_record :: "pb_record res \<times> world \<Rightarrow> pb_record option res \<times> world" where
  "optional_record r =
     (case r of
        (Inr d, w) \<Rightarrow> (Inr (Some d), w)
      | (Inl err, w) \<Rightarrow> if status_code err = NotFound then (Inr None, w) else (Inl err, w))"

definition GetLogRecord :: "outside \<Rightarrow> Config \<Rightarrow> run \<Rightarrow> world \<Rightarrow> pb_record option res \<times> world" where
  "GetLogRecord x cfg ob w =
     (case ensureResult x cfg ob w of
        (Inl e, w1) \<Rightarrow> (Inl e, w1)
      | (Inr res, w1) \<Rightarrow> optional_record (rpc_GetRecord x (getLogRecordName (x_codec x) res ob) w1))"

definition FormatEventListName :: "wcodec \<Rightarrow> string \<Rightarrow> string \<Rightarrow> run \<Rightarrow> string" where
  "FormatEventListName k resName resultUID ob =
     record_FormatName resName (uuid_md5 k resultUID (run_uid ob @ ''eventlist''))"

definition getEventListRecordName :: "wcodec \<Rightarrow> pb_result \<Rightarrow> run \<Rightarrow> string" where
  "getEventListRecordName k res ob =
     (case fmlookup (run_annotations ob) an_EventList of
        Some name \<Rightarrow> name
      | None \<Rightarrow>
          (case uuid_parse k (pr_uid res) of
             None \<Rightarrow> []
           | Some u \<Rightarrow> FormatEventListName k (pr_name res) u ob))"

definition createEventListRecord :: "outside \<Rightarrow> pb_result \<Rightarrow> run \<Rightarrow> string \<Rightarrow> world \<Rightarrow> pb_record res \<times> world" where
  "createEventListRecord x res ob eventList w =
     (let name = getEventListRecordName (x_codec x) res ob in
      case rpc_GetRecord x name w of
        (Inr d, w1) \<Rightarrow> (Inr d, w1)
      | (Inl err, w1) \<Rightarrow>
          if status_code err \<noteq> NotFound then (Inl err, w1)
          else rpc_CreateRecord x \<lparr>cd_parent = pr_name res,
                 cd_record = Some ((blank_record name)
                   \<lparr>pd_data := Some \<lparr>any_type = EventListRecordType, any_value = eventList\<rparr>\<rparr>)\<rparr> w1)"

definition PutEventList :: "outside \<Rightarrow> Config \<Rightarrow> run \<Rightarrow> string \<Rightarrow> world \<Rightarrow> pb_record res \<times> world" where
  "PutEventList x cfg ob eventList w =
     (case ensureResult x cfg ob w of
        (Inl e, w1) \<Rightarrow> (Inl e, w1)
      | (Inr res, w1) \<Rightarrow> createEventListRecord x res ob eventList w1)"

definition GetEventListRecord :: "outside \<Rightarrow> Config \<Rightarrow> run \<Rightarrow> world \<Rightarrow> pb_record option res \<times> world" where
  "GetEventListRecord x cfg ob w =
     (case ensureResult x cfg ob w of
        (Inl e, w1) \<Rightarrow> (Inl e, w1)
      | (Inr res, w1) \<Rightarrow> optional_record (rpc_GetRecord x (getEventListRecordName (x_codec x) res ob) w1))"

end
