(* ===== verification/Reconciler.thy ===== *)
theory Reconciler
  imports ResultsClient
begin

text \<open>
  The dynamic reconciler (\<^verbatim>\<open>pkg/watcher/reconciler/dynamic/dynamic.go\<close>) with the annotation patches
  (\<^verbatim>\<open>annotation.go\<close>) and the \<^verbatim>\<open>ReconcileKind\<close> of the three kinds. A function returns its error or
  requeue request, the object in memory and the world. The call of \<^verbatim>\<open>sendLog\<close> on its own
  goroutine is the effect \<open>SendLogSpawned\<close>: what it does later is \<open>sendLog\<close> run on its own.
\<close>

subsection \<open>Events and cluster calls\<close>

datatype rec_event = Fail go_error | RequeueAfter int

fun kube_msg :: "kube_error \<Rightarrow> string" where
  "kube_msg (KConflict m) = m"
| "kube_msg (KNotFound m) = m"
| "kube_msg (KOther m) = m"

definition emit :: "effect \<Rightarrow> world \<Rightarrow> world" where
  "emit eff w = w\<lparr>w_trace := w_trace w @ [eff]\<rparr>"

definition kube_call :: "outside \<Rightarrow> (kube_error option \<Rightarrow> effect) \<Rightarrow> world \<Rightarrow> kube_error option \<times> world" where
  "kube_call x eff w =
     (let n = w_calls w; a = x_kube x n in (a, emit (eff a) (w\<lparr>w_calls := n + 1\<rparr>)))"

subsection \<open>Annotation patches\<close>

definition annotationPrefix :: string where "annotationPrefix = ''results.tekton.dev/''"

definition IsPatched :: "run \<Rightarrow> (string \<times> string) list \<Rightarrow> bool" where
  "IsPatched ob anns =
     list_all (\<lambda>(n, v). (case fmlookup (run_annotations ob) n of None \<Rightarrow> [] | Some y \<Rightarrow> y) = v) anns"

text \<open>The annotations a server-side apply sends: the managed ones of the object, then the new ones.\<close>

definition patch_annotations :: "run \<Rightarrow> (string \<times> string) list \<Rightarrow> annotations" where
  "patch_annotations ob anns =
     fold (\<lambda>(n, v) a. if v \<noteq> [] then fmupd n v a else a) anns
       (fmfilter (\<lambda>key. HasPrefix key annotationPrefix) (run_annotations ob))"

definition set_annotations :: "(string \<times> string) list \<Rightarrow> run \<Rightarrow> run" where
  "set_annotations anns ob = ob\<lparr>run_annotations := fold (\<lambda>(n, v) a. fmupd n v a) anns (run_annotations ob)\<rparr>"

definition Patch :: "outside \<Rightarrow> (string \<times> string) list \<Rightarrow> run \<Rightarrow> world \<Rightarrow> go_error option \<times> run \<times> world" where
  "Patch x anns ob w =
     (let g = run_gvk ob in
      if gvk_Empty g \<or> g_kind g = [] \<or> apiVersion g = []
      then (Some (PlainErr (''could not determine apiVersion and kind from object '' @ run_namespace ob @ ''/'' @ run_name ob)), ob, w)
      else if IsPatched ob anns then (None, ob, w)
      else
      (let data = patch_annotations ob anns;
           (e1, w1) = kube_call x (PatchReq (run_name ob) data False) w;
           (e2, w2) = (case e1 of
                         Some (KConflict _) \<Rightarrow> kube_call x (PatchReq (run_name ob) data True) w1
                       | _ \<Rightarrow> (e1, w1))
       in case e2 of
            None \<Rightarrow> (None, set_annotations anns ob, w2)
          | Some e \<Rightarrow> (Some (PlainErr (kube_msg e)), ob, w2)))"

subsection \<open>The dynamic reconciler\<close>

record dyn =
  dy_cfg :: Config
  dy_logs :: bool
  dy_ready :: "run \<Rightarrow> bool res"

definition NewDynamicReconciler :: "bool \<Rightarrow> Config \<Rightarrow> dyn" where
  "NewDynamicReconciler lc cfg = \<lparr>dy_cfg = cfg, dy_logs = lc, dy_ready = (\<lambda>_. Inr True)\<rparr>"

definition addResultsAnnotations ::
    "outside \<Rightarrow> dyn \<Rightarrow> (string \<times> string) list \<Rightarrow> run \<Rightarrow> world \<Rightarrow> rec_event option \<times> run \<times> world" where
  "addResultsAnnotations x r anns ob w =
     (if DisableAnnotationUpdate (dy_cfg r) then (None, ob, w)
      else (case Patch x anns ob w of
              (None, ob', w') \<Rightarrow> (None, ob', w')
            | (Some e, ob', w') \<Rightarrow> (Some (Fail (PlainErr (''error patching object: '' @ error_msg e))), ob', w')))"

text \<open>\<^verbatim>\<open>time.Time.Sub\<close> saturates.\<close>

definition sat64 :: "int \<Rightarrow> int" where
  "sat64 d = max (- (2 ^ 63)) (min (2 ^ 63 - 1) d)"

definition getCompletionTime :: "run \<Rightarrow> gotime option" where
  "getCompletionTime ob = run_completion ob"

definition owned_by_pipelinerun :: "run \<Rightarrow> bool" where
  "owned_by_pipelinerun ob = list_ex (\<lambda>r. or_kind r = ''PipelineRun'') (run_owners ob)"

definition deleteUponCompletion :: "outside \<Rightarrow> dyn \<Rightarrow> run \<Rightarrow> world \<Rightarrow> rec_event option \<times> world" where
  "deleteUponCompletion x r ob w =
     (let cfg = dy_cfg r; gracePeriod = CompletedResourceGracePeriod cfg in
      if gracePeriod = 0 then (None, w)
      else if \<not> IsDone ob then (None, w)
      else if owned_by_pipelinerun ob then (None, w)
      else if run_owners ob \<noteq> [] \<and> CheckOwner cfg then (None, w)
      else
      (case getCompletionTime ob of
         None \<Rightarrow> (Some (RequeueAfter gracePeriod), w)
       | Some t \<Rightarrow>
      (let since = sat64 (x_now x (w_calls w) - t) in
       if since < gracePeriod then (Some (RequeueAfter (int64 (gracePeriod - since))), w)
       else if \<not> GetLabelSelector cfg (run_labels ob) then (Some (RequeueAfter (RequeueInterval cfg)), w)
       else
       (case dy_ready r ob of
          Inl e \<Rightarrow> (Some (Fail e), w)
        | Inr False \<Rightarrow> (Some (RequeueAfter (RequeueInterval cfg)), w)
        | Inr True \<Rightarrow>
       (case kube_call x (DeleteReq (run_name ob) (run_uid ob)) w of
          (Some (KConflict m), w1) \<Rightarrow> (Some (Fail (PlainErr (''error deleting object: '' @ m))), w1)
        | (Some (KOther m), w1) \<Rightarrow> (Some (Fail (PlainErr (''error deleting object: '' @ m))), w1)
        | (_, w1) \<Rightarrow> (None, emit AfterDeletion w1))))))"

text \<open>The logs of a finished run.\<close>

definition streamLogs :: "outside \<Rightarrow> string \<Rightarrow> string \<Rightarrow> run \<Rightarrow> world \<Rightarrow> go_error option \<times> world" where
  "streamLogs x logType logName ob w =
     (let w0 = w\<lparr>w_calls := w_calls w + 1\<rparr> in
      case x_open x (w_calls w) of
        Some e \<Rightarrow> (Some (PlainErr (''failed to create UpdateLog client: '' @ error_msg e)), w0)
      | None \<Rightarrow>
     (case x_tkn x logType ob of
        NoReader e \<Rightarrow> (Some (PlainErr (''failed to create tkn reader: '' @ e)), w0)
      | ReadFailed e \<Rightarrow> (Some (PlainErr (''error reading from tkn reader: '' @ e)), w0)
      | WriteFailed e \<Rightarrow> (Some (PlainErr (''error occurred while calling tkn client write: '' @ e)), w0)
      | Captured bufStdout \<Rightarrow>
     (let wr = snd (Write (x_send x) (NewBufferedWriter logName writer_DefaultBufferSize) bufStdout);
          (flushed, wr') = Flush (x_send x) wr;
          w1 = emit (LogStreamed (bl_sent wr')) w0
      in case flushed of
           Inl e \<Rightarrow> (Some e, w1)
         | Inr _ \<Rightarrow>
             (case x_close x of
                Some e \<Rightarrow> if Contains (error_msg e) ''EOF'' then (None, w1) else (Some e, w1)
              | None \<Rightarrow> (None, w1)))))"

definition log_name_of :: "pb_record \<Rightarrow> string res" where
  "log_name_of d =
     (case record_ParseName (pd_name d) of
        Inl e \<Rightarrow> Inl e
      | Inr (parent, resName, recName) \<Rightarrow> Inr (log_FormatName (result_FormatName parent resName) recName))"

definition sendLog :: "outside \<Rightarrow> dyn \<Rightarrow> run \<Rightarrow> world \<Rightarrow> rec_event option \<times> run \<times> world" where
  "sendLog x r ob w =
     (let kind = g_kind (run_gvk ob) in
      if gvk_Empty (run_gvk ob) \<or> (kind \<noteq> ''TaskRun'' \<and> kind \<noteq> ''PipelineRun'') \<or> IsUnknown (run_condition ob)
      then (None, ob, w)
      else
      (case GetLogRecord x (dy_cfg r) ob w of
         (Inl e, w1) \<Rightarrow> (Some (Fail e), ob, w1)
       | (Inr (Some d), w1) \<Rightarrow>
           (case log_name_of d of
              Inl e \<Rightarrow> (Some (Fail e), ob, w1)
            | Inr logName \<Rightarrow> addResultsAnnotations x r [(an_Log, logName)] ob w1)
       | (Inr None, w1) \<Rightarrow>
      (case PutLog x (dy_cfg r) ob w1 of
         (Inl e, w2) \<Rightarrow> (Some (Fail e), ob, w2)
       | (Inr d, w2) \<Rightarrow>
      (case log_name_of d of
         Inl e \<Rightarrow> (Some (Fail e), ob, w2)
       | Inr logName \<Rightarrow>
      (case addResultsAnnotations x r [(an_Log, logName)] ob w2 of
         (Some e, ob', w3) \<Rightarrow> (Some e, ob', w3)
       | (None, ob', w3) \<Rightarrow>
           (None, ob', snd (streamLogs x (if kind = ''TaskRun'' then ''task'' else ''pipeline'') logName ob' w3)))))))"

subsection \<open>Event lists\<close>

definition filterEventList :: "k8s_event list \<Rightarrow> k8s_event list" where
  "filterEventList evs = map (\<lambda>ev. ev\<lparr>ev_meta := []\<rparr>) evs"

definition storeEvents :: "outside \<Rightarrow> dyn \<Rightarrow> run \<Rightarrow> world \<Rightarrow> rec_event option \<times> run \<times> world" where
  "storeEvents x r ob w =
     (let kind = g_kind (run_gvk ob) in
      if gvk_Empty (run_gvk ob) \<or> (kind \<noteq> ''TaskRun'' \<and> kind \<noteq> ''PipelineRun'' \<and> kind \<noteq> ''CustomRun'')
         \<or> IsUnknown (run_condition ob)
      then (None, ob, w)
      else
      (case GetEventListRecord x (dy_cfg r) ob w of
         (Inl e, w1) \<Rightarrow> (Some (Fail e), ob, w1)
       | (Inr (Some d), w1) \<Rightarrow> addResultsAnnotations x r [(an_EventList, pd_name d)] ob w1
       | (Inr None, w1) \<Rightarrow>
      (case x_events x (w_calls w1) (''involvedObject.uid='' @ run_uid ob) of
         Inl e \<Rightarrow> (Some (Fail (PlainErr (kube_msg e))), ob, w1\<lparr>w_calls := w_calls w1 + 1\<rparr>)
       | Inr evs \<Rightarrow>
      (let w2 = w1\<lparr>w_calls := w_calls w1 + 1\<rparr>;
           podEvents = (if run_type ob = TaskRun
             then (case x_events x (w_calls w2) (''involvedObject.name='' @ run_pod ob) of Inl _ \<Rightarrow> [] | Inr pe \<Rightarrow> pe)
             else []);
           w3 = (if run_type ob = TaskRun then w2\<lparr>w_calls := w_calls w2 + 1\<rparr> else w2)
       in case x_marshal_events x (filterEventList (evs @ podEvents)) of
            Inl e \<Rightarrow> (Some (Fail (PlainErr e)), ob, w3)
          | Inr eventList \<Rightarrow>
      (case PutEventList x (dy_cfg r) ob eventList w3 of
         (Inl e, w4) \<Rightarrow> (Some (Fail e), ob, w4)
       | (Inr d, w4) \<Rightarrow> addResultsAnnotations x r [(an_EventList, pd_name d)] ob w4)))))"

subsection \<open>Annotations that coordinate deletion\<close>

fun kind_name :: "run_kind \<Rightarrow> string" where
  "kind_name PipelineRun = ''PipelineRun''"
| "kind_name TaskRun = ''TaskRun''"
| "kind_name CustomRun = ''CustomRun''"

definition addStoredAnnotations :: "outside \<Rightarrow> dyn \<Rightarrow> run \<Rightarrow> world \<Rightarrow> rec_event option \<times> run \<times> world" where
  "addStoredAnnotations x r ob w =
     (let kind = g_kind (run_gvk ob) in
      if dy_logs r then (None, ob, w)
      else if DisableAnnotationUpdate (dy_cfg r) then (None, ob, w)
      else if gvk_Empty (run_gvk ob) then (None, ob, w)
      else if kind \<noteq> ''TaskRun'' \<and> kind \<noteq> ''PipelineRun'' \<and> kind \<noteq> ''CustomRun'' then (None, ob, w)
      else if kind_name (run_type ob) \<noteq> kind
      then (Some (Fail (PlainErr (''failed to cast object to '' @ kind))), ob, w)
      else
      (let stored = (if IsDone ob then ''true'' else ''false'') in
       case Patch x [(an_Stored, stored)] ob w of
         (Some e, ob', w') \<Rightarrow>
           (Some (Fail (PlainErr (''error patching object with stored annotation: '' @ error_msg e @ '' ObjectName: '' @ run_name ob))), ob', w')
       | (None, ob', w') \<Rightarrow> (None, ob', if stored = ''true'' then emit AfterStorage w' else w')))"

definition addChildReadyForDeletionAnnotations ::
    "outside \<Rightarrow> dyn \<Rightarrow> run \<Rightarrow> world \<Rightarrow> rec_event option \<times> run \<times> world" where
  "addChildReadyForDeletionAnnotations x r ob w =
     (if DisableAnnotationUpdate (dy_cfg r) then (None, ob, w)
      else if run_owners ob = [] then (None, ob, w)
      else if \<not> IsDone ob then (None, ob, w)
      else (case Patch x [(an_ChildReadyForDeletion, ''true'')] ob w of
              (Some e, ob', w') \<Rightarrow>
                (Some (Fail (PlainErr (''error patching object with ChildReadyForDeletion annotation: '' @ error_msg e
                   @ '' ObjectName: '' @ run_name ob))), ob', w')
            | (None, ob', w') \<Rightarrow> (None, ob', w')))"

subsection \<open>Reconcile\<close>

text \<open>A step that may fail, followed by the rest.\<close>

definition and_then ::
    "rec_event option \<times> run \<times> world \<Rightarrow> (run \<Rightarrow> world \<Rightarrow> rec_event option \<times> run \<times> world) \<Rightarrow>
     rec_event option \<times> run \<times> world" where
  "and_then r f = (case r of (Some e, ob, w) \<Rightarrow> (Some e, ob, w) | (None, ob, w) \<Rightarrow> f ob w)"

definition with_gvk :: "wcodec \<Rightarrow> run \<Rightarrow> run res" where
  "with_gvk k ob =
     (if gvk_Empty (run_gvk ob)
      then (case InferGVK k ob of Inl e \<Rightarrow> Inl e | Inr g \<Rightarrow> Inr (ob\<lparr>run_gvk := g\<rparr>))
      else Inr ob)"

definition update_logs :: "outside \<Rightarrow> dyn \<Rightarrow> run \<Rightarrow> world \<Rightarrow> run \<times> world" where
  "update_logs x r ob w =
     (if \<not> dy_logs r then (ob, w)
      else if UpdateLogTimeout (dy_cfg r) = None then snd (sendLog x r ob w)
      else (ob, emit SendLogSpawned w))"

text \<open>What follows a successful upsert.\<close>

definition after_put :: "outside \<Rightarrow> dyn \<Rightarrow> pb_result \<Rightarrow> pb_record \<Rightarrow> run \<Rightarrow> world \<Rightarrow> rec_event option \<times> run \<times> world" where
  "after_put x r res d ob w =
     (let (ob1, w1) = update_logs x r ob w in
      and_then (if StoreEvent (dy_cfg r) then storeEvents x r ob1 w1 else (None, ob1, w1)) (\<lambda>ob2 w2.
      and_then (addResultsAnnotations x r [(an_Record, pd_name d), (an_Result, pr_name res)] ob2 w2) (\<lambda>ob3 w3.
      and_then (addChildReadyForDeletionAnnotations x r ob3 w3) (\<lambda>ob4 w4.
      and_then (case deleteUponCompletion x r ob4 w4 of (e, w5) \<Rightarrow> (e, ob4, w5)) (\<lambda>ob5 w5.
      addStoredAnnotations x r ob5 w5)))))"

definition Reconcile :: "outside \<Rightarrow> dyn \<Rightarrow> run \<Rightarrow> world \<Rightarrow> rec_event option \<times> run \<times> world" where
  "Reconcile x r ob w =
     (case with_gvk (x_codec x) ob of
        Inl e \<Rightarrow> (Some (Fail e), ob, w)
      | Inr ob0 \<Rightarrow>
     (case Put x (dy_cfg r) ob0 w of
        (Inl e, w1) \<Rightarrow> (Some (Fail (PlainErr (''error upserting record: '' @ error_msg e))), ob0, w1)
      | (Inr (res, d), w1) \<Rightarrow> after_put x r res d ob0 w1))"

subsection \<open>The three kinds\<close>

definition skip_incomplete :: "Config \<Rightarrow> run \<Rightarrow> bool" where
  "skip_incomplete cfg ob =
     (DisableStoringIncompleteRuns cfg \<and>
      (\<not> IsDone ob \<or> fmlookup (run_annotations ob) an_Stored = Some ''true''))"

definition isMarkedAsReadyForDeletion :: "annotations \<Rightarrow> bool" where
  "isMarkedAsReadyForDeletion a = (fmlookup a an_ChildReadyForDeletion \<noteq> None)"

fun children_ready :: "outside \<Rightarrow> string \<Rightarrow> child_ref list \<Rightarrow> bool res" where
  "children_ready x ns [] = Inr True"
| "children_ready x ns (ref # refs) =
     (let check = (\<lambda>kind.
        case x_lister x kind ns (ch_name ref) of
          Inl (KNotFound _) \<Rightarrow> children_ready x ns refs
        | Inl e \<Rightarrow> Inl (PlainErr (''error reading '' @ kind_name kind @ '' from the indexer: '' @ kube_msg e))
        | Inr a \<Rightarrow> if isMarkedAsReadyForDeletion a then children_ready x ns refs else Inr False)
      in if ch_kind ref = ''TaskRun'' \<or> ch_kind ref = [] then check TaskRun
         else if ch_kind ref = ''CustomRun'' then check CustomRun
         else children_ready x ns refs)"

definition areAllChildRunsReadyForDeletion :: "outside \<Rightarrow> run \<Rightarrow> bool res" where
  "areAllChildRunsReadyForDeletion x ob = children_ready x (run_namespace ob) (run_children ob)"

definition pipelinerun_dyn :: "outside \<Rightarrow> bool \<Rightarrow> Config \<Rightarrow> dyn" where
  "pipelinerun_dyn x lc cfg = (NewDynamicReconciler lc cfg)\<lparr>dy_ready := areAllChildRunsReadyForDeletion x\<rparr>"

definition PipelineRun_ReconcileKind :: "outside \<Rightarrow> bool \<Rightarrow> Config \<Rightarrow> run \<Rightarrow> world \<Rightarrow> rec_event option \<times> run \<times> world" where
  "PipelineRun_ReconcileKind x lc cfg pr w =
     (if \<not> IsManagedByAllowed (run_managedBy pr) (AllowedManagedByValues cfg) then (None, pr, w)
      else if skip_incomplete cfg pr then (None, pr, w)
      else Reconcile x (pipelinerun_dyn x lc cfg) pr w)"

definition TaskRun_ReconcileKind :: "outside \<Rightarrow> bool \<Rightarrow> Config \<Rightarrow> run \<Rightarrow> world \<Rightarrow> rec_event option \<times> run \<times> world" where
  "TaskRun_ReconcileKind x lc cfg tr w =
     (if \<not> IsManagedByAllowed (run_managedBy tr) (AllowedManagedByValues cfg) then (None, tr, w)
      else if skip_incomplete cfg tr then (None, tr, w)
      else Reconcile x (NewDynamicReconciler lc cfg) tr w)"

definition CustomRun_ReconcileKind :: "outside \<Rightarrow> Config \<Rightarrow> run \<Rightarrow> world \<Rightarrow> rec_event option \<times> run \<times> world" where
  "CustomRun_ReconcileKind x cfg cr w =
     (if skip_incomplete cfg cr then (None, cr, w)
      else Reconcile x (NewDynamicReconciler False cfg) cr w)"

end
