(* ===== verification/Finalizers.thy ===== *)
theory Finalizers
  imports Reconciler
begin

text \<open>
  The finalizers of the three kinds (\<^verbatim>\<open>FinalizeKind\<close> and \<^verbatim>\<open>finalize\<close> of the packages
  \<^verbatim>\<open>pipelinerun\<close>, \<^verbatim>\<open>taskrun\<close> and \<^verbatim>\<open>customrun\<close>). Answering no event releases the run: the generated
  reconciler then removes the watcher's finalizer and the cluster may delete the object. The
  migration of finalizers that an old version set by merge patch is the function \<open>migrate\<close>,
  which the code runs in a deferred call.
\<close>

subsection \<open>The migration\<close>

fun finalizer_name :: "run_kind \<Rightarrow> string" where
  "finalizer_name PipelineRun = ''results.tekton.dev/pipelinerun''"
| "finalizer_name TaskRun = ''results.tekton.dev/taskrun''"
| "finalizer_name CustomRun = ''results.tekton.dev/customrun''"

abbreviation backslash :: char where "backslash \<equiv> CHR 0x5C"

definition isFinalizerOwnedByMergePatch :: "run_kind \<Rightarrow> run \<Rightarrow> bool" where
  "isFinalizerOwnedByMergePatch kind ob =
     list_ex (\<lambda>mf. mf_operation mf = ''Update'' \<and>
        (case mf_raw mf of
           None \<Rightarrow> False
         | Some raw \<Rightarrow> Contains raw (dquote # ''f:finalizers'' @ [dquote]) \<and>
             Contains raw (''v:'' @ [backslash, dquote] @ finalizer_name kind @ [backslash, dquote])))
       (run_managed ob)"

definition removeFinalizerViaMergePatch :: "outside \<Rightarrow> run_kind \<Rightarrow> run \<Rightarrow> world \<Rightarrow> kube_error option \<times> world" where
  "removeFinalizerViaMergePatch x kind ob w =
     kube_call x (MergePatchReq (run_name ob) (filter (\<lambda>f. f \<noteq> finalizer_name kind) (run_finalizers ob))
       (run_resource_version ob)) w"

definition requeue :: "Config \<Rightarrow> rec_event option" where
  "requeue cfg = Some (RequeueAfter (FinalizerRequeueInterval cfg))"

definition migrate :: "outside \<Rightarrow> Config \<Rightarrow> run_kind \<Rightarrow> run \<Rightarrow> rec_event option \<times> world \<Rightarrow> rec_event option \<times> world" where
  "migrate x cfg kind ob res =
     (case res of
        (Some e, w) \<Rightarrow> (Some e, w)
      | (None, w) \<Rightarrow>
          if \<not> isFinalizerOwnedByMergePatch kind ob then (None, w)
          else (case removeFinalizerViaMergePatch x kind ob w of
                  (None, w') \<Rightarrow> (None, w')
                | (Some _, w') \<Rightarrow> (requeue cfg, w')))"

subsection \<open>Waiting for storage\<close>

text \<open>The store deadline: \<open>Some\<close> means that the run is released now.\<close>

definition deadline_release :: "outside \<Rightarrow> Config \<Rightarrow> run_kind \<Rightarrow> run \<Rightarrow> world \<Rightarrow> world option" where
  "deadline_release x cfg kind ob w =
     (case StoreDeadline cfg of
        None \<Rightarrow> None
      | Some d \<Rightarrow>
          (case run_completion ob of
             None \<Rightarrow> Some w
           | Some t \<Rightarrow>
               if x_now x (w_calls w) > t + d
               then Some (if fmlookup (run_annotations ob) an_Stored = None
                          then emit (NotStored (run_namespace ob) (kind_name kind)) w else w)
               else None))"

definition stored_event :: "Config \<Rightarrow> rec_event option \<Rightarrow> run \<Rightarrow> rec_event option" where
  "stored_event cfg rerr ob =
     (case fmlookup (run_annotations ob) an_Stored of
        None \<Rightarrow> requeue cfg
      | Some stored \<Rightarrow>
          if rerr \<noteq> None then requeue cfg
          else if stored \<noteq> ''true'' then requeue cfg
          else None)"

definition required_event :: "Config \<Rightarrow> run \<Rightarrow> rec_event option" where
  "required_event cfg ob = (if snd (AreRequiredAnnotationsReady cfg (run_annotations ob)) then None else requeue cfg)"

definition PipelineRun_finalize ::
    "outside \<Rightarrow> bool \<Rightarrow> Config \<Rightarrow> rec_event option \<Rightarrow> run \<Rightarrow> world \<Rightarrow> rec_event option \<times> world" where
  "PipelineRun_finalize x lc cfg rerr pr w =
     migrate x cfg PipelineRun pr
       (if lc then (None, w)
        else if DisableAnnotationUpdate cfg then (None, w)
        else if \<not> IsDone pr then (None, w)
        else (case deadline_release x cfg PipelineRun pr w of
                Some w' \<Rightarrow> (None, w')
              | None \<Rightarrow>
                  (case stored_event cfg rerr pr of
                     Some e \<Rightarrow> (Some e, w)
                   | None \<Rightarrow> (required_event cfg pr, w))))"

definition TaskRun_finalize ::
    "outside \<Rightarrow> bool \<Rightarrow> Config \<Rightarrow> rec_event option \<Rightarrow> run \<Rightarrow> world \<Rightarrow> rec_event option \<times> world" where
  "TaskRun_finalize x lc cfg rerr tr w =
     migrate x cfg TaskRun tr
       (if lc then (None, w)
        else if DisableAnnotationUpdate cfg then (None, w)
        else if \<not> IsDone tr then (None, w)
        else if ForwardBuffer cfg \<noteq> None \<and> run_completion tr = None then (None, w)
        else if (case (ForwardBuffer cfg, run_completion tr) of
                   (Some b, Some t) \<Rightarrow> \<not> x_now x (w_calls w) > t + b
                 | _ \<Rightarrow> False) then (requeue cfg, w)
        else (case deadline_release x cfg TaskRun tr w of
                Some w' \<Rightarrow> (None, w')
              | None \<Rightarrow>
                  (case stored_event cfg rerr tr of
                     Some e \<Rightarrow> (Some e, w)
                   | None \<Rightarrow> (required_event cfg tr, w))))"

definition CustomRun_finalize ::
    "outside \<Rightarrow> Config \<Rightarrow> rec_event option \<Rightarrow> run \<Rightarrow> world \<Rightarrow> rec_event option \<times> world" where
  "CustomRun_finalize x cfg rerr cr w =
     migrate x cfg CustomRun cr
       (if DisableAnnotationUpdate cfg then (None, w)
        else if \<not> IsDone cr then (None, w)
        else (case deadline_release x cfg CustomRun cr w of
                Some w' \<Rightarrow> (None, w')
              | None \<Rightarrow> (stored_event cfg rerr cr, w)))"

subsection \<open>Finalizing\<close>

text \<open>A run that is no longer the watcher's to process is released at once.\<close>

definition release_unmanaged :: "outside \<Rightarrow> Config \<Rightarrow> run_kind \<Rightarrow> run \<Rightarrow> world \<Rightarrow> rec_event option \<times> run \<times> world" where
  "release_unmanaged x cfg kind ob w = (case migrate x cfg kind ob (None, w) of (e, w') \<Rightarrow> (e, ob, w'))"

definition PipelineRun_FinalizeKind :: "outside \<Rightarrow> bool \<Rightarrow> Config \<Rightarrow> run \<Rightarrow> world \<Rightarrow> rec_event option \<times> run \<times> world" where
  "PipelineRun_FinalizeKind x lc cfg pr w =
     (if \<not> IsManagedByAllowed (run_managedBy pr) (AllowedManagedByValues cfg)
      then release_unmanaged x cfg PipelineRun pr w
      else (case PipelineRun_ReconcileKind x lc cfg pr w of
              (rerr, pr', w') \<Rightarrow>
                (case PipelineRun_finalize x lc cfg rerr pr' w' of (e, w'') \<Rightarrow> (e, pr', w''))))"

definition TaskRun_FinalizeKind :: "outside \<Rightarrow> bool \<Rightarrow> Config \<Rightarrow> run \<Rightarrow> world \<Rightarrow> rec_event option \<times> run \<times> world" where
  "TaskRun_FinalizeKind x lc cfg tr w =
     (if \<not> IsManagedByAllowed (run_managedBy tr) (AllowedManagedByValues cfg)
      then release_unmanaged x cfg TaskRun tr w
      else (case TaskRun_ReconcileKind x lc cfg tr w of
              (rerr, tr', w') \<Rightarrow>
                (case TaskRun_finalize x lc cfg rerr tr' w' of (e, w'') \<Rightarrow> (e, tr', w''))))"

definition CustomRun_FinalizeKind :: "outside \<Rightarrow> Config \<Rightarrow> run \<Rightarrow> world \<Rightarrow> rec_event option \<times> run \<times> world" where
  "CustomRun_FinalizeKind x cfg cr w =
     (case CustomRun_ReconcileKind x cfg cr w of
        (rerr, cr', w') \<Rightarrow>
          (case CustomRun_finalize x cfg rerr cr' w' of (e, w'') \<Rightarrow> (e, cr', w'')))"

end
