(* ===== verification/ClientProps.thy ===== *)
theory ClientProps
  imports ResultsClient
begin

text \<open>
  Properties of the watcher's client: its calls never take a record away, an upsert leaves the
  run's data in the database, and doing it again changes nothing.
\<close>

subsection \<open>Calls that keep what is stored\<close>

text \<open>
  Other clients may do what they like as long as the database stays well-formed and no
  record disappears or changes.
\<close>

definition calm :: "outside \<Rightarrow> bool" where
  "calm x = ((\<forall>n s. srv_inv s \<longrightarrow> srv_inv (x_others x n s) \<and> set (records_tbl s) \<subseteq> set (records_tbl (x_others x n s)))
     \<and> (\<forall>n. time_in_range (e_now (x_env x n))))"

definition grows :: "world \<Rightarrow> world \<Rightarrow> bool" where
  "grows w w' = (srv_inv (w_db w) \<longrightarrow>
     srv_inv (w_db w') \<and> set (records_tbl (w_db w)) \<subseteq> set (records_tbl (w_db w')))"

lemma grows_refl [simp]: "grows w w"
  by (simp add: grows_def)

lemma grows_trans [trans]: "grows w w' \<Longrightarrow> grows w' w'' \<Longrightarrow> grows w w''"
  by (auto simp: grows_def)

lemma growsD: "grows w w' \<Longrightarrow> srv_inv (w_db w) \<Longrightarrow> srv_inv (w_db w')"
  by (simp add: grows_def)

lemma rpc_trace: "rpc x f w = (r, w') \<Longrightarrow> w_trace w' = w_trace w"
  by (auto simp: rpc_def Let_def split: net.splits prod.splits)

lemma rpc_Inr:
  assumes "rpc x f w = (Inr a, w')"
  shows "f (x_env x (w_calls w)) (x_others x (w_calls w) (w_db w)) = (Inr a, w_db w')"
  using assms by (auto simp: rpc_def Let_def split: net.splits prod.splits sum.splits)

text \<open>The contract of a handler that takes no record away.\<close>

locale growing_handler =
  fixes run :: "env \<Rightarrow> db \<Rightarrow> 'a res \<times> db"
  assumes run_inv: "srv_inv s \<Longrightarrow> time_in_range (e_now e) \<Longrightarrow> run e s = (r, s') \<Longrightarrow> srv_inv s'"
    and run_keeps: "srv_inv s \<Longrightarrow> run e s = (r, s') \<Longrightarrow> set (records_tbl s) \<subseteq> set (records_tbl s')"
begin

lemma call_grows:
  assumes "calm x" and "rpc x run w = (r, w')"
  shows "grows w w'"
proof -
  let ?n = "w_calls w"
  let ?s = "x_others x ?n (w_db w)"
  obtain r0 s0 where r0: "run (x_env x ?n) ?s = (r0, s0)" by fastforce
  have "w_db w' = ?s \<or> w_db w' = s0"
    using assms(2) r0 by (auto simp: rpc_def Let_def split: net.splits)
  moreover have "srv_inv ?s \<and> set (records_tbl (w_db w)) \<subseteq> set (records_tbl ?s)" if "srv_inv (w_db w)"
    using assms(1) that by (simp add: calm_def)
  moreover have "srv_inv s0 \<and> set (records_tbl ?s) \<subseteq> set (records_tbl s0)" if "srv_inv ?s"
    using run_inv [OF that _ r0] run_keeps [OF that r0] assms(1) by (simp add: calm_def)
  ultimately show ?thesis by (auto simp: grows_def)
qed

end

lemma CreateResult_records: "CreateResult e req s = (r, s') \<Longrightarrow> records_tbl s' = records_tbl s"
  using create_result.fail_keeps [of e req s _ s'] create_result_tables
  by (cases r) (auto elim!: CreateResult_Inr)

lemma UpdateResult_records:
  assumes "UpdateResult e req s = (r, s')"
  shows "records_tbl s' = records_tbl s"
  using assms save_result_tables by (auto simp: UpdateResult_def exec_def split: handler_splits)

lemma CreateRecord_records: "CreateRecord e req s = (r, s') \<Longrightarrow> set (records_tbl s) \<subseteq> set (records_tbl s')"
  using create_record.fail_keeps [of e req s _ s'] create_record_tables
  by (cases r) (auto elim!: CreateRecord_Inr)

interpretation get_result_call: growing_handler "\<lambda>e s. (GetResult e nm s, s)" for nm
  by unfold_locales auto

interpretation get_record_call: growing_handler "\<lambda>e s. (GetRecord e nm s, s)" for nm
  by unfold_locales auto

interpretation create_result_call: growing_handler "\<lambda>e. CreateResult e req" for req
  using create_result.inv CreateResult_records by unfold_locales auto

interpretation update_result_call: growing_handler "\<lambda>e. UpdateResult e req" for req
  using update_result.inv UpdateResult_records by unfold_locales auto

interpretation create_record_call: growing_handler "\<lambda>e. CreateRecord e req" for req
  using create_record.inv CreateRecord_records by unfold_locales auto

lemma rpc_grows:
  assumes "calm x"
  shows "rpc_GetResult x nm w = (r, w') \<Longrightarrow> grows w w'"
    and "rpc_GetRecord x nm w = (p, w') \<Longrightarrow> grows w w'"
    and "rpc_CreateResult x creq w = (r, w') \<Longrightarrow> grows w w'"
    and "rpc_UpdateResult x ureq w = (r, w') \<Longrightarrow> grows w w'"
    and "rpc_CreateRecord x dreq w = (p, w') \<Longrightarrow> grows w w'"
  using get_result_call.call_grows [OF assms] get_record_call.call_grows [OF assms]
    create_result_call.call_grows [OF assms] update_result_call.call_grows [OF assms]
    create_record_call.call_grows [OF assms]
  by (simp_all add: rpc_defs)

lemma rpc_traces:
  "rpc_GetResult x nm w = (r, w') \<Longrightarrow> w_trace w' = w_trace w"
  "rpc_GetRecord x nm w = (p, w') \<Longrightarrow> w_trace w' = w_trace w"
  "rpc_CreateResult x creq w = (r, w') \<Longrightarrow> w_trace w' = w_trace w"
  "rpc_UpdateResult x ureq w = (r, w') \<Longrightarrow> w_trace w' = w_trace w"
  "rpc_CreateRecord x dreq w = (p, w') \<Longrightarrow> w_trace w' = w_trace w"
  "rpc_UpdateRecord x dureq w = (p, w') \<Longrightarrow> w_trace w' = w_trace w"
  by (simp_all add: rpc_defs rpc_trace)

text \<open>Every operation of the client but the upsert of the record only adds.\<close>

lemma ensureResult_grows:
  assumes "calm x" and "ensureResult x cfg ob w = (r, w')"
  shows "grows w w' \<and> w_trace w' = w_trace w"
  using assms(2) rpc_grows [OF assms(1)] rpc_traces
  by (auto simp: ensureResult_def Let_def split: handler_splits
      dest!: rpc_grows [OF assms(1)] intro: grows_trans)

lemma client_grows:
  assumes "calm x"
  shows "PutLog x cfg ob w = (r, w') \<Longrightarrow> grows w w' \<and> w_trace w' = w_trace w"
    and "GetLogRecord x cfg ob w = (d, w') \<Longrightarrow> grows w w' \<and> w_trace w' = w_trace w"
    and "PutEventList x cfg ob evs w = (r, w') \<Longrightarrow> grows w w' \<and> w_trace w' = w_trace w"
    and "GetEventListRecord x cfg ob w = (d, w') \<Longrightarrow> grows w w' \<and> w_trace w' = w_trace w"
proof -
  note e = ensureResult_grows [OF assms] and g = rpc_grows [OF assms]
  have l: "createLogRecord x res ob w1 = (r, w') \<Longrightarrow> grows w1 w' \<and> w_trace w' = w_trace w1" for res w1 r w'
    using g rpc_traces
    by (auto simp: createLogRecord_def Let_def split: handler_splits dest!: g intro: grows_trans)
  have v: "createEventListRecord x res ob evs w1 = (r, w') \<Longrightarrow> grows w1 w' \<and> w_trace w' = w_trace w1" for res w1 r w'
    using g rpc_traces
    by (auto simp: createEventListRecord_def Let_def split: handler_splits dest!: g intro: grows_trans)
  have o': "optional_record rw = (d, w') \<Longrightarrow> snd rw = w'" for rw d w'
    by (auto simp: optional_record_def split: handler_splits)
  show "PutLog x cfg ob w = (r, w') \<Longrightarrow> grows w w' \<and> w_trace w' = w_trace w"
    by (auto simp: PutLog_def split: handler_splits dest!: e l intro: grows_trans)
  show "PutEventList x cfg ob evs w = (r, w') \<Longrightarrow> grows w w' \<and> w_trace w' = w_trace w"
    by (auto simp: PutEventList_def split: handler_splits dest!: e v intro: grows_trans)
  show "GetLogRecord x cfg ob w = (d, w') \<Longrightarrow> grows w w' \<and> w_trace w' = w_trace w"
    using rpc_traces(2) g(2)
    by (auto simp: GetLogRecord_def split: handler_splits dest!: e o' intro: grows_trans) (metis prod.collapse grows_trans)+
  show "GetEventListRecord x cfg ob w = (d, w') \<Longrightarrow> grows w w' \<and> w_trace w' = w_trace w"
    using rpc_traces(2) g(2)
    by (auto simp: GetEventListRecord_def split: handler_splits dest!: e o' intro: grows_trans) (metis prod.collapse grows_trans)+
qed

subsection \<open>What an upsert leaves in the database\<close>

definition holds :: "string \<Rightarrow> pb_any \<Rightarrow> db \<Rightarrow> bool" where
  "holds nm a s = (\<exists>d\<in>set (records_tbl s).
     pd_name (record_ToAPI d) = nm \<and> d_type d = any_type a \<and> d_data d = any_value a)"

lemma holds_grows: "grows w w' \<Longrightarrow> srv_inv (w_db w) \<Longrightarrow> holds nm a (w_db w) \<Longrightarrow> holds nm a (w_db w')"
  by (auto simp: grows_def holds_def)

text \<open>The data of a run: neither its type nor its JSON is empty, and it is no log.\<close>

definition run_data :: "pb_any \<Rightarrow> bool" where
  "run_data a = (any_type a \<notin> {[], LogRecordType, LogRecordTypeV2} \<and> any_value a \<noteq> [])"

lemma record_ToStorage_data:
  assumes "record_ToStorage c cfg parent res rid name p = Inr d" and "pd_data p = Some a" and "run_data a"
  shows "d_type d = any_type a \<and> d_data d = any_value a"
  using assms by (auto simp: record_ToStorage_def Let_def GetType_def GetValue_def run_data_def split: option.splits)

lemma GetRecord_Inr:
  assumes "GetRecord e nm s = Inr p"
  obtains d parent res name where "d \<in> set (records_tbl s)" and "p = record_ToAPI d"
    and "pd_name (record_ToAPI d) = nm" and "record_ParseName nm = Inr (parent, res, name)"
    and "d_parent d = parent" and "d_result_name d = res" and "d_name d = name"
proof -
  obtain parent res name where n: "record_ParseName nm = Inr (parent, res, name)"
    using assms by (auto simp: GetRecord_def split: handler_splits)
  have seg: "nm = record_FormatName (result_FormatName parent res) name" "seg_ok parent" "seg_ok res" "seg_ok name"
    using record_ParseName_Inr [OF n] by auto
  obtain d where "getRecord e parent res name s = Inr d" "p = record_ToAPI d"
    using assms n by (auto simp: GetRecord_def split: handler_splits)
  with getRecord_Inr [OF _ seg(2-4)] seg(1) show thesis by (intro that [OF _ _ _ n]) (auto simp: record_ToAPI_name)
qed

lemma CreateRecord_holds:
  assumes "CreateRecord e req s = (Inr p, s')" and "cd_record req = Some q" and "pd_data q = Some a" and "run_data a"
  shows "holds (pd_name q) a s'"
proof -
  obtain parent res name where n: "record_ParseName (pd_name q) = Inr (parent, res, name)"
    using assms(1,2) by (auto simp: CreateRecord_def record_GetName_def split: handler_splits)
  obtain rid d0 d where st: "record_ToStorage (e_codec e) (e_config e) parent res rid name (populate_record e q) = Inr d0"
      "record_UpdateEtag d0 = Inr d" "create_record d s = Inr s'"
    using assms(1,2) n by (auto simp: CreateRecord_def record_GetName_def exec_Inr split: handler_splits)
  have "d_type d = any_type a \<and> d_data d = any_value a"
    using record_ToStorage_data [OF st(1) _ assms(4)] assms(3) st(2) by (auto simp: record_UpdateEtag_def split: if_splits)
  moreover have "d_parent d = parent \<and> d_result_name d = res \<and> d_name d = name"
    using record_ToStorage_Inr [OF st(1)] st(2) by (auto simp: record_UpdateEtag_def split: if_splits)
  ultimately show ?thesis
    using record_ParseName_Inr [OF n] create_record_tables [OF st(3)] by (auto simp: holds_def record_ToAPI_name)
qed

lemma UpdateRecord_holds:
  assumes "UpdateRecord e req s = (Inr p, s')" and "ud_record req = Some q" and "pd_data q = Some a" and "run_data a"
  shows "holds (pd_name q) a s'"
proof -
  obtain parent res name where n: "record_ParseName (pd_name q) = Inr (parent, res, name)"
    using assms(1,2) by (auto simp: UpdateRecord_def record_GetName_def split: handler_splits)
  then have seg: "seg_ok parent" "seg_ok res" "seg_ok name" using record_ParseName_Inr [OF n] by auto
  obtain prev d0 d where g: "getRecord e parent res name s = Inr prev"
    and st: "record_ToStorage (e_codec e) (e_config e) (d_parent prev) (d_result_name prev) (d_result_id prev)
        (d_name prev) (merged_record e prev q) = Inr d0"
      "record_UpdateEtag d0 = Inr d" "save_record d s = Inr s'"
    using assms(1,2) n by (auto simp: UpdateRecord_def record_GetName_def exec_Inr Let_def split: handler_splits)
  have "pd_data (merged_record e prev q) = Some a"
    using assms(3,4)
    by (simp add: merged_record_def record_Merge_def merge_any_def merge_scalar_def record_ClearOutputOnly_def
        run_data_def Let_def)
  then have "d_type d = any_type a \<and> d_data d = any_value a"
    using record_ToStorage_data [OF st(1) _ assms(4)] st(2) by (auto simp: record_UpdateEtag_def split: if_splits)
  moreover have "d_parent d = parent \<and> d_result_name d = res \<and> d_name d = name"
    using record_ToStorage_Inr [OF st(1)] st(2) getRecord_Inr [OF g seg] by (auto simp: record_UpdateEtag_def split: if_splits)
  ultimately show ?thesis
    using record_ParseName_Inr [OF n] save_record_tables [OF st(3)] by (auto simp: holds_def record_ToAPI_name)
qed

text \<open>The data the watcher stores for a run.\<close>

definition storable :: "wcodec \<Rightarrow> run \<Rightarrow> bool" where
  "storable k ob = (\<forall>a. ToProto k ob = Inr a \<longrightarrow> run_data a)"

lemma rpc_UpdateRecord_inv:
  assumes "calm x" and "rpc_UpdateRecord x req w = (r, w')" and "srv_inv (w_db w)"
  shows "srv_inv (w_db w')"
proof -
  let ?s = "x_others x (w_calls w) (w_db w)"
  obtain r0 s0 where r0: "UpdateRecord (x_env x (w_calls w)) req ?s = (r0, s0)" by fastforce
  have "w_db w' = ?s \<or> w_db w' = s0"
    using assms(2) r0 by (auto simp: rpc_defs rpc_def Let_def split: net.splits)
  moreover have "srv_inv ?s" using assms(1,3) by (simp add: calm_def)
  ultimately show ?thesis using update_record.inv [OF _ _ r0] assms(1) by (auto simp: calm_def)
qed

lemma upsertRecord_stores:
  assumes "calm x" and "srv_inv (w_db w)" and "storable (x_codec x) ob"
    and "upsertRecord x parent ob w = (Inr d, w')"
  obtains a where "ToProto (x_codec x) ob = Inr a" and "holds (recordName parent ob) a (w_db w')"
    and "srv_inv (w_db w')" and "w_trace w' = w_trace w"
proof -
  obtain a where a: "ToProto (x_codec x) ob = Inr a"
    using assms(4) by (auto simp: upsertRecord_def Let_def split: handler_splits)
  then have run: "run_data a" using assms(3) by (simp add: storable_def)
  obtain g w1 where g: "rpc_GetRecord x (recordName parent ob) w = (g, w1)" by fastforce
  have w1: "srv_inv (w_db w1)" "w_trace w1 = w_trace w"
    using growsD [OF rpc_grows(2) [OF assms(1) g] assms(2)] rpc_traces(2) [OF g] by auto
  show thesis
  proof (cases g)
    case (Inl err)
    then have c: "rpc_CreateRecord x \<lparr>cd_parent = parent,
        cd_record = Some ((blank_record (recordName parent ob))\<lparr>pd_data := Some a\<rparr>)\<rparr> w1 = (Inr d, w')"
      using assms(4) a g by (auto simp: upsertRecord_def Let_def split: if_splits)
    have "holds (recordName parent ob) a (w_db w')"
      using CreateRecord_holds [OF rpc_Inr [OF c [unfolded rpc_defs]] _ _ run] by (simp add: blank_record_def)
    then show thesis using that [OF a] growsD [OF rpc_grows(5) [OF assms(1) c] w1(1)] rpc_traces(5) [OF c] w1(2) by simp
  next
    case (Inr cur)
    have gr: "GetRecord (x_env x (w_calls w)) (recordName parent ob) (w_db w1) = Inr cur"
      using rpc_Inr [OF g [unfolded rpc_defs Inr]] by auto
    then obtain row where row: "row \<in> set (records_tbl (w_db w1))" "cur = record_ToAPI row"
        "pd_name (record_ToAPI row) = recordName parent ob"
      by (rule GetRecord_Inr)
    show thesis
    proof (cases "Some a = pd_data cur")
      case True
      then have "holds (recordName parent ob) a (w_db w1)"
        using row by (cases a) (auto simp: holds_def record_ToAPI_def split: if_splits intro!: bexI [of _ row])
      moreover have "w' = w1" using assms(4) a g Inr True by (auto simp: upsertRecord_def)
      ultimately show thesis using that [OF a] w1 by simp
    next
      case False
      then have u: "rpc_UpdateRecord x \<lparr>ud_record = Some (cur\<lparr>pd_data := Some a\<rparr>), ud_etag = pd_etag cur\<rparr> w1 = (Inr d, w')"
        using assms(4) a g Inr by (auto simp: upsertRecord_def)
      have "holds (recordName parent ob) a (w_db w')"
        using UpdateRecord_holds [OF rpc_Inr [OF u [unfolded rpc_defs]] _ _ run] row by simp
      then show thesis using that [OF a] rpc_UpdateRecord_inv [OF assms(1) u w1(1)] rpc_traces(6) [OF u] w1(2) by simp
    qed
  qed
qed

subsection \<open>The result a run belongs to\<close>

lemma GetResult_Inr:
  assumes "GetResult e nm s = Inr p"
  obtains r parent name where "r \<in> set (results_tbl s)" and "p = result_ToAPI r" and "pr_name p = nm"
    and "result_ParseName nm = Inr (parent, name)" and "r_parent r = parent" and "r_name r = name"
proof -
  obtain parent name where n: "result_ParseName nm = Inr (parent, name)"
    using assms by (auto simp: GetResult_def split: handler_splits)
  have seg: "nm = result_FormatName parent name" "seg_ok parent" "seg_ok name" using result_ParseName_Inr [OF n] by auto
  obtain r where "getResultByParentName e parent name s = Inr r" "p = result_ToAPI r"
    using assms n by (auto simp: GetResult_def split: handler_splits)
  with getResultByParentName_Inr [OF _ seg(2,3)] seg(1) show thesis
    by (intro that [OF _ _ _ n]) (auto simp: result_ToAPI_def)
qed

lemma build_result_Inr:
  assumes "build_result k cfg ob cur = Inr (res, cur')"
  shows "pr_name res = resultName ob" and "cur = None \<longleftrightarrow> cur' = None"
    and "map_option pr_name cur' = map_option pr_name cur"
  using assms by (auto simp: build_result_def Let_def blank_result_def option.map_comp comp_def
      split: handler_splits if_split_asm intro!: option.map_cong)

lemma CreateResult_name:
  assumes "CreateResult e req s = (Inr p, s')" and "cr_result req = Some q"
  shows "pr_name p = pr_name q"
  using assms(1)
proof (rule CreateResult_Inr)
  fix q' parent name store
  assume "cr_result req = Some q'" "result_ParseName (pr_name q') = Inr (parent, name)"
    "r_parent store = parent" "r_name store = name" "p = result_ToAPI store"
  then show ?thesis using assms(2) result_ParseName_Inr [of "pr_name q'" parent name] by (simp add: result_ToAPI_def)
qed

lemma UpdateResult_name:
  assumes "UpdateResult e req s = (Inr p, s')" and "srv_inv s" and "time_in_range (e_now e)"
  shows "pr_name p = ur_name req"
  using assms(1) srv_invD(2) [OF assms(2)] assms(3)
proof (rule UpdateResult_Inr)
  fix parent name store
  assume "result_ParseName (ur_name req) = Inr (parent, name)"
    "r_parent store = parent" "r_name store = name" "p = result_ToAPI store"
  then show ?thesis using result_ParseName_Inr [of "ur_name req" parent name] by (simp add: result_ToAPI_def)
qed

lemma rpc_GetResult_name: "rpc_GetResult x nm w = (Inr p, w') \<Longrightarrow> pr_name p = nm"
  by (auto simp: rpc_defs dest!: rpc_Inr elim!: GetResult_Inr)

lemma ensureResult_name:
  assumes "calm x" and "srv_inv (w_db w)" and "ensureResult x cfg ob w = (Inr res, w')"
  shows "pr_name res = resultName ob"
proof -
  obtain g w1 where g: "rpc_GetResult x (resultName ob) w = (g, w1)" by fastforce
  have w1: "srv_inv (w_db w1)" using growsD [OF rpc_grows(1) [OF assms(1) g] assms(2)] .
  show ?thesis
  proof (cases g)
    case (Inl err)
    then obtain q z where q: "build_result (x_codec x) cfg ob None = Inr (q, z)"
      using assms(3) g by (auto simp: ensureResult_def Let_def split: handler_splits)
    obtain c w2 where c: "rpc_CreateResult x \<lparr>cr_parent = parentName ob, cr_result = Some q\<rparr> w1 = (c, w2)" by fastforce
    show ?thesis
    proof (cases c)
      case (Inl err2)
      then have "rpc_GetResult x (resultName ob) w2 = (Inr res, w')"
        using assms(3) g \<open>g = Inl err\<close> q c by (auto simp: ensureResult_def Let_def split: if_splits)
      then show ?thesis by (rule rpc_GetResult_name)
    next
      case (Inr p)
      then have "p = res" using assms(3) g \<open>g = Inl err\<close> q c by (auto simp: ensureResult_def Let_def split: if_splits)
      then show ?thesis
        using CreateResult_name [OF rpc_Inr [OF c [unfolded rpc_defs Inr]]] build_result_Inr(1) [OF q] by simp
    qed
  next
    case (Inr cur)
    then obtain q cur' where q: "build_result (x_codec x) cfg ob (Some cur) = Inr (q, cur')"
      using assms(3) g by (auto simp: ensureResult_def Let_def split: handler_splits)
    have "pr_name cur = resultName ob" using rpc_GetResult_name g Inr by blast
    then have same: "pr_name (the cur') = resultName ob" using build_result_Inr(3) [OF q] by auto
    consider "res = the cur'"
      | "rpc_UpdateResult x \<lparr>ur_name = resultName ob, ur_result = Some q, ur_etag = []\<rparr> w1 = (Inr res, w')"
      using assms(3) g Inr q by (auto simp: ensureResult_def Let_def split: if_splits)
    then show ?thesis
    proof cases
      case 2
      have "srv_inv (x_others x (w_calls w1) (w_db w1))" "time_in_range (e_now (x_env x (w_calls w1)))"
        using assms(1) w1 by (auto simp: calm_def)
      then show ?thesis using UpdateResult_name [OF rpc_Inr [OF 2 [unfolded rpc_defs]]] by simp
    qed (use same in simp)
  qed
qed

lemma Put_stores:
  assumes "calm x" and "srv_inv (w_db w)" and "storable (x_codec x) ob" and "Put x cfg ob w = (Inr (res, d), w')"
  obtains a where "ToProto (x_codec x) ob = Inr a" and "holds (recordName (resultName ob) ob) a (w_db w')"
    and "srv_inv (w_db w')" and "w_trace w' = w_trace w" and "pr_name res = resultName ob"
proof -
  obtain w1 where e: "ensureResult x cfg ob w = (Inr res, w1)" and u: "upsertRecord x (pr_name res) ob w1 = (Inr d, w')"
    using assms(4) by (auto simp: Put_def split: handler_splits)
  have w1: "srv_inv (w_db w1)" "w_trace w1 = w_trace w"
    using ensureResult_grows [OF assms(1) e] growsD assms(2) by auto
  have n: "pr_name res = resultName ob" by (rule ensureResult_name [OF assms(1,2) e])
  from upsertRecord_stores [OF assms(1) w1(1) assms(3) u] n w1(2) show thesis
    by (metis that)
qed

subsection \<open>Upserting twice\<close>

text \<open>No other client, no lost message, and a server that grants everything and does not fail.\<close>

definition quiet :: "outside \<Rightarrow> bool" where
  "quiet x = ((\<forall>n s. x_others x n s = s) \<and> (\<forall>n. x_net x n = Delivered)
     \<and> (\<forall>n parent resource verb. e_check (x_env x n) parent resource verb = None)
     \<and> (\<forall>n op. e_fault (x_env x n) op = None) \<and> (\<forall>n. time_in_range (e_now (x_env x n))))"

lemma quiet_calm: "quiet x \<Longrightarrow> calm x"
  by (simp add: quiet_def calm_def)

lemma quiet_rpc:
  assumes "quiet x" and "f (x_env x (w_calls w)) (w_db w) = (r, s')"
  shows "rpc x f w = ((case r of Inl err \<Rightarrow> Inl (wire_err err) | Inr a \<Rightarrow> Inr a), w\<lparr>w_calls := w_calls w + 1, w_db := s'\<rparr>)"
  using assms by (simp add: quiet_def rpc_def)

lemma quiet_GetResult:
  assumes "quiet x" and "srv_inv (w_db w)" and "r \<in> set (results_tbl (w_db w))"
    and "result_FormatName (r_parent r) (r_name r) = nm"
  shows "rpc_GetResult x nm w = (Inr (result_ToAPI r), w\<lparr>w_calls := w_calls w + 1\<rparr>)"
proof -
  have seg: "seg_ok (r_parent r)" "seg_ok (r_name r)"
    using srv_invD(2) [OF assms(2)] assms(3) by (auto simp: result_row_ok_def)
  then have "result_ParseName nm = Inr (r_parent r, r_name r)"
    using assms(4) result_ParseName_FormatName by blast
  moreover have "first_result (result_cond (r_parent r) (r_name r)) (w_db w) = Inr r"
    using first_result_unique [OF srv_invD(1) [OF assms(2)] _ _ assms(3)] seg seg_ok_nonempty by blast
  ultimately have "GetResult (x_env x (w_calls w)) nm (w_db w) = Inr (result_ToAPI r)"
    using assms(1) by (simp add: GetResult_def getResultByParentName_def exec_def quiet_def)
  then show ?thesis
    using quiet_rpc [OF assms(1), of "\<lambda>e s. (GetResult e nm s, s)" w "Inr (result_ToAPI r)" "w_db w"]
    by (simp add: rpc_defs)
qed

lemma quiet_GetRecord:
  assumes "quiet x" and "srv_inv (w_db w)" and "d \<in> set (records_tbl (w_db w))" and "pd_name (record_ToAPI d) = nm"
  shows "rpc_GetRecord x nm w = (Inr (record_ToAPI d), w\<lparr>w_calls := w_calls w + 1\<rparr>)"
proof -
  have seg: "seg_ok (d_parent d)" "seg_ok (d_result_name d)" "seg_ok (d_name d)"
    using srv_invD(3) [OF assms(2)] assms(3) by (auto simp: record_row_ok_def)
  then have "record_ParseName nm = Inr (d_parent d, d_result_name d, d_name d)"
    using assms(4) record_ParseName_FormatName by (auto simp: record_ToAPI_name)
  moreover have "first_record (record_cond (d_parent d) (d_result_name d) (d_name d)) (w_db w) = Inr d"
    using first_record_unique [OF srv_invD(1) [OF assms(2)] _ _ _ assms(3)] seg seg_ok_nonempty by blast
  ultimately have "GetRecord (x_env x (w_calls w)) nm (w_db w) = Inr (record_ToAPI d)"
    using assms(1) by (simp add: GetRecord_def getRecord_def exec_def quiet_def)
  then show ?thesis
    using quiet_rpc [OF assms(1), of "\<lambda>e s. (GetRecord e nm s, s)" w "Inr (record_ToAPI d)" "w_db w"]
    by (simp add: rpc_defs)
qed

lemma quiet_get_db:
  assumes "quiet x" and "rpc_GetResult x nm w = (r, w')"
  shows "w_db w' = w_db w"
  using assms(2) quiet_rpc [OF assms(1), of "\<lambda>e s. (GetResult e nm s, s)" w] by (auto simp: rpc_defs)

lemma quiet_create_fails:
  assumes "quiet x" and "rpc_CreateResult x req w = (Inl err, w')"
  shows "w_db w' = w_db w"
proof -
  obtain r s' where r: "CreateResult (x_env x (w_calls w)) req (w_db w) = (r, s')" by fastforce
  then have "w_db w' = s'" "is_ok r \<longrightarrow> is_ok (Inl err :: pb_result res)"
    using assms(2) quiet_rpc [OF assms(1), of "\<lambda>e. CreateResult e req" w, OF r] by (auto simp: rpc_defs split: sum.splits)
  then show ?thesis using create_result.fail_keeps r by (cases r) auto
qed

text \<open>Building the message for a result that already has the summary of the run finds nothing to do.\<close>

definition settled :: "wcodec \<Rightarrow> Config \<Rightarrow> run \<Rightarrow> pb_result \<Rightarrow> bool" where
  "settled k cfg ob c =
     (case build_result k cfg ob (Some c) of
        Inl _ \<Rightarrow> False
      | Inr (q, c') \<Rightarrow> isTopLevelRecord ob \<longrightarrow> pr_summary (the c') = pr_summary q)"

lemma merged_annotations_again:
  assumes "merged_annotations k ob key e = Inr (m, sh)"
  shows "\<exists>m' sh'. merged_annotations k ob key e' = Inr (m', sh')"
  using assms by (auto simp: merged_annotations_def split: handler_splits)

lemma merged_annotations_stable:
  assumes "merged_annotations k ob key e = Inr (m, sh)" and "a = (case m of None \<Rightarrow> fmempty | Some v \<Rightarrow> v)"
    and "merged_annotations k ob key a = Inr (m', sh')"
  shows "sh' \<or> (case m' of None \<Rightarrow> fmempty | Some v \<Rightarrow> v) = a"
proof (cases "a = fmempty")
  case True
  have "b = fmempty" if "fmadd e b = fmempty" for b :: annotations
  proof (rule fmap_ext)
    fix y show "fmlookup b y = fmlookup fmempty y"
      using arg_cong [OF that, of "\<lambda>f. fmlookup f y"] by (cases "fmlookup b y") (auto simp: fmdomI split: if_splits)
  qed
  then show ?thesis using assms True
    by (auto simp: merged_annotations_def copyKeys_def split: handler_splits)
qed (use assms in \<open>auto simp: merged_annotations_def split: handler_splits\<close>)

lemma build_parses:
  assumes "build_result k cfg ob cur = Inr (q, z)"
  obtains ra rsh where "merged_annotations k ob an_ResultAnnotations e = Inr (ra, rsh)"
proof -
  let ?e = "case cur of None \<Rightarrow> fmempty | Some c \<Rightarrow> pr_annotations c"
  obtain m sh where "merged_annotations k ob an_ResultAnnotations ?e = Inr (m, sh)"
    using assms by (auto simp: build_result_def Let_def split: handler_splits)
  from merged_annotations_again [OF this] that show thesis by blast
qed

lemma built_settled:
  assumes "build_result k cfg ob cur = Inr (q, z)" and "pr_summary c = pr_summary q"
  shows "settled k cfg ob c"
proof (cases "isTopLevelRecord ob")
  case False
  obtain ra rsh where "merged_annotations k ob an_ResultAnnotations (pr_annotations c) = Inr (ra, rsh)"
    by (rule build_parses [OF assms(1)])
  then show ?thesis using False by (auto simp: settled_def build_result_def Let_def)
next
  case True
  let ?e = "case cur of None \<Rightarrow> fmempty | Some c \<Rightarrow> (case pr_summary c of None \<Rightarrow> fmempty | Some sm \<Rightarrow> s_annotations sm)"
  obtain m sh where m: "merged_annotations k ob an_RecordSummaryAnnotations ?e = Inr (m, sh)"
    and qs: "pr_summary q = Some \<lparr>s_record = recordName (resultName ob) ob, s_type = TypeName k ob,
      s_start = getStartTime ob, s_end = getEndTime ob, s_status = Status (run_condition ob),
      s_annotations = (case m of None \<Rightarrow> fmempty | Some v \<Rightarrow> v)\<rparr>"
    using assms(1) True by (auto simp: build_result_def Let_def split: handler_splits)
  obtain ra rsh where ra: "merged_annotations k ob an_ResultAnnotations (pr_annotations c) = Inr (ra, rsh)"
    by (rule build_parses [OF assms(1)])
  let ?a = "case m of None \<Rightarrow> fmempty | Some v \<Rightarrow> v"
  obtain m' sh' where m': "merged_annotations k ob an_RecordSummaryAnnotations ?a = Inr (m', sh')"
    using merged_annotations_again [OF m] by blast
  have "sh' \<or> (case m' of None \<Rightarrow> fmempty | Some v \<Rightarrow> v) = ?a" by (rule merged_annotations_stable [OF m refl m'])
  then show ?thesis using True qs assms(2) ra m'
    by (auto simp: settled_def build_result_def Let_def)
qed

text \<open>A stored summary is read back as it was sent.\<close>

definition times_ok :: "run \<Rightarrow> bool" where
  "times_ok ob = (opt_in_range (run_start ob) \<and> opt_in_range (run_completion ob))"

definition valid_summary :: "pb_result \<Rightarrow> bool" where
  "valid_summary q = (case pr_summary q of None \<Rightarrow> True
     | Some sm \<Rightarrow> (s_start sm = None \<or> ts_IsValid (s_start sm)) \<and> (s_end sm = None \<or> ts_IsValid (s_end sm)))"

lemma newTS_opt_time: "a = None \<or> ts_IsValid a \<Longrightarrow> newTS (opt_time a) = a"
  by (cases a) (auto simp: newTS_def opt_time_def ts_New_AsTime simp del: ts_IsValid.simps(2))

lemma stored_summary:
  assumes "result_ToStorage q = Inr r" and "valid_summary q"
  shows "summary_ToAPI (r_summary r) = pr_summary q"
  using assms
  by (auto simp: result_ToStorage_def Let_def summary_ToAPI_def valid_summary_def newTS_opt_time empty_summary_def
      split: handler_splits)

lemma build_valid:
  assumes "build_result k cfg ob cur = Inr (q, z)" and "times_ok ob"
  shows "valid_summary q"
proof -
  have v: "newTS t = None \<or> ts_IsValid (newTS t)" if "opt_in_range t" for t
    using that by (cases t) (auto simp: newTS_def simp del: ts_IsValid.simps(2))
  have "pr_summary q = None \<or>
      (\<exists>sm. pr_summary q = Some sm \<and> s_start sm = newTS (run_start ob) \<and> s_end sm = newTS (run_completion ob))"
    using assms(1)
    by (auto simp: build_result_def Let_def blank_result_def getStartTime_def getEndTime_def split: handler_splits)
  then show ?thesis using v [of "run_start ob"] v [of "run_completion ob"] assms(2)
    by (auto simp: valid_summary_def times_ok_def simp del: ts_IsValid.simps)
qed

lemma UpdateEtag_summary: "result_UpdateEtag r = Inr r' \<Longrightarrow> r_summary r' = r_summary r"
  by (auto simp: result_UpdateEtag_def split: if_splits)

lemma CreateResult_summary:
  assumes "CreateResult e req s = (Inr p, s')" and "cr_result req = Some q" and "valid_summary q"
  shows "\<exists>r\<in>set (results_tbl s'). p = result_ToAPI r \<and> pr_summary p = pr_summary q"
proof -
  obtain parent name where n: "result_ParseName (pr_name q) = Inr (parent, name)"
    using assms(1,2) by (auto simp: CreateResult_def result_GetName_def split: sum.splits)
  obtain r0 r where r: "result_ToStorage (populate_result e q) = Inr r0" "result_UpdateEtag r0 = Inr r"
      "create_result r s = Inr s'" "p = result_ToAPI r"
    using assms(1,2) n by (auto simp: CreateResult_def result_GetName_def exec_Inr split: sum.splits option.splits if_splits)
  have "summary_ToAPI (r_summary r) = pr_summary q"
    using stored_summary [OF r(1)] assms(3) UpdateEtag_summary [OF r(2)] by (simp add: valid_summary_def)
  then show ?thesis using create_result_tables [OF r(3)] r(4) by (auto simp: result_ToAPI_def)
qed

lemma UpdateResult_summary:
  assumes "UpdateResult e req s = (Inr p, s')" and "ur_result req = Some q" and "valid_summary q"
  shows "\<exists>r\<in>set (results_tbl s'). p = result_ToAPI r \<and> pr_summary p = pr_summary q"
proof -
  obtain prev r0 r where r: "result_ToStorage (updated_result prev (Some q)) = Inr r0"
      "result_UpdateEtag (r0\<lparr>r_updated := e_now e\<rparr>) = Inr r" "save_result r s = Inr s'" "p = result_ToAPI r"
    using assms(1,2) by (auto simp: UpdateResult_def exec_Inr split: handler_splits)
  have u: "pr_summary (updated_result prev (Some q)) = pr_summary q"
    by (simp add: updated_result_def result_ClearOutputOnly_def)
  then have "summary_ToAPI (r_summary r) = pr_summary q"
    using stored_summary [OF r(1)] assms(3) UpdateEtag_summary [OF r(2)] by (simp add: valid_summary_def)
  then show ?thesis using save_result_tables [OF r(3)] r(4) by (auto simp: result_ToAPI_def)
qed

lemma ensureResult_settles:
  assumes "quiet x" and "srv_inv (w_db w)" and "times_ok ob" and "ensureResult x cfg ob w = (Inr res, w')"
  shows "\<exists>r\<in>set (results_tbl (w_db w')). pr_name (result_ToAPI r) = resultName ob
    \<and> settled (x_codec x) cfg ob (result_ToAPI r)"
proof -
  note calm = quiet_calm [OF assms(1)]
  have n: "pr_name res = resultName ob" by (rule ensureResult_name [OF calm assms(2,4)])
  obtain g w1 where g: "rpc_GetResult x (resultName ob) w = (g, w1)" by fastforce
  show ?thesis
  proof (cases g)
    case (Inl err)
    then obtain q z where q: "build_result (x_codec x) cfg ob None = Inr (q, z)"
      using assms(4) g by (auto simp: ensureResult_def Let_def split: handler_splits)
    obtain c w2 where c: "rpc_CreateResult x \<lparr>cr_parent = parentName ob, cr_result = Some q\<rparr> w1 = (c, w2)" by fastforce
    show ?thesis
    proof (cases c)
      case (Inl err2)
      then have again: "rpc_GetResult x (resultName ob) w2 = (Inr res, w')"
        using assms(4) g \<open>g = Inl err\<close> q c by (auto simp: ensureResult_def Let_def split: if_splits)
      have same: "w_db w2 = w_db w" "w_db w' = w_db w"
        using quiet_get_db [OF assms(1)] quiet_create_fails [OF assms(1) c [unfolded Inl]] g again by auto
      have "GetResult (x_env x (w_calls w2)) (resultName ob) (w_db w) = Inr res"
        using rpc_Inr [OF again [unfolded rpc_defs]] same by auto
      then obtain r where "r \<in> set (results_tbl (w_db w))" "pr_name (result_ToAPI r) = resultName ob"
        by (rule GetResult_Inr) simp
      then have "g = Inr (result_ToAPI r)"
        using quiet_GetResult [OF assms(1,2)] g by (simp add: result_ToAPI_def)
      then show ?thesis using \<open>g = Inl err\<close> by simp
    next
      case (Inr p)
      then have "p = res" "w2 = w'" using assms(4) g \<open>g = Inl err\<close> q c by (auto simp: ensureResult_def Let_def split: if_splits)
      then show ?thesis
        using CreateResult_summary [OF rpc_Inr [OF c [unfolded rpc_defs Inr]]] build_valid [OF q assms(3)]
          built_settled [OF q] n by auto
    qed
  next
    case (Inr cur)
    then obtain q cur' where q: "build_result (x_codec x) cfg ob (Some cur) = Inr (q, cur')"
      using assms(4) g by (auto simp: ensureResult_def Let_def split: handler_splits)
    consider (same) "w' = w1" "isTopLevelRecord ob \<longrightarrow> pr_summary (the cur') = pr_summary q"
      | (update) "rpc_UpdateResult x \<lparr>ur_name = resultName ob, ur_result = Some q, ur_etag = []\<rparr> w1 = (Inr res, w')"
      using assms(4) g Inr q by (auto simp: ensureResult_def Let_def split: if_splits)
    then show ?thesis
    proof cases
      case same
      have gr: "GetResult (x_env x (w_calls w)) (resultName ob) (w_db w1) = Inr cur"
        using rpc_Inr [OF g [unfolded rpc_defs Inr]] by auto
      then obtain r where "r \<in> set (results_tbl (w_db w1))" "cur = result_ToAPI r" "pr_name cur = resultName ob"
        by (rule GetResult_Inr)
      then show ?thesis using same q by (auto simp: settled_def)
    next
      case update
      then show ?thesis
        using UpdateResult_summary [OF rpc_Inr [OF update [unfolded rpc_defs]]] build_valid [OF q assms(3)]
          built_settled [OF q] n by auto
    qed
  qed
qed

lemma CreateRecord_results: "CreateRecord e req s = (r, s') \<Longrightarrow> results_tbl s' = results_tbl s"
  using create_record.fail_keeps [of e req s _ s'] create_record_tables
  by (cases r) (auto elim!: CreateRecord_Inr)

lemma UpdateRecord_results:
  assumes "UpdateRecord e req s = (r, s')" and "srv_inv s"
  shows "results_tbl s' = results_tbl s"
  using assms update_record.fail_keeps [of e req s _ s'] save_record_tables srv_invD(3)
  by (cases r) (auto elim!: UpdateRecord_Inr)

lemma upsertRecord_results:
  assumes "quiet x" and "srv_inv (w_db w)" and "upsertRecord x parent ob w = (r, w')"
  shows "results_tbl (w_db w') = results_tbl (w_db w)"
proof -
  have ch: "results_tbl (w_db w2) = results_tbl (w_db w1)"
    if "rpc x f w1 = (q, w2)" "\<And>e r s'. f e (w_db w1) = (r, s') \<Longrightarrow> results_tbl s' = results_tbl (w_db w1)"
    for f w1 w2 and q :: "pb_record res"
  proof -
    obtain r0 s0 where "f (x_env x (w_calls w1)) (w_db w1) = (r0, s0)" by fastforce
    with quiet_rpc [OF assms(1), of f w1] that show ?thesis by auto
  qed
  obtain g w1 where g: "rpc_GetRecord x (recordName parent ob) w = (g, w1)" by fastforce
  have w1: "srv_inv (w_db w1)" "results_tbl (w_db w1) = results_tbl (w_db w)"
    using growsD [OF rpc_grows(2) [OF quiet_calm [OF assms(1)] g] assms(2)] ch [OF g [unfolded rpc_defs]] by auto
  have "results_tbl (w_db w') = results_tbl (w_db w1)"
    if "w' \<noteq> w1" "w' \<noteq> w"
    using assms(3) g that ch [OF _ CreateRecord_results] ch [OF _ UpdateRecord_results [OF _ w1(1)]]
    by (auto simp: upsertRecord_def Let_def rpc_CreateRecord_def rpc_UpdateRecord_def split: handler_splits)
  then show ?thesis using w1(2) by auto
qed

lemma ensureResult_settled:
  assumes "quiet x" and "srv_inv (w_db w)" and "r \<in> set (results_tbl (w_db w))"
    and "pr_name (result_ToAPI r) = resultName ob" and "settled (x_codec x) cfg ob (result_ToAPI r)"
  shows "\<exists>res. ensureResult x cfg ob w = (Inr res, w\<lparr>w_calls := w_calls w + 1\<rparr>) \<and> pr_name res = resultName ob"
proof -
  have g: "rpc_GetResult x (resultName ob) w = (Inr (result_ToAPI r), w\<lparr>w_calls := w_calls w + 1\<rparr>)"
    using quiet_GetResult [OF assms(1-3)] assms(4) by (simp add: result_ToAPI_def)
  obtain q c' where q: "build_result (x_codec x) cfg ob (Some (result_ToAPI r)) = Inr (q, c')"
    and s: "isTopLevelRecord ob \<longrightarrow> pr_summary (the c') = pr_summary q"
    using assms(5) by (auto simp: settled_def split: sum.splits)
  have "pr_name (the c') = resultName ob" using build_result_Inr(3) [OF q] assms(4) by auto
  then show ?thesis using g q s by (auto simp: ensureResult_def)
qed

subsection \<open>Properties of the client\<close>

definition demo_codec :: wcodec where
  "demo_codec = \<lparr>object_kinds = (\<lambda>k. Inr [\<lparr>g_group = ''tekton.dev'', g_version = ''v1'', g_kind = ''TaskRun''\<rparr>]),
     marshal_run = (\<lambda>ob. Inr (run_name ob @ ''{}'')), json_map = (\<lambda>v. Inr (fmap_of_list [(''k'', v)])),
     wc_marshal_log = (\<lambda>l. Inr ''{}''), uuid_parse = (\<lambda>u. Some u), uuid_md5 = (\<lambda>u b. u @ b)\<rparr>"

definition demo_outside :: outside where
  "demo_outside = \<lparr>x_env = (\<lambda>n. open_env (''u'' @ show_nat n) (5 + int (n mod 4))), x_others = (\<lambda>n s. s),
     x_net = (\<lambda>n. Delivered), x_codec = demo_codec, x_now = (\<lambda>n. 100), x_kube = (\<lambda>n. None),
     x_lister = (\<lambda>k ns nm. Inl (KNotFound [])), x_events = (\<lambda>n sel. Inr []), x_marshal_events = (\<lambda>evs. Inr ''[]''),
     x_open = (\<lambda>n. None), x_tkn = (\<lambda>ty ob. Captured ''log''), x_send = (\<lambda>n. None), x_close = None\<rparr>"

definition demo_config :: Config where
  "demo_config = \<lparr>DisableAnnotationUpdate = False, CompletedResourceGracePeriod = 10, labelSelector = None,
     RequeueInterval = 30, CheckOwner = True, UpdateLogTimeout = None, DynamicReconcileTimeout = None, StoreEvent = False,
     StoreDeadline = None, FinalizerRequeueInterval = 10, ForwardBuffer = None, LogsTimestamps = False,
     SummaryLabels = [], SummaryAnnotations = [], DisableStoringIncompleteRuns = False,
     AllowedManagedByValues = {}, RequiredAnnotations = []\<rparr>"

definition demo_taskrun :: run where
  "demo_taskrun = \<lparr>run_type = TaskRun, run_gvk = \<lparr>g_group = ''tekton.dev'', g_version = ''v1'', g_kind = ''TaskRun''\<rparr>,
     run_namespace = ''ns'', run_name = ''build'', run_uid = ''a1'', run_resource_version = ''7'', run_labels = fmempty,
     run_annotations = fmempty, run_owners = [], run_finalizers = [TaskRunFinalizer], run_managed = [],
     run_deletion = None, run_managedBy = None, run_condition = Some \<lparr>c_status = ''True'', c_reason = ''Succeeded''\<rparr>,
     run_start = Some 1, run_completion = Some 2, run_children = [], run_pod = ''pod''\<rparr>"

definition demo_world :: world where
  "demo_world = \<lparr>w_calls = 0, w_db = empty_db, w_trace = []\<rparr>"

lemma demo_quiet: "quiet demo_outside"
proof -
  have "time_in_range (5 + int (n mod 4))" for n
  proof -
    have "int (n mod 4) < 4 \<and> 0 \<le> int (n mod 4)" by simp
    then have "5 \<le> 5 + int (n mod 4) \<and> 5 + int (n mod 4) \<le> 9" by linarith
    then show ?thesis by (simp add: time_in_range_def zero_time_def)
  qed
  then show ?thesis by (simp add: quiet_def demo_outside_def)
qed

lemma demo_storable: "run_name ob = ''build'' \<Longrightarrow> run_gvk ob = run_gvk demo_taskrun \<Longrightarrow> storable demo_codec ob"
  by (auto simp: storable_def ToProto_def demo_codec_def run_data_def TypeName_def gvk_Empty_def apiVersion_def
      demo_taskrun_def LogRecordType_def LogRecordTypeV2_def)

lemma demo_Put:
  "is_ok (fst (Put demo_outside demo_config demo_taskrun demo_world))"
  by code_simp





text \<open>
  Once a result has summary annotations, a change of a run's summary annotations alone is never
  written: the map that was read is extended in place before it is compared with itself.
\<close>

theorem summary_annotations_never_updated:
  assumes "quiet x" and "srv_inv (w_db w)" and "r \<in> set (results_tbl (w_db w))" and "isTopLevelRecord ob"
    and "pr_name (result_ToAPI r) = resultName ob" and "pr_summary (result_ToAPI r) = Some sm"
    and "s_annotations sm \<noteq> fmempty"
    and "sm = \<lparr>s_record = recordName (resultName ob) ob, s_type = TypeName (x_codec x) ob, s_start = getStartTime ob,
      s_end = getEndTime ob, s_status = Status (run_condition ob), s_annotations = s_annotations sm\<rparr>"
    and "fmlookup (run_annotations ob) an_ResultAnnotations = None"
    and "fmlookup (run_annotations ob) an_RecordSummaryAnnotations = Some v" and "json_map (x_codec x) v = Inr a"
  shows "\<exists>res. ensureResult x cfg ob w = (Inr res, w\<lparr>w_calls := w_calls w + 1\<rparr>)"
proof -
  have "settled (x_codec x) cfg ob (result_ToAPI r)"
    using assms(4,6,7,9-11) arg_cong [OF assms(8), of "\<lambda>s. s\<lparr>s_annotations := copyKeys a (s_annotations sm)\<rparr>"]
    by (auto simp: settled_def build_result_def Let_def merged_annotations_def parseAnnotations_def)
  from ensureResult_settled [OF assms(1-3,5) this] show ?thesis by blast
qed

end
