(* ===== verification/WatcherProps.thy ===== *)
theory WatcherProps
  imports Finalizers ClientProps
begin

text \<open>
  What the watcher guarantees about the runs of the cluster: it asks for the deletion of a run, marks it and
  releases its finalizer only when the API server's database holds its data.
\<close>

subsection \<open>Steps that annotate\<close>

text \<open>A step leaves everything of the object but its annotations alone.\<close>

definition same_run :: "run \<Rightarrow> run \<Rightarrow> bool" where
  "same_run ob ob' = (ob' = ob\<lparr>run_annotations := run_annotations ob'\<rparr>)"

lemma same_run_refl [simp]: "same_run ob ob"
  by (simp add: same_run_def)

lemma same_run_trans: "same_run a b \<Longrightarrow> same_run b c \<Longrightarrow> same_run a c"
  by (cases a; cases b; cases c) (simp add: same_run_def)

lemma same_runD:
  assumes "same_run ob ob'"
  shows "run_name ob' = run_name ob" "run_uid ob' = run_uid ob" "run_namespace ob' = run_namespace ob"
    "run_owners ob' = run_owners ob" "run_condition ob' = run_condition ob" "run_completion ob' = run_completion ob"
    "run_labels ob' = run_labels ob" "run_children ob' = run_children ob" "run_gvk ob' = run_gvk ob"
    "run_type ob' = run_type ob" "IsDone ob' = IsDone ob" "owned_by_pipelinerun ob' = owned_by_pipelinerun ob"
  using assms by (cases ob; cases ob'; simp add: same_run_def IsDone_def owned_by_pipelinerun_def)+

fun is_delete :: "effect \<Rightarrow> bool" where
  "is_delete (DeleteReq n u a) = True"
| "is_delete _ = False"

text \<open>The database grows, and no deletion is asked for.\<close>

definition benign :: "outside \<Rightarrow> world \<Rightarrow> world \<Rightarrow> bool" where
  "benign x w w' = (calm x \<longrightarrow> grows w w' \<and> (\<exists>ts. w_trace w' = w_trace w @ ts \<and> \<not> list_ex is_delete ts))"

lemma benign_refl [simp]: "benign x w w"
  by (simp add: benign_def)

lemma benign_trans [trans]: "benign x w w' \<Longrightarrow> benign x w' w'' \<Longrightarrow> benign x w w''"
  unfolding benign_def by (metis append.assoc grows_trans list_ex_append)

locale annotating_step =
  fixes x :: outside and step :: "run \<Rightarrow> world \<Rightarrow> rec_event option \<times> run \<times> world"
  assumes step_same: "step ob w = (e, ob', w') \<Longrightarrow> same_run ob ob'"
    and step_benign: "step ob w = (e, ob', w') \<Longrightarrow> benign x w w'"
begin

lemma followed_by:
  assumes "annotating_step x f"
  shows "annotating_step x (\<lambda>ob w. and_then (step ob w) f)"
proof
  fix ob w e ob' w'
  assume a: "and_then (step ob w) f = (e, ob', w')"
  obtain e1 ob1 w1 where s: "step ob w = (e1, ob1, w1)" by (metis prod_cases3)
  then have "same_run ob1 ob' \<and> benign x w1 w'"
    using a assms by (cases e1) (force simp: and_then_def annotating_step_def)+
  then show "same_run ob ob'" "benign x w w'"
    using step_same [OF s] step_benign [OF s] by (auto intro: same_run_trans benign_trans)
qed

end

lemma kube_call_benign: "kube_call x eff w = (a, w') \<Longrightarrow> (\<And>b. \<not> is_delete (eff b)) \<Longrightarrow> benign x w w'"
  by (auto simp: kube_call_def emit_def benign_def grows_def Let_def)

lemma emit_benign: "\<not> is_delete eff \<Longrightarrow> benign x w (emit eff w)"
  by (simp add: emit_def benign_def grows_def)

lemma set_annotations_same [simp]: "same_run ob (set_annotations anns ob)"
  by (simp add: same_run_def set_annotations_def)

lemma Patch_same: "Patch x anns ob w = (e, ob', w') \<Longrightarrow> same_run ob ob'"
  by (auto simp: Patch_def Let_def split: if_splits prod.splits option.splits)

lemma Patch_benign:
  assumes "Patch x anns ob w = (e, ob', w')"
  shows "benign x w w'"
proof -
  let ?eff = "PatchReq (run_name ob) (patch_annotations ob anns)"
  obtain e1 w1 where k: "kube_call x (?eff False) w = (e1, w1)" by fastforce
  obtain e2 w2 where k2: "kube_call x (?eff True) w1 = (e2, w2)" by fastforce
  have "w' = w \<or> w' = w1 \<or> w' = w2"
    using assms k k2 by (auto simp: Patch_def Let_def split: if_splits prod.splits option.splits kube_error.splits)
  moreover have "benign x w w1" "benign x w1 w2"
    using kube_call_benign [OF k] kube_call_benign [OF k2] by auto
  ultimately show ?thesis using benign_trans by auto
qed

lemmas Patch_step = Patch_same Patch_benign

interpretation results_annotations: annotating_step x "addResultsAnnotations x r anns" for x r anns
  using Patch_step by unfold_locales (fastforce simp: addResultsAnnotations_def split: if_splits prod.splits option.splits)+

interpretation child_annotations: annotating_step x "addChildReadyForDeletionAnnotations x r" for x r
  using Patch_step
  by unfold_locales (fastforce simp: addChildReadyForDeletionAnnotations_def split: if_splits prod.splits option.splits)+

lemma addStored_cases:
  assumes "addStoredAnnotations x r ob w = (e, ob', w')"
  obtains "ob' = ob" "w' = w"
    | e1 w1 where "Patch x [(an_Stored, if IsDone ob then ''true'' else ''false'')] ob w = (e1, ob', w1)"
      and "w' = w1 \<or> w' = emit AfterStorage w1" and "e = None \<longrightarrow> e1 = None"
proof -
  let ?p = "Patch x [(an_Stored, if IsDone ob then ''true'' else ''false'')] ob w"
  obtain e1 ob1 w1 where p: "?p = (e1, ob1, w1)" by (metis prod_cases3)
  have "ob' = ob \<and> w' = w \<or> (ob' = ob1 \<and> (w' = w1 \<or> w' = emit AfterStorage w1) \<and> (e = None \<longrightarrow> e1 = None))"
    using assms p by (cases e1; cases "IsDone ob") (auto simp: addStoredAnnotations_def Let_def split: if_splits)
  with that p show thesis by blast
qed

interpretation stored_annotations: annotating_step x "addStoredAnnotations x r" for x r
proof
  fix ob w e ob' w' assume "addStoredAnnotations x r ob w = (e, ob', w')"
  then show "same_run ob ob'" by (cases rule: addStored_cases) (auto dest: Patch_same)
next
  fix ob w e ob' w' assume "addStoredAnnotations x r ob w = (e, ob', w')"
  then show "benign x w w'"
    using emit_benign [of AfterStorage x] by (cases rule: addStored_cases) (auto dest: Patch_benign intro: benign_trans)
qed

text \<open>The client's operations on logs and events.\<close>

lemma calls_benign: "benign x w w' \<Longrightarrow> benign x w (w'\<lparr>w_calls := n\<rparr>)"
  by (simp add: benign_def grows_def)

lemma client_benign:
  "PutLog x cfg ob w = (r, w') \<Longrightarrow> benign x w w'"
  "GetLogRecord x cfg ob w = (d, w') \<Longrightarrow> benign x w w'"
  "PutEventList x cfg ob evs w = (r, w') \<Longrightarrow> benign x w w'"
  "GetEventListRecord x cfg ob w = (d, w') \<Longrightarrow> benign x w w'"
  using client_grows by (simp_all add: benign_def)

lemma streamLogs_benign: "benign x w (snd (streamLogs x ty nm ob w))"
proof -
  have "benign x w (w\<lparr>w_calls := n\<rparr>)" "benign x w (emit (LogStreamed ms) (w\<lparr>w_calls := n\<rparr>))" for n ms
    by (simp_all add: benign_def grows_def emit_def)
  then show ?thesis
    by (auto simp: streamLogs_def Let_def split: option.splits tkn.splits prod.splits sum.splits)
qed

interpretation send_log: annotating_step x "sendLog x r" for x r
proof
  fix ob w e ob' w' assume "sendLog x r ob w = (e, ob', w')"
  then show "same_run ob ob'" using results_annotations.step_same
    by (auto simp: sendLog_def Let_def split: if_splits prod.splits sum.splits option.splits)
next
  fix ob w e ob' w' assume a: "sendLog x r ob w = (e, ob', w')"
  obtain g w1 where g: "GetLogRecord x (dy_cfg r) ob w = (g, w1)" by fastforce
  obtain p w2 where p: "PutLog x (dy_cfg r) ob w1 = (p, w2)" by fastforce
  have b1: "benign x w w1" and b2: "benign x w w2"
    using client_benign(1) [OF p] client_benign(2) [OF g] benign_trans by auto
  consider "w' = w" | "w' = w1" | "w' = w2"
    | l e1 ob1 where "addResultsAnnotations x r [(an_Log, l)] ob w1 = (e1, ob1, w')"
    | l e1 ob1 where "addResultsAnnotations x r [(an_Log, l)] ob w2 = (e1, ob1, w')"
    | l e1 ob1 w3 ty where "addResultsAnnotations x r [(an_Log, l)] ob w2 = (e1, ob1, w3)"
        and "w' = snd (streamLogs x ty l ob1 w3)"
    using a g p by (auto simp: sendLog_def Let_def split: if_splits prod.splits sum.splits option.splits)
  then show "benign x w w'"
    using b1 b2 results_annotations.step_benign streamLogs_benign by cases (metis benign_refl benign_trans)+
qed

interpretation store_events: annotating_step x "storeEvents x r" for x r
proof
  fix ob w e ob' w' assume "storeEvents x r ob w = (e, ob', w')"
  then show "same_run ob ob'" using results_annotations.step_same
    by (auto simp: storeEvents_def Let_def split: if_splits prod.splits sum.splits option.splits)
next
  fix ob w e ob' w' assume a: "storeEvents x r ob w = (e, ob', w')"
  obtain g w1 where g: "GetEventListRecord x (dy_cfg r) ob w = (g, w1)" by fastforce
  have b1: "benign x w w1" by (rule client_benign(4) [OF g])
  consider "w' = w" | n where "w' = w1\<lparr>w_calls := n\<rparr>" | "w' = w1"
    | l e1 ob1 where "addResultsAnnotations x r [(an_EventList, l)] ob w1 = (e1, ob1, w')"
    | n evs q w4 where "PutEventList x (dy_cfg r) ob evs (w1\<lparr>w_calls := n\<rparr>) = (q, w4)"
        and "w' = w4 \<or> (\<exists>l e1 ob1. addResultsAnnotations x r [(an_EventList, l)] ob w4 = (e1, ob1, w'))"
    using a g by (fastforce simp: storeEvents_def Let_def split: if_splits prod.splits sum.splits option.splits)
  then show "benign x w w'"
  proof cases
    case 5
    have "benign x w (w1\<lparr>w_calls := n\<rparr>)" by (rule calls_benign [OF b1])
    with client_benign(3) [OF 5(1)] have "benign x w w4" using benign_trans by blast
    then show ?thesis using 5(2) results_annotations.step_benign benign_trans by blast
  qed (use b1 calls_benign results_annotations.step_benign in \<open>auto intro: benign_trans\<close>)
qed

subsection \<open>Reconciling\<close>

text \<open>What happens between the upsert and the decision to delete.\<close>

definition before_delete ::
    "outside \<Rightarrow> dyn \<Rightarrow> pb_result \<Rightarrow> pb_record \<Rightarrow> run \<Rightarrow> world \<Rightarrow> rec_event option \<times> run \<times> world" where
  "before_delete x r res d ob w =
     and_then (case update_logs x r ob w of (ob1, w1) \<Rightarrow> (None, ob1, w1)) (\<lambda>ob w.
     and_then (if StoreEvent (dy_cfg r) then storeEvents x r ob w else (None, ob, w)) (\<lambda>ob w.
     and_then (addResultsAnnotations x r [(an_Record, pd_name d), (an_Result, pr_name res)] ob w)
       (addChildReadyForDeletionAnnotations x r)))"

lemma after_put_eq:
  "after_put x r res d ob w =
     and_then (before_delete x r res d ob w) (\<lambda>ob w.
     and_then (case deleteUponCompletion x r ob w of (e, w') \<Rightarrow> (e, ob, w')) (addStoredAnnotations x r))"
  by (auto simp: after_put_def before_delete_def and_then_def split: prod.splits option.splits)

interpretation logs_step: annotating_step x "\<lambda>ob w. case update_logs x r ob w of (ob1, w1) \<Rightarrow> (None, ob1, w1)" for x r
proof
  fix ob w and e :: "rec_event option" and ob' w'
  assume a: "(case update_logs x r ob w of (ob1, w1) \<Rightarrow> (None, ob1, w1)) = (e, ob', w')"
  obtain e1 ob1 w1 where s: "sendLog x r ob w = (e1, ob1, w1)" by (metis prod_cases3)
  have "ob' = ob \<and> (w' = w \<or> w' = emit SendLogSpawned w) \<or> ob' = ob1 \<and> w' = w1"
    using a s by (auto simp: update_logs_def split: if_splits prod.splits)
  then show "same_run ob ob'" "benign x w w'"
    using send_log.step_same [OF s] send_log.step_benign [OF s] emit_benign [of SendLogSpawned x w] by auto
qed

interpretation events_step: annotating_step x "\<lambda>ob w. if c then storeEvents x r ob w else (None, ob, w)" for x c r
  using store_events.step_same store_events.step_benign by unfold_locales (auto split: if_splits)

interpretation before_delete: annotating_step x "before_delete x r res d" for x r res d
  unfolding before_delete_def
  by (intro logs_step.followed_by events_step.followed_by results_annotations.followed_by
      child_annotations.annotating_step_axioms)

text \<open>When a deletion is asked for.\<close>

definition deletable :: "outside \<Rightarrow> dyn \<Rightarrow> run \<Rightarrow> gotime \<Rightarrow> bool" where
  "deletable x r ob now =
     (let cfg = dy_cfg r; grace = CompletedResourceGracePeriod cfg in
      grace \<noteq> 0 \<and> IsDone ob \<and> \<not> owned_by_pipelinerun ob \<and> (run_owners ob = [] \<or> \<not> CheckOwner cfg)
      \<and> (\<exists>t. run_completion ob = Some t \<and> grace \<le> sat64 (now - t))
      \<and> GetLabelSelector cfg (run_labels ob) \<and> dy_ready r ob = Inr True)"

lemma delete_cases:
  assumes "deleteUponCompletion x r ob w = (e, w')"
  obtains "w' = w" "\<not> deletable x r ob (x_now x (w_calls w))"
    | a ts where "deletable x r ob (x_now x (w_calls w))" and "w_db w' = w_db w"
      and "w_trace w' = w_trace w @ DeleteReq (run_name ob) (run_uid ob) a # ts" and "\<not> list_ex is_delete ts"
proof -
  let ?now = "x_now x (w_calls w)"
  have "if deletable x r ob ?now
    then w_db w' = w_db w \<and> (\<exists>a ts. w_trace w' = w_trace w @ DeleteReq (run_name ob) (run_uid ob) a # ts \<and> \<not> list_ex is_delete ts)
    else w' = w"
  proof (cases "deletable x r ob ?now")
    case True
    then show ?thesis using assms
      by (auto simp: deletable_def deleteUponCompletion_def getCompletionTime_def kube_call_def emit_def Let_def
          split: option.splits kube_error.splits)
  next
    case False
    then show ?thesis using assms
      by (auto simp: deletable_def deleteUponCompletion_def getCompletionTime_def Let_def
          split: if_splits option.splits sum.splits bool.splits)
  qed
  then show thesis using that by (auto split: if_splits)
qed

definition asks_delete :: "outside \<Rightarrow> dyn \<Rightarrow> run \<Rightarrow> effect list \<Rightarrow> bool" where
  "asks_delete x r ob ts =
     (list_ex is_delete ts \<longrightarrow> (\<exists>ob4 now. same_run ob ob4 \<and> deletable x r ob4 now)
        \<and> (\<forall>n u a. DeleteReq n u a \<in> set ts \<longrightarrow> n = run_name ob \<and> u = run_uid ob))"

lemma after_put_steps:
  assumes "calm x" and "after_put x r res d ob w = (e, ob', w')"
  shows "same_run ob ob' \<and> grows w w' \<and> (\<exists>ts. w_trace w' = w_trace w @ ts \<and> asks_delete x r ob ts)"
proof -
  obtain e4 ob4 w4 where b: "before_delete x r res d ob w = (e4, ob4, w4)" by (metis prod_cases3)
  have sb: "same_run ob ob4" by (rule before_delete.step_same [OF b])
  obtain t4 where t4: "grows w w4" "w_trace w4 = w_trace w @ t4" "\<not> list_ex is_delete t4"
    using before_delete.step_benign [OF b] assms(1) by (auto simp: benign_def)
  show ?thesis
  proof (cases "e4 = None")
    case False
    then show ?thesis using assms(2) b sb t4 by (auto simp: after_put_eq and_then_def asks_delete_def)
  next
    case True
    obtain e5 w5 where dl: "deleteUponCompletion x r ob4 w4 = (e5, w5)" by fastforce
    obtain e6 ob6 w6 where st: "addStoredAnnotations x r ob4 w5 = (e6, ob6, w6)" by (metis prod_cases3)
    have s6: "same_run ob4 ob6" by (rule stored_annotations.step_same [OF st])
    obtain t6 where t6: "grows w5 w6" "w_trace w6 = w_trace w5 @ t6" "\<not> list_ex is_delete t6"
      using stored_annotations.step_benign [OF st] assms(1) by (auto simp: benign_def)
    have out: "ob' = ob4 \<and> w' = w5 \<or> ob' = ob6 \<and> w' = w6"
      using assms(2) b dl st True by (auto simp: after_put_eq and_then_def split: option.splits)
    have del: "grows w4 w5 \<and> (\<exists>t5. w_trace w5 = w_trace w4 @ t5 \<and> asks_delete x r ob t5)"
      using dl
    proof (cases rule: delete_cases)
      case 1
      then show ?thesis by (simp add: asks_delete_def)
    next
      case (2 a ts)
      then show ?thesis using sb same_runD(1,2) [OF sb]
        by (fastforce simp: grows_def asks_delete_def list_ex_iff)
    qed
    then obtain t5 where t5: "w_trace w5 = w_trace w4 @ t5" "asks_delete x r ob t5" by blast
    have "asks_delete x r ob (t4 @ t5)" "asks_delete x r ob (t4 @ t5 @ t6)"
      using t5(2) t4(3) t6(3) by (fastforce simp: asks_delete_def list_ex_iff)+
    then show ?thesis
      using out sb s6 t4 t5(1) t6 del same_run_trans [OF sb s6] by (auto intro: grows_trans)
  qed
qed

lemma Reconcile_cases:
  assumes "calm x" and "srv_inv (w_db w)" and "with_gvk (x_codec x) ob = Inr ob0" and "storable (x_codec x) ob0"
    and "Reconcile x r ob w = (e, ob', w')"
  obtains "e \<noteq> None" "ob' = ob0" "w_trace w' = w_trace w"
    | a ts where "ToProto (x_codec x) ob0 = Inr a" and "holds (recordName (resultName ob0) ob0) a (w_db w')"
      and "srv_inv (w_db w')" and "same_run ob0 ob'" and "w_trace w' = w_trace w @ ts" and "asks_delete x r ob0 ts"
proof -
  obtain q w1 where p: "Put x (dy_cfg r) ob0 w = (q, w1)" by fastforce
  show thesis
  proof (cases q)
    case (Inl err)
    have "w_trace w1 = w_trace w"
      using p rpc_traces ensureResult_grows [OF assms(1)]
      by (auto simp: Put_def upsertRecord_def Let_def split: handler_splits dest!: rpc_traces(2,5,6))
    then show thesis using that(1) assms(3,5) p Inl by (auto simp: Reconcile_def)
  next
    case (Inr rd)
    obtain res d where rd: "rd = (res, d)" by fastforce
    obtain a where a: "ToProto (x_codec x) ob0 = Inr a" "holds (recordName (resultName ob0) ob0) a (w_db w1)"
      "srv_inv (w_db w1)" "w_trace w1 = w_trace w"
      using Put_stores [OF assms(1,2,4) p [unfolded Inr rd]] by metis
    have "after_put x r res d ob0 w1 = (e, ob', w')" using assms(3,5) p Inr rd by (auto simp: Reconcile_def)
    from after_put_steps [OF assms(1) this] a holds_grows growsD show thesis by (auto intro!: that(2))
  qed
qed

lemma with_gvkD:
  assumes "with_gvk k ob = Inr ob0"
  shows "run_name ob0 = run_name ob" "run_uid ob0 = run_uid ob" "run_namespace ob0 = run_namespace ob"
    "run_completion ob0 = run_completion ob" "run_labels ob0 = run_labels ob" "run_children ob0 = run_children ob"
    "IsDone ob0 = IsDone ob" "owned_by_pipelinerun ob0 = owned_by_pipelinerun ob" "run_type ob0 = run_type ob"
    "run_annotations ob0 = run_annotations ob"
  using assms by (auto simp: with_gvk_def IsDone_def owned_by_pipelinerun_def split: if_splits sum.splits)

subsection \<open>Properties of the watcher\<close>


definition demo_dyn :: dyn where "demo_dyn = NewDynamicReconciler False demo_config"

definition demo_reconciled :: "rec_event option \<times> run \<times> world" where
  "demo_reconciled = Reconcile demo_outside demo_dyn demo_taskrun demo_world"

lemma demo_setup:
  "calm demo_outside" "srv_inv (w_db demo_world)" "storable (x_codec demo_outside) demo_taskrun"
  "with_gvk (x_codec demo_outside) demo_taskrun = Inr demo_taskrun"
  "ToProto (x_codec demo_outside) demo_taskrun = Inr \<lparr>any_type = ''tekton.dev/v1.TaskRun'', any_value = ''build{}''\<rparr>"
  "recordName (resultName demo_taskrun) demo_taskrun = ''ns/results/a1/records/a1''"
proof -
  show "storable (x_codec demo_outside) demo_taskrun"
    using demo_storable [of demo_taskrun] by (simp add: demo_outside_def) (simp add: demo_taskrun_def)
qed (simp_all add: quiet_calm demo_quiet demo_world_def, code_simp+)


text \<open>A child no longer stands in the way: it is gone, marked as ready, or of an unknown kind.\<close>

definition child_kind :: "child_ref \<Rightarrow> run_kind option" where
  "child_kind ref =
     (if ch_kind ref = ''TaskRun'' \<or> ch_kind ref = [] then Some TaskRun
      else if ch_kind ref = ''CustomRun'' then Some CustomRun else None)"

definition child_released :: "outside \<Rightarrow> string \<Rightarrow> child_ref \<Rightarrow> bool" where
  "child_released x ns ref =
     (case child_kind ref of
        None \<Rightarrow> True
      | Some k \<Rightarrow> (case x_lister x k ns (ch_name ref) of
                    Inl (KNotFound _) \<Rightarrow> True
                  | Inl _ \<Rightarrow> False
                  | Inr an \<Rightarrow> fmlookup an an_ChildReadyForDeletion \<noteq> None))"

lemma children_ready_True: "children_ready x ns refs = Inr True \<longleftrightarrow> list_all (child_released x ns) refs"
proof (induction refs)
  case (Cons r refs)
  then show ?case
    by (simp add: Let_def child_released_def child_kind_def isMarkedAsReadyForDeletion_def
        split: sum.split kube_error.split)
qed simp


definition demo_pipelinerun :: run where
  "demo_pipelinerun = demo_taskrun\<lparr>run_type := PipelineRun, run_gvk := \<lparr>g_group = ''tekton.dev'', g_version = ''v1'', g_kind = ''PipelineRun''\<rparr>,
     run_children := [\<lparr>ch_kind = ''TaskRun'', ch_name = ''t1''\<rparr>, \<lparr>ch_kind = ''CustomRun'', ch_name = ''c1''\<rparr>]\<rparr>"

definition marked_outside :: outside where
  "marked_outside = demo_outside\<lparr>x_lister := (\<lambda>k ns nm. Inr (fmap_of_list [(an_ChildReadyForDeletion, ''true'')]))\<rparr>"

definition demo_deleted :: "rec_event option \<times> run \<times> world" where
  "demo_deleted = PipelineRun_ReconcileKind marked_outside False demo_config demo_pipelinerun demo_world"

lemma demo_pipelinerun_storable: "storable (x_codec marked_outside) demo_pipelinerun"
  by (auto simp: storable_def ToProto_def marked_outside_def demo_outside_def demo_codec_def run_data_def TypeName_def
      gvk_Empty_def apiVersion_def demo_pipelinerun_def demo_taskrun_def LogRecordType_def LogRecordTypeV2_def)

lemma marked_calm: "calm marked_outside"
  using quiet_calm [OF demo_quiet] by (simp add: calm_def marked_outside_def)


subsection \<open>Releasing the finalizer\<close>

fun ReconcileKind :: "run_kind \<Rightarrow> outside \<Rightarrow> bool \<Rightarrow> Config \<Rightarrow> run \<Rightarrow> world \<Rightarrow> rec_event option \<times> run \<times> world" where
  "ReconcileKind PipelineRun x lc cfg = PipelineRun_ReconcileKind x lc cfg"
| "ReconcileKind TaskRun x lc cfg = TaskRun_ReconcileKind x lc cfg"
| "ReconcileKind CustomRun x lc cfg = CustomRun_ReconcileKind x cfg"

fun FinalizeKind :: "run_kind \<Rightarrow> outside \<Rightarrow> bool \<Rightarrow> Config \<Rightarrow> run \<Rightarrow> world \<Rightarrow> rec_event option \<times> run \<times> world" where
  "FinalizeKind PipelineRun x lc cfg = PipelineRun_FinalizeKind x lc cfg"
| "FinalizeKind TaskRun x lc cfg = TaskRun_FinalizeKind x lc cfg"
| "FinalizeKind CustomRun x lc cfg = CustomRun_FinalizeKind x cfg"

text \<open>The configurations under which a finished run has to wait until it is stored.\<close>

definition must_wait :: "run_kind \<Rightarrow> Config \<Rightarrow> run \<Rightarrow> bool" where
  "must_wait kind cfg ob =
     (\<not> DisableAnnotationUpdate cfg \<and> IsDone ob \<and> StoreDeadline cfg = None
      \<and> (kind = CustomRun \<or> IsManagedByAllowed (run_managedBy ob) (AllowedManagedByValues cfg))
      \<and> (kind = TaskRun \<longrightarrow> ForwardBuffer cfg = None \<or> run_completion ob \<noteq> None))"

lemma migrate_None: "migrate x cfg k ob (e, w) = (None, w') \<Longrightarrow> e = None \<and> w_db w' = w_db w"
  by (auto simp: migrate_def removeFinalizerViaMergePatch_def kube_call_def emit_def requeue_def Let_def
      split: option.splits if_splits prod.splits)

lemma stored_event_None:
  "stored_event cfg rerr ob = None \<longleftrightarrow> rerr = None \<and> fmlookup (run_annotations ob) an_Stored = Some ''true''"
  by (auto simp: stored_event_def requeue_def split: option.splits)

lemma required_event_None: "required_event cfg ob = None \<longleftrightarrow> snd (AreRequiredAnnotationsReady cfg (run_annotations ob))"
  by (simp add: required_event_def requeue_def)

lemma FinalizeKind_None:
  assumes "FinalizeKind kind x False cfg ob w = (None, ob', w')" and "must_wait kind cfg ob"
    and "\<And>e ob1 w1. ReconcileKind kind x False cfg ob w = (e, ob1, w1) \<Longrightarrow> IsDone ob1 = IsDone ob \<and> run_completion ob1 = run_completion ob"
  obtains w1 where "ReconcileKind kind x False cfg ob w = (None, ob', w1)" and "w_db w' = w_db w1"
    and "fmlookup (run_annotations ob') an_Stored = Some ''true''"
    and "kind \<noteq> CustomRun \<longrightarrow> snd (AreRequiredAnnotationsReady cfg (run_annotations ob'))"
proof -
  obtain e ob1 w1 where r: "ReconcileKind kind x False cfg ob w = (e, ob1, w1)" by (metis prod_cases3)
  have d: "IsDone ob1" "run_completion ob1 = run_completion ob" using assms(2,3) r by (auto simp: must_wait_def)
  note defs = must_wait_def deadline_release_def stored_event_None required_event_None
  show thesis
  proof (cases kind)
    case PipelineRun
    have "PipelineRun_finalize x False cfg e ob1 w1 = (None, w')" "ob' = ob1"
      using assms(1,2) r PipelineRun by (auto simp: must_wait_def PipelineRun_FinalizeKind_def split: prod.splits)
    then have "migrate x cfg PipelineRun ob1 (case stored_event cfg e ob1 of Some e \<Rightarrow> (Some e, w1) | None \<Rightarrow> (required_event cfg ob1, w1))
        = (None, w')" "ob' = ob1"
      using assms(2) d PipelineRun by (auto simp: PipelineRun_finalize_def defs)
    then show thesis using that [of w1] r PipelineRun migrate_None
      by (cases "stored_event cfg e ob1") (auto simp: defs dest!: migrate_None)
  next
    case TaskRun
    have "TaskRun_finalize x False cfg e ob1 w1 = (None, w')" "ob' = ob1"
      using assms(1,2) r TaskRun by (auto simp: must_wait_def TaskRun_FinalizeKind_def split: prod.splits)
    then have "migrate x cfg TaskRun ob1 (case stored_event cfg e ob1 of Some e \<Rightarrow> (Some e, w1) | None \<Rightarrow> (required_event cfg ob1, w1))
        = (None, w')" "ob' = ob1"
      using assms(2) d TaskRun
      by (auto simp: TaskRun_finalize_def defs split: if_splits option.splits dest: migrate_None simp: requeue_def)
    then show thesis using that [of w1] r TaskRun migrate_None
      by (cases "stored_event cfg e ob1") (auto simp: defs dest!: migrate_None)
  next
    case CustomRun
    have "CustomRun_finalize x cfg e ob1 w1 = (None, w')" "ob' = ob1"
      using assms(1,2) r CustomRun by (auto simp: CustomRun_FinalizeKind_def split: prod.splits)
    then show thesis using that [of w1] r CustomRun assms(2) d
      by (auto simp: CustomRun_finalize_def defs dest!: migrate_None)
  qed
qed

lemma Reconcile_keeps:
  assumes "calm x" and "srv_inv (w_db w)" and "with_gvk (x_codec x) ob = Inr ob0" and "storable (x_codec x) ob0"
    and "ReconcileKind kind x lc cfg ob w = (e, ob1, w1)"
  shows "IsDone ob1 = IsDone ob \<and> run_completion ob1 = run_completion ob
    \<and> (e = None \<and> \<not> skip_incomplete cfg ob \<and> (kind = CustomRun \<or> IsManagedByAllowed (run_managedBy ob) (AllowedManagedByValues cfg))
       \<longrightarrow> (\<exists>a. ToProto (x_codec x) ob0 = Inr a \<and> holds (recordName (resultName ob0) ob0) a (w_db w1)))"
proof -
  consider "ob1 = ob" "skip_incomplete cfg ob \<or> kind \<noteq> CustomRun \<and> \<not> IsManagedByAllowed (run_managedBy ob) (AllowedManagedByValues cfg)"
    | r where "Reconcile x r ob w = (e, ob1, w1)"
    using assms(5)
    by (cases kind) (auto simp: PipelineRun_ReconcileKind_def TaskRun_ReconcileKind_def CustomRun_ReconcileKind_def split: if_splits)
  then show ?thesis
  proof cases
    case (2 r)
    from assms(1-4) 2 show ?thesis
    proof (cases rule: Reconcile_cases)
      case (2 a ts)
      then show ?thesis using same_runD [OF 2(4)] with_gvkD [OF assms(3)] by auto
    qed (use with_gvkD [OF assms(3)] in auto)
  qed auto
qed


definition demo_keep :: Config where "demo_keep = demo_config\<lparr>CompletedResourceGracePeriod := 0\<rparr>"

definition demo_finalized :: "rec_event option \<times> run \<times> world" where
  "demo_finalized = FinalizeKind TaskRun demo_outside False demo_keep demo_taskrun demo_world"


subsection \<open>The finalizer is released in the end\<close>

lemma Patch_ok:
  assumes "x_kube x = (\<lambda>n. None)" and "\<not> gvk_Empty (run_gvk ob)" and "g_kind (run_gvk ob) \<noteq> []" and "apiVersion (run_gvk ob) \<noteq> []"
  shows "\<exists>ob' w'. Patch x anns ob w = (None, ob', w') \<and> (IsPatched ob anns \<and> ob' = ob \<or> ob' = set_annotations anns ob)"
  using assms by (auto simp: Patch_def kube_call_def Let_def)

lemma Patch_sets:
  assumes "x_kube x = (\<lambda>n. None)" and "\<not> gvk_Empty (run_gvk ob)" and "g_kind (run_gvk ob) \<noteq> []" and "apiVersion (run_gvk ob) \<noteq> []"
    and "v \<noteq> []"
  shows "\<exists>ob' w'. Patch x [(k, v)] ob w = (None, ob', w') \<and> fmlookup (run_annotations ob') k = Some v"
  using Patch_ok [OF assms(1-4), of "[(k, v)]" w] assms(5)
  by (auto simp: IsPatched_def set_annotations_def split: option.splits)

text \<open>A run the cluster's API knows how to patch.\<close>

definition patchable :: "run_kind \<Rightarrow> run \<Rightarrow> bool" where
  "patchable kind ob = (run_type ob = kind \<and> g_kind (run_gvk ob) = kind_name kind \<and> apiVersion (run_gvk ob) \<noteq> [])"

lemma patchableD:
  "patchable kind ob \<Longrightarrow> \<not> gvk_Empty (run_gvk ob) \<and> g_kind (run_gvk ob) \<noteq> [] \<and> apiVersion (run_gvk ob) \<noteq> []"
  by (cases kind) (auto simp: patchable_def gvk_Empty_def)

lemma patchable_same: "same_run ob ob' \<Longrightarrow> patchable kind ob' = patchable kind ob"
  using same_runD by (simp add: patchable_def)

lemma after_put_same:
  assumes "after_put x r res d ob w = (e, ob', w')"
  shows "same_run ob ob'"
proof -
  obtain e4 ob4 w4 where b: "before_delete x r res d ob w = (e4, ob4, w4)" by (metis prod_cases3)
  obtain e5 w5 where dl: "deleteUponCompletion x r ob4 w4 = (e5, w5)" by fastforce
  obtain e6 ob6 w6 where st: "addStoredAnnotations x r ob4 w5 = (e6, ob6, w6)" by (metis prod_cases3)
  have "ob' = ob4 \<or> ob' = ob6"
    using assms b dl st by (auto simp: after_put_eq and_then_def split: option.splits)
  then show ?thesis
    using before_delete.step_same [OF b] stored_annotations.step_same [OF st] same_run_trans by blast
qed

lemma after_put_completes:
  assumes "x_kube x = (\<lambda>n. None)" and "patchable kind ob" and "\<not> dy_logs r" and "\<not> DisableAnnotationUpdate (dy_cfg r)"
    and "\<not> StoreEvent (dy_cfg r)" and "CompletedResourceGracePeriod (dy_cfg r) = 0" and "IsDone ob"
  shows "\<exists>ob' w'. after_put x r res d ob w = (None, ob', w') \<and> fmlookup (run_annotations ob') an_Stored = Some ''true''"
proof -
  obtain ob1 w1 where 1: "Patch x [(an_Record, pd_name d), (an_Result, pr_name res)] ob w = (None, ob1, w1)"
    using Patch_ok [OF assms(1)] patchableD [OF assms(2)] by blast
  have s1: "same_run ob ob1" by (rule Patch_same [OF 1])
  then have p1: "patchable kind ob1" using patchable_same assms(2) by blast
  obtain ob2 w2 where 2: "addChildReadyForDeletionAnnotations x r ob1 w1 = (None, ob2, w2)"
    using Patch_ok [OF assms(1), of ob1 "[(an_ChildReadyForDeletion, ''true'')]" w1] patchableD [OF p1]
    by (cases "run_owners ob1 = [] \<or> \<not> IsDone ob1") (auto simp: addChildReadyForDeletionAnnotations_def assms(4))
  have s2: "same_run ob1 ob2" by (rule child_annotations.step_same [OF 2])
  then have p2: "patchable kind ob2" "IsDone ob2" using patchable_same p1 same_runD(11) [OF s1] same_runD(11) [OF s2] assms(7) by auto
  obtain ob3 w3 where 3: "Patch x [(an_Stored, ''true'')] ob2 w2 = (None, ob3, w3)"
      "fmlookup (run_annotations ob3) an_Stored = Some ''true''"
    using Patch_sets [OF assms(1)] patchableD [OF p2(1)] by (metis list.distinct(1))
  have "addStoredAnnotations x r ob2 w2 = (None, ob3, emit AfterStorage w3)"
    using p2 3(1) patchableD [OF p2(1)] assms(3,4) by (cases kind) (auto simp: addStoredAnnotations_def patchable_def)
  then have "after_put x r res d ob w = (None, ob3, emit AfterStorage w3)"
    using 1 2 assms(3-6)
    by (simp add: after_put_def update_logs_def addResultsAnnotations_def and_then_def deleteUponCompletion_def)
  then show ?thesis using 3(2) by blast
qed

text \<open>Reconciling a finished run whose data the API server accepts leaves it marked as stored.\<close>

lemma reconcile_marks_stored:
  assumes "x_kube x = (\<lambda>n. None)" and "with_gvk (x_codec x) ob = Inr ob0" and "patchable kind ob0"
    and "Put x cfg ob0 w = (Inr (res, d), w1)" and "dy_cfg r = cfg" and "\<not> dy_logs r" and "must_wait kind cfg ob"
    and "\<not> StoreEvent cfg" and "CompletedResourceGracePeriod cfg = 0"
  shows "\<exists>ob' w'. Reconcile x r ob w = (None, ob', w') \<and> IsDone ob' \<and> fmlookup (run_annotations ob') an_Stored = Some ''true''"
proof -
  have dn: "IsDone ob0" using assms(7) with_gvkD(7) [OF assms(2)] by (simp add: must_wait_def)
  obtain ob' w' where a: "after_put x r res d ob0 w1 = (None, ob', w')" "fmlookup (run_annotations ob') an_Stored = Some ''true''"
    using after_put_completes [OF assms(1,3,6), of res d w1] assms(5,7-9) dn by (auto simp: must_wait_def)
  have "Reconcile x r ob w = (None, ob', w')" using assms(2,4,5) a(1) by (simp add: Reconcile_def)
  moreover have "IsDone ob'" using same_runD(11) [OF after_put_same [OF a(1)]] dn by blast
  ultimately show ?thesis using a(2) by blast
qed



text \<open>The requirement on annotations does not reach CustomRuns, whose release never looks at it.\<close>

theorem customruns_ignore_required_annotations:
  "CustomRun_finalize x (cfg\<lparr>RequiredAnnotations := rs\<rparr>) rerr cr w = CustomRun_finalize x cfg rerr cr w"
proof -
  let ?c = "cfg\<lparr>RequiredAnnotations := rs\<rparr>"
  have same: "requeue ?c = requeue cfg" "StoreDeadline ?c = StoreDeadline cfg"
    "DisableAnnotationUpdate ?c = DisableAnnotationUpdate cfg" by (simp_all add: requeue_def)
  show ?thesis unfolding CustomRun_finalize_def migrate_def deadline_release_def stored_event_def same ..
qed

end
