(* ===== verification/PluginLogs.thy ===== *)
theory PluginLogs
  imports LogHandlers "HOL-Library.AList"
begin

text \<open>
  The log plugin server (\<^verbatim>\<open>pkg/api/server/v1alpha2/plugin\<close>): its construction, the three backends
  (Loki, blob storage, Splunk) and the two ways in, the gRPC stream and the HTTP handler. A backend
  writes to a writer, which is a state and a function that appends a text or fails. The HTTP client,
  the bucket, JSON decoding, regular expressions and the parsing of URLs are parameters
  (record \<open>plugin_outside\<close>); so are the two library sorts, which are not stable. A request keeps its
  query as the list of its parameters, before URL encoding.
\<close>

subsection \<open>The server\<close>

record plugin_config =
  PL_LOGS_TYPE :: string
  PL_LOGS_PATH :: string
  PL_LOGS_BUFFER_SIZE :: int
  LOGGING_PLUGIN_API_URL :: string
  LOGGING_PLUGIN_NAMESPACE_KEY :: string
  LOGGING_PLUGIN_CONTAINER_KEY :: string
  LOGGING_PLUGIN_STATIC_LABELS :: string
  LOGGING_PLUGIN_PROXY_PATH :: string
  LOGGING_PLUGIN_QUERY_LIMIT :: nat
  LOGGING_PLUGIN_FORWARDER_DELAY_DURATION :: int
  LOGGING_PLUGIN_QUERY_PARAMS :: string
  LOGGING_PLUGIN_MULTIPART_REGEX :: string
  LOGGING_PLUGIN_JSON_MAP :: string
  LOGGING_PLUGIN_LINE_FORMAT :: string
  LOGGING_PLUGIN_CA_CERT :: string
  LOGGING_PLUGIN_TLS_VERIFICATION_DISABLE :: bool

datatype log_backend = LokiLogs | BlobLogs | SplunkLogs

datatype tls_client = NoClient | DefaultTLS | RootCAs string | InsecureSkipVerify

record LogServer =
  ls_config :: plugin_config
  staticLabels :: string
  ls_client :: tls_client
  forwarderDelayDuration :: int
  queryLimit :: nat
  queryParams :: "(string \<times> string) list"
  ls_getLog :: "log_backend option"

definition setLogPlugin :: "plugin_config \<Rightarrow> log_backend option" where
  "setLogPlugin cfg =
     (let t = ToLower (PL_LOGS_TYPE cfg) in
      if t = ''loki'' then Some LokiLogs
      else if t = ''blob'' then Some BlobLogs
      else if t = ''splunk'' then Some SplunkLogs
      else None)"

fun static_labels :: "string list \<Rightarrow> string \<Rightarrow> string res" where
  "static_labels [] acc = Inr acc"
| "static_labels (v # vs) acc =
     (case split_on (CHR ''='') v of
        [k, y] \<Rightarrow> static_labels vs (acc @ k @ ''='' @ [dquote] @ y @ [dquote] @ '','')
      | _ \<Rightarrow> Inl (PlainErr (''incorrect format for LOGGING_STATIC_LABELS: '' @ v)))"

fun query_params :: "string list \<Rightarrow> (string \<times> string) list \<Rightarrow> (string \<times> string) list res" where
  "query_params [] acc = Inr acc"
| "query_params (v # vs) acc =
     (case split_on (CHR ''='') v of
        [k, y] \<Rightarrow> query_params vs (AList.update k y acc)
      | _ \<Rightarrow> Inl (PlainErr (''incorrect format for LOGGING_PLUGIN_QUERY_PARAMS: '' @ v)))"

definition client_tls :: "plugin_config \<Rightarrow> tls_client" where
  "client_tls cfg =
     (if LOGGING_PLUGIN_CA_CERT cfg \<noteq> [] then RootCAs (LOGGING_PLUGIN_CA_CERT cfg)
      else if LOGGING_PLUGIN_TLS_VERIFICATION_DISABLE cfg then InsecureSkipVerify else DefaultTLS)"

definition NewLogServer :: "plugin_config \<Rightarrow> LogServer res" where
  "NewLogServer cfg =
     (let s0 = \<lparr>ls_config = cfg, staticLabels = [], ls_client = NoClient,
                forwarderDelayDuration = 0, queryLimit = 0, queryParams = [],
                ls_getLog = setLogPlugin cfg\<rparr>
      in if ls_getLog s0 = None then Inr s0
         else
         (case (if LOGGING_PLUGIN_STATIC_LABELS cfg \<noteq> [] then static_labels (split_on (CHR '','') (LOGGING_PLUGIN_STATIC_LABELS cfg)) []
                else Inr []) of
            Inl e \<Rightarrow> Inl e
          | Inr labels \<Rightarrow>
         (case (if LOGGING_PLUGIN_QUERY_PARAMS cfg \<noteq> [] then query_params (split_on (CHR ''&'') (LOGGING_PLUGIN_QUERY_PARAMS cfg)) []
                else Inr []) of
            Inl e \<Rightarrow> Inl e
          | Inr qs \<Rightarrow>
              Inr (s0\<lparr>staticLabels := labels, ls_client := client_tls cfg,
                forwarderDelayDuration := int64 (LOGGING_PLUGIN_FORWARDER_DELAY_DURATION cfg * 60000000000),
                queryLimit := LOGGING_PLUGIN_QUERY_LIMIT cfg, queryParams := qs\<rparr>))))"

subsection \<open>What is outside\<close>

record url =
  u_prefix :: string
  u_path :: string
  u_query :: "(string \<times> string) list"

record http_request =
  hr_method :: string
  hr_url :: url
  hr_suffix :: string
  hr_form :: "(string \<times> string) list"
  hr_auth :: string

datatype http_result = NoResponse string | NilResponse | Response int "string + string"

record loki_response =
  lk_status :: string
  lk_values :: "string list list list"

text \<open>One wake-up of the polling loop: the timer, or a tick with what the request then gives.\<close>

datatype poll_event = PollTimeout | PollTick http_result

record plugin_outside =
  po_parse_url :: "string \<Rightarrow> string + url"
  po_do :: "http_request \<Rightarrow> http_result"
  po_token :: "string + string"
  po_env_token :: string
  po_times :: "string \<Rightarrow> string \<Rightarrow> string + (gotime option \<times> gotime option)"
  po_json_map :: "string \<Rightarrow> string + (string \<times> string) list"
  po_loki :: "string \<Rightarrow> string + loki_response"
  po_sid :: "string \<Rightarrow> string + string"
  po_entries :: "string \<Rightarrow> string + string list"
  po_rows :: "string \<Rightarrow> string + string list list"
  po_log :: "string \<Rightarrow> string + log"
  po_sort :: "string list list \<Rightarrow> string list list"
  po_sort_objects :: "(string \<times> gotime) list \<Rightarrow> (string \<times> gotime) list"
  po_open :: "url \<Rightarrow> string option"
  po_list :: "string \<Rightarrow> string + (string \<times> gotime) list"
  po_read :: "string \<Rightarrow> string + string list"
  po_regexp :: "string \<Rightarrow> string + (string \<Rightarrow> string)"
  po_polls :: "poll_event list"

type_synonym 'w writer = "'w \<Rightarrow> string \<Rightarrow> go_error option \<times> 'w"

definition streaming_error :: go_error where
  "streaming_error = StatusErr Internal ''Error streaming log''"

definition write_messages :: "'w writer \<Rightarrow> string list \<Rightarrow> 'w \<Rightarrow> go_error option \<times> 'w" where
  "write_messages write msgs w =
     (case write w (join [CHR 0x0A] msgs) of
        (Some _, w') \<Rightarrow> (Some streaming_error, w')
      | (None, w') \<Rightarrow> (None, w'))"

text \<open>A request that has to be answered with the given status; its body, or the error of the caller.\<close>

definition fetch :: "plugin_outside \<Rightarrow> http_request \<Rightarrow> int \<Rightarrow> go_error \<Rightarrow> string res" where
  "fetch x req expected statusErr =
     (case po_do x req of
        NoResponse _ \<Rightarrow> Inl streaming_error
      | NilResponse \<Rightarrow> Inl streaming_error
      | Response code body \<Rightarrow>
          if code \<noteq> expected then Inl statusErr
          else (case body of Inl _ \<Rightarrow> Inl streaming_error | Inr data \<Rightarrow> Inr data))"

subsection \<open>Loki\<close>

definition pipelineRunUIDKey :: string where "pipelineRunUIDKey = ''kubernetes.labels.tekton_dev_pipelineRunUID''"
definition taskRunUIDKey :: string where "taskRunUIDKey = ''kubernetes.labels.tekton_dev_taskRunUID''"

definition Unix :: "gotime \<Rightarrow> int" where "Unix t = t div 1000000000"

definition getLogRequestParams :: "plugin_outside \<Rightarrow> LogServer \<Rightarrow> db_record \<Rightarrow> (string \<times> string \<times> string) res" where
  "getLogRequestParams x s rec =
     (let kind = (if d_type rec = ''tekton.dev/v1.PipelineRun'' then Some (''pipelinerun'', pipelineRunUIDKey)
                  else if d_type rec = ''tekton.dev/v1.TaskRun'' then Some (''taskrun'', taskRunUIDKey) else None)
      in case kind of
           None \<Rightarrow> Inl (PlainErr (''record type is invalid, record ID: '' @ d_id rec @ '', Name: '' @ d_name rec
                     @ '', result Name: '' @ d_result_name rec @ '', result ID: '' @ d_result_id rec))
         | Some (nm, uidKey) \<Rightarrow>
             (case po_times x (d_type rec) (d_data rec) of
                Inl e \<Rightarrow> Inl (PlainErr (''failed to marshal '' @ nm @ '' data for fetching log, err: '' @ e))
              | Inr (None, _) \<Rightarrow> Inl (PlainErr (''there'' @ [squote] @ ''s no startime in '' @ nm))
              | Inr (Some _, None) \<Rightarrow> Inl (PlainErr (''there'' @ [squote] @ ''s no completion in '' @ nm))
              | Inr (Some t, Some c) \<Rightarrow>
                  Inr (show_int (Unix t), show_int (Unix (c + forwarderDelayDuration s)), uidKey)))"

definition escape_quotes :: "string \<Rightarrow> string" where
  "escape_quotes s = concat (map (\<lambda>c. if c = dquote then [CHR 0x5C, dquote] else [c]) s)"

definition in_quotes :: "string \<Rightarrow> string" where
  "in_quotes s = dquote # s @ [dquote]"

definition json_fields :: "plugin_outside \<Rightarrow> plugin_config \<Rightarrow> string \<Rightarrow> (string \<times> string) list" where
  "json_fields x cfg uidKey =
     (let f0 = [(''uid'', uidKey), (''message'', ''message'')];
          f1 = (if LOGGING_PLUGIN_CONTAINER_KEY cfg \<noteq> [] then AList.update ''container'' (LOGGING_PLUGIN_CONTAINER_KEY cfg) f0 else f0)
      in if LOGGING_PLUGIN_JSON_MAP cfg \<noteq> []
         then (case po_json_map x (LOGGING_PLUGIN_JSON_MAP cfg) of
                 Inl _ \<Rightarrow> f1
               | Inr userMap \<Rightarrow> fold (\<lambda>(k, v) f. AList.update k v f) userMap f1)
         else f1)"

definition loki_query :: "plugin_outside \<Rightarrow> LogServer \<Rightarrow> string \<Rightarrow> string \<Rightarrow> db_record \<Rightarrow> string" where
  "loki_query x s uidKey parent rec =
     (let cfg = ls_config s;
          baseSelector = ''{ '' @ staticLabels s @ LOGGING_PLUGIN_NAMESPACE_KEY cfg @ ''='' @ in_quotes parent @ '' }'';
          uidFilter = ''|uid='' @ in_quotes (d_name rec);
          jsonArgs = map (\<lambda>(k, v). k @ ''='' @ in_quotes (escape_quotes v)) (sort_key fst (json_fields x cfg uidKey));
          parsingStage = ''| json '' @ join '', '' jsonArgs;
          outputStage = ''| line_format '' @
            (if LOGGING_PLUGIN_LINE_FORMAT cfg \<noteq> [] then in_quotes (LOGGING_PLUGIN_LINE_FORMAT cfg)
             else if LOGGING_PLUGIN_CONTAINER_KEY cfg \<noteq> [] then in_quotes ''container-{{.container}}: message={{.message}}''
             else in_quotes ''{{.message}}'')
      in baseSelector @ parsingStage @ '' '' @ uidFilter @ outputStage)"

definition loki_messages :: "plugin_outside \<Rightarrow> loki_response \<Rightarrow> string list" where
  "loki_messages x r = concat (map tl (filter (\<lambda>val. length val > 1) (po_sort x (concat (lk_values r)))))"

definition getLokiLogs :: "plugin_outside \<Rightarrow> LogServer \<Rightarrow> 'w writer \<Rightarrow> string \<Rightarrow> db_record \<Rightarrow> 'w \<Rightarrow> go_error option \<times> 'w" where
  "getLokiLogs x s write parent rec w =
     (case po_parse_url x (LOGGING_PLUGIN_API_URL (ls_config s)) of
        Inl e \<Rightarrow> (Some (PlainErr e), w)
      | Inr u \<Rightarrow>
     (case getLogRequestParams x s rec of
        Inl e \<Rightarrow> (Some e, w)
      | Inr (startTime, endTime, uidKey) \<Rightarrow>
     (case po_token x of
        Inl e \<Rightarrow> (Some (PlainErr e), w)
      | Inr token \<Rightarrow>
     (let req = \<lparr>hr_method = ''GET'',
            hr_url = u\<lparr>u_path := Join [u_path u, LOGGING_PLUGIN_PROXY_PATH (ls_config s), ''/loki/api/v1/query_range''],
              u_query := queryParams s @ [(''query'', loki_query x s uidKey parent rec), (''end'', endTime),
                (''start'', startTime), (''limit'', show_nat (queryLimit s))]\<rparr>,
            hr_suffix = [], hr_form = [], hr_auth = ''Bearer '' @ token\<rparr>
      in case fetch x req 200 (StatusErr Internal ''Error fetching log data'') of
           Inl e \<Rightarrow> (Some e, w)
         | Inr data \<Rightarrow>
     (case po_loki x data of
        Inl e \<Rightarrow> (Some (StatusErr Internal (''Error processing fetched log data, err: '' @ e @ '', data: '' @ data)), w)
      | Inr r \<Rightarrow>
          if lk_status r \<noteq> ''success'' then (Some (StatusErr Internal ''Error fetching log data from Loki''), w)
          else write_messages write (loki_messages x r) w)))))"

subsection \<open>Blob storage\<close>

text \<open>One more log path: the groups so far, the index of each base name, and the next index.\<close>

definition add_part :: "(string \<Rightarrow> string) \<Rightarrow> string \<Rightarrow>
    string list list \<times> (string \<times> nat) list \<times> nat \<Rightarrow> string list list \<times> (string \<times> nat) list \<times> nat" where
  "add_part base log st =
     (case st of (merged, indexes, index) \<Rightarrow>
        (case map_of indexes (base log) of
           Some i \<Rightarrow> (merged[i := merged ! i @ [log]], indexes, index)
         | None \<Rightarrow> (merged @ [[log]], AList.update (base log) index indexes, index + 1)))"

definition mergeLogParts :: "(string \<Rightarrow> string) \<Rightarrow> string list \<Rightarrow> string list list" where
  "mergeLogParts base logPath = fst (fold (add_part base) logPath ([], [], 0))"

definition TrimRight :: "string \<Rightarrow> string \<Rightarrow> string" where
  "TrimRight s cutset = rev (dropWhile (\<lambda>c. c \<in> set cutset) (rev s))"

definition TrimPrefix :: "string \<Rightarrow> string \<Rightarrow> string" where
  "TrimPrefix s p = (case strip_prefix p s of Some t \<Rightarrow> t | None \<Rightarrow> s)"

definition split_file :: "string \<Rightarrow> string" where
  "split_file p = rev (takeWhile (\<lambda>c. c \<noteq> CHR ''/'') (rev p))"

definition log_title :: "string \<Rightarrow> string" where
  "log_title baseName = TrimRight (split_file baseName) ''.log'' @ '' :-'' @ [CHR 0x0A]"

definition log_header :: "(string \<Rightarrow> string) \<Rightarrow> string list \<Rightarrow> string" where
  "log_header base parts = log_title (base (hd parts))"

fun write_chunks :: "'w writer \<Rightarrow> string list \<Rightarrow> 'w \<Rightarrow> 'w" where
  "write_chunks write [] w = w"
| "write_chunks write (c # cs) w = (case write w c of (Some _, w') \<Rightarrow> w' | (None, w') \<Rightarrow> write_chunks write cs w')"

fun write_parts :: "plugin_outside \<Rightarrow> 'w writer \<Rightarrow> string list \<Rightarrow> 'w \<Rightarrow> go_error option \<times> 'w" where
  "write_parts x write [] w = (None, w)"
| "write_parts x write (part # parts) w =
     (case po_read x part of
        Inl e \<Rightarrow> (Some (PlainErr e), w)
      | Inr chunks \<Rightarrow> write_parts x write parts (snd (write (write_chunks write chunks w) [CHR 0x0A])))"

fun write_logs :: "plugin_outside \<Rightarrow> (string \<Rightarrow> string) \<Rightarrow> 'w writer \<Rightarrow> string list list \<Rightarrow> 'w \<Rightarrow> go_error option \<times> 'w" where
  "write_logs x base write [] w = (None, w)"
| "write_logs x base write (parts # groups) w =
     (case write_parts x write parts (snd (write w (log_header base parts))) of
        (Some e, w') \<Rightarrow> (Some e, w')
      | (None, w') \<Rightarrow> write_logs x base write groups w')"

definition plugin_getRecord :: "env \<Rightarrow> string \<Rightarrow> string \<Rightarrow> string \<Rightarrow> db \<Rightarrow> db_record res" where
  "plugin_getRecord e parent res name s =
     (case exec e OpFirst (first_record (record_cond parent res name) s) of
        Inl err \<Rightarrow> Inl (wrap err)
      | Inr d \<Rightarrow> Inr d)"

definition plugin_getLogRecord :: "env \<Rightarrow> (string \<Rightarrow> string option) \<Rightarrow> string \<Rightarrow> string \<Rightarrow> string \<Rightarrow> db \<Rightarrow> db_record res" where
  "plugin_getLogRecord e resource_uid parent resultID name s =
     (case exec e OpFirst (first_record (\<lambda>d. eq_cond [] parent (d_parent d) \<and> eq_cond [] resultID (d_result_id d)
          \<and> resource_uid (d_data d) = Some name) s) of
        Inl err \<Rightarrow> Inl (wrap err)
      | Inr d \<Rightarrow> Inr d)"

definition log_object_path :: "plugin_outside \<Rightarrow> LogServer \<Rightarrow> db_record \<Rightarrow> string list res" where
  "log_object_path x s rec =
     (case po_log x (d_data rec) of
        Inl e \<Rightarrow> Inl (PlainErr (''could not decode Log record: '' @ e))
      | Inr l \<Rightarrow> Inr [Join [PL_LOGS_PATH (ls_config s), ls_path (l_status l)]])"

definition blob_prefix :: "LogServer \<Rightarrow> string \<Rightarrow> db_record \<Rightarrow> string" where
  "blob_prefix s parent rec =
     TrimPrefix (PL_LOGS_PATH (ls_config s) @ ''/'' @ parent @ ''/'' @ d_result_name rec @ ''/'' @ d_name rec @ ''/'') ''/''"

definition blob_paths :: "plugin_outside \<Rightarrow> env \<Rightarrow> (string \<Rightarrow> string option) \<Rightarrow> LogServer \<Rightarrow> bool \<Rightarrow> string \<Rightarrow> db_record \<Rightarrow> db \<Rightarrow> string list res" where
  "blob_paths x e uid_of s legacy parent rec db =
     (if d_type rec = ''tekton.dev/v1.PipelineRun'' then Inl (PlainErr ''pipelinerun not supported, please use taskrun'')
      else if d_type rec = ''tekton.dev/v1beta1.TaskRun''
      then (if legacy
            then (case plugin_getLogRecord e uid_of parent (d_result_id rec) (d_name rec) db of
                    Inl _ \<Rightarrow> Inr []
                  | Inr logRec \<Rightarrow> log_object_path x s logRec)
            else Inl (PlainErr (''record type is invalid '' @ d_type rec)))
      else if d_type rec = ''tekton.dev/v1.TaskRun''
      then (case po_list x (blob_prefix s parent rec) of
              Inl err \<Rightarrow> Inl (PlainErr (''error listing log bucket objects: '' @ err))
            | Inr objs \<Rightarrow> Inr (map fst (po_sort_objects x objs)))
      else if d_type rec = LogRecordType \<or> d_type rec = LogRecordTypeV2 then log_object_path x s rec
      else Inl (PlainErr (''record type is invalid '' @ d_type rec)))"

definition legacyLogType :: string where "legacyLogType = ''v1alpha2LogType''"

definition getBlobLogs :: "plugin_outside \<Rightarrow> env \<Rightarrow> (string \<Rightarrow> string option) \<Rightarrow> LogServer \<Rightarrow> 'w writer \<Rightarrow> string \<Rightarrow> db_record \<Rightarrow> db \<Rightarrow> 'w \<Rightarrow>
    go_error option \<times> 'w" where
  "getBlobLogs x e uid_of s write parent rec db w =
     (case po_parse_url x (LOGGING_PLUGIN_API_URL (ls_config s)) of
        Inl err \<Rightarrow> (Some (PlainErr err), w)
      | Inr u \<Rightarrow>
     (let is_legacy = (\<lambda>(k, v). k = legacyLogType \<and> v = ''true'');
          u' = u\<lparr>u_query := u_query u @ filter (\<lambda>p. \<not> is_legacy p) (queryParams s)\<rparr>
      in case po_open x u' of
           Some err \<Rightarrow> (Some (PlainErr err), w)
         | None \<Rightarrow>
     (case blob_paths x e uid_of s (list_ex is_legacy (queryParams s)) parent rec db of
        Inl err \<Rightarrow> (Some err, w)
      | Inr logPath \<Rightarrow>
     (case po_regexp x (LOGGING_PLUGIN_MULTIPART_REGEX (ls_config s)) of
        Inl err \<Rightarrow> (Some (PlainErr err), w)
      | Inr base \<Rightarrow> write_logs x base write (mergeLogParts base logPath) w))))"

subsection \<open>Splunk\<close>

text \<open>What one answer to a poll means: done, failed for good, or to be tried again.\<close>

datatype poll_state = PollDone | PollFailed string | PollAgain

definition poll_answer :: "plugin_outside \<Rightarrow> http_result \<Rightarrow> poll_state" where
  "poll_answer x r =
     (case r of
        Response code (Inr data) \<Rightarrow>
          if code \<noteq> 200 then PollAgain
          else (case po_entries x data of
                  Inl _ \<Rightarrow> PollAgain
                | Inr [] \<Rightarrow> PollAgain
                | Inr (st # _) \<Rightarrow>
                    if st = ''DONE'' then PollDone
                    else if st \<in> set [''INTERNAL_CANCEL'', ''USER_CANCEL'', ''BAD_INPUT_CANCEL'', ''QUIT'', ''FAILED'']
                    then PollFailed (''splunk job failed: state: '' @ st)
                    else PollAgain)
      | _ \<Rightarrow> PollAgain)"

text \<open>The loop over its wake-ups; \<open>None\<close> while it still waits.\<close>

fun pollSplunkJobStatus :: "plugin_outside \<Rightarrow> string \<Rightarrow> poll_event list \<Rightarrow> go_error option option" where
  "pollSplunkJobStatus x url [] = None"
| "pollSplunkJobStatus x url (PollTimeout # evs) =
     Some (Some (PlainErr (''timeout reached for splunk search job, url: '' @ url)))"
| "pollSplunkJobStatus x url (PollTick r # evs) =
     (case poll_answer x r of
        PollDone \<Rightarrow> Some None
      | PollFailed m \<Rightarrow> Some (Some (PlainErr m))
      | PollAgain \<Rightarrow> pollSplunkJobStatus x url evs)"

fun splunk_lines :: "string \<Rightarrow> string list list \<Rightarrow> string list" where
  "splunk_lines step [] = []"
| "splunk_lines step (msg # msgs) =
     (case msg of
        [a, b, c] \<Rightarrow>
          (if step \<noteq> c then [c @ '':-''] else []) @ (a @ b) # splunk_lines c msgs
      | _ \<Rightarrow> splunk_lines step msgs)"

definition splunk_query :: "LogServer \<Rightarrow> string \<Rightarrow> string \<Rightarrow> string \<Rightarrow> db_record \<Rightarrow> string" where
  "splunk_query s index uidKey parent rec =
     ''search index='' @ index @ '' '' @ uidKey @ ''='' @ quote_go (d_name rec) @ '' ''
     @ LOGGING_PLUGIN_NAMESPACE_KEY (ls_config s) @ ''='' @ quote_go parent @ '' | table message structured.msg ''
     @ LOGGING_PLUGIN_CONTAINER_KEY (ls_config s)"

text \<open>While the polling loop waits the call has not returned: \<open>None\<close>.\<close>

definition getSplunkLogs :: "plugin_outside \<Rightarrow> LogServer \<Rightarrow> 'w writer \<Rightarrow> string \<Rightarrow> db_record \<Rightarrow> 'w \<Rightarrow> (go_error option \<times> 'w) option" where
  "getSplunkLogs x s write parent rec w =
     (case po_parse_url x (LOGGING_PLUGIN_API_URL (ls_config s)) of
        Inl e \<Rightarrow> Some (Some (PlainErr e), w)
      | Inr u0 \<Rightarrow>
     (let u = u0\<lparr>u_path := Join [u_path u0, ''/services/search/v2/jobs'']\<rparr>; token = po_env_token x in
      if token = [] then Some (Some (PlainErr ''splunk token not set''), w)
      else
     (case getLogRequestParams x s rec of
        Inl e \<Rightarrow> Some (Some e, w)
      | Inr (startTime, endTime, uidKey) \<Rightarrow>
     (case map_of (queryParams s) ''index'' of
        None \<Rightarrow> Some (Some (PlainErr ''index not specified in query parameters''), w)
      | Some index \<Rightarrow>
     (let req = \<lparr>hr_method = ''POST'', hr_url = u, hr_suffix = ''?output_mode=json'',
            hr_form = [(''search'', splunk_query s index uidKey parent rec), (''earliest_time'', startTime),
              (''latest_time'', endTime)], hr_auth = ''Bearer '' @ token\<rparr>
      in case fetch x req 201 (StatusErr Internal ''Error fetching log data - search job creation failed'') of
           Inl e \<Rightarrow> Some (Some e, w)
         | Inr data \<Rightarrow>
     (case po_sid x data of
        Inl e \<Rightarrow> Some (Some (StatusErr Internal (''Error processing fetched log data, err: '' @ e @ '', data: '' @ data)), w)
      | Inr sid \<Rightarrow>
     (case pollSplunkJobStatus x (u_prefix u @ u_path u @ ''/'' @ sid @ ''?output_mode=json'') (po_polls x) of
        None \<Rightarrow> None
      | Some (Some e) \<Rightarrow>
          Some (Some (StatusErr Internal (''Error failed to poll splunk search job status, err: '' @ error_msg e)), w)
      | Some None \<Rightarrow>
     (let req2 = \<lparr>hr_method = ''GET'', hr_url = u, hr_suffix = ''/'' @ sid @ ''/results?output_mode=json_rows&count=0'',
            hr_form = [], hr_auth = ''Bearer '' @ token\<rparr>
      in case fetch x req2 200 (StatusErr Internal ''Error fetching log data - fetch log api failed'') of
           Inl e \<Rightarrow> Some (Some e, w)
         | Inr data2 \<Rightarrow>
     (case po_rows x data2 of
        Inl e \<Rightarrow> Some (Some (PlainErr (''failed to unmarshal Splunk log data, err: '' @ e)), w)
      | Inr rows \<Rightarrow>
          Some (write_messages write (splunk_lines [] rows) w))))))))))"

subsection \<open>The two ways in\<close>

definition plugin_getLog :: "plugin_outside \<Rightarrow> env \<Rightarrow> (string \<Rightarrow> string option) \<Rightarrow> LogServer \<Rightarrow> log_backend \<Rightarrow> 'w writer \<Rightarrow>
    string \<Rightarrow> db_record \<Rightarrow> db \<Rightarrow> 'w \<Rightarrow> (go_error option \<times> 'w) option" where
  "plugin_getLog x e uid_of s backend write parent rec db w =
     (case backend of
        LokiLogs \<Rightarrow> Some (getLokiLogs x s write parent rec w)
      | BlobLogs \<Rightarrow> Some (getBlobLogs x e uid_of s write parent rec db w)
      | SplunkLogs \<Rightarrow> getSplunkLogs x s write parent rec w)"

definition buffered_write :: "send_err \<Rightarrow> BufferedLog writer" where
  "buffered_write err w t = (case Write err w t of (Inl e, w') \<Rightarrow> (Some e, w') | (Inr _, w') \<Rightarrow> (None, w'))"

definition plugin_GetLog :: "plugin_outside \<Rightarrow> env \<Rightarrow> (string \<Rightarrow> string option) \<Rightarrow> send_err \<Rightarrow> LogServer \<Rightarrow> log_backend \<Rightarrow> string \<Rightarrow> db \<Rightarrow>
    (go_error option \<times> message list) option" where
  "plugin_GetLog x e uid_of send s backend nm db =
     (case log_ParseName nm of
        Inl _ \<Rightarrow> Some (Some (StatusErr InvalidArgument ''Invalid Name''), [])
      | Inr (parent, res, name) \<Rightarrow>
     (case e_check e parent ResourceLogs PermissionGet of
        Some err \<Rightarrow> Some (Some err, [])
      | None \<Rightarrow>
     (case plugin_getRecord e parent res name db of
        Inl err \<Rightarrow> Some (Some err, [])
      | Inr rec \<Rightarrow>
     (case plugin_getLog x e uid_of s backend (buffered_write send) parent rec db
             (NewBufferedHTTPWriter nm (PL_LOGS_BUFFER_SIZE (ls_config s))) of
        None \<Rightarrow> None
      | Some (_, w) \<Rightarrow>
          (case Flush send w of
             (Inl _, w') \<Rightarrow> Some (Some streaming_error, bl_sent w')
           | (Inr _, w') \<Rightarrow> Some (None, bl_sent w'))))))"

record http_response =
  re_status :: "int option"
  re_body :: string
  re_writes :: nat

definition response_write :: "(nat \<Rightarrow> go_error option) \<Rightarrow> http_response writer" where
  "response_write err r t =
     (let r' = r\<lparr>re_status := Some (case re_status r of None \<Rightarrow> 200 | Some c \<Rightarrow> c), re_writes := re_writes r + 1\<rparr> in
      case err (re_writes r) of
        Some e \<Rightarrow> (Some e, r')
      | None \<Rightarrow> (None, r'\<lparr>re_body := re_body r @ t\<rparr>))"

definition http_Error :: "(nat \<Rightarrow> go_error option) \<Rightarrow> string \<Rightarrow> int \<Rightarrow> http_response \<Rightarrow> http_response" where
  "http_Error err msg code r =
     snd (response_write err (r\<lparr>re_status := Some (case re_status r of None \<Rightarrow> code | Some c \<Rightarrow> c)\<rparr>) (msg @ [CHR 0x0A]))"

definition LogMux :: "plugin_outside \<Rightarrow> env \<Rightarrow> (string \<Rightarrow> string option) \<Rightarrow> (nat \<Rightarrow> go_error option) \<Rightarrow> LogServer \<Rightarrow> log_backend \<Rightarrow>
    string \<Rightarrow> string \<Rightarrow> string \<Rightarrow> db \<Rightarrow> http_response option" where
  "LogMux x e uid_of err s backend parent res recID db =
     (let r0 = \<lparr>re_status = None, re_body = [], re_writes = 0\<rparr> in
      case e_check e parent ResourceLogs PermissionGet of
        Some _ \<Rightarrow> Some (http_Error err ''Not Authorized'' 401 r0)
      | None \<Rightarrow>
     (case plugin_getRecord e parent res recID db of
        Inl ge \<Rightarrow> Some (http_Error err (error_msg ge) 500 r0)
      | Inr rec \<Rightarrow>
     (case plugin_getLog x e uid_of s backend (response_write err) parent rec db r0 of
        None \<Rightarrow> None
      | Some (Some ge, r) \<Rightarrow> Some (http_Error err (''Failed to stream logs err: '' @ error_msg ge) 500 r)
      | Some (None, r) \<Rightarrow> Some r)))"

end
