(* ===== verification/PluginProps.thy ===== *)
theory PluginProps
  imports PluginLogs LogProps "HOL-Library.Multiset"
begin

text \<open>
  What the log plugin delivers. The reference is a run of the backend into a plain text; the two ways
  in are writers that hold the text, so both deliver that text. Then the grouping of the parts of a
  log, the text of a log in blob storage, the permission, the query sent to Loki and the polling loop.
\<close>

subsection \<open>Writers that hold what is written\<close>

definition text_write :: "string writer" where
  "text_write s t = (None, s @ t)"

lemma text_write_eqs [simp]: "snd (text_write s t) = s @ t" "case_prod f (text_write s t) = f None (s @ t)"
  by (simp_all add: text_write_def)

locale text_writer =
  fixes put :: "'w writer" and holds :: "'w \<Rightarrow> string \<Rightarrow> bool"
  assumes put_holds: "holds w s \<Longrightarrow> \<exists>w'. put w t = (None, w') \<and> holds w' (s @ t)"
begin

lemma write_rel: "holds w s \<Longrightarrow> rel_prod (=) holds (put w t) (text_write s t)"
  using put_holds [of w s t] by (auto simp: text_write_def)

lemma write_snd: "holds w s \<Longrightarrow> holds (snd (put w t)) (s @ t)"
  using put_holds [of w s t] by auto

lemma write_chunks_rel: "holds w s \<Longrightarrow> holds (write_chunks put cs w) (write_chunks text_write cs s)"
proof (induction cs arbitrary: w s)
  case (Cons c cs)
  obtain w' where "put w c = (None, w')" "holds w' (s @ c)" using put_holds [OF Cons.prems] by blast
  then show ?case using Cons.IH by simp
qed simp

lemma write_parts_rel: "holds w s \<Longrightarrow> rel_prod (=) holds (write_parts x put ps w) (write_parts x text_write ps s)"
proof (induction ps arbitrary: w s)
  case (Cons p ps)
  then show ?case using Cons.IH [OF write_snd [OF write_chunks_rel [OF Cons.prems]]]
    by (auto split: sum.split)
qed simp

lemma write_logs_rel:
  "holds w s \<Longrightarrow> rel_prod (=) holds (write_logs x base put gs w) (write_logs x base text_write gs s)"
proof (induction gs arbitrary: w s)
  case (Cons g gs)
  let ?a = "write_parts x put g (snd (put w (log_header base g)))"
    and ?b = "write_parts x text_write g (s @ log_header base g)"
  have "rel_prod (=) holds ?a ?b" by (rule write_parts_rel [OF write_snd [OF Cons.prems]])
  then obtain r w' s' where "?a = (r, w')" "?b = (r, s')" "holds w' s'" by (cases ?a; cases ?b) auto
  then show ?case using Cons.IH by (cases r) simp_all
qed simp

lemma write_messages_rel:
  "holds w s \<Longrightarrow> rel_prod (=) holds (write_messages put ms w) (write_messages text_write ms s)"
  using put_holds [of w s "join [CHR 0x0A] ms"] by (auto simp: write_messages_def)

lemma loki_rel:
  "holds w s \<Longrightarrow>
    rel_prod (=) holds (getLokiLogs x ls put parent rec w) (getLokiLogs x ls text_write parent rec s)"
  by (auto simp: getLokiLogs_def Let_def write_messages_rel split: sum.split)

lemma blob_rel:
  "holds w s \<Longrightarrow> rel_prod (=) holds (getBlobLogs x e uid_of ls put parent rec d w)
     (getBlobLogs x e uid_of ls text_write parent rec d s)"
  using write_logs_rel [of w s] by (auto simp: getBlobLogs_def Let_def split: sum.split option.split)

lemma splunk_rel:
  "holds w s \<Longrightarrow> rel_option (rel_prod (=) holds) (getSplunkLogs x ls put parent rec w)
     (getSplunkLogs x ls text_write parent rec s)"
  by (auto simp: getSplunkLogs_def Let_def write_messages_rel split: sum.split option.split)

lemma backend_rel:
  "holds w s \<Longrightarrow> rel_option (rel_prod (=) holds) (plugin_getLog x e uid_of ls backend put parent rec d w)
     (plugin_getLog x e uid_of ls backend text_write parent rec d s)"
  using loki_rel blob_rel splunk_rel by (cases backend) (simp_all add: plugin_getLog_def)

end

definition sends :: "nat \<Rightarrow> BufferedLog \<Rightarrow> string \<Rightarrow> bool" where
  "sends n w s = (good_writer w \<and> cut w s \<and> nat (bl_size w) = n)"

lemma buffered_write_ok:
  assumes "sends n w s"
  shows "\<exists>w'. buffered_write (\<lambda>i. None) w t = (None, w') \<and> sends n w' (s @ t)"
proof -
  have "fst (write_all (\<lambda>i. None) w [t]) = None"
    using assms by (intro write_all_no_error) (auto simp: sends_def)
  then obtain k w' where "Write (\<lambda>i. None) w t = (Inr k, w')" by (auto split: prod.splits sum.splits)
  then show ?thesis using Write_cut [of w s "\<lambda>i. None" t k w'] assms by (auto simp: buffered_write_def sends_def)
qed

interpretation grpc_writer: text_writer "buffered_write (\<lambda>i. None)" "sends n" for n
  by unfold_locales (rule buffered_write_ok)

definition answers :: "http_response \<Rightarrow> string \<Rightarrow> bool" where
  "answers r s = (re_body r = s \<and> (re_status r = Some 200 \<or> re_status r = None \<and> s = []))"

interpretation http_writer: text_writer "response_write (\<lambda>i. None)" answers
  by unfold_locales (auto simp: answers_def response_write_def Let_def)

lemma new_http_writer: "sends (chunk_size sz) (NewBufferedHTTPWriter nm sz) []"
  using new_writer [of "NewBufferedHTTPWriter nm sz" nm sz] by (simp add: sends_def new_writers_def)

lemma flush_sends:
  assumes "sends n w t"
  shows "\<exists>k w'. Flush (\<lambda>i. None) w = (Inr k, w') \<and> map payload (bl_sent w') = cut_text n t"
proof -
  have g: "good_writer w" "cut w t" "nat (bl_size w) = n" using assms by (simp_all add: sends_def)
  then obtain k w' where "Flush (\<lambda>i. None) w = (Inr k, w')"
    using Flush_no_error [of w "\<lambda>i. None"] by (auto simp: good_writer_def)
  then show ?thesis using flush_cut [OF g(1,2)] g(3) by blast
qed

lemma GetLog_delivers:
  assumes "log_ParseName nm = Inr (parent, res, name)" and "e_check e parent ResourceLogs PermissionGet = None"
    and "plugin_getRecord e parent res name db = Inr rec"
    and "plugin_getLog x e uid_of s backend text_write parent rec db [] = Some (r, t)"
  shows "\<exists>msgs. plugin_GetLog x e uid_of (\<lambda>i. None) s backend nm db = Some (None, msgs)
    \<and> map payload msgs = cut_text (chunk_size (PL_LOGS_BUFFER_SIZE (ls_config s))) t"
proof -
  obtain w where "plugin_getLog x e uid_of s backend (buffered_write (\<lambda>i. None)) parent rec db
      (NewBufferedHTTPWriter nm (PL_LOGS_BUFFER_SIZE (ls_config s))) = Some (r, w)"
      "sends (chunk_size (PL_LOGS_BUFFER_SIZE (ls_config s))) w t"
    using grpc_writer.backend_rel [OF new_http_writer [of "PL_LOGS_BUFFER_SIZE (ls_config s)" nm],
        of x e uid_of s backend parent rec db]
    unfolding assms(4) by (auto simp: option_rel_Some2)
  then show ?thesis using assms(1-3) flush_sends by (fastforce simp: plugin_GetLog_def)
qed

lemma LogMux_delivers:
  assumes "e_check e parent ResourceLogs PermissionGet = None" and "plugin_getRecord e parent res name db = Inr rec"
    and "plugin_getLog x e uid_of s backend text_write parent rec db [] = Some (r, t)"
  shows "\<exists>resp. LogMux x e uid_of (\<lambda>i. None) s backend parent res name db = Some resp
    \<and> re_body resp = t @ (case r of None \<Rightarrow> [] | Some err \<Rightarrow> ''Failed to stream logs err: '' @ error_msg err @ [CHR 0x0A])
    \<and> (t \<noteq> [] \<longrightarrow> re_status resp = Some 200) \<and> (r = None \<longrightarrow> re_status resp = None \<or> re_status resp = Some 200)"
proof -
  define r0 where "r0 = \<lparr>re_status = None, re_body = [], re_writes = 0\<rparr>"
  have "answers r0 []" by (simp add: answers_def r0_def)
  then obtain w where "plugin_getLog x e uid_of s backend (response_write (\<lambda>i. None)) parent rec db r0 = Some (r, w)"
      "answers w t"
    using http_writer.backend_rel [of r0 "[]" x e uid_of s backend parent rec db]
    unfolding assms(3) by (auto simp: option_rel_Some2)
  then show ?thesis using assms(1,2)
    by (cases r) (auto simp: LogMux_def r0_def [symmetric] answers_def http_Error_def response_write_def Let_def)
qed

subsection \<open>The parts of a log\<close>

text \<open>The elements of a list in the order of their first occurrence.\<close>

definition firsts :: "'a list \<Rightarrow> 'a list" where
  "firsts xs = rev (remdups (rev xs))"

lemma firsts_snoc: "firsts (xs @ [x]) = (if x \<in> set xs then firsts xs else firsts xs @ [x])"
  by (simp add: firsts_def)

lemma firsts_basics [simp]: "set (firsts xs) = set xs" "distinct (firsts xs)" "firsts [] = []"
  by (simp_all add: firsts_def)

definition parts_of :: "(string \<Rightarrow> string) \<Rightarrow> string list \<Rightarrow> string \<Rightarrow> string list" where
  "parts_of base l b = filter (\<lambda>p. base p = b) l"

lemma parts_of_snoc: "parts_of base (l @ [p]) b = parts_of base l b @ (if base p = b then [p] else [])"
  by (simp add: parts_of_def)

lemma update_group:
  assumes "distinct ks" and "i < length ks" and "ks ! i = base p"
  shows "(map (parts_of base l) ks)[i := parts_of base l (base p) @ [p]] = map (parts_of base (l @ [p])) ks"
proof (rule nth_equalityI)
  fix j assume "j < length ((map (parts_of base l) ks)[i := parts_of base l (base p) @ [p]])"
  then have j: "j < length ks" by simp
  have "ks ! j = base p \<longleftrightarrow> j = i" using assms j nth_eq_iff_index_eq by metis
  then show "(map (parts_of base l) ks)[i := parts_of base l (base p) @ [p]] ! j = map (parts_of base (l @ [p])) ks ! j"
    using j assms by (cases "j = i") (auto simp: parts_of_snoc)
qed simp

lemma add_part_state:
  "\<exists>ix. fold (add_part base) l ([], [], 0) =
      (map (parts_of base l) (firsts (map base l)), ix, length (firsts (map base l)))
    \<and> dom (map_of ix) = base ` set l
    \<and> (\<forall>i < length (firsts (map base l)). map_of ix (firsts (map base l) ! i) = Some i)"
proof (induction l rule: rev_induct)
  case (snoc p l)
  define ks where "ks = firsts (map base l)"
  have ks: "distinct ks" "set ks = base ` set l" by (simp_all add: ks_def)
  obtain ix where ix: "fold (add_part base) l ([], [], 0) = (map (parts_of base l) ks, ix, length ks)"
      "dom (map_of ix) = base ` set l" "\<forall>i < length ks. map_of ix (ks ! i) = Some i"
    using snoc.IH by (auto simp: ks_def)
  show ?case
  proof (cases "base p \<in> base ` set l")
    case True
    then obtain i where i: "i < length ks" "ks ! i = base p" using ks(2) by (metis in_set_conv_nth)
    then have "map_of ix (base p) = Some i" using ix(3) by metis
    then have "add_part base p (map (parts_of base l) ks, ix, length ks) = (map (parts_of base (l @ [p])) ks, ix, length ks)"
      using i update_group [of ks i base p l] ks(1) by (simp add: add_part_def)
    moreover have "firsts (map base (l @ [p])) = ks" using True by (simp add: firsts_snoc ks_def)
    moreover have "base ` set (l @ [p]) = base ` set l" using True by auto
    ultimately show ?thesis using ix by simp
  next
    case False
    then have new: "map_of ix (base p) = None" using ix(2) by (metis domIff)
    have k: "firsts (map base (l @ [p])) = ks @ [base p]" using False by (simp add: firsts_snoc ks_def)
    have "\<forall>b \<in> set ks. parts_of base (l @ [p]) b = parts_of base l b" using False ks(2) by (auto simp: parts_of_snoc)
    moreover have "parts_of base l (base p) = []" using False unfolding parts_of_def filter_empty_conv by (metis imageI)
    then have "parts_of base (l @ [p]) (base p) = [p]" by (simp add: parts_of_snoc)
    ultimately have "add_part base p (map (parts_of base l) ks, ix, length ks) =
        (map (parts_of base (l @ [p])) (ks @ [base p]), AList.update (base p) (length ks) ix, length ks + 1)"
      using new by (simp add: add_part_def)
    moreover have "\<forall>i < length ks. ks ! i \<noteq> base p" using False ks(2) nth_mem by fastforce
    ultimately show ?thesis using ix unfolding k by (auto simp: update_conv' nth_append less_Suc_eq)
  qed
qed simp

text \<open>The grouping of log parts by its index map is the plain grouping: one group per base name, in
  the order in which the base names first occur, and in a group all paths of that base name in their
  order. No part is lost or repeated.\<close>

theorem merge_log_parts_groups:
  "mergeLogParts base l = map (parts_of base l) (firsts (map base l))
   \<and> mset (concat (mergeLogParts base l)) = mset l"
proof -
  have m: "mergeLogParts base l = map (parts_of base l) (firsts (map base l))"
    using add_part_state [of base l] by (auto simp: mergeLogParts_def)
  have "mset (concat (map (parts_of base l) ks)) = filter_mset (\<lambda>p. base p \<in> set ks) (mset l)" if "distinct ks" for ks
    using that by (induction ks) (auto simp: parts_of_def multiset_eq_iff)
  from this [of "firsts (map base l)"] show ?thesis
    unfolding m by (auto simp: multiset_eq_iff not_in_iff [symmetric])
qed

subsection \<open>A log in blob storage\<close>

definition part_text :: "(string \<Rightarrow> string list) \<Rightarrow> string \<Rightarrow> string" where
  "part_text chunks p = concat (chunks p) @ [CHR 0x0A]"

text \<open>The specification: for each base name its title and the content of its parts.\<close>

definition blob_text :: "(string \<Rightarrow> string) \<Rightarrow> (string \<Rightarrow> string list) \<Rightarrow> string list \<Rightarrow> string" where
  "blob_text base chunks paths =
     concat (map (\<lambda>b. log_title b @ concat (map (part_text chunks) (parts_of base paths b))) (firsts (map base paths)))"

lemma write_chunks_text: "write_chunks text_write cs s = s @ concat cs"
  by (induction cs arbitrary: s) simp_all

lemma write_parts_text:
  "\<forall>p \<in> set ps. po_read x p = Inr (chunks p) \<Longrightarrow>
    write_parts x text_write ps s = (None, s @ concat (map (part_text chunks) ps))"
  by (induction ps arbitrary: s) (simp_all add: write_chunks_text part_text_def)

lemma write_logs_text:
  "\<forall>g \<in> set gs. \<forall>p \<in> set g. po_read x p = Inr (chunks p) \<Longrightarrow>
    write_logs x base text_write gs s =
      (None, s @ concat (map (\<lambda>g. log_header base g @ concat (map (part_text chunks) g)) gs))"
  by (induction gs arbitrary: s) (simp_all add: write_parts_text [of _ x chunks])

lemma log_header_parts: "b \<in> base ` set l \<Longrightarrow> log_header base (parts_of base l b) = log_title b"
proof -
  assume "b \<in> base ` set l"
  then have "parts_of base l b \<noteq> []" by (auto simp: parts_of_def filter_empty_conv)
  then have "hd (parts_of base l b) \<in> set (parts_of base l b)" by simp
  then show ?thesis by (simp add: parts_of_def log_header_def)
qed

lemma merged_text:
  assumes "\<forall>p \<in> set paths. po_read x p = Inr (chunks p)"
  shows "write_logs x base text_write (mergeLogParts base paths) s = (None, s @ blob_text base chunks paths)"
proof -
  have m: "mergeLogParts base paths = map (parts_of base paths) (firsts (map base paths))"
    using add_part_state [of base paths] by (auto simp: mergeLogParts_def)
  have eq: "map (\<lambda>b. log_header base (parts_of base paths b) @ concat (map (part_text chunks) (parts_of base paths b)))
      (firsts (map base paths))
    = map (\<lambda>b. log_title b @ concat (map (part_text chunks) (parts_of base paths b))) (firsts (map base paths))"
    by (rule map_cong) (simp_all add: log_header_parts)
  have "\<forall>g \<in> set (mergeLogParts base paths). \<forall>p \<in> set g. po_read x p = Inr (chunks p)"
    using assms unfolding m by (auto simp: parts_of_def)
  from write_logs_text [OF this, of base s] show ?thesis
    unfolding m blob_text_def eq [symmetric] by (simp add: comp_def)
qed

text \<open>What the storage does: the bucket opens, lists the objects under the prefix of the run, sorts
  them into the given paths, and every object can be read.\<close>

definition blob_store :: "plugin_outside \<Rightarrow> LogServer \<Rightarrow> string \<Rightarrow> db_record \<Rightarrow> (string \<Rightarrow> string list) \<Rightarrow> string list \<Rightarrow> bool" where
  "blob_store x s parent rec chunks paths \<longleftrightarrow>
     (\<exists>u. po_parse_url x (LOGGING_PLUGIN_API_URL (ls_config s)) = Inr u) \<and> po_open x = (\<lambda>u. None)
     \<and> (\<exists>objs. po_list x (blob_prefix s parent rec) = Inr objs \<and> paths = map fst (po_sort_objects x objs))
     \<and> (\<forall>p \<in> set paths. po_read x p = Inr (chunks p))"

lemma blob_run:
  assumes "d_type rec = ''tekton.dev/v1.TaskRun''" and "blob_store x s parent rec chunks paths"
    and "po_regexp x (LOGGING_PLUGIN_MULTIPART_REGEX (ls_config s)) = Inr base"
  shows "getBlobLogs x e uid_of s text_write parent rec db [] = (None, blob_text base chunks paths)"
proof -
  have "\<forall>p \<in> set paths. po_read x p = Inr (chunks p)" using assms(2) by (simp add: blob_store_def)
  then have "write_logs x base text_write (mergeLogParts base paths) [] = (None, blob_text base chunks paths)"
    using merged_text [of paths x chunks base "[]"] by simp
  then show ?thesis using assms by (auto simp: getBlobLogs_def blob_paths_def blob_store_def Let_def)
qed

text \<open>C22: The log of a TaskRun in blob storage is delivered completely, by the gRPC stream in messages of
  the buffer size and by the HTTP handler in one body: for every base name of the listed objects, in
  order of first occurrence, its title and the contents of all its parts, each followed by a newline.\<close>

theorem blob_log_delivered:
  assumes "log_ParseName nm = Inr (parent, res, name)" and "e_check e parent ResourceLogs PermissionGet = None"
    and "plugin_getRecord e parent res name db = Inr rec" and "d_type rec = ''tekton.dev/v1.TaskRun''"
    and "blob_store x s parent rec chunks paths"
    and "po_regexp x (LOGGING_PLUGIN_MULTIPART_REGEX (ls_config s)) = Inr base"
  shows "(\<exists>msgs. plugin_GetLog x e uid_of (\<lambda>i. None) s BlobLogs nm db = Some (None, msgs)
      \<and> map payload msgs = cut_text (chunk_size (PL_LOGS_BUFFER_SIZE (ls_config s))) (blob_text base chunks paths))
    \<and> (\<exists>resp. LogMux x e uid_of (\<lambda>i. None) s BlobLogs parent res name db = Some resp
      \<and> re_body resp = blob_text base chunks paths \<and> re_status resp \<noteq> Some 500)"
proof -
  have run: "plugin_getLog x e uid_of s BlobLogs text_write parent rec db [] = Some (None, blob_text base chunks paths)"
    using blob_run [OF assms(4-6)] by (simp add: plugin_getLog_def)
  show ?thesis using GetLog_delivers [OF assms(1-3) run] LogMux_delivers [OF assms(2,3) run] by fastforce
qed

definition task_row :: "string \<Rightarrow> db_record" where
  "task_row ty = (log_row ''1'')\<lparr>d_type := ty\<rparr>"

definition task_db :: "string \<Rightarrow> db" where
  "task_db ty = (log_db ''1'')\<lparr>records_tbl := [task_row ty]\<rparr>"

definition sample_plugin :: LogServer where
  "sample_plugin = \<lparr>ls_config = \<lparr>PL_LOGS_TYPE = ''blob'', PL_LOGS_PATH = ''/logs'', PL_LOGS_BUFFER_SIZE = 8,
       LOGGING_PLUGIN_API_URL = ''s3://b'', LOGGING_PLUGIN_NAMESPACE_KEY = ''ns'', LOGGING_PLUGIN_CONTAINER_KEY = [],
       LOGGING_PLUGIN_STATIC_LABELS = [], LOGGING_PLUGIN_PROXY_PATH = [], LOGGING_PLUGIN_QUERY_LIMIT = 5,
       LOGGING_PLUGIN_FORWARDER_DELAY_DURATION = 1, LOGGING_PLUGIN_QUERY_PARAMS = [],
       LOGGING_PLUGIN_MULTIPART_REGEX = ''-[0-9]$'', LOGGING_PLUGIN_JSON_MAP = [], LOGGING_PLUGIN_LINE_FORMAT = [],
       LOGGING_PLUGIN_CA_CERT = [], LOGGING_PLUGIN_TLS_VERIFICATION_DISABLE = False\<rparr>,
     staticLabels = [], ls_client = DefaultTLS, forwarderDelayDuration = 0, queryLimit = 5, queryParams = [],
     ls_getLog = Some BlobLogs\<rparr>"

text \<open>A bucket with two logs, one of them in two parts; the base name drops the last two characters.\<close>

definition sample_outside :: plugin_outside where
  "sample_outside = \<lparr>po_parse_url = (\<lambda>s. Inr \<lparr>u_prefix = s, u_path = [], u_query = []\<rparr>), po_do = (\<lambda>r. NilResponse),
     po_token = Inr ''t'', po_env_token = ''t'', po_times = (\<lambda>ty d. Inr (None, None)), po_json_map = (\<lambda>s. Inr []),
     po_loki = Inl, po_sid = Inl, po_entries = Inl, po_rows = Inl, po_log = (\<lambda>s. Inl s), po_sort = (\<lambda>l. l),
     po_sort_objects = sort_key snd, po_open = (\<lambda>u. None),
     po_list = (\<lambda>s. Inr [(''p/a-1'', 1), (''p/a-2'', 3), (''p/b-1'', 2)]), po_read = (\<lambda>p. Inr [p]),
     po_regexp = (\<lambda>s. Inr (\<lambda>p. take (length p - 2) p)), po_polls = []\<rparr>"

lemma sample_record:
  "plugin_getRecord (le_env sample_le) ''ns'' ''r'' ''n'' (task_db ty) = Inr (task_row ty)"
  by (simp add: plugin_getRecord_def sample_le_def task_db_def task_row_def log_row_def log_db_def first_record_def
      tbl_first_def record_cond_def eq_cond_def)

lemma sample_name: "log_ParseName ''ns/results/r/logs/n'' = Inr (''ns'', ''r'', ''n'')"
  by code_simp

lemma sample_check: "e_check (le_env sample_le) ns ResourceLogs v = None"
  by (simp add: sample_le_def AllowAll_Check_def)

theorem blob_log_delivered_witness:
  "\<exists>resp. LogMux sample_outside (le_env sample_le) (\<lambda>_. None) (\<lambda>i. None) sample_plugin BlobLogs ''ns'' ''r'' ''n''
      (task_db ''tekton.dev/v1.TaskRun'') = Some resp
    \<and> re_body resp = ''a :-'' @ [CHR 0x0A] @ ''p/a-1'' @ [CHR 0x0A] @ ''p/a-2'' @ [CHR 0x0A] @ ''b :-'' @ [CHR 0x0A]
        @ ''p/b-1'' @ [CHR 0x0A]"
proof -
  define base :: "string \<Rightarrow> string" where "base = (\<lambda>p. take (length p - 2) p)"
  define paths where "paths = [''p/a-1'', ''p/b-1'', ''p/a-2'']"
  have "blob_store sample_outside sample_plugin ''ns'' (task_row ''tekton.dev/v1.TaskRun'') (\<lambda>p. [p]) paths"
    by (simp add: blob_store_def sample_outside_def paths_def)
  moreover have "po_regexp sample_outside (LOGGING_PLUGIN_MULTIPART_REGEX (ls_config sample_plugin)) = Inr base"
    by (simp add: sample_outside_def base_def)
  moreover have "blob_text base (\<lambda>p. [p]) paths = ''a :-'' @ [CHR 0x0A] @ ''p/a-1'' @ [CHR 0x0A] @ ''p/a-2'' @ [CHR 0x0A]
      @ ''b :-'' @ [CHR 0x0A] @ ''p/b-1'' @ [CHR 0x0A]"
    unfolding base_def paths_def by code_simp
  ultimately show ?thesis
    using blob_log_delivered [OF sample_name sample_check sample_record, of "''tekton.dev/v1.TaskRun''" sample_outside
        sample_plugin "\<lambda>p. [p]" paths base "\<lambda>_. None"]
    by (auto simp: task_row_def)
qed

text \<open>
  The stream answers success when the backend fails: its error is only logged. A request for the
  log of a PipelineRun, which blob storage does not support, ends without a message and without an
  error; the HTTP handler reports the error.
\<close>

theorem plugin_hides_backend_errors:
  assumes "log_ParseName nm = Inr (parent, res, name)" and "e_check e parent ResourceLogs PermissionGet = None"
    and "plugin_getRecord e parent res name db = Inr rec" and "d_type rec = ''tekton.dev/v1.PipelineRun''"
    and "po_parse_url x (LOGGING_PLUGIN_API_URL (ls_config s)) = Inr u" and "po_open x = (\<lambda>u. None)"
  shows "plugin_GetLog x e uid_of (\<lambda>i. None) s BlobLogs nm db = Some (None, [])
    \<and> map_option re_status (LogMux x e uid_of (\<lambda>i. None) s BlobLogs parent res name db) = Some (Some 500)"
proof -
  have run: "getBlobLogs x e uid_of s w parent rec db v =
      (Some (PlainErr ''pipelinerun not supported, please use taskrun''), v)" for w :: "'w writer" and v
    using assms(4-6) by (simp add: getBlobLogs_def blob_paths_def)
  have "Flush (\<lambda>i. None) (NewBufferedHTTPWriter nm n) = (Inr 0, NewBufferedHTTPWriter nm n)"
      "bl_sent (NewBufferedHTTPWriter nm n) = []" for n
    by (simp_all add: Flush_def NewBufferedHTTPWriter_def)
  then show ?thesis using assms(1-3)
    by (simp add: plugin_GetLog_def LogMux_def plugin_getLog_def run http_Error_def response_write_def)
qed

text \<open>The title of a log loses every trailing letter of its extension, not the extension.\<close>

theorem log_titles_lose_letters:
  "log_title ''ns/r/tool.log'' = ''t :-'' @ [CHR 0x0A] \<and> log_title ''ns/r/step-go.log'' = ''step- :-'' @ [CHR 0x0A]"
  by code_simp

subsection \<open>Permission\<close>

text \<open>C21: Neither way in reads a log without permission: without it, whatever the backend and the database
  hold, the stream ends with the checker's error (or an invalid name) and no message, and the HTTP
  handler answers 401 with nothing but its refusal.\<close>

theorem plugin_logs_need_permission:
  "(log_target nm = None \<longrightarrow>
      plugin_GetLog x e uid_of send s backend nm db = Some (Some (StatusErr InvalidArgument ''Invalid Name''), []))
   \<and> (log_target nm = Some ns \<and> e_check e ns ResourceLogs PermissionGet = Some err \<longrightarrow>
      plugin_GetLog x e uid_of send s backend nm db = Some (Some err, []))
   \<and> (e_check e parent ResourceLogs PermissionGet = Some err \<longrightarrow>
      (\<exists>resp. LogMux x e uid_of werr s backend parent res name db = Some resp \<and> re_status resp = Some 401
         \<and> prefix (re_body resp) (''Not Authorized'' @ [CHR 0x0A])))"
  by (auto simp: plugin_GetLog_def LogMux_def log_target_def http_Error_def response_write_def Let_def
      split: sum.splits option.splits)

definition denying_env :: env where
  "denying_env = (le_env sample_le)\<lparr>e_check := (\<lambda>_ _ _. Some (StatusErr Unauthenticated ''no''))\<rparr>"

theorem plugin_logs_need_permission_witness:
  "plugin_GetLog sample_outside denying_env (\<lambda>_. None) (\<lambda>i. None) sample_plugin BlobLogs ''ns/results/r/logs/n''
     (task_db ''tekton.dev/v1.TaskRun'') = Some (Some (StatusErr Unauthenticated ''no''), [])"
proof -
  have "log_target ''ns/results/r/logs/n'' = Some ''ns''" by (simp add: log_target_def sample_name)
  moreover have "e_check denying_env ''ns'' ResourceLogs PermissionGet = Some (StatusErr Unauthenticated ''no'')"
    by (simp add: denying_env_def)
  ultimately show ?thesis using plugin_logs_need_permission by blast
qed

subsection \<open>The query sent to Loki\<close>

lemma in_quotes_inject:
  assumes "dquote \<notin> set a" and "dquote \<notin> set b" and "in_quotes a @ s = in_quotes b @ t"
  shows "a = b \<and> s = t"
proof -
  have "takeWhile (\<lambda>c. c \<noteq> dquote) (a @ dquote # s) = a" "takeWhile (\<lambda>c. c \<noteq> dquote) (b @ dquote # t) = b"
    using assms(1,2) by (auto simp: takeWhile_append2 takeWhile_tail)
  moreover have "a @ dquote # s = b @ dquote # t" using assms(3) by (simp add: in_quotes_def)
  ultimately show ?thesis by (metis append_same_eq list.inject same_append_eq)
qed

lemma seg_ok_no_quote: "seg_ok n \<Longrightarrow> dquote \<notin> set n"
  by (auto simp: seg_ok_def list_all_iff name_char_def)

lemma plugin_getRecord_Inr:
  assumes "srv_inv db" and "plugin_getRecord e parent res name db = Inr rec" and "parent \<noteq> []" and "name \<noteq> []"
  shows "d_parent rec = parent \<and> d_name rec = name \<and> dquote \<notin> set parent \<and> dquote \<notin> set name"
proof -
  have "first_record (record_cond parent res name) db = Inr rec"
    using assms(2) by (auto simp: plugin_getRecord_def exec_Inr split: sum.splits)
  then have "rec \<in> set (records_tbl db)" "record_cond parent res name rec"
    using tbl_first_Inr [of d_id "record_cond parent res name" "records_tbl db" rec] by (simp_all add: first_record_def)
  moreover from this have "d_parent rec = parent" "d_name rec = name"
    using assms(3,4) by (simp_all add: record_cond_def eq_cond_def)
  ultimately show ?thesis using assms(1) seg_ok_no_quote by (auto simp: srv_inv_def record_row_ok_def)
qed

text \<open>In a well-formed database the queries that the plugin sends to Loki name one run: the queries
  for two records differ when their namespaces (the ones the permission is checked for) or their
  uids differ, also when the request's path values are arbitrary texts, as they are for the HTTP
  handler.\<close>

theorem loki_query_names_one_run:
  assumes "srv_inv db" and "parent \<noteq> []" and "name \<noteq> []" and "parent' \<noteq> []" and "name' \<noteq> []"
    and "plugin_getRecord e parent res name db = Inr rec" and "plugin_getRecord e parent' res' name' db = Inr rec'"
    and "(parent, name) \<noteq> (parent', name')"
  shows "loki_query x s uidKey parent rec \<noteq> loki_query x s uidKey parent' rec'"
proof
  assume same: "loki_query x s uidKey parent rec = loki_query x s uidKey parent' rec'"
  have r: "d_name rec = name" "d_name rec' = name'" "dquote \<notin> set parent" "dquote \<notin> set parent'"
      "dquote \<notin> set name" "dquote \<notin> set name'"
    using plugin_getRecord_Inr [OF assms(1,6,2,3)] plugin_getRecord_Inr [OF assms(1,7,4,5)] by simp_all
  define pre mid post where "pre = ''{ '' @ staticLabels s @ LOGGING_PLUGIN_NAMESPACE_KEY (ls_config s) @ ''=''"
    and "mid = '' }'' @ ''| json '' @ join '', '' (map (\<lambda>(k, v). k @ ''='' @ in_quotes (escape_quotes v))
       (sort_key fst (json_fields x (ls_config s) uidKey))) @ '' '' @ ''|uid=''"
    and "post = ''| line_format '' @
       (if LOGGING_PLUGIN_LINE_FORMAT (ls_config s) \<noteq> [] then in_quotes (LOGGING_PLUGIN_LINE_FORMAT (ls_config s))
        else if LOGGING_PLUGIN_CONTAINER_KEY (ls_config s) \<noteq> [] then in_quotes ''container-{{.container}}: message={{.message}}''
        else in_quotes ''{{.message}}'')"
  have q: "loki_query x s uidKey p d = pre @ in_quotes p @ mid @ in_quotes (d_name d) @ post" for p d
    by (simp add: loki_query_def Let_def pre_def mid_def post_def)
  have "in_quotes parent @ (mid @ in_quotes name @ post) = in_quotes parent' @ (mid @ in_quotes name' @ post)"
    using same r(1,2) unfolding q by simp
  then have p: "parent = parent'" "mid @ in_quotes name @ post = mid @ in_quotes name' @ post"
    using in_quotes_inject [OF r(3,4)] by blast+
  then show False using in_quotes_inject [of name name' post post] r assms(8) by simp
qed

definition two_runs :: db where
  "two_runs = (log_db ''1'')\<lparr>records_tbl := [log_row ''1'', (log_row ''1'')\<lparr>d_id := ''d2'', d_name := ''m'', d_etag := etag_of ''d2'' 6\<rparr>]\<rparr>"

theorem loki_query_names_one_run_witness:
  "loki_query sample_outside sample_plugin taskRunUIDKey ''ns'' (log_row ''1'')
    \<noteq> loki_query sample_outside sample_plugin taskRunUIDKey ''ns'' ((log_row ''1'')\<lparr>d_id := ''d2'', d_name := ''m'', d_etag := etag_of ''d2'' 6\<rparr>)"
proof -
  have "srv_inv two_runs" by code_simp
  moreover have "plugin_getRecord (le_env sample_le) ''ns'' ''r'' ''n'' two_runs = Inr (log_row ''1'')"
      "plugin_getRecord (le_env sample_le) ''ns'' ''r'' ''m'' two_runs
        = Inr ((log_row ''1'')\<lparr>d_id := ''d2'', d_name := ''m'', d_etag := etag_of ''d2'' 6\<rparr>)"
    by (simp_all add: plugin_getRecord_def sample_le_def two_runs_def log_row_def log_db_def first_record_def
        tbl_first_def record_cond_def eq_cond_def)
  ultimately show ?thesis using loki_query_names_one_run [of two_runs "''ns''" "''n''" "''ns''" "''m''"] by simp
qed

subsection \<open>Polling a Splunk job\<close>

text \<open>An answer after which the loop goes on.\<close>

definition undecided :: "plugin_outside \<Rightarrow> poll_event \<Rightarrow> bool" where
  "undecided x ev = (case ev of PollTimeout \<Rightarrow> False | PollTick r \<Rightarrow> poll_answer x r = PollAgain)"

lemma poll_skips: "list_all (undecided x) evs \<Longrightarrow> pollSplunkJobStatus x url (evs @ es) = pollSplunkJobStatus x url es"
  by (induction evs) (auto simp: undecided_def split: poll_event.splits)

lemma undecided_split:
  "list_all (undecided x) evs \<or> (\<exists>as ev bs. evs = as @ ev # bs \<and> list_all (undecided x) as \<and> \<not> undecided x ev)"
proof (induction evs)
  case (Cons ev evs)
  show ?case
  proof (cases "undecided x ev")
    case True
    then show ?thesis using Cons.IH by (metis append_Cons list.pred_inject(2))
  next
    case False
    then have "ev # evs = [] @ ev # evs \<and> list_all (undecided x) [] \<and> \<not> undecided x ev" by simp
    then show ?thesis by blast
  qed
qed simp

text \<open>The polling of a Splunk job returns at the latest when its timer fires, and it succeeds exactly
  when a tick before the timer found the job done and no earlier tick found it failed: failed
  requests, bad answers and other states are only waited over.\<close>

theorem splunk_poll_returns:
  assumes "evs = ticks @ PollTimeout # later" and "PollTimeout \<notin> set ticks"
  shows "\<exists>r. pollSplunkJobStatus x url evs = Some r
    \<and> (r = None \<longleftrightarrow> (\<exists>as t bs. ticks = as @ PollTick t # bs \<and> list_all (undecided x) as \<and> poll_answer x t = PollDone))"
proof (cases "list_all (undecided x) ticks")
  case True
  then have "pollSplunkJobStatus x url evs = pollSplunkJobStatus x url (PollTimeout # later)"
    unfolding assms(1) by (rule poll_skips)
  then show ?thesis using True by (auto simp: undecided_def)
next
  case False
  then obtain as ev bs where d: "ticks = as @ ev # bs" "list_all (undecided x) as" "\<not> undecided x ev"
    using undecided_split by blast
  then obtain r where r: "ev = PollTick r" "poll_answer x r \<noteq> PollAgain" using assms(2)
    by (cases ev) (auto simp: undecided_def)
  have run: "pollSplunkJobStatus x url evs = pollSplunkJobStatus x url (ev # bs @ PollTimeout # later)"
    unfolding assms(1) d(1) using poll_skips [OF d(2)] by simp
  have first: "as' = as \<and> t = r" if "ticks = as' @ PollTick t # bs'" "list_all (undecided x) as'" "poll_answer x t = PollDone"
    for as' t bs'
  proof -
    have "takeWhile (undecided x) (as' @ PollTick t # bs') = as'" "takeWhile (undecided x) (as @ ev # bs) = as"
      using that(2,3) d(2,3) by (auto simp: takeWhile_append2 list_all_iff undecided_def takeWhile_tail)
    then show ?thesis using that(1) d(1) r(1) by (metis list.inject poll_event.inject same_append_eq)
  qed
  show ?thesis
  proof (cases "poll_answer x r")
    case PollDone
    then show ?thesis using run r d by auto
  next
    case (PollFailed m)
    then show ?thesis using run r first by fastforce
  qed (use r in simp)
qed

theorem splunk_poll_returns_witness:
  "\<exists>r. pollSplunkJobStatus (sample_outside\<lparr>po_entries := (\<lambda>d. Inr [d])\<rparr>) ''u''
      [PollTick NilResponse, PollTick (Response 200 (Inr ''RUNNING'')), PollTick (Response 200 (Inr ''DONE'')), PollTimeout] = Some r
    \<and> r = None"
proof -
  let ?x = "sample_outside\<lparr>po_entries := (\<lambda>d. Inr [d])\<rparr>"
  let ?as = "[PollTick NilResponse, PollTick (Response 200 (Inr ''RUNNING''))]"
  let ?ticks = "?as @ [PollTick (Response 200 (Inr ''DONE''))]"
  have "list_all (undecided ?x) ?as" "poll_answer ?x (Response 200 (Inr ''DONE'')) = PollDone"
    by (simp_all add: undecided_def poll_answer_def)
  then have "\<exists>as t bs. ?ticks = as @ PollTick t # bs \<and> list_all (undecided ?x) as \<and> poll_answer ?x t = PollDone" by blast
  moreover obtain r where "pollSplunkJobStatus ?x ''u'' (?ticks @ [PollTimeout]) = Some r"
      "r = None \<longleftrightarrow> (\<exists>as t bs. ?ticks = as @ PollTick t # bs \<and> list_all (undecided ?x) as \<and> poll_answer ?x t = PollDone)"
    using splunk_poll_returns [of "?ticks @ [PollTimeout]" ?ticks "[]" ?x "''u''"] by auto
  ultimately show ?thesis by (simp only: append_Cons append_Nil) blast
qed

subsection \<open>The configuration\<close>

text \<open>A setting of the form \<^verbatim>\<open>key=value\<close>.\<close>

definition key_value :: "string \<Rightarrow> bool" where
  "key_value v = (count_list v (CHR ''='') = 1)"

lemma length_split_on: "length (split_on c v) = Suc (count_list v c)"
  by (induction v) (auto split: list.splits)

lemma key_value_split: "key_value v \<longleftrightarrow> (\<exists>k y. split_on (CHR ''='') v = [k, y])"
  using length_split_on [of "CHR ''=''" v] by (auto simp: key_value_def length_Suc_conv)

lemma static_labels_Inl: "(\<exists>err. static_labels vs acc = Inl err) \<longleftrightarrow> \<not> list_all key_value vs"
  by (induction vs arbitrary: acc) (auto simp: key_value_split split: list.splits)

lemma query_params_Inl: "(\<exists>err. query_params vs acc = Inl err) \<longleftrightarrow> \<not> list_all key_value vs"
  by (induction vs arbitrary: acc) (auto simp: key_value_split split: list.splits)

text \<open>The settings of a text, none for the empty text.\<close>

definition settings :: "char \<Rightarrow> string \<Rightarrow> string list" where
  "settings c t = (if t = [] then [] else split_on c t)"

text \<open>C23: The construction of the plugin server accepts exactly the well-formed configurations: it fails
  iff the log type names a plugin backend and some static label or query parameter is not of the form
  key=value with exactly one equals sign.\<close>

theorem plugin_config_wellformed:
  "(\<exists>err. NewLogServer cfg = Inl err) \<longleftrightarrow>
     ToLower (PL_LOGS_TYPE cfg) \<in> {''loki'', ''blob'', ''splunk''}
     \<and> \<not> (list_all key_value (settings (CHR '','') (LOGGING_PLUGIN_STATIC_LABELS cfg))
          \<and> list_all key_value (settings (CHR ''&'') (LOGGING_PLUGIN_QUERY_PARAMS cfg)))"
proof -
  have on: "setLogPlugin cfg \<noteq> None \<longleftrightarrow> ToLower (PL_LOGS_TYPE cfg) \<in> {''loki'', ''blob'', ''splunk''}"
    by (simp add: setLogPlugin_def Let_def)
  define a where "a = (if LOGGING_PLUGIN_STATIC_LABELS cfg \<noteq> []
    then static_labels (split_on (CHR '','') (LOGGING_PLUGIN_STATIC_LABELS cfg)) [] else Inr [])"
  define b where "b = (if LOGGING_PLUGIN_QUERY_PARAMS cfg \<noteq> []
    then query_params (split_on (CHR ''&'') (LOGGING_PLUGIN_QUERY_PARAMS cfg)) [] else Inr [])"
  have "(\<exists>err. a = Inl err) \<longleftrightarrow> \<not> list_all key_value (settings (CHR '','') (LOGGING_PLUGIN_STATIC_LABELS cfg))"
    using static_labels_Inl [of "split_on (CHR '','') (LOGGING_PLUGIN_STATIC_LABELS cfg)" "[]"] by (simp add: a_def settings_def)
  moreover have "(\<exists>err. b = Inl err) \<longleftrightarrow> \<not> list_all key_value (settings (CHR ''&'') (LOGGING_PLUGIN_QUERY_PARAMS cfg))"
    using query_params_Inl [of "split_on (CHR ''&'') (LOGGING_PLUGIN_QUERY_PARAMS cfg)" "[]"] by (simp add: b_def settings_def)
  moreover have "(\<exists>err. NewLogServer cfg = Inl err) \<longleftrightarrow>
      setLogPlugin cfg \<noteq> None \<and> ((\<exists>err. a = Inl err) \<or> (\<exists>err. b = Inl err))"
    unfolding NewLogServer_def a_def [symmetric] b_def [symmetric] by (cases a; cases b) (auto simp: Let_def)
  ultimately show ?thesis using on by blast
qed

end
