(* ===== verification/TlsConfig.thy ===== *)
theory TlsConfig
  imports Prelude
begin

text \<open>
  The TLS settings of the API server (\<^verbatim>\<open>pkg/api/server/tlsconfig\<close>): versions, cipher suites and
  curves as 16-bit words. The cipher suites that the TLS library knows are a parameter, a list of
  names and ids; the order in which Go ranges over the map of curve names is a parameter too.
\<close>

subsection \<open>Parsing\<close>

record tls_config =
  MinTLSVersion :: string
  CipherSuites :: string
  CurvePreferences :: string

record tls_settings =
  tc_MinVersion :: "16 word"
  tc_CipherSuites :: "16 word list"
  tc_CurvePreferences :: "16 word list"
  tc_NextProtos :: "string list"

text \<open>\<^verbatim>\<open>strconv.ParseUint(s, 10, 16)\<close>.\<close>

definition ParseUint16 :: "string \<Rightarrow> 16 word option" where
  "ParseUint16 s =
     (if s \<noteq> [] \<and> list_all digit_char s \<and> read_nat s < 65536 then Some (of_nat (read_nat s)) else None)"

definition HasEnvOverrides :: "(string \<Rightarrow> string) \<Rightarrow> bool" where
  "HasEnvOverrides getenv =
     (getenv ''TLS_MIN_VERSION'' \<noteq> [] \<or> getenv ''TLS_CIPHER_SUITES'' \<noteq> [] \<or> getenv ''TLS_CURVE_PREFERENCES'' \<noteq> [])"

definition tls_New :: "string \<Rightarrow> string \<Rightarrow> string \<Rightarrow> tls_config" where
  "tls_New minVersion cipherSuites curvePreferences =
     \<lparr>MinTLSVersion = minVersion, CipherSuites = cipherSuites, CurvePreferences = curvePreferences\<rparr>"

definition LoadFromEnv :: "(string \<Rightarrow> string) \<Rightarrow> tls_config" where
  "LoadFromEnv getenv = tls_New (getenv ''TLS_MIN_VERSION'') (getenv ''TLS_CIPHER_SUITES'') (getenv ''TLS_CURVE_PREFERENCES'')"

definition parseTLSVersion :: "string \<Rightarrow> 16 word res" where
  "parseTLSVersion version =
     (case ParseUint16 version of
        Some n \<Rightarrow> Inr n
      | None \<Rightarrow>
          if version \<in> set [''1.0'', ''TLS1.0'', ''TLSv1.0''] then Inr 0x0301
          else if version \<in> set [''1.1'', ''TLS1.1'', ''TLSv1.1''] then Inr 0x0302
          else if version \<in> set [''1.2'', ''TLS1.2'', ''TLSv1.2''] then Inr 0x0303
          else if version \<in> set [''1.3'', ''TLS1.3'', ''TLSv1.3''] then Inr 0x0304
          else Inl (PlainErr (''unknown TLS version: '' @ version @ '' (supported: 1.0, 1.1, 1.2, 1.3)'')))"

type_synonym suites = "(string \<times> 16 word) list"

text \<open>The map of the secure suites: of two suites with one name the later one counts.\<close>

definition getCipherSuiteMap :: "suites \<Rightarrow> string \<Rightarrow> 16 word option" where
  "getCipherSuiteMap suites = map_of (rev suites)"

text \<open>The loop over the parts, for a lookup of names.\<close>

fun parse_ids :: "(string \<Rightarrow> 16 word option) \<Rightarrow> string list \<Rightarrow> 16 word list" where
  "parse_ids names [] = []"
| "parse_ids names (p # ps) =
     (let part = TrimSpace p in
      if part = [] then parse_ids names ps
      else (case ParseUint16 part of
              Some i \<Rightarrow> i # parse_ids names ps
            | None \<Rightarrow>
           (case names part of
              Some i \<Rightarrow> i # parse_ids names ps
            | None \<Rightarrow> parse_ids names ps)))"

definition parseCipherSuites :: "suites \<Rightarrow> string \<Rightarrow> 16 word list res" where
  "parseCipherSuites suites ciphers =
     (if ciphers = [] then Inr []
      else (let result = parse_ids (getCipherSuiteMap suites) (split_on (CHR '','') ciphers) in
            if result = [] then Inl (PlainErr (''no valid cipher suites found in: '' @ ciphers)) else Inr result))"

definition curveNameToID :: "(string \<times> 16 word) list" where
  "curveNameToID = [(''P256'', 23), (''P384'', 24), (''P521'', 25), (''CurveP256'', 23), (''CurveP384'', 24),
     (''CurveP521'', 25), (''X25519'', 29), (''X25519Kyber768Draft00'', 25497)]"

definition parseCurvePreferences :: "string \<Rightarrow> 16 word list res" where
  "parseCurvePreferences curves =
     (if curves = [] then Inr []
      else (let result = parse_ids (map_of curveNameToID) (split_on (CHR '','') curves) in
            if result = [] then Inl (PlainErr (''no valid curve preferences found in: '' @ curves)) else Inr result))"

definition ToTLSConfig :: "suites \<Rightarrow> tls_config \<Rightarrow> tls_settings res" where
  "ToTLSConfig suites c =
     (let t0 = \<lparr>tc_MinVersion = 0x0303, tc_CipherSuites = [], tc_CurvePreferences = [], tc_NextProtos = [''h2'', ''http/1.1'']\<rparr>
      in case (if MinTLSVersion c \<noteq> [] then parseTLSVersion (MinTLSVersion c) else Inr 0x0303) of
           Inl e \<Rightarrow> Inl (PlainErr (''invalid TLS_MIN_VERSION: '' @ error_msg e))
         | Inr v \<Rightarrow>
        (case (if CipherSuites c \<noteq> [] then parseCipherSuites suites (CipherSuites c) else Inr []) of
           Inl e \<Rightarrow> Inl (PlainErr (''invalid TLS_CIPHER_SUITES: '' @ error_msg e))
         | Inr cs \<Rightarrow>
        (case (if CurvePreferences c \<noteq> [] then parseCurvePreferences (CurvePreferences c) else Inr []) of
           Inl e \<Rightarrow> Inl (PlainErr (''invalid TLS_CURVE_PREFERENCES: '' @ error_msg e))
         | Inr ks \<Rightarrow> Inr (t0\<lparr>tc_MinVersion := v, tc_CipherSuites := cs, tc_CurvePreferences := ks\<rparr>))))"

subsection \<open>Printing\<close>

definition hex_digit :: "nat \<Rightarrow> char" where
  "hex_digit d = (if d < 10 then char_of (48 + d) else char_of (87 + d))"

text \<open>The verb \<^verbatim>\<open>%04x\<close> on 16 bits.\<close>

definition hex4 :: "16 word \<Rightarrow> string" where
  "hex4 w = (let n = unat w in map hex_digit [n div 4096 mod 16, n div 256 mod 16, n div 16 mod 16, n mod 16])"

definition unknown_id :: "16 word \<Rightarrow> string" where
  "unknown_id w = ''Unknown (0x'' @ hex4 w @ '')''"

definition GetTLSVersionName :: "16 word \<Rightarrow> string" where
  "GetTLSVersionName version =
     (if version = 0x0301 then ''TLS 1.0'' else if version = 0x0302 then ''TLS 1.1''
      else if version = 0x0303 then ''TLS 1.2'' else if version = 0x0304 then ''TLS 1.3''
      else if version = 0 then ''default'' else unknown_id version)"

definition first_name :: "(string \<Rightarrow> bool) \<Rightarrow> (string \<times> 16 word) list \<Rightarrow> 16 word \<Rightarrow> string option" where
  "first_name p l i = map_option fst (find (\<lambda>(n, j). j = i \<and> p n) l)"

definition GetCipherSuiteName :: "suites \<Rightarrow> suites \<Rightarrow> 16 word \<Rightarrow> string" where
  "GetCipherSuiteName suites insecure i =
     (case first_name (\<lambda>_. True) suites i of
        Some n \<Rightarrow> n
      | None \<Rightarrow> (case first_name (\<lambda>_. True) insecure i of Some n \<Rightarrow> n | None \<Rightarrow> unknown_id i))"

definition GetCurveName :: "(string \<times> 16 word) list \<Rightarrow> 16 word \<Rightarrow> string" where
  "GetCurveName order i =
     (case first_name (\<lambda>n. \<not> HasPrefix n ''Curve'') order i of
        Some n \<Rightarrow> n
      | None \<Rightarrow> (case first_name (\<lambda>_. True) order i of Some n \<Rightarrow> n | None \<Rightarrow> unknown_id i))"

definition FormatCipherSuites :: "suites \<Rightarrow> suites \<Rightarrow> 16 word list \<Rightarrow> string" where
  "FormatCipherSuites suites insecure ciphers =
     (if ciphers = [] then ''default'' else join '', '' (map (GetCipherSuiteName suites insecure) ciphers))"

definition FormatCurvePreferences :: "(string \<times> 16 word) list \<Rightarrow> 16 word list \<Rightarrow> string" where
  "FormatCurvePreferences order curves =
     (if curves = [] then ''default'' else join '', '' (map (GetCurveName order) curves))"

subsection \<open>Properties\<close>

text \<open>A name that the parser gives back when it is printed in a list.\<close>

definition clean_name :: "string \<Rightarrow> bool" where
  "clean_name n = (n \<noteq> [] \<and> CHR '','' \<notin> set n \<and> list_all (\<lambda>c. \<not> is_space c) n \<and> \<not> list_all digit_char n)"

lemma clean_name_parse:
  assumes "clean_name n"
  shows "TrimSpace n = n" "TrimSpace (CHR '' '' # n) = n" "ParseUint16 n = None" "n \<noteq> []"
proof -
  have e: "n \<noteq> []" "\<not> is_space (hd n)" "\<not> is_space (last n)"
    using assms by (auto simp: clean_name_def list_all_iff)
  then show "n \<noteq> []" "TrimSpace n = n" by (simp_all add: TrimSpace_id)
  then show "TrimSpace (CHR '' '' # n) = n" by (simp add: TrimSpace_def is_space_def)
  show "ParseUint16 n = None" using assms by (auto simp: clean_name_def ParseUint16_def)
qed

lemma split_joined:
  assumes "list_all clean_name (n # ns)"
  shows "split_on (CHR '','') (join '', '' (n # ns)) = n # map (\<lambda>m. CHR '' '' # m) ns"
  using assms
proof (induction ns arbitrary: n)
  case Nil
  then show ?case by (simp add: clean_name_def split_on_no_sep)
next
  case (Cons m ns)
  have "split_on (CHR '','') (n @ CHR '','' # CHR '' '' # join '', '' (m # ns))
      = n # split_on (CHR '','') (CHR '' '' # join '', '' (m # ns))"
    using Cons.prems by (intro split_on_append) (simp add: clean_name_def)
  moreover have "split_on (CHR '','') (CHR '' '' # t) = (CHR '' '' # hd (split_on (CHR '','') t)) # tl (split_on (CHR '','') t)" for t
    using split_on_nonempty [of "CHR '',''" t] by (auto split: list.split)
  ultimately show ?case using Cons.IH [of m] Cons.prems by simp
qed

lemma parse_printed:
  assumes "xs \<noteq> []" and "\<forall>i \<in> set xs. clean_name (nm i) \<and> names (nm i) = Some i"
  shows "parse_ids names (split_on (CHR '','') (join '', '' (map nm xs))) = xs"
proof -
  obtain j js where xs: "xs = j # js" using assms(1) by (cases xs) auto
  have l: "list_all clean_name (nm j # map nm js)" using assms(2) xs by (auto simp: list_all_iff)
  have "parse_ids names (map (\<lambda>m. CHR '' '' # m) (map nm ks)) = ks" if "set ks \<subseteq> set xs" for ks
    using that assms(2)
    by (induction ks) (auto simp: clean_name_parse Let_def)
  then show ?thesis using split_joined [OF l] xs assms(2)
    by (auto simp: clean_name_parse Let_def)
qed

text \<open>The iteration over the curve names sees every entry, in some order.\<close>

lemma first_name_Some:
  "first_name p l i = Some n \<Longrightarrow> (n, i) \<in> set l \<and> p n"
  by (auto simp: first_name_def find_Some_iff) (metis nth_mem)

lemma first_name_None: "first_name p l i = None \<longleftrightarrow> (\<forall>n. (n, i) \<in> set l \<longrightarrow> \<not> p n)"
  by (auto simp: first_name_def find_None_iff)

definition known_curves :: "16 word list" where
  "known_curves = [23, 24, 25, 29, 25497]"

definition curve_name :: "16 word \<Rightarrow> string" where
  "curve_name i = (if i = 23 then ''P256'' else if i = 24 then ''P384'' else if i = 25 then ''P521''
     else if i = 29 then ''X25519'' else ''X25519Kyber768Draft00'')"

lemma curve_name_facts:
  "list_all (\<lambda>i. clean_name (curve_name i) \<and> map_of curveNameToID (curve_name i) = Some i
     \<and> list_all (\<lambda>(n, j). j = i \<and> \<not> HasPrefix n ''Curve'' \<longrightarrow> n = curve_name i) curveNameToID
     \<and> (curve_name i, i) \<in> set curveNameToID \<and> \<not> HasPrefix (curve_name i) ''Curve'') known_curves"
  by code_simp

lemma GetCurveName_known:
  assumes "set order = set curveNameToID" and "i \<in> set known_curves"
  shows "GetCurveName order i = curve_name i"
proof -
  have f: "\<forall>(n, j) \<in> set curveNameToID. j = i \<and> \<not> HasPrefix n ''Curve'' \<longrightarrow> n = curve_name i"
      "(curve_name i, i) \<in> set curveNameToID" "\<not> HasPrefix (curve_name i) ''Curve''"
    using curve_name_facts assms(2) by (auto simp: list_all_iff)
  then obtain n where n: "first_name (\<lambda>n. \<not> HasPrefix n ''Curve'') order i = Some n"
    using assms(1) first_name_None [of "\<lambda>n. \<not> HasPrefix n ''Curve''" order i] by fastforce
  then have "n = curve_name i" using first_name_Some [OF n] assms(1) f(1) by auto
  then show ?thesis using n by (simp add: GetCurveName_def)
qed

text \<open>What the documentation of the TLS library says of its suites: names and ids are unique, and names
  are texts without commas and white space that are no numbers.\<close>

definition good_suites :: "suites \<Rightarrow> bool" where
  "good_suites suites = (distinct (map fst suites) \<and> distinct (map snd suites) \<and> list_all (\<lambda>(n, i). clean_name n) suites)"

lemma suite_name:
  assumes "good_suites suites" and "i \<in> snd ` set suites"
  shows "clean_name (GetCipherSuiteName suites insecure i)
    \<and> getCipherSuiteMap suites (GetCipherSuiteName suites insecure i) = Some i"
proof -
  obtain n where n: "first_name (\<lambda>_. True) suites i = Some n"
    using assms(2) first_name_None [of "\<lambda>_. True" suites i] by fastforce
  then have "(n, i) \<in> set suites" using first_name_Some by blast
  moreover have "distinct (map fst (rev suites))" using assms(1) by (simp add: good_suites_def flip: rev_map)
  ultimately have "map_of (rev suites) n = Some i" by (intro map_of_is_SomeI) simp_all
  then show ?thesis using n assms(1) \<open>(n, i) \<in> set suites\<close>
    by (auto simp: GetCipherSuiteName_def getCipherSuiteMap_def good_suites_def list_all_iff)
qed

text \<open>What the server logs of its TLS settings at start-up reads back as the same settings: a
  non-empty list of secure cipher suites or of known curves, printed by name, parses to that list,
  whatever order Go ranges over the curve names in.\<close>

theorem tls_settings_round_trip:
  assumes "good_suites suites" and "ciphers \<noteq> []" and "set ciphers \<subseteq> snd ` set suites"
    and "set order = set curveNameToID" and "curves \<noteq> []" and "set curves \<subseteq> set known_curves"
  shows "parseCipherSuites suites (FormatCipherSuites suites insecure ciphers) = Inr ciphers
    \<and> parseCurvePreferences (FormatCurvePreferences order curves) = Inr curves"
proof -
  have c: "parse_ids (getCipherSuiteMap suites)
      (split_on (CHR '','') (join '', '' (map (GetCipherSuiteName suites insecure) ciphers))) = ciphers"
    by (rule parse_printed [OF assms(2)]) (use suite_name [OF assms(1)] assms(3) in blast)
  have k: "parse_ids (map_of curveNameToID) (split_on (CHR '','') (join '', '' (map (GetCurveName order) curves))) = curves"
    by (rule parse_printed [OF assms(5)])
      (use curve_name_facts GetCurveName_known [OF assms(4)] assms(6) in \<open>auto simp: list_all_iff\<close>)
  have "join '', '' (map f xs) \<noteq> []" if "xs \<noteq> []" "parse_ids g (split_on (CHR '','') (join '', '' (map f xs))) = xs"
    for f :: "16 word \<Rightarrow> string" and g xs
    using that by (auto simp: TrimSpace_def)
  then show ?thesis using c k assms(2,5)
    by (simp add: parseCipherSuites_def parseCurvePreferences_def FormatCipherSuites_def FormatCurvePreferences_def)
qed

theorem tls_settings_round_trip_witness:
  "parseCipherSuites [(''TLS_AES_128_GCM_SHA256'', 0x1301), (''TLS_AES_256_GCM_SHA384'', 0x1302)] ''TLS_AES_256_GCM_SHA384'' = Inr [0x1302]
   \<and> parseCurvePreferences ''X25519, P256'' = Inr [29, 23]"
proof -
  let ?s = "[(''TLS_AES_128_GCM_SHA256'', 0x1301), (''TLS_AES_256_GCM_SHA384'', 0x1302)]"
  have "good_suites ?s" by code_simp
  moreover have "set [0x1302 :: 16 word] \<subseteq> snd ` set ?s" "set [29, 23] \<subseteq> set known_curves"
    by (simp_all add: known_curves_def)
  moreover have "FormatCipherSuites ?s [] [0x1302] = ''TLS_AES_256_GCM_SHA384''"
      "FormatCurvePreferences curveNameToID [29, 23] = ''X25519, P256''" by code_simp+
  ultimately show ?thesis
    using tls_settings_round_trip [of ?s "[0x1302]" curveNameToID "[29, 23]" "[]"] by simp
qed

text \<open>The conversion of the TLS settings fails exactly when a given setting has no valid entry, and
  otherwise a setting that is not given keeps the default: TLS 1.2, and the library's choices.\<close>

theorem tls_config_errors:
  "((\<exists>err. ToTLSConfig suites c = Inl err) \<longleftrightarrow>
      MinTLSVersion c \<noteq> [] \<and> \<not> is_ok (parseTLSVersion (MinTLSVersion c))
      \<or> CipherSuites c \<noteq> [] \<and> parse_ids (getCipherSuiteMap suites) (split_on (CHR '','') (CipherSuites c)) = []
      \<or> CurvePreferences c \<noteq> [] \<and> parse_ids (map_of curveNameToID) (split_on (CHR '','') (CurvePreferences c)) = [])
   \<and> ToTLSConfig suites (tls_New [] [] []) =
      Inr \<lparr>tc_MinVersion = 0x0303, tc_CipherSuites = [], tc_CurvePreferences = [], tc_NextProtos = [''h2'', ''http/1.1'']\<rparr>"
  by (auto simp: ToTLSConfig_def tls_New_def parseCipherSuites_def parseCurvePreferences_def Let_def is_ok_def
      split: sum.splits)

text \<open>The number 771 is the version 1.2, not 1.3 as the comment on the parser says.\<close>

theorem version_771_is_1_2:
  "parseTLSVersion ''771'' = Inr 0x0303 \<and> GetTLSVersionName 0x0303 = ''TLS 1.2''"
  by (simp add: parseTLSVersion_def ParseUint16_def digit_char_def read_nat_def digit_val_def GetTLSVersionName_def)

end
