(* ===== verification/FieldMask.thy ===== *)
theory FieldMask
  imports Auth "HOL-Library.AList"
begin

text \<open>
  The field mask of responses (\<^verbatim>\<open>internal/fieldmask\<close>): a mask is a tree, its nodes association
  lists from field names, as the Go map of maps. A protobuf message is a tree of populated fields.
  The JSON library (lookup of a path, validity, encoding) and the normalisation of a list of paths by
  the protobuf library are parameters. A list of scalars under a mask with fields panics: \<open>None\<close>.
\<close>

subsection \<open>Masks\<close>

datatype FieldMask = FM (fm_entries: "(string \<times> FieldMask) list")

definition fm_lookup :: "FieldMask \<Rightarrow> string \<Rightarrow> FieldMask option" where
  "fm_lookup fm k = map_of (fm_entries fm) k"

text \<open>The inner loop of \<^verbatim>\<open>Build\<close>: the fields of one path.\<close>

fun add_path :: "string list \<Rightarrow> FieldMask \<Rightarrow> FieldMask" where
  "add_path [] fm = fm"
| "add_path (field # path) fm =
     FM (AList.update field (add_path path (case fm_lookup fm field of None \<Rightarrow> FM [] | Some m \<Rightarrow> m)) (fm_entries fm))"

fun Build :: "FieldMask \<Rightarrow> string list \<Rightarrow> FieldMask" where
  "Build fm [] = fm"
| "Build fm (p # ps) = Build (add_path (split_on (CHR ''.'') p) fm) ps"

fun Paths :: "FieldMask \<Rightarrow> string list \<Rightarrow> string list" where
  "Paths (FM es) path =
     concat (map (\<lambda>(k, v). (if fm_entries v = [] then [join ''.'' (path @ [k])] else []) @ Paths v (path @ [k])) es)"

datatype 'v jout = JVal 'v | JMap "(string \<times> 'v jout) list"

fun FilterJSON :: "(string \<Rightarrow> string \<Rightarrow> 'v) \<Rightarrow> string \<Rightarrow> FieldMask \<Rightarrow> string list \<Rightarrow> (string \<times> 'v jout) list" where
  "FilterJSON get json (FM es) path =
     map (\<lambda>(k, v). (k, if fm_entries v = [] then JVal (get json (join ''.'' (path @ [k])))
                       else JMap (FilterJSON get json v (path @ [k])))) es"

subsection \<open>Messages\<close>

datatype pv = PScalar string | PBytes string | PMsg "(string \<times> pv) list" | PList "pv list" | PMap "(string \<times> pv) list"

record 'v jsonlib =
  jl_get :: "string \<Rightarrow> string \<Rightarrow> 'v"
  jl_valid :: "string \<Rightarrow> bool"
  jl_marshal :: "(string \<times> 'v jout) list \<Rightarrow> string option"

definition filter_bytes :: "'v jsonlib \<Rightarrow> FieldMask \<Rightarrow> string \<Rightarrow> string" where
  "filter_bytes J fmask b =
     (if jl_valid J b
      then (case jl_marshal J (FilterJSON (jl_get J) b fmask []) of Some b' \<Rightarrow> b' | None \<Rightarrow> b)
      else b)"

definition is_msg :: "pv \<Rightarrow> bool" where
  "is_msg v = (case v of PMsg _ \<Rightarrow> True | _ \<Rightarrow> False)"

text \<open>
  \<^verbatim>\<open>Filter\<close> on a message; on the other values it is the branch of the switch for a field of that
  kind, which is reached with a mask that has fields.
\<close>

fun Filter :: "'v jsonlib \<Rightarrow> FieldMask \<Rightarrow> pv \<Rightarrow> pv option" where
  "Filter J fm (PMsg fs) =
     (if fm_entries fm = [] then Some (PMsg fs)
      else map_option (\<lambda>ls. PMsg (concat ls)) (those (map (\<lambda>(n, v).
             case fm_lookup fm n of
               None \<Rightarrow> Some []
             | Some fmask \<Rightarrow>
                 if fm_entries fmask = [] then Some [(n, v)] else map_option (\<lambda>v'. [(n, v')]) (Filter J fmask v)) fs)))"
| "Filter J fmask (PMap kvs) =
     map_option (\<lambda>ls. PMap (concat ls)) (those (map (\<lambda>(k, v).
       case fm_lookup fmask k of
         None \<Rightarrow> Some []
       | Some fm \<Rightarrow>
           if is_msg v \<and> fm_entries fm \<noteq> [] then map_option (\<lambda>v'. [(k, v')]) (Filter J fm v) else Some [(k, v)]) kvs))"
| "Filter J fmask (PList vs) =
     map_option PList (those (map (\<lambda>v. if is_msg v then Filter J fmask v else None) vs))"
| "Filter J fmask (PBytes b) = Some (PBytes (filter_bytes J fmask b))"
| "Filter J fmask (PScalar s) = Some (PScalar s)"

definition fieldmask_key :: string where "fieldmask_key = ''fields''"

text \<open>The paths that the metadata of a request asks for.\<close>

definition requested_paths :: "md \<Rightarrow> string list" where
  "requested_paths m = concat (map (\<lambda>fmask. map TrimSpace (split_on (CHR '','') fmask)) (md_Get m fieldmask_key))"

definition FromMetadata :: "(string list \<Rightarrow> string list) \<Rightarrow> md \<Rightarrow> FieldMask" where
  "FromMetadata norm m = Build (FM []) (norm (requested_paths m))"

text \<open>The query parameters of a REST request, \<open>None\<close> when the form does not parse.\<close>

definition MetadataAnnotator :: "(string \<times> string list) list option \<Rightarrow> (string \<times> string list) list" where
  "MetadataAnnotator form =
     (case form of
        None \<Rightarrow> []
      | Some f \<Rightarrow>
          (case map_of f fieldmask_key of
             None \<Rightarrow> []
           | Some vs \<Rightarrow> [(fieldmask_key, [case vs of [] \<Rightarrow> [] | v # _ \<Rightarrow> v])]))"

text \<open>The interceptor on what the handler returned: the response, if it is a message, and the error.\<close>

definition UnaryServerInterceptor :: "'v jsonlib \<Rightarrow> (string list \<Rightarrow> string list) \<Rightarrow> bool \<Rightarrow> md option \<Rightarrow>
    pv option \<times> go_error option \<Rightarrow> (pv option \<times> go_error option) option" where
  "UnaryServerInterceptor J norm enabled m r =
     (case r of (resp, err) \<Rightarrow>
        if err \<noteq> None \<or> \<not> enabled then Some (resp, err)
        else (case resp of
                None \<Rightarrow> Some (resp, err)
              | Some message \<Rightarrow>
             (case m of
                None \<Rightarrow> Some (resp, err)
              | Some md \<Rightarrow> map_option (\<lambda>x. (Some x, err)) (Filter J (FromMetadata norm md) message))))"

end
