(* ===== verification/FieldMaskProps.thy ===== *)
theory FieldMaskProps
  imports FieldMask
begin

text \<open>
  What a field mask keeps. A mask is read as the set of its nodes; the mask built from a list of
  paths has the prefixes of the paths as nodes. A message is read as the list of its leaves with their
  paths, and the filter keeps the leaves that the requested paths cover.
\<close>

subsection \<open>The nodes of a mask\<close>

fun fm_at :: "FieldMask \<Rightarrow> string list \<Rightarrow> FieldMask option" where
  "fm_at fm [] = Some fm"
| "fm_at fm (n # q) = (case fm_lookup fm n of None \<Rightarrow> None | Some m \<Rightarrow> fm_at m q)"

abbreviation split_path :: "string \<Rightarrow> string list" where
  "split_path \<equiv> split_on (CHR ''.'')"

lemma split_path_inject: "split_path p = split_path q \<longleftrightarrow> p = q"
  by (metis join_split_on)

lemma fm_at_empty [simp]: "fm_at (FM []) q = (if q = [] then Some (FM []) else None)"
  by (cases q) (simp_all add: fm_lookup_def)

lemma fm_lookup_update:
  "fm_lookup (FM (AList.update k m es)) n = (if n = k then Some m else fm_lookup (FM es) n)"
  by (simp add: fm_lookup_def update_conv')

lemma add_path_node: "fm_at (add_path p fm) q \<noteq> None \<longleftrightarrow> prefix q p \<or> fm_at fm q \<noteq> None"
proof (induction p arbitrary: q fm)
  case (Cons f p)
  show ?case
  proof (cases q)
    case q: (Cons n r)
    show ?thesis
    proof (cases "n = f")
      case True
      then show ?thesis using Cons.IH [of _ r] q
        by (cases "fm_lookup fm f") (simp_all add: fm_lookup_update split: option.splits if_splits)
    next
      case False
      then show ?thesis using q by (simp add: fm_lookup_update split: option.splits)
    qed
  qed simp
qed auto

lemma Build_node: "fm_at (Build fm ps) q \<noteq> None \<longleftrightarrow> (\<exists>p \<in> set ps. prefix q (split_path p)) \<or> fm_at fm q \<noteq> None"
proof (induction ps arbitrary: fm)
  case (Cons p ps)
  show ?case using Cons.IH [of "add_path (split_path p) fm"] add_path_node [of "split_path p" fm q] by auto
qed simp

lemma fm_at_append: "fm_at fm (q @ r) = (case fm_at fm q of None \<Rightarrow> None | Some m \<Rightarrow> fm_at m r)"
  by (induction q arbitrary: fm) (auto split: option.splits)

text \<open>A node without fields is one below which there is no node.\<close>

lemma leaf_node:
  assumes "fm_at fm q = Some m"
  shows "fm_entries m = [] \<longleftrightarrow> (\<forall>n. fm_at fm (q @ [n]) = None)"
proof -
  have "fm_entries m = [] \<longleftrightarrow> (\<forall>n. fm_lookup m n = None)"
    by (cases "fm_entries m") (auto simp: fm_lookup_def split: prod.splits if_splits)
  then show ?thesis using assms by (simp add: fm_at_append split: option.splits)
qed

text \<open>Paths of which none leads through another.\<close>

definition normal_paths :: "string list \<Rightarrow> bool" where
  "normal_paths ps = (\<forall>p \<in> set ps. \<forall>p' \<in> set ps. prefix (split_path p) (split_path p') \<longrightarrow> p = p')"

lemma Build_leaf:
  assumes "normal_paths ps" and "ps \<noteq> []"
  shows "(\<exists>m. fm_at (Build (FM []) ps) q = Some m \<and> fm_entries m = []) \<longleftrightarrow> (\<exists>p \<in> set ps. q = split_path p)"
proof -
  let ?fm = "Build (FM []) ps"
  have node: "fm_at ?fm r \<noteq> None \<longleftrightarrow> (\<exists>p \<in> set ps. prefix r (split_path p))" for r
    using Build_node [of "FM []" ps r] assms(2) by (cases ps) auto
  have "(\<exists>m. fm_at ?fm q = Some m \<and> fm_entries m = []) \<longleftrightarrow>
      (\<exists>p \<in> set ps. prefix q (split_path p)) \<and> \<not> (\<exists>p \<in> set ps. \<exists>n. prefix (q @ [n]) (split_path p))"
    using node [of q] node leaf_node [of ?fm q] by (metis not_None_eq option.inject)
  also have "\<dots> \<longleftrightarrow> (\<exists>p \<in> set ps. q = split_path p)"
  proof
    assume a: "(\<exists>p \<in> set ps. prefix q (split_path p)) \<and> \<not> (\<exists>p \<in> set ps. \<exists>n. prefix (q @ [n]) (split_path p))"
    then obtain p r where p: "p \<in> set ps" "split_path p = q @ r" by (auto simp: prefix_def)
    then have "r = []" using a by (cases r) (auto simp: prefix_def)
    then show "\<exists>p \<in> set ps. q = split_path p" using p by auto
  next
    assume "\<exists>p \<in> set ps. q = split_path p"
    then obtain p where p: "p \<in> set ps" "q = split_path p" by blast
    have "False" if "p' \<in> set ps" "prefix (q @ [n]) (split_path p')" for p' n
    proof -
      have "prefix (split_path p) (split_path p')" using that(2) p(2) append_prefixD by blast
      then show False using assms(1) p that unfolding normal_paths_def by fastforce
    qed
    then show "(\<exists>p \<in> set ps. prefix q (split_path p)) \<and> \<not> (\<exists>p \<in> set ps. \<exists>n. prefix (q @ [n]) (split_path p))"
      using p by blast
  qed
  finally show ?thesis .
qed

subsection \<open>The paths of a mask\<close>

fun fm_wf :: "FieldMask \<Rightarrow> bool" where
  "fm_wf (FM es) = (distinct (map fst es) \<and> list_all (\<lambda>e. fm_wf (snd e)) es)"

lemma fm_wf_lookup: "fm_wf fm \<Longrightarrow> fm_lookup fm k = Some m \<longleftrightarrow> (k, m) \<in> set (fm_entries fm)"
  by (cases fm) (simp add: fm_lookup_def map_of_eq_Some_iff)

lemma fm_wf_entry: "fm_wf fm \<Longrightarrow> (k, m) \<in> set (fm_entries fm) \<Longrightarrow> fm_wf m"
  by (cases fm) (auto simp: list_all_iff)

lemma add_path_wf: "fm_wf fm \<Longrightarrow> fm_wf (add_path p fm)"
proof (induction p arbitrary: fm)
  case (Cons f p)
  define m where "m = (case fm_lookup fm f of None \<Rightarrow> FM [] | Some m \<Rightarrow> m)"
  have "fm_wf m" using Cons.prems fm_wf_lookup [OF Cons.prems] fm_wf_entry [OF Cons.prems]
    by (auto simp: m_def split: option.splits)
  then have "fm_wf (add_path p m)" by (rule Cons.IH)
  moreover obtain es where es: "fm = FM es" by (cases fm)
  moreover have "set (AList.update f v es) \<subseteq> insert (f, v) (set es)" for v :: FieldMask
    by (induction es) auto
  from this [of "add_path p m"] have "list_all (\<lambda>e. fm_wf (snd e)) (AList.update f (add_path p m) es)"
    using Cons.prems \<open>fm_wf (add_path p m)\<close> unfolding es list_all_iff by (auto simp: list_all_iff)
  moreover have "add_path (f # p) fm = FM (AList.update f (add_path p m) es)" by (simp add: m_def es)
  ultimately show ?case using Cons.prems by (simp add: distinct_update)
qed simp

lemma Build_wf: "fm_wf fm \<Longrightarrow> fm_wf (Build fm ps)"
  by (induction ps arbitrary: fm) (simp_all add: add_path_wf)

lemma set_Paths:
  "fm_wf fm \<Longrightarrow> set (Paths fm path) =
     {join ''.'' (path @ q) | q m. q \<noteq> [] \<and> fm_at fm q = Some m \<and> fm_entries m = []}"
proof (induction fm path rule: Paths.induct)
  case (1 es path)
  have ih: "set (Paths v (path @ [k])) =
      {join ''.'' ((path @ [k]) @ q) | q m. q \<noteq> [] \<and> fm_at v q = Some m \<and> fm_entries m = []}"
    if "(k, v) \<in> set es" for k v
    using 1 that fm_wf_entry [OF 1(2), of k v] by auto
  have look: "fm_lookup (FM es) k = Some v \<longleftrightarrow> (k, v) \<in> set es" for k v
    using fm_wf_lookup [OF 1(2)] by simp
  show ?case
  proof (intro equalityI subsetI)
    fix p assume "p \<in> set (Paths (FM es) path)"
    then obtain k v where kv: "(k, v) \<in> set es"
        "fm_entries v = [] \<and> p = join ''.'' (path @ [k]) \<or> p \<in> set (Paths v (path @ [k]))"
      by (auto split: if_splits)
    then obtain q m where "p = join ''.'' (path @ k # q)" "fm_at v q = Some m" "fm_entries m = []"
      using ih [OF kv(1)] by auto
    then have "p = join ''.'' (path @ k # q) \<and> k # q \<noteq> [] \<and> fm_at (FM es) (k # q) = Some m \<and> fm_entries m = []"
      using look [of k v] kv(1) by simp
    then show "p \<in> {join ''.'' (path @ q) | q m. q \<noteq> [] \<and> fm_at (FM es) q = Some m \<and> fm_entries m = []}" by blast
  next
    fix p assume "p \<in> {join ''.'' (path @ q) | q m. q \<noteq> [] \<and> fm_at (FM es) q = Some m \<and> fm_entries m = []}"
    then obtain q m where q: "p = join ''.'' (path @ q)" "q \<noteq> []" "fm_at (FM es) q = Some m" "fm_entries m = []" by blast
    obtain k r where k: "q = k # r" using q(2) by (cases q) auto
    then obtain v where v: "(k, v) \<in> set es" "fm_at v r = Some m" using q(3) look by (auto split: option.splits)
    show "p \<in> set (Paths (FM es) path)"
    proof (cases "r = []")
      case True
      then show ?thesis using v q(1,4) k by (auto intro!: bexI [of _ "(k, v)"])
    next
      case False
      then have "p \<in> set (Paths v (path @ [k]))" using ih [OF v(1)] q k v(2) by auto
      then show ?thesis using v(1) by (auto intro!: bexI [of _ "(k, v)"])
    qed
  qed
qed

text \<open>Field masks round trip: the paths of the mask built from a list of paths, none of which leads
  through another, are those paths; and the mask has a field exactly for the prefixes of its paths.\<close>

theorem field_mask_round_trip:
  assumes "normal_paths ps"
  shows "set (Paths (Build (FM []) ps) []) = set ps
    \<and> (fm_at (Build (FM []) ps) q \<noteq> None \<longleftrightarrow> q = [] \<or> (\<exists>p \<in> set ps. prefix q (split_path p)))"
proof -
  have "set (Paths (Build (FM []) ps) []) = set ps"
  proof (cases "ps = []")
    case False
    have w: "fm_wf (Build (FM []) ps)" by (rule Build_wf) simp
    have "set (Paths (Build (FM []) ps) []) = {join ''.'' q | q. q \<noteq> [] \<and> (\<exists>p \<in> set ps. q = split_path p)}"
      unfolding set_Paths [OF w] using Build_leaf [OF assms False] by auto
    also have "\<dots> = (\<lambda>p. join ''.'' (split_path p)) ` set ps" by auto
    finally show ?thesis by (simp add: join_split_on)
  qed simp
  moreover have "fm_at (Build (FM []) ps) q \<noteq> None \<longleftrightarrow> q = [] \<or> (\<exists>p \<in> set ps. prefix q (split_path p))"
    using Build_node [of "FM []" ps q] by auto
  ultimately show ?thesis by blast
qed

theorem field_mask_round_trip_witness:
  "set (Paths (Build (FM []) [''records.name'', ''records.data.value'', ''token'']) [])
    = set [''records.name'', ''records.data.value'', ''token'']"
proof -
  have "normal_paths [''records.name'', ''records.data.value'', ''token'']"
    by (simp add: normal_paths_def)
  then show ?thesis using field_mask_round_trip by blast
qed

subsection \<open>The leaves of a message\<close>

text \<open>A leaf is plain, or bytes that a mask may look into as JSON.\<close>

datatype leaf = Plain string | Json string

fun map_leaf :: "pv \<Rightarrow> (string list \<times> leaf) list \<Rightarrow> (string list \<times> leaf) list" where
  "map_leaf (PBytes b) ls = [([], Plain b)]"
| "map_leaf v ls = ls"

fun leaves :: "pv \<Rightarrow> (string list \<times> leaf) list" where
  "leaves (PScalar s) = [([], Plain s)]"
| "leaves (PBytes b) = [([], Json b)]"
| "leaves (PMsg fs) = concat (map (\<lambda>(n, v). map (\<lambda>(q, x). (n # q, x)) (leaves v)) fs)"
| "leaves (PList vs) = concat (map leaves vs)"
| "leaves (PMap kvs) = concat (map (\<lambda>(k, v). map (\<lambda>(q, x). (k # q, x)) (map_leaf v (leaves v))) kvs)"

text \<open>What protobuf allows and the responses of the API have: lists of messages, and map values that
  are messages or scalars.\<close>

fun pv_ok :: "pv \<Rightarrow> bool" where
  "pv_ok (PScalar s) = True"
| "pv_ok (PBytes b) = True"
| "pv_ok (PMsg fs) = list_all (\<lambda>(n, v). pv_ok v) fs"
| "pv_ok (PList vs) = list_all (\<lambda>v. is_msg v \<and> pv_ok v) vs"
| "pv_ok (PMap kvs) = list_all (\<lambda>(k, v). pv_ok v \<and> (case v of PList _ \<Rightarrow> False | PMap _ \<Rightarrow> False | _ \<Rightarrow> True)) kvs"

text \<open>What is left of a mask at a leaf, \<open>None\<close> when the leaf is dropped.\<close>

fun leaf_mask :: "FieldMask \<Rightarrow> string list \<Rightarrow> FieldMask option" where
  "leaf_mask fm [] = Some fm"
| "leaf_mask fm (n # q) =
     (if fm_entries fm = [] then Some fm
      else (case fm_lookup fm n of None \<Rightarrow> None | Some m \<Rightarrow> leaf_mask m q))"

fun cut_leaf :: "'v jsonlib \<Rightarrow> FieldMask \<Rightarrow> leaf \<Rightarrow> leaf" where
  "cut_leaf J m (Plain s) = Plain s"
| "cut_leaf J m (Json b) = Json (if fm_entries m = [] then b else filter_bytes J m b)"

definition keep_leaf :: "'v jsonlib \<Rightarrow> FieldMask \<Rightarrow> string list \<times> leaf \<Rightarrow> (string list \<times> leaf) list" where
  "keep_leaf J fm l = (case leaf_mask fm (fst l) of None \<Rightarrow> [] | Some m \<Rightarrow> [(fst l, cut_leaf J m (snd l))])"

definition keep_leaves :: "'v jsonlib \<Rightarrow> FieldMask \<Rightarrow> (string list \<times> leaf) list \<Rightarrow> (string list \<times> leaf) list" where
  "keep_leaves J fm ls = concat (map (keep_leaf J fm) ls)"

lemma keep_leaves_simps [simp]:
  "keep_leaves J fm [] = []" "keep_leaves J fm (a @ b) = keep_leaves J fm a @ keep_leaves J fm b"
  by (simp_all add: keep_leaves_def)

lemma keep_leaves_all: "fm_entries fm = [] \<Longrightarrow> keep_leaves J fm ls = ls"
proof -
  assume e: "fm_entries fm = []"
  have "leaf_mask fm q = Some fm" for q using e by (cases q) simp_all
  moreover have "cut_leaf J fm x = x" for x using e by (cases x) simp_all
  ultimately have "keep_leaf J fm = (\<lambda>l. [l])" by (simp add: keep_leaf_def fun_eq_iff)
  then show ?thesis by (simp add: keep_leaves_def)
qed

lemma keep_leaves_below:
  "fm_entries fm \<noteq> [] \<Longrightarrow> keep_leaves J fm (map (\<lambda>(q, x). (n # q, x)) ls) =
     (case fm_lookup fm n of None \<Rightarrow> [] | Some m \<Rightarrow> map (\<lambda>(q, x). (n # q, x)) (keep_leaves J m ls))"
proof (induction ls)
  case (Cons l ls)
  then show ?case by (cases l; cases "fm_lookup fm n") (auto simp: keep_leaves_def keep_leaf_def split: option.split)
qed (simp split: option.split)

lemma keep_leaves_plain [simp]: "keep_leaves J fm [([], Plain s)] = [([], Plain s)]"
  by (simp add: keep_leaves_def keep_leaf_def)

lemma keep_leaves_json: "keep_leaves J fm [([], Json b)] = [([], Json (if fm_entries fm = [] then b else filter_bytes J fm b))]"
  by (simp add: keep_leaves_def keep_leaf_def)

text \<open>Entries that are filtered one by one, each to a list of at most one entry.\<close>

lemma filter_entries:
  assumes "\<And>f. f \<in> set fs \<Longrightarrow> \<exists>l. g f = Some l \<and> concat (map L l) = keep_leaves J fm (L f)"
  shows "\<exists>ls. those (map g fs) = Some ls \<and> concat (map L (concat ls)) = keep_leaves J fm (concat (map L fs))"
  using assms
proof (induction fs)
  case (Cons f fs)
  obtain l where "g f = Some l" "concat (map L l) = keep_leaves J fm (L f)" using Cons.prems by auto
  moreover obtain ls where "those (map g fs) = Some ls"
      "concat (map L (concat ls)) = keep_leaves J fm (concat (map L fs))" using Cons by auto
  ultimately show ?case by auto
qed simp

text \<open>The filter keeps the leaves that the mask reaches.\<close>

definition filtered :: "'v jsonlib \<Rightarrow> FieldMask \<Rightarrow> pv \<Rightarrow> bool" where
  "filtered J fm v \<longleftrightarrow>
     (\<exists>v'. Filter J fm v = Some v' \<and> leaves v' = keep_leaves J fm (leaves v) \<and> (is_msg v \<longrightarrow> is_msg v'))"

lemma Filter_fields:
  assumes "fm_entries fm \<noteq> []"
    and "\<And>n v m. (n, v) \<in> set fs \<Longrightarrow> fm_lookup fm n = Some m \<Longrightarrow> fm_entries m \<noteq> [] \<Longrightarrow> filtered J m v"
  shows "filtered J fm (PMsg fs)"
proof -
  define g where "g = (\<lambda>(n, v). case fm_lookup fm n of None \<Rightarrow> Some []
    | Some m \<Rightarrow> if fm_entries m = [] then Some [(n, v)] else map_option (\<lambda>v'. [(n, v')]) (Filter J m v))"
  define L where "L = (\<lambda>(n, v). map (\<lambda>(q, x). (n # q, x)) (leaves v))"
  have "\<exists>l. g f = Some l \<and> concat (map L l) = keep_leaves J fm (L f)" if elem: "f \<in> set fs" for f
  proof -
    obtain n v where f: "f = (n, v)" by (cases f)
    show ?thesis
    proof (cases "fm_lookup fm n")
      case None
      then show ?thesis using assms(1) by (simp add: f g_def L_def keep_leaves_below)
    next
      case (Some m)
      show ?thesis
      proof (cases "fm_entries m = []")
        case True
        then show ?thesis using Some assms(1) by (simp add: f g_def L_def keep_leaves_below keep_leaves_all)
      next
        case False
        then obtain v' where "Filter J m v = Some v'" "leaves v' = keep_leaves J m (leaves v)"
          using assms(2) [of n v m] elem f Some by (auto simp: filtered_def)
        then show ?thesis using Some False assms(1) by (simp add: f g_def L_def keep_leaves_below)
      qed
    qed
  qed
  then obtain ls where "those (map g fs) = Some ls" "concat (map L (concat ls)) = keep_leaves J fm (concat (map L fs))"
    using filter_entries [of fs g L J fm] by blast
  then show ?thesis using assms(1) unfolding filtered_def g_def L_def by (simp add: is_msg_def)
qed

lemma Filter_map:
  assumes "fm_entries fm \<noteq> []" and "pv_ok (PMap kvs)"
    and "\<And>n v m. (n, v) \<in> set kvs \<Longrightarrow> fm_lookup fm n = Some m \<Longrightarrow> fm_entries m \<noteq> [] \<Longrightarrow> is_msg v \<Longrightarrow> filtered J m v"
  shows "filtered J fm (PMap kvs)"
proof -
  define g where "g = (\<lambda>(k, v). case fm_lookup fm k of None \<Rightarrow> Some []
    | Some m \<Rightarrow> if is_msg v \<and> fm_entries m \<noteq> [] then map_option (\<lambda>v'. [(k, v')]) (Filter J m v) else Some [(k, v)])"
  define L where "L = (\<lambda>(k, v). map (\<lambda>(q, x). (k # q, x)) (map_leaf v (leaves v)))"
  have ml: "map_leaf v ls = ls" if "is_msg v" for v ls using that by (cases v) (simp_all add: is_msg_def)
  have "\<exists>l. g f = Some l \<and> concat (map L l) = keep_leaves J fm (L f)" if elem: "f \<in> set kvs" for f
  proof -
    obtain k v where f: "f = (k, v)" by (cases f)
    show ?thesis
    proof (cases "is_msg v")
      case True
      note msg = True
      show ?thesis
      proof (cases "fm_lookup fm k")
        case None
        then show ?thesis using assms(1) by (simp add: f g_def L_def keep_leaves_below)
      next
        case (Some m)
        show ?thesis
        proof (cases "fm_entries m = []")
          case True
          then show ?thesis using Some assms(1) msg ml by (simp add: f g_def L_def keep_leaves_below keep_leaves_all)
        next
          case False
          then obtain v' where "Filter J m v = Some v'" "leaves v' = keep_leaves J m (leaves v)" "is_msg v'"
            using assms(3) [of k v m] elem f Some msg by (auto simp: filtered_def)
          then show ?thesis using Some False assms(1) msg ml by (simp add: f g_def L_def keep_leaves_below)
        qed
      qed
    next
      case False
      then obtain s where "map_leaf v (leaves v) = [([], Plain s)]"
        using assms(2) elem f by (cases v) (auto simp: is_msg_def list_all_iff)
      then show ?thesis using False assms(1)
        by (cases "fm_lookup fm k") (simp_all add: f g_def L_def keep_leaves_def keep_leaf_def)
    qed
  qed
  then obtain ls where "those (map g kvs) = Some ls" "concat (map L (concat ls)) = keep_leaves J fm (concat (map L kvs))"
    using filter_entries [of kvs g L J fm] by blast
  then show ?thesis unfolding filtered_def g_def L_def by (simp add: is_msg_def)
qed

lemma Filter_list:
  assumes "list_all is_msg vs" and "\<And>v. v \<in> set vs \<Longrightarrow> filtered J fm v"
  shows "filtered J fm (PList vs)"
proof -
  define g where "g = (\<lambda>v. if is_msg v then Filter J fm v else None)"
  have "\<exists>ws. those (map g vs) = Some ws \<and> concat (map leaves ws) = keep_leaves J fm (concat (map leaves vs))"
    using assms
  proof (induction vs)
    case (Cons v vs)
    obtain w where "g v = Some w" "leaves w = keep_leaves J fm (leaves v)"
      using Cons.prems by (auto simp: g_def filtered_def)
    moreover obtain ws where "those (map g vs) = Some ws" "concat (map leaves ws) = keep_leaves J fm (concat (map leaves vs))"
      using Cons by auto
    ultimately show ?case by auto
  qed simp
  then show ?thesis unfolding filtered_def g_def by (auto simp: is_msg_def)
qed

lemma Filter_leaves: "pv_ok v \<Longrightarrow> fm_entries fm \<noteq> [] \<or> is_msg v \<Longrightarrow> filtered J fm v"
proof (induction J fm v rule: Filter.induct)
  case (1 J fm fs)
  show ?case
  proof (cases "fm_entries fm = []")
    case False
    then show ?thesis using 1 by (intro Filter_fields) (auto simp: list_all_iff)
  qed (simp add: filtered_def keep_leaves_all)
next
  case (2 J fm kvs)
  then show ?case by (intro Filter_map) (auto simp: list_all_iff is_msg_def)
next
  case (3 J fm vs)
  then show ?case by (intro Filter_list) (auto simp: list_all_iff)
qed (simp_all add: filtered_def keep_leaves_json is_msg_def)

subsection \<open>The response of a request\<close>

text \<open>A path of the message that the requested paths cover: it leads through a requested path, or the
  other way round.\<close>

definition covered :: "string list \<Rightarrow> string list \<Rightarrow> bool" where
  "covered ps q = (\<exists>p \<in> set ps. prefix (split_path p) q \<or> prefix q (split_path p))"

lemma leaf_mask_Some:
  "leaf_mask fm q \<noteq> None \<longleftrightarrow>
     fm_at fm q \<noteq> None \<or> (\<exists>r m. prefix r q \<and> fm_at fm r = Some m \<and> fm_entries m = [])"
proof (induction q arbitrary: fm)
  case (Cons n q)
  show ?case
  proof (cases "fm_entries fm = []")
    case True
    then have "prefix [] (n # q) \<and> fm_at fm [] = Some fm \<and> fm_entries fm = []" by simp
    then have "\<exists>r m. prefix r (n # q) \<and> fm_at fm r = Some m \<and> fm_entries m = []" by blast
    then show ?thesis using True by simp
  next
    case False
    have "(\<exists>r m. prefix r (n # q) \<and> fm_at fm r = Some m \<and> fm_entries m = []) \<longleftrightarrow>
        (\<exists>r m. prefix r q \<and> fm_at fm (n # r) = Some m \<and> fm_entries m = [])" (is "?a \<longleftrightarrow> ?b")
    proof
      assume ?a
      then obtain r m where r: "prefix r (n # q)" "fm_at fm r = Some m" "fm_entries m = []" by blast
      then obtain r' where "r = n # r'" "prefix r' q" using False by (cases r) auto
      then show ?b using r by blast
    next
      assume ?b
      then show ?a by (metis Cons_prefix_Cons)
    qed
    then show ?thesis using Cons.IH False by (cases "fm_lookup fm n") auto
  qed
qed simp

lemma leaf_mask_covered:
  assumes "normal_paths ps" and "ps \<noteq> []"
  shows "leaf_mask (Build (FM []) ps) q \<noteq> None \<longleftrightarrow> covered ps q"
proof -
  have "(\<exists>r m. prefix r q \<and> fm_at (Build (FM []) ps) r = Some m \<and> fm_entries m = [])
      \<longleftrightarrow> (\<exists>p \<in> set ps. prefix (split_path p) q)"
    using Build_leaf [OF assms] by metis
  moreover have "fm_at (Build (FM []) ps) q \<noteq> None \<longleftrightarrow> (\<exists>p \<in> set ps. prefix q (split_path p))"
    using Build_node [of "FM []" ps q] assms(2) by (cases ps) auto
  ultimately show ?thesis unfolding leaf_mask_Some covered_def by blast
qed

lemma leaf_mask_through:
  "fm_at fm r = Some m \<Longrightarrow> fm_entries m = [] \<Longrightarrow> prefix r q \<Longrightarrow>
    \<exists>m'. leaf_mask fm q = Some m' \<and> fm_entries m' = []"
proof (induction q arbitrary: fm r)
  case (Cons n q)
  then show ?case by (cases r) (auto split: option.splits)
qed simp

lemma keep_leaves_paths: "map fst (keep_leaves J fm ls) = filter (\<lambda>q. leaf_mask fm q \<noteq> None) (map fst ls)"
  by (induction ls) (auto simp: keep_leaves_def keep_leaf_def split: option.split)

lemma keep_leaves_plains:
  "filter (\<lambda>l. \<exists>s. snd l = Plain s) (keep_leaves J fm ls)
    = filter (\<lambda>l. leaf_mask fm (fst l) \<noteq> None \<and> (\<exists>s. snd l = Plain s)) ls"
proof (induction ls)
  case (Cons l ls)
  then show ?case by (cases "snd l") (auto simp: keep_leaves_def keep_leaf_def prod_eq_iff split: option.split)
qed simp

text \<open>What the documentation of the protobuf library says of the normal form of a mask.\<close>

definition normalizes :: "(string list \<Rightarrow> string list) \<Rightarrow> bool" where
  "normalizes norm \<longleftrightarrow> (\<forall>ps. normal_paths (norm ps) \<and> set (norm ps) \<subseteq> set ps
     \<and> (\<forall>p \<in> set ps. \<exists>p' \<in> set (norm ps). prefix (split_path p') (split_path p)))"

lemma normalizes_covered:
  assumes "normalizes norm"
  shows "covered (norm ps) q \<longleftrightarrow> covered ps q" "norm ps \<noteq> [] \<longleftrightarrow> ps \<noteq> []" "normal_paths (norm ps)"
proof -
  have n: "normal_paths (norm ps)" "set (norm ps) \<subseteq> set ps"
      "\<forall>p \<in> set ps. \<exists>p' \<in> set (norm ps). prefix (split_path p') (split_path p)"
    using assms by (simp_all add: normalizes_def)
  then show "normal_paths (norm ps)" by simp
  show "norm ps \<noteq> [] \<longleftrightarrow> ps \<noteq> []" using n(2,3) by (cases ps) auto
  show "covered (norm ps) q \<longleftrightarrow> covered ps q"
  proof
    assume "covered ps q"
    then obtain p where p: "p \<in> set ps" "prefix (split_path p) q \<or> prefix q (split_path p)" by (auto simp: covered_def)
    then obtain p' where p': "p' \<in> set (norm ps)" "prefix (split_path p') (split_path p)" using n(3) by blast
    then have "prefix (split_path p') q \<or> prefix q (split_path p')"
      using p(2) prefix_order.trans prefix_same_cases by metis
    then show "covered (norm ps) q" using p' by (auto simp: covered_def)
  qed (use n(2) in \<open>auto simp: covered_def\<close>)
qed

text \<open>C31: With partial responses enabled, a successful response to a request that asks for fields keeps
  exactly the leaves whose paths the requested paths cover, in their order; plain leaves keep their
  values, and so does every leaf below a requested path. The filter does not panic on messages whose
  lists hold messages.\<close>

theorem partial_response_exact:
  assumes "normalizes norm" and "pv_ok v" and "is_msg v" and "requested_paths m \<noteq> []"
  shows "\<exists>v'. UnaryServerInterceptor J norm True (Some m) (Some v, None) = Some (Some v', None)
    \<and> map fst (leaves v') = filter (covered (requested_paths m)) (map fst (leaves v))
    \<and> filter (\<lambda>l. \<exists>s. snd l = Plain s) (leaves v')
        = filter (\<lambda>l. covered (requested_paths m) (fst l) \<and> (\<exists>s. snd l = Plain s)) (leaves v)
    \<and> (\<forall>l \<in> set (leaves v). (\<exists>p \<in> set (requested_paths m). prefix (split_path p) (fst l)) \<longrightarrow> l \<in> set (leaves v'))"
proof -
  let ?ps = "requested_paths m" and ?fm = "FromMetadata norm m"
  have n: "covered (norm ?ps) q \<longleftrightarrow> covered ?ps q" "norm ?ps \<noteq> []" "normal_paths (norm ?ps)" for q
    using normalizes_covered [OF assms(1)] assms(4) by simp_all
  have cov: "leaf_mask ?fm q \<noteq> None \<longleftrightarrow> covered ?ps q" for q
    using leaf_mask_covered [OF n(3,2)] n(1) by (simp add: FromMetadata_def)
  obtain v' where v': "Filter J ?fm v = Some v'" "leaves v' = keep_leaves J ?fm (leaves v)"
    using Filter_leaves [OF assms(2), of ?fm J] assms(3) by (auto simp: filtered_def)
  have below: "l \<in> set (leaves v')" if l: "l \<in> set (leaves v)" "p \<in> set ?ps" "prefix (split_path p) (fst l)" for l p
  proof -
    obtain p' where p': "p' \<in> set (norm ?ps)" "prefix (split_path p') (split_path p)"
      using assms(1) l(2) unfolding normalizes_def by blast
    then obtain x where "fm_at ?fm (split_path p') = Some x" "fm_entries x = []"
      using Build_leaf [OF n(3,2), of "split_path p'"] by (auto simp: FromMetadata_def)
    then obtain x' where "leaf_mask ?fm (fst l) = Some x'" "fm_entries x' = []"
      using leaf_mask_through p'(2) l(3) prefix_order.trans by metis
    then have "keep_leaf J ?fm l = [l]" by (cases "snd l") (simp_all add: keep_leaf_def prod_eq_iff)
    then show ?thesis using l(1) unfolding v'(2) keep_leaves_def by (auto intro!: bexI [of _ l])
  qed
  have "map fst (leaves v') = filter (covered ?ps) (map fst (leaves v))"
    unfolding v'(2) keep_leaves_paths cov ..
  moreover have "filter (\<lambda>l. \<exists>s. snd l = Plain s) (leaves v')
      = filter (\<lambda>l. covered ?ps (fst l) \<and> (\<exists>s. snd l = Plain s)) (leaves v)"
    unfolding v'(2) keep_leaves_plains cov ..
  ultimately show ?thesis using v'(1) below by (auto simp: UnaryServerInterceptor_def)
qed

text \<open>A normal form for the witness: the paths that do not lead through another one, without repetition.\<close>

definition sample_norm :: "string list \<Rightarrow> string list" where
  "sample_norm ps = filter (\<lambda>p. \<forall>p' \<in> set ps. prefix (split_path p') (split_path p) \<longrightarrow> p' = p) (remdups ps)"

lemma sample_norm: "normalizes sample_norm"
  unfolding normalizes_def
proof (intro allI conjI ballI)
  fix ps :: "string list" and p assume p: "p \<in> set ps"
  define S where "S = {p' \<in> set ps. prefix (split_path p') (split_path p)}"
  have "p \<in> S" using p by (simp add: S_def)
  then obtain p' where p': "p' \<in> S" "\<forall>y \<in> S. length (split_path p') \<le> length (split_path y)"
    using ex_has_least_nat [of "\<lambda>x. x \<in> S" p "\<lambda>x. length (split_path x)"] by auto
  have "y = p'" if y: "y \<in> set ps" "prefix (split_path y) (split_path p')" for y
  proof -
    have "y \<in> S" using y p'(1) prefix_order.trans by (auto simp: S_def)
    then have "length (split_path p') \<le> length (split_path y)" using p'(2) by blast
    then have "split_path y = split_path p'" using y(2) by (auto simp: prefix_def)
    then show ?thesis by (simp add: split_path_inject)
  qed
  then show "\<exists>p' \<in> set (sample_norm ps). prefix (split_path p') (split_path p)"
    using p'(1) by (auto simp: sample_norm_def S_def)
qed (auto simp: sample_norm_def normal_paths_def)

definition sample_message :: pv where
  "sample_message = PMsg [(''records'', PList [PMsg [(''name'', PScalar ''a''), (''uid'', PScalar ''1'')], PMsg [(''name'', PScalar ''b'')]]),
     (''next_page_token'', PScalar ''t'')]"

definition sample_json :: "unit jsonlib" where
  "sample_json = \<lparr>jl_get = (\<lambda>_ _. ()), jl_valid = (\<lambda>_. False), jl_marshal = (\<lambda>_. None)\<rparr>"

theorem partial_response_exact_witness:
  "\<exists>v'. UnaryServerInterceptor sample_json sample_norm True (Some [(''fields'', [''records.name, records'', '' records.name''])])
      (Some sample_message, None) = Some (Some v', None)
    \<and> map fst (leaves v') = [[''records'', ''name''], [''records'', ''uid''], [''records'', ''name'']]"
proof -
  let ?m = "[(''fields'', [''records.name, records'', '' records.name''])]"
  have r: "requested_paths ?m = [''records.name'', ''records'', ''records.name'']" by code_simp
  have "filter (covered (requested_paths ?m)) (map fst (leaves sample_message))
      = [[''records'', ''name''], [''records'', ''uid''], [''records'', ''name'']]"
    unfolding r by code_simp
  moreover have "pv_ok sample_message" "is_msg sample_message" "requested_paths ?m \<noteq> []"
    unfolding r by code_simp+
  ultimately show ?thesis using partial_response_exact [OF sample_norm, of sample_message ?m sample_json] by auto
qed

text \<open>
  An empty list of fields asks for the field with the empty name: the response loses everything,
  where the field mask of the protobuf documentation keeps everything.
\<close>

theorem empty_fields_clear_the_response:
  "requested_paths [(''fields'', [[]])] = [[]]
   \<and> UnaryServerInterceptor sample_json sample_norm True (Some [(''fields'', [[]])]) (Some sample_message, None)
      = Some (Some (PMsg []), None)"
  by code_simp

text \<open>A list of scalars under a path that leads further panics.\<close>

theorem scalar_lists_panic:
  "Filter sample_json (Build (FM []) [''tags.x'']) (PMsg [(''tags'', PList [PScalar ''a''])]) = None"
  by code_simp

end
