(* ===== verification/Converter.thy ===== *)
theory Converter
  imports Database
begin

text \<open>
  The conversion of stored v1beta1 runs to v1 (\<^verbatim>\<open>pkg/converter\<close>). The conversion of the data
  of one run (decoding, \<^verbatim>\<open>ConvertTo\<close> of the pipeline library, encoding) is a parameter, \<open>None\<close> when it
  fails; so are the order in which the database answers an unordered query and the rounds in which
  reading or committing fails. The loop has no bound in the code: it takes fuel, and \<open>None\<close> is a run
  that has not ended.
\<close>

subsection \<open>The converter\<close>

record conv_env =
  ce_convert :: "string \<Rightarrow> string \<Rightarrow> string option"
  ce_arrange :: "nat \<Rightarrow> db_record list \<Rightarrow> db_record list"
  ce_read_ok :: "nat \<Rightarrow> bool"
  ce_commit_ok :: "nat \<Rightarrow> bool"
  ce_limit :: int

definition v1_type :: "string \<Rightarrow> string" where
  "v1_type recType = (if recType = ''tekton.dev/v1beta1.TaskRun'' then ''tekton.dev/v1.TaskRun'' else ''tekton.dev/v1.PipelineRun'')"

text \<open>\<^verbatim>\<open>convertTR\<close> and \<^verbatim>\<open>convertPR\<close>: a failed conversion leaves the record as it is.\<close>

definition convert_run :: "conv_env \<Rightarrow> string \<Rightarrow> db_record \<Rightarrow> db_record" where
  "convert_run c recType r =
     (case ce_convert c recType (d_data r) of
        None \<Rightarrow> r
      | Some data \<Rightarrow> r\<lparr>d_data := data, d_type := v1_type recType\<rparr>)"

text \<open>A negative limit is no limit.\<close>

definition getRecords :: "conv_env \<Rightarrow> string \<Rightarrow> nat \<Rightarrow> db_record list \<Rightarrow> db_record list option" where
  "getRecords c recType i rows =
     (if ce_read_ok c i
      then (let found = ce_arrange c i (filter (\<lambda>r. d_type r = recType) rows) in
            Some (if ce_limit c < 0 then found else take (nat (ce_limit c)) found))
      else None)"

text \<open>\<^verbatim>\<open>Updates\<close> with a struct sets the fields that are not empty, in the row with the primary key.\<close>

definition update_run :: "db_record \<Rightarrow> db_record list \<Rightarrow> db_record list" where
  "update_run r rows =
     map (\<lambda>x. if d_pk x = d_pk r
              then x\<lparr>d_data := (if d_data r = [] then d_data x else d_data r), d_type := (if d_type r = [] then d_type x else d_type r)\<rparr>
              else x) rows"

definition setRecords :: "conv_env \<Rightarrow> nat \<Rightarrow> db_record list \<Rightarrow> db_record list \<Rightarrow> db_record list option" where
  "setRecords c i recs rows = (if ce_commit_ok c i then Some (fold update_run recs rows) else None)"

fun convert :: "conv_env \<Rightarrow> string \<Rightarrow> nat \<Rightarrow> nat \<Rightarrow> db_record list \<Rightarrow> db_record list option" where
  "convert c recType 0 i rows = None"
| "convert c recType (Suc fuel) i rows =
     (case getRecords c recType i rows of
        None \<Rightarrow> convert c recType fuel (i + 1) rows
      | Some recs \<Rightarrow>
          (let recs' = map (convert_run c recType) recs in
           case setRecords c i recs' rows of
             None \<Rightarrow> if recs = [] then Some rows else convert c recType fuel (i + 1) rows
           | Some rows' \<Rightarrow> if recs = [] then Some rows' else convert c recType fuel (i + 1) rows'))"

definition conv_Start :: "conv_env \<Rightarrow> nat \<Rightarrow> db_record list \<Rightarrow> db_record list option" where
  "conv_Start c fuel rows =
     (case convert c ''tekton.dev/v1beta1.TaskRun'' fuel 0 rows of
        None \<Rightarrow> None
      | Some rows' \<Rightarrow> convert c ''tekton.dev/v1beta1.PipelineRun'' fuel 0 rows')"

subsection \<open>One round\<close>

definition beta_types :: "string list" where
  "beta_types = [''tekton.dev/v1beta1.TaskRun'', ''tekton.dev/v1beta1.PipelineRun'']"

lemma v1_type_new: "t \<in> set beta_types \<Longrightarrow> v1_type t \<noteq> [] \<and> v1_type t \<notin> set beta_types"
  by (auto simp: beta_types_def v1_type_def)

text \<open>What the converter means to do with a row.\<close>

definition goal_row :: "conv_env \<Rightarrow> string \<Rightarrow> db_record \<Rightarrow> db_record" where
  "goal_row c t r = (if d_type r = t then convert_run c t r else r)"

definition permutes :: "conv_env \<Rightarrow> bool" where
  "permutes c = (\<forall>i rows. set (ce_arrange c i rows) = set rows)"

lemma convert_run_pk [simp]: "d_pk (convert_run c t r) = d_pk r"
  by (simp add: convert_run_def d_pk_def split: option.split)

lemma update_run_pks [simp]: "map d_pk (update_run r rows) = map d_pk rows"
  by (simp add: update_run_def d_pk_def)

text \<open>Writing back converted rows: a row whose key was fetched becomes the goal, the others stay.\<close>

definition converts :: "conv_env \<Rightarrow> string \<Rightarrow> db_record \<Rightarrow> bool" where
  "converts c t r = (\<forall>data. ce_convert c t (d_data r) = Some data \<longrightarrow> data \<noteq> [])"

definition update_row :: "db_record \<Rightarrow> db_record \<Rightarrow> db_record" where
  "update_row r x = x\<lparr>d_data := (if d_data r = [] then d_data x else d_data r),
     d_type := (if d_type r = [] then d_type x else d_type r)\<rparr>"

lemma update_run_eq: "update_run r rows = map (\<lambda>x. if d_pk x = d_pk r then update_row r x else x) rows"
  by (simp add: update_run_def update_row_def)

lemma update_own_row:
  assumes "d_type r = t" and "t \<in> set beta_types" and "converts c t r" and "y = r \<or> y = goal_row c t r"
  shows "update_row (convert_run c t r) y = goal_row c t r"
  using assms v1_type_new [OF assms(2)]
  by (cases "ce_convert c t (d_data r)") (auto simp: goal_row_def convert_run_def converts_def update_row_def)

lemma goal_row_pk [simp]: "d_pk (goal_row c t r) = d_pk r"
  by (simp add: goal_row_def)

lemma fold_update:
  assumes "distinct (map d_pk rows)" and "t \<in> set beta_types" and "\<forall>r \<in> set rows. d_type r = t \<longrightarrow> converts c t r"
  shows "set recs \<subseteq> {r \<in> set rows. d_type r = t} \<Longrightarrow>
    fold update_run (map (convert_run c t) recs) rows = map (\<lambda>x. if x \<in> set recs then goal_row c t x else x) rows"
proof (induction recs rule: rev_induct)
  case (snoc r recs)
  have r: "r \<in> set rows" "d_type r = t" "converts c t r" using snoc.prems assms(3) by auto
  let ?f = "\<lambda>x. if x \<in> set recs then goal_row c t x else x"
  have "(if d_pk (?f x) = d_pk r then update_row (convert_run c t r) (?f x) else ?f x)
      = (if x \<in> set (recs @ [r]) then goal_row c t x else x)" if "x \<in> set rows" for x
  proof (cases "x = r")
    case True
    then show ?thesis using update_own_row [OF r(2) assms(2) r(3), of "?f r"] by auto
  next
    case False
    then have "d_pk x \<noteq> d_pk r" using distinct_map_eq [OF assms(1) that r(1)] by blast
    then show ?thesis using False by auto
  qed
  then show ?case using snoc by (simp add: update_run_eq comp_def)
qed simp

definition pending :: "string \<Rightarrow> db_record list \<Rightarrow> nat" where
  "pending t rows = length (filter (\<lambda>r. d_type r = t) rows)"

text \<open>The rows of a run of the loop: each is as it was, or converted.\<close>

definition partly :: "conv_env \<Rightarrow> string \<Rightarrow> db_record list \<Rightarrow> db_record list \<Rightarrow> bool" where
  "partly c t rows cur = list_all2 (\<lambda>r x. x = r \<or> x = goal_row c t r) rows cur"

lemma partly_pks: "partly c t rows cur \<Longrightarrow> map d_pk cur = map d_pk rows"
  unfolding partly_def by (induction rule: list_all2_induct) auto

definition convertible :: "conv_env \<Rightarrow> string \<Rightarrow> db_record \<Rightarrow> bool" where
  "convertible c t r = (d_type r = t \<longrightarrow> (\<exists>data. ce_convert c t (d_data r) = Some data \<and> data \<noteq> []))"

lemma goal_row_type: "t \<in> set beta_types \<Longrightarrow> convertible c t r \<Longrightarrow> d_type (goal_row c t r) \<noteq> t"
  using v1_type_new [of t] by (auto simp: goal_row_def convertible_def convert_run_def)

lemma goal_row_idem: "t \<in> set beta_types \<Longrightarrow> convertible c t r \<Longrightarrow> goal_row c t (goal_row c t r) = goal_row c t r"
  using goal_row_type [of t c r] by (simp add: goal_row_def [of c t "goal_row c t r"])

subsection \<open>The loop\<close>

lemma getRecords_Some:
  assumes "getRecords c t i rows = Some recs" and "permutes c" and "ce_limit c \<noteq> 0"
  shows "set recs \<subseteq> {r \<in> set rows. d_type r = t}" and "recs = [] \<longleftrightarrow> pending t rows = 0"
proof -
  define found where "found = ce_arrange c i (filter (\<lambda>r. d_type r = t) rows)"
  have s: "set found = {r \<in> set rows. d_type r = t}" using assms(2) by (auto simp: found_def permutes_def)
  have r: "recs = (if ce_limit c < 0 then found else take (nat (ce_limit c)) found)"
    using assms(1) by (simp add: getRecords_def found_def Let_def split: if_splits)
  show "set recs \<subseteq> {r \<in> set rows. d_type r = t}" using s r by (auto dest: in_set_takeD)
  have "recs = [] \<longleftrightarrow> found = []" using r assms(3) by auto
  also have "\<dots> \<longleftrightarrow> set found = {}" by simp
  also have "\<dots> \<longleftrightarrow> pending t rows = 0" unfolding s by (auto simp: pending_def filter_empty_conv)
  finally show "recs = [] \<longleftrightarrow> pending t rows = 0" .
qed

lemma partly_done:
  assumes "partly c t rows cur" and "pending t cur = 0" and "\<forall>r \<in> set rows. convertible c t r"
  shows "cur = map (goal_row c t) rows"
  using assms unfolding partly_def
  by (induction rule: list_all2_induct) (auto simp: pending_def goal_row_def split: if_splits)

lemma pending_le: "\<forall>y \<in> set ys. d_type (f y) = t \<longrightarrow> d_type y = t \<Longrightarrow> pending t (map f ys) \<le> pending t ys"
  by (induction ys) (auto simp: pending_def)

lemma pending_less:
  assumes "x \<in> set cur" and "d_type x = t" and "d_type (f x) \<noteq> t" and "\<forall>y \<in> set cur. d_type (f y) = t \<longrightarrow> d_type y = t"
  shows "pending t (map f cur) < pending t cur"
proof -
  obtain as bs where c: "cur = as @ x # bs" using split_list [OF assms(1)] by blast
  have "pending t (map f as) \<le> pending t as" "pending t (map f bs) \<le> pending t bs"
    using assms(4) unfolding c by (intro pending_le; simp)+
  then show ?thesis using assms(2,3) unfolding c by (simp add: pending_def)
qed

lemma partly_step:
  assumes "partly c t rows cur" and "t \<in> set beta_types" and "\<forall>r \<in> set rows. convertible c t r"
  shows "partly c t rows (map (\<lambda>x. if x \<in> S then goal_row c t x else x) cur)"
    and "\<forall>x \<in> set cur. convertible c t x"
proof -
  show "partly c t rows (map (\<lambda>x. if x \<in> S then goal_row c t x else x) cur)"
    using assms(1,3) unfolding partly_def
    by (induction rule: list_all2_induct) (auto simp: goal_row_idem [OF assms(2)])
  have "convertible c t (goal_row c t r)" if "r \<in> set rows" for r
    using goal_row_type [OF assms(2)] assms(3) that by (auto simp: convertible_def)
  moreover have "\<forall>x \<in> set cur. \<exists>r \<in> set rows. x = r \<or> x = goal_row c t r"
    using assms(1) unfolding partly_def list_all2_conv_all_nth by (metis in_set_conv_nth)
  ultimately show "\<forall>x \<in> set cur. convertible c t x" using assms(3) by blast
qed

text \<open>The rounds from the given one on do not fail.\<close>

definition recovers :: "conv_env \<Rightarrow> nat \<Rightarrow> bool" where
  "recovers c N = (\<forall>i \<ge> N. ce_read_ok c i \<and> ce_commit_ok c i)"

lemma convert_ends:
  assumes "distinct (map d_pk rows)" and "t \<in> set beta_types" and "\<forall>r \<in> set rows. convertible c t r"
    and "permutes c" and "ce_limit c \<noteq> 0" and "recovers c N"
  shows "partly c t rows cur \<Longrightarrow> (N - i) + pending t cur < fuel \<Longrightarrow> convert c t fuel i cur = Some (map (goal_row c t) rows)"
proof (induction fuel arbitrary: i cur)
  case (Suc fuel)
  note conv = partly_step [OF Suc.prems(1) assms(2,3)]
  show ?case
  proof (cases "getRecords c t i cur")
    case None
    then have "i < N" using assms(6) by (auto simp: getRecords_def recovers_def Let_def not_le [symmetric] split: if_splits)
    then show ?thesis using None Suc by simp
  next
    case (Some recs)
    note recs = getRecords_Some [OF Some assms(4,5)]
    show ?thesis
    proof (cases "recs = []")
      case True
      then show ?thesis using Some recs(2) partly_done [OF Suc.prems(1) _ assms(3)]
        by (auto simp: setRecords_def)
    next
      case False
      define cur' where "cur' = map (\<lambda>x. if x \<in> set recs then goal_row c t x else x) cur"
      have d: "distinct (map d_pk cur)" using partly_pks [OF Suc.prems(1)] assms(1) by simp
      have "\<forall>r \<in> set cur. d_type r = t \<longrightarrow> converts c t r" using conv(2) by (auto simp: convertible_def converts_def)
      then have f: "fold update_run (map (convert_run c t) recs) cur = cur'"
        unfolding cur'_def using fold_update [OF d assms(2) _ recs(1)] by blast
      obtain x where "x \<in> set recs" using False by (cases recs) auto
      then have "pending t cur' < pending t cur" unfolding cur'_def using recs(1) conv(2) goal_row_type [OF assms(2)]
        by (intro pending_less [of x]) (auto simp: convertible_def)
      moreover have "partly c t rows cur'" unfolding cur'_def by (rule conv(1))
      moreover have "i < N" if "\<not> ce_commit_ok c i" using that assms(6) by (auto simp: recovers_def not_le [symmetric])
      ultimately show ?thesis using Some False f Suc by (auto simp: setRecords_def)
    qed
  qed
qed simp

subsection \<open>Properties\<close>

definition convert_all :: "conv_env \<Rightarrow> db_record \<Rightarrow> db_record" where
  "convert_all c r = (if d_type r \<in> set beta_types then convert_run c (d_type r) r else r)"


definition sample_conv :: conv_env where
  "sample_conv = \<lparr>ce_convert = (\<lambda>t d. if d = ''bad'' then None else Some (''v1'' @ d)), ce_arrange = (\<lambda>i l. rev l),
     ce_read_ok = (\<lambda>i. i \<noteq> 0), ce_commit_ok = (\<lambda>i. i \<noteq> 1), ce_limit = 1\<rparr>"

definition run_row :: "string \<Rightarrow> string \<Rightarrow> string \<Rightarrow> db_record" where
  "run_row i t d = \<lparr>d_parent = ''ns'', d_result_id = ''r'', d_result_name = ''r'', d_id = i, d_name = i, d_type = t,
     d_data = d, d_created = 0, d_updated = 0, d_etag = ''e''\<rparr>"


text \<open>
  One run that cannot be converted keeps the converter running for ever: it is fetched again in every
  round.
\<close>

lemma fold_update_keeps:
  "r \<in> set rows \<Longrightarrow> distinct (map d_pk rows) \<Longrightarrow> \<forall>x \<in> set recs. d_pk x = d_pk r \<longrightarrow> x = r \<Longrightarrow>
    r \<in> set (fold update_run recs rows) \<and> distinct (map d_pk (fold update_run recs rows))"
proof (induction recs arbitrary: rows)
  case (Cons x recs)
  have "r \<in> set (update_run x rows)"
  proof (cases "d_pk x = d_pk r")
    case True
    then have "update_row x r = r" using Cons.prems(3) by (simp add: update_row_def)
    then show ?thesis using Cons.prems(1) True by (force simp: update_run_eq)
  next
    case False
    then show ?thesis using Cons.prems(1) by (force simp: update_run_eq)
  qed
  then show ?case using Cons by simp
qed simp

theorem converter_never_ends:
  assumes "ce_convert c t (d_data r) = None" and "d_type r = t" and "permutes c" and "ce_limit c \<noteq> 0"
  shows "r \<in> set rows \<Longrightarrow> distinct (map d_pk rows) \<Longrightarrow> convert c t fuel i rows = None"
proof (induction fuel arbitrary: i rows)
  case (Suc fuel)
  show ?case
  proof (cases "getRecords c t i rows")
    case (Some recs)
    note recs = getRecords_Some [OF Some assms(3,4)]
    have "recs \<noteq> []" using recs(2) Suc.prems(1) assms(2) by (auto simp: pending_def filter_empty_conv)
    moreover have "\<forall>x \<in> set (map (convert_run c t) recs). d_pk x = d_pk r \<longrightarrow> x = r"
    proof clarsimp
      fix x assume "x \<in> set recs" "d_pk x = d_pk r"
      then have "x = r" using distinct_map_eq [OF Suc.prems(2) _ Suc.prems(1)] recs(1) by blast
      then show "convert_run c t x = r" using assms(1) by (simp add: convert_run_def)
    qed
    ultimately show ?thesis using Some Suc fold_update_keeps [OF Suc.prems]
      by (auto simp: setRecords_def)
  qed (use Suc in simp)
qed simp

end
