(* ===== verification/Features.thy ===== *)
theory Features
  imports Prelude "HOL-Library.AList" "HOL-Library.Multiset"
begin

text \<open>
  The feature gates of the API server (\<^verbatim>\<open>pkg/api/server/features\<close>): a gate is an association
  list from features to booleans, as the Go map, which has no order: printing sorts. \<open>Set\<close> returns the
  error, if any, and the gate it leaves; \<open>None\<close> is a panic (an index out of range).
\<close>

subsection \<open>The gate\<close>

type_synonym featureGate = "(string \<times> bool) list"

definition NewFeatureGate :: featureGate where
  "NewFeatureGate = [(''PartialResponse'', False)]"

definition fg_Get :: "featureGate \<Rightarrow> string \<Rightarrow> bool option" where
  "fg_Get fg f = map_of fg f"

definition swap :: "string \<Rightarrow> bool \<Rightarrow> featureGate \<Rightarrow> featureGate" where
  "swap f b fg = (if map_of fg f = None then fg else AList.update f b fg)"

definition Disable :: "featureGate \<Rightarrow> string \<Rightarrow> featureGate" where
  "Disable fg f = swap f False fg"

definition Enable :: "featureGate \<Rightarrow> string \<Rightarrow> featureGate" where
  "Enable fg f = swap f True fg"

text \<open>\<^verbatim>\<open>strings.SplitN(s, sep, 2)\<close> and \<^verbatim>\<open>strconv.ParseBool\<close>.\<close>

definition split2 :: "char \<Rightarrow> string \<Rightarrow> string list" where
  "split2 c s = (if c \<in> set s then [takeWhile (\<lambda>x. x \<noteq> c) s, tl (dropWhile (\<lambda>x. x \<noteq> c) s)] else [s])"

definition ParseBool :: "string \<Rightarrow> bool option" where
  "ParseBool s =
     (if s \<in> set [''1'', ''t'', ''T'', ''TRUE'', ''true'', ''True''] then Some True
      else if s \<in> set [''0'', ''f'', ''F'', ''FALSE'', ''false'', ''False''] then Some False
      else None)"

fun set_loop :: "string list \<Rightarrow> featureGate \<Rightarrow> go_error option option \<times> featureGate" where
  "set_loop [] fg = (Some None, fg)"
| "set_loop (s # ss) fg =
     (if s = [] then set_loop ss fg
      else (case split2 (CHR ''='') s of
              [f, v] \<Rightarrow>
                (case ParseBool v of
                   None \<Rightarrow> (Some (Some (PlainErr (''invalid value of '' @ f @ ''='' @ v @ '', err: strconv.ParseBool: parsing ''
                             @ quote_go v @ '': invalid syntax''))), fg)
                 | Some b \<Rightarrow>
                     if map_of fg f = None
                     then (Some (Some (PlainErr (''feature '' @ [squote] @ f @ [squote] @ '' is not supported''))), fg)
                     else set_loop ss (swap f b fg))
            | _ \<Rightarrow> (None, fg)))"

definition fg_Set :: "featureGate \<Rightarrow> string \<Rightarrow> go_error option option \<times> featureGate" where
  "fg_Set fg value = set_loop (split_on (CHR '','') (TrimSpace value)) fg"

definition show_feature :: "string \<times> bool \<Rightarrow> string" where
  "show_feature p = fst p @ ''='' @ (if snd p then ''true'' else ''false'')"

definition fg_String :: "featureGate \<Rightarrow> string" where
  "fg_String fg = join '','' (sort (map show_feature fg))"

subsection \<open>Properties\<close>

definition feature_name :: "string \<Rightarrow> bool" where
  "feature_name f = (f \<noteq> [] \<and> CHR '','' \<notin> set f \<and> CHR ''='' \<notin> set f \<and> list_all (\<lambda>c. \<not> is_space c) f)"

lemma sort_map_key: "sort (map f xs) = map f (sort_key f xs)"
  by (rule properties_for_sort) simp_all

lemma alist_eqI:
  "map fst g = map fst fg \<Longrightarrow> distinct (map fst fg) \<Longrightarrow> (\<And>f. f \<in> fst ` set fg \<Longrightarrow> map_of g f = map_of fg f) \<Longrightarrow> g = fg"
proof (induction g arbitrary: fg)
  case (Cons p g)
  then obtain q fg' where fg: "fg = q # fg'" "fst p = fst q" "map fst g = map fst fg'" "fst q \<notin> fst ` set fg'"
      "distinct (map fst fg')" by (cases fg) auto
  have "p = q" using Cons.prems(3) [of "fst q"] fg(1,2) by (auto simp: prod_eq_iff)
  moreover have "map_of g f = map_of fg' f" if "f \<in> fst ` set fg'" for f
    using Cons.prems(3) [of f] that fg by (auto split: if_splits)
  then have "g = fg'" using Cons.IH fg(3,5) by blast
  ultimately show ?case using fg(1) by simp
qed simp

lemma split2_feature: "feature_name f \<Longrightarrow> split2 (CHR ''='') (show_feature (f, b)) = [f, if b then ''true'' else ''false'']"
proof -
  assume "feature_name f"
  then have "\<forall>c \<in> set f. c \<noteq> CHR ''=''" by (auto simp: feature_name_def)
  then show ?thesis by (simp add: split2_def show_feature_def takeWhile_append2 dropWhile_append2)
qed

lemma split_join: "\<forall>s \<in> set ss. c \<notin> set s \<Longrightarrow> ss \<noteq> [] \<Longrightarrow> split_on c (join [c] ss) = ss"
proof (induction "[c]" ss rule: join.induct)
  case (3 x y ys)
  then show ?case by (simp add: split_on_append)
qed (simp_all add: split_on_no_sep)

lemma swap_keys [simp]: "map fst (swap f b fg) = map fst fg"
proof -
  have "f \<in> fst ` set fg \<Longrightarrow> map fst (AList.update f b fg) = map fst fg" by (induction fg) auto
  then show ?thesis by (auto simp: swap_def map_of_eq_None_iff)
qed

lemma set_loop_features:
  assumes "\<forall>p \<in> set kvs. feature_name (fst p)" and "distinct (map fst kvs)"
  shows "fst ` set kvs \<subseteq> fst ` set fg \<Longrightarrow> \<exists>fg'. set_loop (map show_feature kvs) fg = (Some None, fg')
    \<and> map fst fg' = map fst fg \<and> (\<forall>f. map_of fg' f = (case map_of kvs f of None \<Rightarrow> map_of fg f | Some b \<Rightarrow> Some b))"
  using assms
proof (induction kvs arbitrary: fg)
  case (Cons p kvs)
  obtain f b where p: "p = (f, b)" by (cases p)
  have f: "feature_name f" "map_of fg f \<noteq> None" using Cons.prems p by (auto simp: map_of_eq_None_iff)
  have "ParseBool (if b then ''true'' else ''false'') = Some b" by (simp add: ParseBool_def)
  then have step: "set_loop (map show_feature (p # kvs)) fg = set_loop (map show_feature kvs) (swap f b fg)"
    using f split2_feature [OF f(1), of b] by (auto simp: p) (simp_all add: show_feature_def)
  have keys: "fst ` set (swap f b fg) = fst ` set fg" by (metis swap_keys list.set_map)
  then obtain fg' where fg': "set_loop (map show_feature kvs) (swap f b fg) = (Some None, fg')"
      "map fst fg' = map fst (swap f b fg)"
      "\<forall>x. map_of fg' x = (case map_of kvs x of None \<Rightarrow> map_of (swap f b fg) x | Some c \<Rightarrow> Some c)"
    using Cons.IH [of "swap f b fg"] Cons.prems by auto
  have "map_of kvs f = None" using Cons.prems(3) p by (simp add: map_of_eq_None_iff)
  then have "map_of fg' x = (case map_of (p # kvs) x of None \<Rightarrow> map_of fg x | Some c \<Rightarrow> Some c)" for x
    using fg'(3) f(2) by (auto simp: p swap_def update_conv' split: option.split)
  then show ?case using step fg' by simp
qed simp

text \<open>Feature gates round trip: setting the printed form of a gate on any gate with the same
  features gives that gate, whatever the values before and in whatever order the map is printed.\<close>

theorem feature_gate_round_trip:
  assumes "fg \<noteq> []" and "list_all (\<lambda>p. feature_name (fst p)) fg" and "distinct (map fst fg)" and "map fst fg' = map fst fg"
  shows "fg_Set fg' (fg_String fg) = (Some None, fg)"
proof -
  define kvs where "kvs = sort_key show_feature fg"
  have k: "set kvs = set fg" "mset kvs = mset fg" "kvs \<noteq> []" using assms(1)
    by (simp_all add: kvs_def) (metis set_empty set_sort)
  have dk: "distinct (map fst kvs)" using assms(3) k(2) by (metis mset_eq_imp_distinct_iff mset_map)
  have names: "\<forall>p \<in> set kvs. feature_name (fst p)" using assms(2) k(1) by (simp add: list_all_iff)
  have clean: "CHR '','' \<notin> set (show_feature p)" "list_all (\<lambda>c. \<not> is_space c) (show_feature p)" "show_feature p \<noteq> []"
    if "p \<in> set kvs" for p
    using names that by (auto simp: show_feature_def feature_name_def is_space_def)
  have "fg_String fg = join '','' (map show_feature kvs)" by (simp add: fg_String_def kvs_def sort_map_key)
  moreover have "list_all (\<lambda>c. \<not> is_space c) (join '','' ss)" if "\<forall>s \<in> set ss. list_all (\<lambda>c. \<not> is_space c) s" for ss
    using that by (induction "'',''" ss rule: join.induct) (simp_all add: is_space_def)
  ultimately have ns: "list_all (\<lambda>c. \<not> is_space c) (fg_String fg)" using clean(2) by simp
  have "TrimSpace (fg_String fg) = fg_String fg"
    using ns by (intro TrimSpace_id) (metis hd_in_set last_in_set list_all_iff)
  then have parts: "split_on (CHR '','') (TrimSpace (fg_String fg)) = map show_feature kvs"
    using \<open>fg_String fg = join '','' (map show_feature kvs)\<close> split_join [of "map show_feature kvs" "CHR '',''"] clean(1) k(3)
    by simp
  have "fst ` set kvs \<subseteq> fst ` set fg'" using k(1) assms(4) by (metis list.set_map order_refl)
  then obtain g where g: "set_loop (map show_feature kvs) fg' = (Some None, g)" "map fst g = map fst fg'"
      "\<forall>f. map_of g f = (case map_of kvs f of None \<Rightarrow> map_of fg' f | Some b \<Rightarrow> Some b)"
    using set_loop_features [OF names dk] by blast
  have kv: "map_of kvs = map_of fg" by (rule map_of_inject_set [THEN iffD2, OF dk assms(3) k(1)])
  have none: "map_of fg f = None \<Longrightarrow> map_of fg' f = None" for f
    unfolding map_of_eq_None_iff using assms(4) by (metis list.set_map)
  have "map_of g f = map_of fg f" for f
    using g(3) kv none [of f] by (cases "map_of fg f") simp_all
  then have "g = fg" using g(2) assms(3,4) by (intro alist_eqI) auto
  then show ?thesis using g(1) parts by (simp add: fg_Set_def)
qed

theorem feature_gate_round_trip_witness:
  "fg_Set [(''PartialResponse'', False), (''B'', True)] ''B=false,PartialResponse=true'' = (Some None, [(''PartialResponse'', True), (''B'', False)])"
proof -
  let ?fg = "[(''PartialResponse'', True), (''B'', False)]"
  have "list_all (\<lambda>p. feature_name (fst p)) ?fg" by code_simp
  moreover have "fg_String ?fg = ''B=false,PartialResponse=true''" by code_simp
  ultimately show ?thesis using feature_gate_round_trip [of ?fg "[(''PartialResponse'', False), (''B'', True)]"] by simp
qed

text \<open>A feature without a value panics: the value is read before the number of parts is tested.\<close>

theorem feature_without_value_panics: "fst (fg_Set NewFeatureGate ''PartialResponse'') = None"
  by code_simp

end
