(* ===== verification/Cli.thy ===== *)
theory Cli
  imports Resources LogStore
begin

text \<open>
  The command line client (\<^verbatim>\<open>pkg/cli\<close>): the REST client with its records and logs clients, the
  filter built from the options, and the commands list, describe and logs of PipelineRuns and TaskRuns,
  which differ in the kind they name. The HTTP exchange, JSON decoding and the printed form of runs are
  parameters (record \<open>cli_env\<close>); writing to the standard output does not fail. A command returns its
  error, if any, and what it printed.
\<close>

subsection \<open>The REST client\<close>

datatype http_answer = SendFailed string | HttpAnswer int "string + string"

record 'r cli_env =
  cl_base_path :: string
  cl_http :: "string \<Rightarrow> string \<Rightarrow> (string \<times> string) list \<Rightarrow> http_answer"
  cl_list_json :: "string \<Rightarrow> string + (pb_record list \<times> string)"
  cl_record_json :: "string \<Rightarrow> string + pb_record"
  cl_run_json :: "string \<Rightarrow> string + 'r"
  cl_completed :: "'r \<Rightarrow> bool"
  cl_print_list :: "'r list \<Rightarrow> bool \<Rightarrow> string res"
  cl_print_run :: "string \<Rightarrow> 'r \<Rightarrow> string res"
  cl_namespace :: string

definition client_Error :: "string \<Rightarrow> int \<Rightarrow> string" where
  "client_Error message code = ''client error: '' @ message @ '' (code: '' @ show_int code @ '')''"

definition DoRequest :: "'r cli_env \<Rightarrow> string \<Rightarrow> string \<Rightarrow> (string \<times> string) list \<Rightarrow> string res" where
  "DoRequest c method url params =
     (case cl_http c method url params of
        SendFailed e \<Rightarrow> Inl (PlainErr (''failed to send request: '' @ e))
      | HttpAnswer code body \<Rightarrow>
          if code \<ge> 400 then Inl (PlainErr (client_Error (case body of Inl _ \<Rightarrow> [] | Inr b \<Rightarrow> b) code))
          else (case body of
                  Inl e \<Rightarrow> Inl (PlainErr (''failed to read response body: '' @ e))
                | Inr b \<Rightarrow> Inr b))"

definition BuildURL :: "'r cli_env \<Rightarrow> string \<Rightarrow> string" where
  "BuildURL c p = Join [cl_base_path c, p]"

record records_req =
  rq_parent :: string
  rq_filter :: string
  rq_order_by :: string
  rq_page_size :: int
  rq_page_token :: string

definition client_GetRecord :: "'r cli_env \<Rightarrow> string \<Rightarrow> string \<Rightarrow> pb_record res" where
  "client_GetRecord c namespace uid =
     (case DoRequest c ''GET'' (BuildURL c (''parents/'' @ namespace @ ''/results/'' @ uid @ ''/records/'' @ uid)) [] of
        Inl e \<Rightarrow> Inl e
      | Inr body \<Rightarrow> (case cl_record_json c body of Inl e \<Rightarrow> Inl (PlainErr e) | Inr r \<Rightarrow> Inr r))"

definition list_params :: "records_req \<Rightarrow> string \<Rightarrow> (string \<times> string) list" where
  "list_params req flds =
     (if rq_filter req \<noteq> [] then [(''filter'', rq_filter req)] else [])
     @ (if rq_order_by req \<noteq> [] then [(''order_by'', rq_order_by req)] else [])
     @ (if rq_page_size req > 0 then [(''page_size'', show_int (rq_page_size req))] else [])
     @ (if rq_page_token req \<noteq> [] then [(''page_token'', rq_page_token req)] else [])
     @ (if flds \<noteq> [] then [(''fields'', flds)] else [])"

definition client_ListRecords :: "'r cli_env \<Rightarrow> records_req \<Rightarrow> string \<Rightarrow> (pb_record list \<times> string) res" where
  "client_ListRecords c req flds =
     (case DoRequest c ''GET'' (BuildURL c (''parents/'' @ rq_parent req @ ''/records'')) (list_params req flds) of
        Inl e \<Rightarrow> Inl e
      | Inr body \<Rightarrow> (case cl_list_json c body of Inl e \<Rightarrow> Inl (PlainErr e) | Inr r \<Rightarrow> Inr r))"

text \<open>\<^verbatim>\<open>strings.Replace(s, old, new, 1)\<close> for a text to replace that is not empty.\<close>

fun Replace1 :: "string \<Rightarrow> string \<Rightarrow> string \<Rightarrow> string" where
  "Replace1 old new [] = []"
| "Replace1 old new (x # xs) =
     (if prefix old (x # xs) then new @ drop (length old) (x # xs) else x # Replace1 old new xs)"

definition log_path_of :: "string \<Rightarrow> string" where
  "log_path_of name = Replace1 ''records'' ''logs'' name"

text \<open>The text read from the pipe, or the error it is closed with.\<close>

definition client_GetLog :: "'r cli_env \<Rightarrow> string \<Rightarrow> string res" where
  "client_GetLog c name =
     (case DoRequest c ''GET'' (BuildURL c (''parents/'' @ log_path_of name)) [] of
        Inl e \<Rightarrow> Inl (PlainErr (''failed to get log: '' @ error_msg e))
      | Inr body \<Rightarrow> Inr body)"

subsection \<open>Filters\<close>

datatype cli_kind = CliTaskRun | CliPipelineRun

record filter_options =
  fo_label :: string
  fo_name :: string
  fo_pipelinerun :: string
  fo_kind :: cli_kind
  fo_uid :: string
  fo_exact :: bool

text \<open>The check of one pair of labels; \<open>ContainsAny\<close> looks for a blank or a tab.\<close>

definition validate_pair :: "string \<Rightarrow> go_error option" where
  "validate_pair pair =
     (case split_on (CHR ''='') (TrimSpace pair) of
        [k, v] \<Rightarrow>
          if CHR '' '' \<in> set k \<or> CHR 0x09 \<in> set k then Some (PlainErr (''label key cannot contain whitespace: '' @ k))
          else if TrimSpace k = [] then Some (PlainErr (''label key cannot be empty in pair: '' @ pair))
          else if TrimSpace v = [] then Some (PlainErr (''label value cannot be empty in pair: '' @ pair))
          else None
      | _ \<Rightarrow> Some (PlainErr (''invalid label format: '' @ pair @ ''. Expected format: key=value'')))"

fun validate_pairs :: "string list \<Rightarrow> go_error option" where
  "validate_pairs [] = None"
| "validate_pairs (p # ps) = (case validate_pair p of Some e \<Rightarrow> Some e | None \<Rightarrow> validate_pairs ps)"

definition ValidateLabels :: "string \<Rightarrow> go_error option" where
  "ValidateLabels labels = validate_pairs (split_on (CHR '','') labels)"

definition dq :: "string \<Rightarrow> string" where "dq s = dquote # s @ [dquote]"

definition data_type_is :: "string \<Rightarrow> string" where
  "data_type_is t = ''data_type=='' @ dq t"

definition kind_filter :: "cli_kind \<Rightarrow> string" where
  "kind_filter k =
     (let n = (case k of CliTaskRun \<Rightarrow> ''TaskRun'' | CliPipelineRun \<Rightarrow> ''PipelineRun'') in
      ''('' @ data_type_is (''tekton.dev/v1.'' @ n) @ '' || '' @ data_type_is (''tekton.dev/v1beta1.'' @ n) @ '')'')"

definition label_condition :: "string \<Rightarrow> string \<Rightarrow> string" where
  "label_condition k v = ''data.metadata.labels['' @ dq k @ '']=='' @ dq v"

definition label_filter :: "string \<Rightarrow> string list" where
  "label_filter pair =
     (case split_on (CHR ''='') (TrimSpace pair) of
        [k, v] \<Rightarrow> [label_condition (TrimSpace k) (TrimSpace v)]
      | _ \<Rightarrow> [])"

definition field_filter :: "bool \<Rightarrow> string \<Rightarrow> string \<Rightarrow> string" where
  "field_filter exact field v =
     (if exact then ''data.metadata.'' @ field @ ''=='' @ dq v else ''data.metadata.'' @ field @ ''.contains('' @ dq v @ '')'')"

definition cli_filters :: "filter_options \<Rightarrow> string list" where
  "cli_filters o' =
     [kind_filter (fo_kind o')]
     @ (if fo_label o' \<noteq> [] then concat (map label_filter (split_on (CHR '','') (fo_label o'))) else [])
     @ (if fo_name o' \<noteq> [] then [field_filter (fo_exact o') ''name'' (fo_name o')] else [])
     @ (if fo_uid o' \<noteq> [] then [field_filter (fo_exact o') ''uid'' (fo_uid o')] else [])
     @ (if fo_pipelinerun o' \<noteq> []
        then [''data.metadata.labels['' @ [squote] @ ''tekton.dev/pipelineRun'' @ [squote] @ ''] == '' @ squote # fo_pipelinerun o' @ [squote]]
        else [])"

definition BuildFilterString :: "filter_options \<Rightarrow> string" where
  "BuildFilterString o' = join '' && '' (cli_filters o')"

subsection \<open>The list command\<close>

record list_options =
  lo_limit :: int
  lo_all_namespaces :: bool
  lo_label :: string
  lo_pipelinerun :: string
  lo_single_page :: bool
  lo_name :: string
  lo_kind :: cli_kind

definition list_filter_options :: "list_options \<Rightarrow> filter_options" where
  "list_filter_options o' = \<lparr>fo_label = lo_label o', fo_name = lo_name o', fo_pipelinerun = lo_pipelinerun o',
     fo_kind = lo_kind o', fo_uid = [], fo_exact = False\<rparr>"

text \<open>\<^verbatim>\<open>PreRunE\<close>: the arguments and whether the namespace flag was given.\<close>

definition list_PreRunE :: "list_options \<Rightarrow> bool \<Rightarrow> string list \<Rightarrow> list_options res" where
  "list_PreRunE o' nsSet args =
     (if lo_all_namespaces o' \<and> nsSet then Inl (PlainErr ''cannot use --all-namespaces/-A and --namespace/-n together'')
      else if lo_limit o' < 5 \<or> lo_limit o' > 1000 then Inl (PlainErr ''limit should be between 5 and 1000'')
      else if lo_label o' \<noteq> [] then (case ValidateLabels (lo_label o') of Some e \<Rightarrow> Inl e | None \<Rightarrow> Inr o')
      else (case args of [] \<Rightarrow> Inr o' | a # _ \<Rightarrow> Inr (o'\<lparr>lo_name := a\<rparr>)))"

text \<open>The value of a record's data; a record without data is a nil dereference, which ends the command
  with a panic, here an error of its own.\<close>

definition cli_panic :: go_error where
  "cli_panic = PlainErr ''runtime error: invalid memory address or nil pointer dereference''"

fun parse_runs :: "'r cli_env \<Rightarrow> pb_record list \<Rightarrow> 'r list res" where
  "parse_runs c [] = Inr []"
| "parse_runs c (r # rs) =
     (case pd_data r of
        None \<Rightarrow> Inl cli_panic
      | Some a \<Rightarrow>
     (case cl_run_json c (any_value a) of
        Inl e \<Rightarrow> Inl (PlainErr (''failed to unmarshal JSON: '' @ e))
      | Inr run \<Rightarrow> (case parse_runs c rs of Inl e \<Rightarrow> Inl e | Inr runs \<Rightarrow> Inr (run # runs))))"

definition ListFields :: string where
  "ListFields = ''records.name,records.uid,records.create_time,records.update_time,records.data.value.metadata,records.data.value.status,next_page_token''"

definition page_prompt :: string where
  "page_prompt = CHR 0x0A # ''Press '' @ [squote] @ ''n'' @ [squote] @ '' for next page, '' @ [squote] @ ''q'' @ [squote] @ '' to quit: ''"

text \<open>The pages of the listing; the lines of the standard input are the remaining argument.\<close>

fun list_pages :: "'r cli_env \<Rightarrow> list_options \<Rightarrow> records_req \<Rightarrow> string list \<Rightarrow> go_error option \<times> string" where
  "list_pages c o' req inputs =
     (case client_ListRecords c req ListFields of
        Inl e \<Rightarrow> (Some e, [])
      | Inr (recs, token) \<Rightarrow>
     (case parse_runs c recs of
        Inl e \<Rightarrow> (Some e, [])
      | Inr runs \<Rightarrow>
     (case cl_print_list c runs (lo_all_namespaces o') of
        Inl e \<Rightarrow> (Some e, [])
      | Inr out \<Rightarrow>
          if lo_single_page o' \<or> token = [] then (None, out)
          else (case inputs of
                  [] \<Rightarrow> (Some EOF, out @ page_prompt)
                | i # is' \<Rightarrow>
                    (let input = TrimSpace (ToLower i) in
                     if input = ''n''
                     then (case list_pages c o' (req\<lparr>rq_page_token := token\<rparr>) is' of
                             (e, more') \<Rightarrow> (e, out @ page_prompt @ more'))
                     else if input = ''q'' then (None, out @ page_prompt)
                     else (None, out @ page_prompt @ ''Invalid input. Exiting pagination.'' @ [CHR 0x0A]))))))"

declare list_pages.simps [simp del]

definition list_RunE :: "'r cli_env \<Rightarrow> list_options \<Rightarrow> string list \<Rightarrow> go_error option \<times> string" where
  "list_RunE c o' inputs =
     list_pages c o' \<lparr>rq_parent = (if lo_all_namespaces o' then ''-/results/-'' else cl_namespace c @ ''/results/-''),
        rq_filter = BuildFilterString (list_filter_options o'), rq_order_by = ''create_time desc'',
        rq_page_size = lo_limit o', rq_page_token = []\<rparr> inputs"

subsection \<open>The describe and logs commands\<close>

record find_options =
  fi_uid :: string
  fi_name :: string
  fi_kind :: cli_kind

definition kind_name :: "cli_kind \<Rightarrow> string" where
  "kind_name k = (case k of CliTaskRun \<Rightarrow> ''TaskRun'' | CliPipelineRun \<Rightarrow> ''PipelineRun'')"

definition find_filter_options :: "find_options \<Rightarrow> filter_options" where
  "find_filter_options o' = \<lparr>fo_label = [], fo_name = fi_name o', fo_pipelinerun = [], fo_kind = fi_kind o',
     fo_uid = fi_uid o', fo_exact = True\<rparr>"

definition find_Args :: "find_options \<Rightarrow> string list \<Rightarrow> go_error option" where
  "find_Args o' args =
     (if fi_uid o' \<noteq> [] then None
      else if length args \<noteq> 1 then Some (PlainErr ''requires exactly one argument when --uid is not provided'')
      else None)"

definition find_PreRunE :: "find_options \<Rightarrow> string list \<Rightarrow> find_options" where
  "find_PreRunE o' args = (case args of [] \<Rightarrow> o' | a # _ \<Rightarrow> o'\<lparr>fi_name := a\<rparr>)"

definition first_match :: "'r cli_env \<Rightarrow> find_options \<Rightarrow> string \<Rightarrow> string \<Rightarrow> string \<Rightarrow> pb_record res" where
  "first_match c o' filter' flds notFound =
     (case client_ListRecords c \<lparr>rq_parent = cl_namespace c @ ''/results/-'', rq_filter = filter',
             rq_order_by = ''create_time desc'', rq_page_size = 5, rq_page_token = []\<rparr> flds of
        Inl e \<Rightarrow> Inl (PlainErr (''failed to find '' @ kind_name (fi_kind o') @ '': '' @ error_msg e))
      | Inr ([], _) \<Rightarrow> Inl (PlainErr notFound)
      | Inr (r # _, _) \<Rightarrow> Inr r)"

text \<open>The filter for a UID that is not found directly.\<close>

definition uid_filter :: "bool \<Rightarrow> find_options \<Rightarrow> string" where
  "uid_filter logs o' =
     (if logs \<and> fi_kind o' = CliPipelineRun then ''name.endsWith('' @ dq (''records/'' @ fi_uid o') @ '')''
      else ''name=='' @ dq (fi_uid o'))"

definition find_record :: "'r cli_env \<Rightarrow> bool \<Rightarrow> find_options \<Rightarrow> string \<Rightarrow> pb_record res" where
  "find_record c logs o' flds =
     (let k = kind_name (fi_kind o') in
      if fi_uid o' \<noteq> []
      then (case client_GetRecord c (cl_namespace c) (fi_uid o') of
              Inr r \<Rightarrow> Inr r
            | Inl _ \<Rightarrow>
                first_match c o' (uid_filter logs o') flds
                  (if fi_name o' \<noteq> [] then ''no '' @ k @ '' found with name '' @ fi_name o' @ '' and UID '' @ fi_uid o'
                   else ''no '' @ k @ '' found with UID '' @ fi_uid o'))
      else first_match c o' (BuildFilterString (find_filter_options o')) flds (''no '' @ k @ '' found with name '' @ fi_name o'))"

definition decode_run :: "'r cli_env \<Rightarrow> string \<Rightarrow> pb_record \<Rightarrow> 'r res" where
  "decode_run c what r =
     (case pd_data r of
        None \<Rightarrow> Inl cli_panic
      | Some a \<Rightarrow> (case cl_run_json c (any_value a) of Inl e \<Rightarrow> Inl (PlainErr (what @ e)) | Inr run \<Rightarrow> Inr run))"

definition describe_RunE :: "'r cli_env \<Rightarrow> find_options \<Rightarrow> string \<Rightarrow> string res" where
  "describe_RunE c o' format =
     (case find_record c False o' [] of
        Inl e \<Rightarrow> Inl e
      | Inr r \<Rightarrow>
     (case decode_run c (''failed to unmarshal '' @ kind_name (fi_kind o') @ '' data: '') r of
        Inl e \<Rightarrow> Inl e
      | Inr run \<Rightarrow> cl_print_run c format run))"

definition NameUIDAndDataField :: string where
  "NameUIDAndDataField = ''records.name,records.uid,records.data.value''"

definition logs_RunE :: "'r cli_env \<Rightarrow> find_options \<Rightarrow> string res" where
  "logs_RunE c o' =
     (let k = kind_name (fi_kind o') in
      case find_record c True o' NameUIDAndDataField of
        Inl e \<Rightarrow> Inl e
      | Inr r \<Rightarrow>
     (case decode_run c (''failed to parse '' @ k @ '' data: '') r of
        Inl e \<Rightarrow> Inl e
      | Inr run \<Rightarrow>
          if \<not> cl_completed c run
          then Inr (''Logs are not available for running '' @ k @ ''s. Please wait for the '' @ k
                 @ '' to complete before retrieving logs.'' @ [CHR 0x0A])
          else (case client_GetLog c (pd_name r) of
                  Inl e \<Rightarrow> Inl (PlainErr (''failed to copy logs: '' @ error_msg e))
                | Inr t \<Rightarrow> Inr t)))"

subsection \<open>The commands\<close>

text \<open>A command checks its arguments, prepares its options and runs.\<close>

definition list_command :: "'r cli_env \<Rightarrow> list_options \<Rightarrow> bool \<Rightarrow> string list \<Rightarrow> string list \<Rightarrow> go_error option \<times> string" where
  "list_command c o' nsSet args inputs =
     (case list_PreRunE o' nsSet args of Inl e \<Rightarrow> (Some e, []) | Inr o'' \<Rightarrow> list_RunE c o'' inputs)"

definition taskrun_list :: "'r cli_env \<Rightarrow> list_options \<Rightarrow> bool \<Rightarrow> string list \<Rightarrow> string list \<Rightarrow> go_error option \<times> string" where
  "taskrun_list c o' nsSet args inputs = list_command c (o'\<lparr>lo_kind := CliTaskRun, lo_name := []\<rparr>) nsSet args inputs"

text \<open>The command for PipelineRuns has no flag for a PipelineRun.\<close>

definition pipelinerun_list :: "'r cli_env \<Rightarrow> list_options \<Rightarrow> bool \<Rightarrow> string list \<Rightarrow> string list \<Rightarrow> go_error option \<times> string" where
  "pipelinerun_list c o' nsSet args inputs =
     list_command c (o'\<lparr>lo_kind := CliPipelineRun, lo_name := [], lo_pipelinerun := []\<rparr>) nsSet args inputs"

definition find_command :: "find_options \<Rightarrow> string list \<Rightarrow> (find_options \<Rightarrow> string res) \<Rightarrow> string res" where
  "find_command o' args run =
     (case find_Args o' args of Some e \<Rightarrow> Inl e | None \<Rightarrow> run (find_PreRunE o' args))"

definition taskrun_describe :: "'r cli_env \<Rightarrow> string \<Rightarrow> string \<Rightarrow> string list \<Rightarrow> string res" where
  "taskrun_describe c uid format args =
     find_command \<lparr>fi_uid = uid, fi_name = [], fi_kind = CliTaskRun\<rparr> args (\<lambda>o'. describe_RunE c o' format)"

definition pipelinerun_describe :: "'r cli_env \<Rightarrow> string \<Rightarrow> string \<Rightarrow> string list \<Rightarrow> string res" where
  "pipelinerun_describe c uid format args =
     find_command \<lparr>fi_uid = uid, fi_name = [], fi_kind = CliPipelineRun\<rparr> args (\<lambda>o'. describe_RunE c o' format)"

definition taskrun_logs :: "'r cli_env \<Rightarrow> string \<Rightarrow> string list \<Rightarrow> string res" where
  "taskrun_logs c uid args = find_command \<lparr>fi_uid = uid, fi_name = [], fi_kind = CliTaskRun\<rparr> args (logs_RunE c)"

definition pipelinerun_logs :: "'r cli_env \<Rightarrow> string \<Rightarrow> string list \<Rightarrow> string res" where
  "pipelinerun_logs c uid args = find_command \<lparr>fi_uid = uid, fi_name = [], fi_kind = CliPipelineRun\<rparr> args (logs_RunE c)"

end
