(* ===== verification/CliProps.thy ===== *)
theory CliProps
  imports Cli
begin

text \<open>
  What the command line client does against the API: the log it asks for is the log of the record it
  found, the pages it prints are the pages of the listing, and the labels it accepts are all in the
  filter it sends.
\<close>

subsection \<open>The name of a log\<close>

lemma Replace1_segment:
  assumes "CHR ''/'' \<notin> set old" and "\<not> sublist old p"
  shows "Replace1 old new (p @ CHR ''/'' # t) = p @ CHR ''/'' # Replace1 old new t"
  using assms(2)
proof (induction p)
  case Nil
  have "old \<noteq> []" using Nil by auto
  then have "\<not> prefix old (CHR ''/'' # t)" using assms(1) by (cases old) auto
  then show ?case by simp
next
  case (Cons x p)
  have "\<not> prefix old (x # p @ CHR ''/'' # t)"
  proof
    assume "prefix old (x # p @ CHR ''/'' # t)"
    then have "prefix old ((x # p) @ CHR ''/'' # t)" by simp
    then consider "prefix old (x # p)" | us where "old = (x # p) @ us" "prefix us (CHR ''/'' # t)"
      unfolding prefix_append by blast
    then show False
    proof cases
      case 1
      then show ?thesis using Cons.prems prefix_imp_sublist by blast
    next
      case 2
      have "us \<noteq> []" using 2(1) Cons.prems by auto
      then have "hd us = CHR ''/''" "us = hd us # tl us" using 2(2) by (cases us; simp)+
      then show ?thesis using 2(1) assms(1) by (metis in_set_conv_decomp)
    qed
  qed
  moreover have "\<not> sublist old p" using Cons.prems by (simp add: sublist_Cons_right)
  ultimately show ?case using Cons.IH by simp
qed

lemma log_path_of_record:
  assumes "\<not> Contains p ''records''" and "\<not> Contains r ''records''"
  shows "log_path_of (record_FormatName (result_FormatName p r) n) = log_FormatName (result_FormatName p r) n"
proof -
  have s: "CHR ''/'' \<notin> set ''records''" "\<not> sublist ''records'' ''results''"
      "\<not> sublist ''records'' p" "\<not> sublist ''records'' r"
    using assms by (simp, code_simp, simp_all add: Contains_def)
  have "Replace1 ''records'' ''logs'' (p @ ''/results/'' @ r @ ''/records/'' @ n)
      = p @ CHR ''/'' # Replace1 ''records'' ''logs'' (''results'' @ CHR ''/'' # r @ CHR ''/'' # ''records/'' @ n)"
    using Replace1_segment [OF s(1,3)] by simp
  also have "\<dots> = p @ CHR ''/'' # ''results'' @ CHR ''/'' # Replace1 ''records'' ''logs'' (r @ CHR ''/'' # ''records/'' @ n)"
    using Replace1_segment [OF s(1,2)] by simp
  also have "\<dots> = p @ CHR ''/'' # ''results'' @ CHR ''/'' # r @ CHR ''/'' # ''logs/'' @ n"
    using Replace1_segment [OF s(1,4)] by simp
  finally show ?thesis by (simp add: log_path_of_def record_FormatName_def log_FormatName_def result_FormatName_def)
qed

text \<open>The client asks the server for the log of the record it found: the log name that it makes of a
  record's name parses on the server to the namespace, result and name of the record, when the
  namespace and the result name do not contain the word records.\<close>

theorem cli_log_name_is_the_records:
  assumes "record_ParseName nm = Inr (p, r, n)" and "\<not> Contains p ''records''" and "\<not> Contains r ''records''"
  shows "log_ParseName (log_path_of nm) = Inr (p, r, n)"
proof -
  have "seg_ok p \<and> seg_ok r \<and> seg_ok n \<and> nm = record_FormatName (result_FormatName p r) n"
    by (rule record_ParseName_Inr [OF assms(1)])
  then show ?thesis using log_path_of_record [OF assms(2,3)] log_ParseName_FormatName by simp
qed

theorem cli_log_name_is_the_records_witness:
  "log_ParseName (log_path_of ''ns/results/r/records/n'') = Inr (''ns'', ''r'', ''n'')"
proof -
  have "record_ParseName ''ns/results/r/records/n'' = Inr (''ns'', ''r'', ''n'')" by code_simp
  moreover have "\<not> Contains ''ns'' ''records''" "\<not> Contains ''r'' ''records''" by (code_simp, code_simp)
  ultimately show ?thesis by (rule cli_log_name_is_the_records)
qed

text \<open>In a namespace whose name contains the word, the client changes the namespace.\<close>

theorem records_in_a_namespace_break_logs:
  "log_path_of ''my-records/results/r/records/n'' = ''my-logs/results/r/records/n''"
  by code_simp

text \<open>The fallback of the logs command for PipelineRuns looks for a slash in the name column, which holds
  the last segment only: it matches no stored record.\<close>

theorem pipelinerun_log_fallback_matches_nothing:
  "seg_ok n \<Longrightarrow> \<not> HasSuffix n (''records/'' @ uid)"
  by (auto simp: HasSuffix_def suffix_def seg_ok_def)

subsection \<open>Pages\<close>

text \<open>One page: what it prints and the token of the next one.\<close>

definition show_page :: "'r cli_env \<Rightarrow> list_options \<Rightarrow> records_req \<Rightarrow> (string \<times> string) option" where
  "show_page c o' req =
     (case client_ListRecords c req ListFields of
        Inl _ \<Rightarrow> None
      | Inr (recs, token) \<Rightarrow>
          (case parse_runs c recs of
             Inl _ \<Rightarrow> None
           | Inr runs \<Rightarrow> (case cl_print_list c runs (lo_all_namespaces o') of Inl _ \<Rightarrow> None | Inr out \<Rightarrow> Some (out, token))))"

text \<open>The pages from a token on, to the page without a next token.\<close>

fun pages_from :: "'r cli_env \<Rightarrow> list_options \<Rightarrow> records_req \<Rightarrow> string list \<Rightarrow> bool" where
  "pages_from c o' req [] = False"
| "pages_from c o' req (out # outs) =
     (case show_page c o' req of
        None \<Rightarrow> False
      | Some (out', token) \<Rightarrow>
          out' = out \<and> (if token = [] then outs = [] else pages_from c o' (req\<lparr>rq_page_token := token\<rparr>) outs))"

definition says_next :: "string \<Rightarrow> bool" where
  "says_next i = (TrimSpace (ToLower i) = ''n'')"

lemma show_page_Some:
  assumes "show_page c o' req = Some (out, token)"
  shows "list_pages c o' req inputs =
     (if lo_single_page o' \<or> token = [] then (None, out)
      else (case inputs of
              [] \<Rightarrow> (Some EOF, out @ page_prompt)
            | i # is' \<Rightarrow>
                (let input = TrimSpace (ToLower i) in
                 if input = ''n''
                 then (case list_pages c o' (req\<lparr>rq_page_token := token\<rparr>) is' of (e, more') \<Rightarrow> (e, out @ page_prompt @ more'))
                 else if input = ''q'' then (None, out @ page_prompt)
                 else (None, out @ page_prompt @ ''Invalid input. Exiting pagination.'' @ [CHR 0x0A]))))"
proof -
  obtain recs runs where "client_ListRecords c req ListFields = Inr (recs, token)" "parse_runs c recs = Inr runs"
      "cl_print_list c runs (lo_all_namespaces o') = Inr out"
    using assms by (auto simp: show_page_def split: sum.splits)
  then show ?thesis by (subst list_pages.simps) simp
qed

lemma list_pages_all:
  "pages_from c o' req outs \<Longrightarrow> \<not> lo_single_page o' \<Longrightarrow> length outs \<le> Suc (length inputs) \<Longrightarrow>
    list_all says_next (take (length outs - 1) inputs) \<Longrightarrow> list_pages c o' req inputs = (None, join page_prompt outs)"
proof (induction outs arbitrary: req inputs)
  case (Cons out outs)
  obtain token where p: "show_page c o' req = Some (out, token)"
      "if token = [] then outs = [] else pages_from c o' (req\<lparr>rq_page_token := token\<rparr>) outs"
    using Cons.prems(1) by (auto split: option.splits)
  show ?case
  proof (cases "token = []")
    case True
    then show ?thesis using show_page_Some [OF p(1)] p(2) by simp
  next
    case False
    then obtain out' outs' where o: "outs = out' # outs'" using p(2) by (cases outs) auto
    then obtain i is' where i: "inputs = i # is'" using Cons.prems(3) by (cases inputs) auto
    have "list_pages c o' (req\<lparr>rq_page_token := token\<rparr>) is' = (None, join page_prompt outs)"
      using Cons.IH [of "req\<lparr>rq_page_token := token\<rparr>" is'] Cons.prems(2-4) p(2) False o i by simp
    then show ?thesis using show_page_Some [OF p(1), of inputs] Cons.prems(2,4) False o i by (simp add: says_next_def)
  qed
qed simp

text \<open>The list command prints the pages of the listing in their order: all of them, with the prompt
  between two, when the user asks for the next page as long as there is one, and only the first one in
  single-page mode. It ends without an error.\<close>

theorem cli_list_prints_every_page:
  assumes "pages_from c o' req outs" and "length outs \<le> Suc (length inputs)"
    and "list_all says_next (take (length outs - 1) inputs)"
  shows "list_pages c o' req inputs = (None, if lo_single_page o' then hd outs else join page_prompt outs)"
proof (cases "lo_single_page o'")
  case True
  obtain token where "show_page c o' req = Some (hd outs, token)"
    using assms(1) by (cases outs) (auto split: option.splits)
  then show ?thesis using show_page_Some [of c o' req] True by simp
qed (use list_pages_all [OF assms(1) _ assms(2,3)] in simp)

definition sample_cli :: "string cli_env" where
  "sample_cli = \<lparr>cl_base_path = ''/apis'',
     cl_http = (\<lambda>m u ps. HttpAnswer 200 (Inr (case map_of ps ''page_token'' of None \<Rightarrow> ''1'' | Some t \<Rightarrow> t))),
     cl_list_json = (\<lambda>b. Inr ([], if b = ''1'' then ''2'' else [])), cl_record_json = Inl, cl_run_json = Inr,
     cl_completed = (\<lambda>r. True), cl_print_list = (\<lambda>rs a. Inr ''page''), cl_print_run = (\<lambda>f r. Inr r), cl_namespace = ''ns''\<rparr>"

definition sample_list :: list_options where
  "sample_list = \<lparr>lo_limit = 50, lo_all_namespaces = False, lo_label = [], lo_pipelinerun = [], lo_single_page = False,
     lo_name = [], lo_kind = CliTaskRun\<rparr>"

definition sample_req :: records_req where
  "sample_req = \<lparr>rq_parent = ''ns/results/-'', rq_filter = [], rq_order_by = [], rq_page_size = 50, rq_page_token = []\<rparr>"

theorem cli_list_prints_every_page_witness:
  "list_pages sample_cli sample_list sample_req [''N ''] = (None, ''page'' @ page_prompt @ ''page'')"
proof -
  have "pages_from sample_cli sample_list sample_req [''page'', ''page'']"
    by (simp add: show_page_def client_ListRecords_def DoRequest_def sample_cli_def sample_req_def list_params_def ListFields_def)
  moreover have "list_all says_next [''N '']" by code_simp
  ultimately show ?thesis
    using cli_list_prints_every_page [of sample_cli sample_list sample_req "[''page'', ''page'']" "[''N '']"]
    by (simp add: sample_list_def)
qed

subsection \<open>Labels\<close>

lemma validate_pairs_None: "validate_pairs ps = None \<longleftrightarrow> list_all (\<lambda>p. validate_pair p = None) ps"
  by (induction ps) (auto split: option.splits)

lemma label_filter_valid:
  assumes "validate_pair p = None"
  shows "\<exists>k v. k \<noteq> [] \<and> v \<noteq> [] \<and> label_filter p = [label_condition k v]"
proof -
  obtain k v where "split_on (CHR ''='') (TrimSpace p) = [k, v]" "TrimSpace k \<noteq> []" "TrimSpace v \<noteq> []"
    using assms by (auto simp: validate_pair_def split: list.splits if_splits)
  then show ?thesis by (auto simp: label_filter_def)
qed

lemma label_filters_valid:
  "list_all (\<lambda>p. validate_pair p = None) ps \<Longrightarrow> \<exists>kvs. length kvs = length ps \<and> list_all (\<lambda>(k, v). k \<noteq> [] \<and> v \<noteq> []) kvs
    \<and> concat (map label_filter ps) = map (\<lambda>(k, v). label_condition k v) kvs"
proof (induction ps)
  case (Cons p ps)
  then obtain kvs where kvs: "length kvs = length ps" "list_all (\<lambda>(k, v). k \<noteq> [] \<and> v \<noteq> []) kvs"
      "concat (map label_filter ps) = map (\<lambda>(k, v). label_condition k v) kvs" by auto
  obtain k v where "k \<noteq> []" "v \<noteq> []" "label_filter p = [label_condition k v]"
    using label_filter_valid [of p] Cons.prems by auto
  then show ?case using kvs by (intro exI [of _ "(k, v) # kvs"]) simp
qed simp

text \<open>Labels that pass the validation are all in the filter of the listing: one condition per pair, in
  order, with a key and a value that are not empty.\<close>

theorem cli_labels_in_filter:
  assumes "ValidateLabels labels = None" and "labels \<noteq> []" and "fo_label o' = labels"
  shows "\<exists>kvs tl'. length kvs = length (split_on (CHR '','') labels) \<and> list_all (\<lambda>(k, v). k \<noteq> [] \<and> v \<noteq> []) kvs
    \<and> cli_filters o' = kind_filter (fo_kind o') # map (\<lambda>(k, v). label_condition k v) kvs @ tl'"
proof -
  have "list_all (\<lambda>p. validate_pair p = None) (split_on (CHR '','') labels)"
    using assms(1) by (simp add: ValidateLabels_def validate_pairs_None)
  from label_filters_valid [OF this] show ?thesis using assms(2,3) unfolding cli_filters_def by auto
qed

theorem cli_labels_in_filter_witness:
  "\<exists>kvs tl'. length kvs = 2 \<and> list_all (\<lambda>(k, v). k \<noteq> [] \<and> v \<noteq> []) kvs
    \<and> cli_filters (list_filter_options (sample_list\<lparr>lo_label := ''app=a, env=b''\<rparr>))
      = kind_filter CliTaskRun # map (\<lambda>(k, v). label_condition k v) kvs @ tl'"
proof -
  let ?o = "list_filter_options (sample_list\<lparr>lo_label := ''app=a, env=b''\<rparr>)"
  have "ValidateLabels ''app=a, env=b'' = None" by code_simp
  moreover have "fo_label ?o = ''app=a, env=b''" "fo_kind ?o = CliTaskRun"
    by (simp_all add: list_filter_options_def sample_list_def)
  moreover have len: "length (split_on (CHR '','') ''app=a, env=b'') = 2" by simp
  ultimately show ?thesis using cli_labels_in_filter [of "''app=a, env=b''" ?o] unfolding len by fastforce
qed

text \<open>With a label the name argument of the list command is dropped without a message: the validation
  returns before the argument is read.\<close>

theorem label_drops_the_name_argument:
  "list_PreRunE (sample_list\<lparr>lo_label := ''app=a''\<rparr>) False [''build''] = Inr (sample_list\<lparr>lo_label := ''app=a''\<rparr>)
   \<and> list_PreRunE sample_list False [''build''] = Inr (sample_list\<lparr>lo_name := ''build''\<rparr>)"
  by code_simp

end
