(* ===== verification/Migrate.thy ===== *)
theory Migrate
  imports Database
begin

text \<open>
  The migration tool (\<^verbatim>\<open>tools/postgres-migrate/main.go\<close>), which copies the results and records of
  a legacy MySQL database into the Postgres database of the API server, converting the protobuf data
  of each record to JSON. The MySQL side is the outcome of its two reads; the Postgres side is the
  database of \<open>Database\<close> whose statements may fail (\<open>mg_fault\<close>, per statement and row). The protobuf
  and JSON libraries are the record \<open>mig_codec\<close>. Whether the error of the Postgres driver is of the
  type the tool asks for with \<^verbatim>\<open>errors.As\<close> is the function \<open>mg_as\<close>: it answers the SQL state when it is.
\<close>

subsection \<open>Conversion of a record\<close>

text \<open>A run message: its metadata and its status are pointers, of which only the generation matters.\<close>

record 'p run_msg =
  pb_metadata :: "int option"
  pb_status :: "int option"
  pb_body :: 'p

datatype 'p proto_msg = PbTaskRun "'p run_msg" | PbPipelineRun "'p run_msg" | PbOther 'p

record 'v v1_run =
  v1_generation :: int
  v1_observed :: int
  v1_body :: 'v

datatype want_type = WantTaskRun | WantPipelineRun

record ('p, 'v) mig_codec =
  mc_any :: "string \<Rightarrow> string + string \<times> string"
  mc_new :: "string \<times> string \<Rightarrow> string + 'p proto_msg"
  mc_protojson :: "'p proto_msg \<Rightarrow> string + string"
  mc_decode :: "want_type \<Rightarrow> string \<Rightarrow> string + 'v v1_run"
  mc_marshal :: "want_type \<Rightarrow> 'v v1_run \<Rightarrow> string + string"

datatype 'a conv = ConvErr string | ConvPanic | ConvOk 'a

text \<open>The generations are read and cleared; clearing one behind a nil pointer panics.\<close>

definition strip_generations :: "'p run_msg \<Rightarrow> (int \<times> int \<times> 'p run_msg) option" where
  "strip_generations m =
     (case (pb_metadata m, pb_status m) of
        (Some gen, Some observedGen) \<Rightarrow> Some (gen, observedGen, m\<lparr>pb_metadata := Some 0, pb_status := Some 0\<rparr>)
      | _ \<Rightarrow> None)"

definition convert_message ::
  "('p, 'v) mig_codec \<Rightarrow> want_type \<Rightarrow> string \<Rightarrow> ('p run_msg \<Rightarrow> 'p proto_msg) \<Rightarrow> 'p run_msg \<Rightarrow> db_record \<Rightarrow> db_record conv" where
  "convert_message c wantType typ mk m r =
     (case strip_generations m of
        None \<Rightarrow> ConvPanic
      | Some (gen, observedGen, m') \<Rightarrow>
          (case mc_protojson c (mk m') of
             Inl e \<Rightarrow> ConvErr (''error converting proto to json: '' @ e)
           | Inr protob \<Rightarrow>
               (case mc_decode c wantType protob of
                  Inl e \<Rightarrow> ConvErr (''proto data does not match desired type: '' @ e)
                | Inr t \<Rightarrow>
                    (case mc_marshal c wantType (t\<lparr>v1_generation := gen, v1_observed := observedGen\<rparr>) of
                       Inl e \<Rightarrow> ConvErr (''error marshalling output type: '' @ e)
                     | Inr b \<Rightarrow> ConvOk (r\<lparr>d_type := typ, d_data := b\<rparr>)))))"

text \<open>
  Any other message is decoded into a map that is passed by value: \<^verbatim>\<open>json.Unmarshal\<close> refuses a
  target that is not a pointer, whatever the text.
\<close>

definition convertRecord :: "('p, 'v) mig_codec \<Rightarrow> db_record \<Rightarrow> db_record conv" where
  "convertRecord c r =
     (case mc_any c (d_data r) of
        Inl e \<Rightarrow> ConvErr (''error reading record data: '' @ e)
      | Inr any \<Rightarrow>
          (case mc_new c any of
             Inl e \<Rightarrow> ConvErr (''error unmarshalling mysql record data: '' @ e)
           | Inr (PbTaskRun m) \<Rightarrow> convert_message c WantTaskRun ''tekton.dev/v1.TaskRun'' PbTaskRun m r
           | Inr (PbPipelineRun m) \<Rightarrow> convert_message c WantPipelineRun ''tekton.dev/v1.PipelineRun'' PbPipelineRun m r
           | Inr (PbOther p) \<Rightarrow>
               (case mc_protojson c (PbOther p) of
                  Inl e \<Rightarrow> ConvErr (''error converting proto to json: '' @ e)
                | Inr protob \<Rightarrow> ConvErr (''proto data does not match desired type: json: Unmarshal(non-pointer map[string]interface {})''))))"

subsection \<open>The migration\<close>

datatype outcome = OutcomeSuccess | OutcomeDryRun | OutcomeAlreadyExists

type_synonym outcomeLog = "(string, outcome) fmap"

definition UniqueViolationErrCode :: string where
  "UniqueViolationErrCode = ''23505''"

datatype pg_op = PgCreateResult | PgFindResult | PgCreateRecord | PgFindRecord

record ('p, 'v) mig_env =
  mg_codec :: "('p, 'v) mig_codec"
  mg_fault :: "pg_op \<Rightarrow> string \<Rightarrow> gorm_error option"
  mg_as :: "gorm_error \<Rightarrow> string option"

definition pg_exec :: "('p, 'v) mig_env \<Rightarrow> pg_op \<Rightarrow> string \<Rightarrow> gorm_error + 'a \<Rightarrow> gorm_error + 'a" where
  "pg_exec g op key x = (case mg_fault g op key of Some e \<Rightarrow> Inl e | None \<Rightarrow> x)"

record mysql_db =
  my_results :: "gorm_error + db_result list"
  my_records :: "gorm_error + db_record list"

datatype mig_end = MigOk | MigErr string | MigPanic

type_synonym mig_state = "outcomeLog \<times> db"

text \<open>A \<^verbatim>\<open>for\<close> loop whose body may return from the function.\<close>

fun for_rows :: "('r \<Rightarrow> 'st \<Rightarrow> mig_end \<times> 'st) \<Rightarrow> 'r list \<Rightarrow> 'st \<Rightarrow> mig_end \<times> 'st" where
  "for_rows body [] st = (MigOk, st)"
| "for_rows body (x # xs) st =
     (case body x st of (MigOk, st') \<Rightarrow> for_rows body xs st' | r \<Rightarrow> r)"

definition result_key :: "db_result \<Rightarrow> string" where
  "result_key r = r_parent r @ ''/results/'' @ r_name r"

definition record_key :: "db_record \<Rightarrow> string" where
  "record_key r = d_parent r @ ''/results/'' @ d_result_name r @ ''/records/'' @ d_name r"

definition result_probe :: "db_result \<Rightarrow> db_result" where
  "result_probe r = \<lparr>r_parent = r_parent r, r_id = r_id r, r_name = r_name r, r_annotations = fmempty,
     r_created = zero_time, r_updated = zero_time, r_summary = empty_summary, r_etag = []\<rparr>"

definition record_probe :: "db_record \<Rightarrow> db_record" where
  "record_probe r = \<lparr>d_parent = d_parent r, d_result_id = [], d_result_name = [], d_id = d_id r, d_name = d_name r,
     d_type = [], d_data = [], d_created = zero_time, d_updated = zero_time, d_etag = []\<rparr>"

definition written :: "('p, 'v) mig_env \<Rightarrow> string \<Rightarrow> string \<Rightarrow> gorm_error + db \<Rightarrow> mig_state \<Rightarrow> mig_end \<times> mig_state" where
  "written g what key out st =
     (case out of
        Inl err \<Rightarrow>
          if mg_as g err = Some UniqueViolationErrCode then (MigOk, (fmupd key OutcomeAlreadyExists (fst st), snd st))
          else (MigErr (''error creating postgres '' @ what @ '': '' @ gorm_error_msg err), st)
      | Inr s \<Rightarrow> (MigOk, (fmupd key OutcomeSuccess (fst st), s)))"

definition probed :: "string \<Rightarrow> string \<Rightarrow> gorm_error + 'r \<Rightarrow> mig_state \<Rightarrow> mig_end \<times> mig_state" where
  "probed what key out st =
     (case out of
        Inl err \<Rightarrow>
          if err = ErrRecordNotFound then (MigOk, (fmupd key OutcomeDryRun (fst st), snd st))
          else (MigErr (''error querying '' @ what @ '': '' @ gorm_error_msg err), st)
      | Inr _ \<Rightarrow> (MigOk, (fmupd key OutcomeAlreadyExists (fst st), snd st)))"

definition migrate_result :: "('p, 'v) mig_env \<Rightarrow> bool \<Rightarrow> db_result \<Rightarrow> mig_state \<Rightarrow> mig_end \<times> mig_state" where
  "migrate_result g write r st =
     (let key = result_key r in
      if write then written g ''result'' key (pg_exec g PgCreateResult key (create_result r (snd st))) st
      else probed ''result'' key (pg_exec g PgFindResult key (first_result (matches_result (result_probe r)) (snd st))) st)"

definition migrate_record :: "('p, 'v) mig_env \<Rightarrow> bool \<Rightarrow> db_record \<Rightarrow> mig_state \<Rightarrow> mig_end \<times> mig_state" where
  "migrate_record g write r st =
     (let key = record_key r in
      if write then
        (case convertRecord (mg_codec g) r of
           ConvErr e \<Rightarrow> (MigErr (''error upgrading Record: '' @ e), st)
         | ConvPanic \<Rightarrow> (MigPanic, st)
         | ConvOk r' \<Rightarrow> written g ''record'' key (pg_exec g PgCreateRecord key (create_record r' (snd st))) st)
      else probed ''record'' key (pg_exec g PgFindRecord key (first_record (matches_record (record_probe r)) (snd st))) st)"

definition migrate :: "('p, 'v) mig_env \<Rightarrow> mysql_db \<Rightarrow> bool \<Rightarrow> db \<Rightarrow> mig_end \<times> mig_state" where
  "migrate g my write s =
     (case my_results my of
        Inl e \<Rightarrow> (MigErr (''error reading MySQL results: '' @ gorm_error_msg e), (fmempty, s))
      | Inr results \<Rightarrow>
          (case for_rows (migrate_result g write) results (fmempty, s) of
             (MigOk, st) \<Rightarrow>
               (case my_records my of
                  Inl e \<Rightarrow> (MigErr (''error reading MySQL records: '' @ gorm_error_msg e), st)
                | Inr records \<Rightarrow> for_rows (migrate_record g write) records st)
           | r \<Rightarrow> r))"

end
