(* ===== verification/MigrateProps.thy ===== *)
theory MigrateProps
  imports Migrate
begin

text \<open>
  The migration tool: a dry run writes nothing and foretells what a run with \<^verbatim>\<open>--write\<close> does when
  rows agree on identifier and name; a run that returned can be repeated and changes nothing, provided
  the driver's errors have the type the tool asks for. With the driver the repository builds against
  they do not, and a second run stops at the first row.
\<close>

subsection \<open>Loops\<close>

lemma for_rows_inv:
  assumes "\<And>x st. x \<in> set xs \<Longrightarrow> P st \<Longrightarrow> P (snd (body x st))" and "P st"
  shows "P (snd (for_rows body xs st))"
  using assms
proof (induction xs arbitrary: st)
  case (Cons x xs)
  have p: "P (snd (body x st))" using Cons.prems by simp
  show ?case
  proof (cases "body x st")
    case (Pair e st')
    then show ?thesis using p Cons.IH [of st'] Cons.prems(1) by (cases e) auto
  qed
qed simp

text \<open>Two loops over the same rows that both go on at every step, related by \<open>R\<close> on the rows left.\<close>

lemma for_rows_sim:
  assumes "\<And>x xs a b. R (x # xs) a b \<Longrightarrow> \<exists>a' b'. f x a = (MigOk, a') \<and> g x b = (MigOk, b') \<and> R xs a' b'"
    and "R xs a b"
  shows "\<exists>a' b'. for_rows f xs a = (MigOk, a') \<and> for_rows g xs b = (MigOk, b') \<and> R [] a' b'"
  using assms(2)
proof (induction xs arbitrary: a b)
  case (Cons x xs)
  obtain a1 b1 where "f x a = (MigOk, a1)" "g x b = (MigOk, b1)" "R xs a1 b1"
    using assms(1) [OF Cons.prems] by blast
  then show ?case using Cons.IH [of a1 b1] by simp
qed simp

lemma for_rows_step:
  assumes "for_rows body (x # xs) st = (MigOk, st')"
  obtains st1 where "body x st = (MigOk, st1)" and "for_rows body xs st1 = (MigOk, st')"
  using assms by (auto split: prod.splits mig_end.splits)

text \<open>What the body achieves for its row and never undoes holds for every row at the end.\<close>

lemma for_rows_all:
  assumes "\<And>x st st'. body x st = (MigOk, st') \<Longrightarrow> Q x st'"
    and "\<And>x y st st'. body x st = (MigOk, st') \<Longrightarrow> Q y st \<Longrightarrow> Q y st'"
    and "for_rows body xs st = (MigOk, st')"
  shows "\<forall>x\<in>set xs. Q x st'"
proof -
  have keep: "Q y st' " if "for_rows body ys st = (MigOk, st')" "Q y st" for ys y st st'
    using that by (induction ys arbitrary: st) (simp, metis assms(2) for_rows_step)
  show ?thesis using assms(3)
  proof (induction xs arbitrary: st)
    case (Cons x xs)
    obtain st1 where 1: "body x st = (MigOk, st1)" "for_rows body xs st1 = (MigOk, st')"
      by (rule for_rows_step [OF Cons.prems])
    show ?case using Cons.IH [OF 1(2)] keep [OF 1(2) assms(1) [OF 1(1)]] by simp
  qed simp
qed

subsection \<open>One row\<close>

definition result_conflict :: "db_result \<Rightarrow> db \<Rightarrow> bool" where
  "result_conflict r s = (\<exists>x\<in>set (results_tbl s). r_pk x = r_pk r \<or> r_uk x = r_uk r)"

definition record_conflict :: "db_record \<Rightarrow> db \<Rightarrow> bool" where
  "record_conflict d s = (\<exists>x\<in>set (records_tbl s). d_pk x = d_pk d \<or> d_uk x = d_uk d)"

text \<open>The driver's errors are of the type the tool asks for, and no statement fails by itself.\<close>

definition driver_matches :: "('p, 'v) mig_env \<Rightarrow> bool" where
  "driver_matches g = (\<forall>st m. mg_as g (SqlStateErr st m) = Some st)"

definition no_faults :: "('p, 'v) mig_env \<Rightarrow> bool" where
  "no_faults g = (\<forall>op key. mg_fault g op key = None)"

lemma create_result_cases:
  "create_result r s = (if result_conflict r s then Inl unique_violation else Inr (s\<lparr>results_tbl := results_tbl s @ [r]\<rparr>))"
  by (simp add: create_result_def tbl_create_def result_conflict_def)

lemma create_record_cases:
  "create_record d s = (if record_conflict d s then Inl unique_violation
     else if fk_ok d s then Inr (s\<lparr>records_tbl := records_tbl s @ [d]\<rparr>) else Inl foreign_key_violation)"
  by (simp add: create_record_def tbl_create_def record_conflict_def)

lemma pg_exec_quiet [simp]: "no_faults g \<Longrightarrow> pg_exec g op key x = x"
  by (simp add: pg_exec_def no_faults_def)

lemma unique_state: "UniqueViolationErrCode = sqlStateUniqueViolation"
  by (simp add: UniqueViolationErrCode_def sqlStateUniqueViolation_def)

lemma mg_as_violation:
  assumes "driver_matches g"
  shows "mg_as g unique_violation = Some UniqueViolationErrCode"
    and "mg_as g foreign_key_violation \<noteq> Some UniqueViolationErrCode"
  using assms by (simp_all add: driver_matches_def unique_violation_def foreign_key_violation_def unique_state
      sqlStateUniqueViolation_def sqlStateForeignKey_def)

lemma convert_run_ConvOk:
  assumes "convert_message c w t mk m r = ConvOk r'"
  shows "\<exists>b. r' = r\<lparr>d_type := t, d_data := b\<rparr>"
  using assms by (auto simp: convert_message_def split: option.splits sum.splits prod.splits)

lemma convertRecord_ConvOk:
  assumes "convertRecord c r = ConvOk r'"
  shows "\<exists>t b. r' = r\<lparr>d_type := t, d_data := b\<rparr>"
  using assms by (auto simp: convertRecord_def split: sum.splits proto_msg.splits dest!: convert_run_ConvOk)

text \<open>The conversion keeps the identity of the record.\<close>

lemma converted_keys:
  assumes "convertRecord c r = ConvOk r'"
  shows "d_pk r' = d_pk r" "d_uk r' = d_uk r" "fk_ok r' s = fk_ok r s" "record_conflict r' s = record_conflict r s"
  using convertRecord_ConvOk [OF assms] by (auto simp: d_pk_def d_uk_def fk_ok_def record_conflict_def)

lemma migrate_result_conflict:
  "driver_matches g \<Longrightarrow> no_faults g \<Longrightarrow> result_conflict r (snd st) \<Longrightarrow>
    migrate_result g True r st = (MigOk, (fmupd (result_key r) OutcomeAlreadyExists (fst st), snd st))"
  by (simp add: migrate_result_def Let_def create_result_cases written_def mg_as_violation)

lemma migrate_result_new:
  "no_faults g \<Longrightarrow> \<not> result_conflict r (snd st) \<Longrightarrow>
    migrate_result g True r st = (MigOk, (fmupd (result_key r) OutcomeSuccess (fst st),
      (snd st)\<lparr>results_tbl := results_tbl (snd st) @ [r]\<rparr>))"
  by (simp add: migrate_result_def Let_def create_result_cases written_def)

lemma migrate_record_conflict:
  "driver_matches g \<Longrightarrow> no_faults g \<Longrightarrow> convertRecord (mg_codec g) d = ConvOk d' \<Longrightarrow> record_conflict d (snd st) \<Longrightarrow>
    migrate_record g True d st = (MigOk, (fmupd (record_key d) OutcomeAlreadyExists (fst st), snd st))"
  by (simp add: migrate_record_def Let_def create_record_cases written_def mg_as_violation converted_keys)

lemma migrate_record_new:
  "no_faults g \<Longrightarrow> convertRecord (mg_codec g) d = ConvOk d' \<Longrightarrow> \<not> record_conflict d (snd st) \<Longrightarrow> fk_ok d (snd st) \<Longrightarrow>
    migrate_record g True d st = (MigOk, (fmupd (record_key d) OutcomeSuccess (fst st),
      (snd st)\<lparr>records_tbl := records_tbl (snd st) @ [d']\<rparr>))"
  by (simp add: migrate_record_def Let_def create_record_cases written_def converted_keys)

lemma migrate_result_MigOk:
  assumes "migrate_result g True r st = (MigOk, st')" and "no_faults g"
  shows "result_conflict r (snd st') \<and> records_tbl (snd st') = records_tbl (snd st)
    \<and> set (results_tbl (snd st)) \<subseteq> set (results_tbl (snd st'))"
  using assms by (auto simp: migrate_result_def Let_def create_result_cases written_def result_conflict_def split: if_splits)

lemma migrate_record_MigOk:
  assumes "migrate_record g True d st = (MigOk, st')" and "no_faults g" and "driver_matches g"
  shows "record_conflict d (snd st') \<and> results_tbl (snd st') = results_tbl (snd st)
    \<and> set (records_tbl (snd st)) \<subseteq> set (records_tbl (snd st')) \<and> (\<exists>d'. convertRecord (mg_codec g) d = ConvOk d')"
proof -
  obtain d' where c: "convertRecord (mg_codec g) d = ConvOk d'"
    using assms(1) by (auto simp: migrate_record_def Let_def split: conv.splits)
  note keys = converted_keys [OF c]
  show ?thesis
  proof (cases "record_conflict d (snd st)")
    case True
    then show ?thesis using assms migrate_record_conflict [OF assms(3,2) c] c by auto
  next
    case False
    then have "fk_ok d (snd st)" using assms c keys mg_as_violation(2) [OF assms(3)]
      by (auto simp: migrate_record_def Let_def create_record_cases written_def split: if_splits)
    then show ?thesis using assms(1) migrate_record_new [OF assms(2) c False] c keys
      by (auto simp: record_conflict_def)
  qed
qed

subsection \<open>A run that returned\<close>

text \<open>After a run that returned, every row of the source is in the target or held off by a row of the
  target with its identifier or its name, and nothing that was there is lost.\<close>

lemma migrate_MigOk_iff:
  "migrate g my write s = (MigOk, st) \<longleftrightarrow> (\<exists>rs ds st1. my_results my = Inr rs \<and> my_records my = Inr ds
     \<and> for_rows (migrate_result g write) rs (fmempty, s) = (MigOk, st1)
     \<and> for_rows (migrate_record g write) ds st1 = (MigOk, st))"
  by (auto simp: migrate_def split: sum.splits prod.splits mig_end.splits)

lemma results_phase:
  assumes "for_rows (migrate_result g True) rs st = (MigOk, st')" and "no_faults g"
  shows "\<forall>r\<in>set rs. result_conflict r (snd st')" and "records_tbl (snd st') = records_tbl (snd st)"
    and "set (results_tbl (snd st)) \<subseteq> set (results_tbl (snd st'))"
proof -
  show "\<forall>r\<in>set rs. result_conflict r (snd st')"
  proof (rule for_rows_all [OF _ _ assms(1)])
    fix x y st st' assume "migrate_result g True x st = (MigOk, st')" and "result_conflict y (snd st)"
    then show "result_conflict y (snd st')"
      using migrate_result_MigOk [OF _ assms(2)] by (fastforce simp: result_conflict_def)
  qed (simp add: migrate_result_MigOk assms(2))
  have "records_tbl (snd st') = records_tbl (snd st) \<and> set (results_tbl (snd st)) \<subseteq> set (results_tbl (snd st'))"
    using assms(1)
  proof (induction rs arbitrary: st)
    case (Cons r rs)
    obtain st1 where "migrate_result g True r st = (MigOk, st1)" "for_rows (migrate_result g True) rs st1 = (MigOk, st')"
      by (rule for_rows_step [OF Cons.prems])
    then show ?case using Cons.IH [of st1] migrate_result_MigOk [OF _ assms(2)] by (metis subset_trans)
  qed simp
  then show "records_tbl (snd st') = records_tbl (snd st)" "set (results_tbl (snd st)) \<subseteq> set (results_tbl (snd st'))" by auto
qed

lemma records_phase_results: "results_tbl (snd (snd (for_rows (migrate_record g True) ds st))) = results_tbl (snd st)"
proof (rule for_rows_inv [where P = "\<lambda>a :: mig_state. results_tbl (snd a) = results_tbl (snd st)"])
  fix d :: db_record and a :: mig_state assume "results_tbl (snd a) = results_tbl (snd st)"
  then show "results_tbl (snd (snd (migrate_record g True d a))) = results_tbl (snd st)"
    by (auto simp: migrate_record_def Let_def written_def pg_exec_def create_record_cases split: conv.splits option.splits)
qed simp

lemma records_phase:
  assumes "for_rows (migrate_record g True) ds st = (MigOk, st')" and "no_faults g" and "driver_matches g"
  shows "\<forall>d\<in>set ds. record_conflict d (snd st') \<and> (\<exists>d'. convertRecord (mg_codec g) d = ConvOk d')"
proof (rule for_rows_all [OF _ _ assms(1)])
  fix x y st st' assume b: "migrate_record g True x st = (MigOk, st')"
    and q: "record_conflict y (snd st) \<and> (\<exists>d'. convertRecord (mg_codec g) y = ConvOk d')"
  show "record_conflict y (snd st') \<and> (\<exists>d'. convertRecord (mg_codec g) y = ConvOk d')"
    using migrate_record_MigOk [OF b assms(2,3)] q by (fastforce simp: record_conflict_def)
qed (blast dest: migrate_record_MigOk [OF _ assms(2,3)])

text \<open>A loop whose every row is already there.\<close>

lemma for_rows_already:
  assumes "\<And>x out. x \<in> set xs \<Longrightarrow> body x (out, s) = (MigOk, (fmupd (key x) OutcomeAlreadyExists out, s))"
    and "fmpred (\<lambda>k v. v = OutcomeAlreadyExists) out"
  shows "\<exists>out'. for_rows body xs (out, s) = (MigOk, (out', s)) \<and> fmpred (\<lambda>k v. v = OutcomeAlreadyExists) out'"
  using assms
proof (induction xs arbitrary: out)
  case (Cons x xs)
  have "fmpred (\<lambda>k v. v = OutcomeAlreadyExists) (fmupd (key x) OutcomeAlreadyExists out)"
    using Cons.prems(2) by auto
  then show ?case using Cons by simp
qed auto


text \<open>With the driver of the module file, whose error type is not the one the tool asks for, the second
  run stops with an error at the first row.\<close>

theorem second_migration_aborts:
  assumes "no_faults g" and "mg_as g = (\<lambda>e. None)" and "migrate g my True s = (MigOk, (out, s'))"
    and "my_results my = Inr (r # rs)"
  shows "\<exists>m. migrate g my True s' = (MigErr m, (fmempty, s'))"
proof -
  obtain ds st1 where p: "for_rows (migrate_result g True) (r # rs) (fmempty, s) = (MigOk, st1)"
      "for_rows (migrate_record g True) ds st1 = (MigOk, (out, s'))"
    using assms(3,4) unfolding migrate_MigOk_iff by auto
  have "results_tbl s' = results_tbl (snd st1)"
    using records_phase_results [of g ds st1] p(2) by simp
  then have "result_conflict r s'" using results_phase(1) [OF p(1) assms(1)] by (simp add: result_conflict_def)
  then show ?thesis using assms(1,2,4)
    by (simp add: migrate_def migrate_result_def Let_def create_result_cases written_def)
qed

text \<open>A record whose message is neither a TaskRun nor a PipelineRun stops the migration.\<close>

theorem other_records_stop_the_migration:
  assumes "mc_any (mg_codec g) (d_data d) = Inr a" and "mc_new (mg_codec g) a = Inr (PbOther p)"
    and "my_records my = Inr ds" and "d \<in> set ds"
  shows "fst (migrate g my True s) \<noteq> MigOk"
proof
  assume "fst (migrate g my True s) = MigOk"
  then obtain st st1 where l: "for_rows (migrate_record g True) ds st1 = (MigOk, st)"
    using assms(3) by (metis migrate_MigOk_iff prod.collapse sum.inject(2))
  have "\<forall>x\<in>set ds. (\<exists>d'. convertRecord (mg_codec g) x = ConvOk d')"
    by (rule for_rows_all [OF _ _ l]) (auto simp: migrate_record_def Let_def split: conv.splits)
  then show False using assms(1,2,4) by (fastforce simp: convertRecord_def split: sum.splits)
qed

subsection \<open>The dry run\<close>

theorem dry_run_writes_nothing: "snd (snd (migrate g my False s)) = s"
proof -
  have r: "snd (snd (for_rows (migrate_result g False) rs (out, s))) = s" for rs out
    by (rule for_rows_inv [where P = "\<lambda>a. snd a = s"]) (auto simp: migrate_result_def Let_def probed_def split: sum.splits)
  have d: "snd (snd (for_rows (migrate_record g False) ds st)) = s" if "snd st = s" for ds and st :: mig_state
    by (rule for_rows_inv [where P = "\<lambda>a. snd a = s"]) (auto simp: that migrate_record_def Let_def probed_def split: sum.splits)
  show ?thesis using r d by (auto simp: migrate_def split: sum.splits prod.splits mig_end.splits) (metis snd_conv)+
qed

text \<open>Rows of the two databases that share an identifier or a name are the same row.\<close>

definition results_agree :: "db_result list \<Rightarrow> db \<Rightarrow> bool" where
  "results_agree rs s = (\<forall>r\<in>set rs. r_parent r \<noteq> [] \<and> r_id r \<noteq> [] \<and> r_name r \<noteq> []
     \<and> (\<forall>x\<in>set (results_tbl s). (r_pk x = r_pk r) = (r_uk x = r_uk r)))"

definition records_agree :: "db_record list \<Rightarrow> db \<Rightarrow> bool" where
  "records_agree ds s = (\<forall>d\<in>set ds. d_parent d \<noteq> [] \<and> d_id d \<noteq> [] \<and> d_name d \<noteq> []
     \<and> (\<forall>x\<in>set (records_tbl s). (d_parent x = d_parent d \<and> d_id x = d_id d \<and> d_name x = d_name d)
          = (d_pk x = d_pk d \<or> d_uk x = d_uk d)))"

fun performed :: "outcome \<Rightarrow> outcome" where
  "performed OutcomeDryRun = OutcomeSuccess"
| "performed x = x"

lemma matches_result_probe:
  "r_parent r \<noteq> [] \<Longrightarrow> r_id r \<noteq> [] \<Longrightarrow> r_name r \<noteq> [] \<Longrightarrow>
    matches_result (result_probe r) x \<longleftrightarrow> r_pk x = r_pk r \<and> r_uk x = r_uk r"
  by (auto simp: matches_result_def result_probe_def eq_cond_def empty_summary_def r_pk_def r_uk_def)

lemma matches_record_probe:
  "d_parent d \<noteq> [] \<Longrightarrow> d_id d \<noteq> [] \<Longrightarrow> d_name d \<noteq> [] \<Longrightarrow>
    matches_record (record_probe d) x \<longleftrightarrow> d_parent x = d_parent d \<and> d_id x = d_id d \<and> d_name x = d_name d"
  by (auto simp: matches_record_def record_probe_def eq_cond_def)

lemma probed_first:
  "probed what key (tbl_first idf p rows) st =
     (MigOk, (fmupd key (if \<exists>x\<in>set rows. p x then OutcomeAlreadyExists else OutcomeDryRun) (fst st), snd st))"
proof (cases "tbl_first idf p rows")
  case (Inl e)
  then show ?thesis using tbl_first_Inl [of idf p rows e] by (simp add: probed_def)
next
  case (Inr x)
  then show ?thesis using tbl_first_Inr [OF Inr] by (auto simp: probed_def)
qed

lemma probe_result:
  assumes "no_faults g" and "results_agree rs s" and "r \<in> set rs" and "snd st = s"
  shows "migrate_result g False r st = (MigOk, (fmupd (result_key r)
     (if result_conflict r s then OutcomeAlreadyExists else OutcomeDryRun) (fst st), s))"
proof -
  have "(\<exists>x\<in>set (results_tbl s). matches_result (result_probe r) x) = result_conflict r s"
    using assms(2,3) by (auto simp: results_agree_def result_conflict_def matches_result_probe)
  then show ?thesis using assms(1,4) by (simp add: migrate_result_def Let_def first_result_def probed_first)
qed

lemma probe_record:
  assumes "no_faults g" and "records_agree ds s" and "d \<in> set ds" and "snd st = s"
  shows "migrate_record g False d st = (MigOk, (fmupd (record_key d)
     (if record_conflict d s then OutcomeAlreadyExists else OutcomeDryRun) (fst st), s))"
proof -
  have "(\<exists>x\<in>set (records_tbl s). matches_record (record_probe d) x) = record_conflict d s"
    using assms(2,3) by (auto simp: records_agree_def record_conflict_def matches_record_probe)
  then show ?thesis using assms(1,4) by (simp add: migrate_record_def Let_def first_record_def probed_first)
qed

lemma fmmap_performed_upd [simp]: "fmmap performed (fmupd k v m) = fmupd k (performed v) (fmmap performed m)"
  by (rule fmap_ext) simp

lemma tbl_wf_head:
  assumes "tbl_wf pk uk (x # xs)"
  shows "\<forall>y\<in>set xs. pk y \<noteq> pk x \<and> uk y \<noteq> uk x"
  using assms by (auto simp: tbl_wf_def image_iff)

lemma migrated_rows:
  "set (results_tbl (snd (snd (for_rows (migrate_result g True) rs (out, s))))) \<subseteq> set (results_tbl s) \<union> set rs"
  by (rule for_rows_inv [where P = "\<lambda>a :: mig_state. set (results_tbl (snd a)) \<subseteq> set (results_tbl s) \<union> set rs"])
    (auto simp: migrate_result_def Let_def written_def pg_exec_def create_result_cases split: option.splits if_splits)

text \<open>The foreign keys of the source's records hold in the target after its results were copied.\<close>

lemma foreign_keys_migrated:
  assumes "for_rows (migrate_result g True) rs (out, s) = (MigOk, (out', s2))" and "no_faults g"
    and "results_agree rs s" and "tbl_wf r_pk r_uk rs" and "r \<in> set rs" and "r_parent r = d_parent d" and "r_id r = d_result_id d"
  shows "fk_ok d s2"
proof -
  obtain x where x: "x \<in> set (results_tbl s2)" "r_pk x = r_pk r \<or> r_uk x = r_uk r"
    using results_phase(1) [OF assms(1,2)] assms(5) by (auto simp: result_conflict_def)
  have "x \<in> set (results_tbl s) \<or> x \<in> set rs" using migrated_rows [of g rs out s] assms(1) x(1) by auto
  then have "r_pk x = r_pk r"
    using x(2) assms(3,5) results.wf_uk [OF assms(4) _ assms(5), of x] by (auto simp: results_agree_def)
  then show ?thesis using x(1) assms(6,7) by (auto simp: fk_ok_def r_pk_def)
qed

lemma dry_results_phase:
  assumes "no_faults g" and "driver_matches g" and "results_agree rs s" and "tbl_wf r_pk r_uk rs"
  shows "\<exists>o1 s2. for_rows (migrate_result g False) rs (fmempty, s) = (MigOk, (o1, s))
    \<and> for_rows (migrate_result g True) rs (fmempty, s) = (MigOk, (fmmap performed o1, s2))
    \<and> records_tbl s2 = records_tbl s"
proof -
  define R where "R = (\<lambda>xs (a :: mig_state) (b :: mig_state). set xs \<subseteq> set rs \<and> tbl_wf r_pk r_uk xs \<and> snd a = s
    \<and> fst b = fmmap performed (fst a) \<and> records_tbl (snd b) = records_tbl s
    \<and> (\<forall>r\<in>set xs. result_conflict r (snd b) = result_conflict r s))"
  have "\<exists>a' b'. migrate_result g False x a = (MigOk, a') \<and> migrate_result g True x b = (MigOk, b') \<and> R xs a' b'"
    if "R (x # xs) a b" for x xs a b
  proof -
    have x: "x \<in> set rs" "snd a = s" and c: "result_conflict x (snd b) = result_conflict x s"
      and new: "\<forall>r\<in>set xs. r_pk r \<noteq> r_pk x \<and> r_uk r \<noteq> r_uk x"
      using that tbl_wf_head [of r_pk r_uk x xs] unfolding R_def by simp_all
    show ?thesis
    proof (cases "result_conflict x s")
      case True
      then show ?thesis using that c probe_result [OF assms(1,3) x] migrate_result_conflict [OF assms(2,1), of x b]
        by (auto simp: R_def tbl_wf_def)
    next
      case False
      then show ?thesis using that c new probe_result [OF assms(1,3) x] migrate_result_new [OF assms(1), of x b]
        by (auto simp: R_def tbl_wf_def result_conflict_def)
    qed
  qed
  moreover have "R rs (fmempty, s) (fmempty, s)" using assms(4) by (simp add: R_def)
  ultimately obtain a b where "for_rows (migrate_result g False) rs (fmempty, s) = (MigOk, a)"
      "for_rows (migrate_result g True) rs (fmempty, s) = (MigOk, b)" "R [] a b"
    using for_rows_sim [of R "migrate_result g False" "migrate_result g True"] by blast
  then show ?thesis by (cases a; cases b) (auto simp: R_def)
qed

lemma dry_records_phase:
  assumes "no_faults g" and "driver_matches g" and "records_agree ds s" and "tbl_wf d_pk d_uk ds"
    and "\<forall>d\<in>set ds. fk_ok d s2 \<and> (\<exists>d'. convertRecord (mg_codec g) d = ConvOk d')" and "records_tbl s2 = records_tbl s"
  shows "\<exists>o1' s3. for_rows (migrate_record g False) ds (o1, s) = (MigOk, (o1', s))
    \<and> for_rows (migrate_record g True) ds (fmmap performed o1, s2) = (MigOk, (fmmap performed o1', s3))"
proof -
  define R where "R = (\<lambda>xs (a :: mig_state) (b :: mig_state). set xs \<subseteq> set ds \<and> tbl_wf d_pk d_uk xs \<and> snd a = s
    \<and> fst b = fmmap performed (fst a) \<and> results_tbl (snd b) = results_tbl s2
    \<and> (\<forall>d\<in>set xs. record_conflict d (snd b) = record_conflict d s))"
  have "\<exists>a' b'. migrate_record g False x a = (MigOk, a') \<and> migrate_record g True x b = (MigOk, b') \<and> R xs a' b'"
    if "R (x # xs) a b" for x xs a b
  proof -
    have x: "x \<in> set ds" "snd a = s" and c: "record_conflict x (snd b) = record_conflict x s"
      and new: "\<forall>d\<in>set xs. d_pk d \<noteq> d_pk x \<and> d_uk d \<noteq> d_uk x" and res: "results_tbl (snd b) = results_tbl s2"
      using that tbl_wf_head [of d_pk d_uk x xs] unfolding R_def by simp_all
    obtain x' where x': "convertRecord (mg_codec g) x = ConvOk x'" "fk_ok x (snd b)"
      using assms(5) x(1) res by (auto simp: fk_ok_def)
    show ?thesis
    proof (cases "record_conflict x s")
      case True
      then show ?thesis using that c probe_record [OF assms(1,3) x] migrate_record_conflict [OF assms(2,1) x'(1), of b]
        by (auto simp: R_def tbl_wf_def)
    next
      case False
      then show ?thesis using that c new probe_record [OF assms(1,3) x] converted_keys(1,2) [OF x'(1)]
          migrate_record_new [OF assms(1) x'(1), of b] x'(2)
        by (auto simp: R_def tbl_wf_def record_conflict_def)
    qed
  qed
  moreover have "R ds (o1, s) (fmmap performed o1, s2)" using assms(4,6) by (simp add: R_def record_conflict_def)
  ultimately obtain a b where "for_rows (migrate_record g False) ds (o1, s) = (MigOk, a)"
      "for_rows (migrate_record g True) ds (fmmap performed o1, s2) = (MigOk, b)" "R [] a b"
    using for_rows_sim [of R "migrate_record g False" "migrate_record g True"] by blast
  then show ?thesis by (cases a; cases b) (auto simp: R_def)
qed


subsection \<open>A sample migration\<close>

definition demo_mig :: "(string, string) mig_env" where
  "demo_mig = \<lparr>mg_codec = \<lparr>mc_any = (\<lambda>s. Inr ([], s)),
       mc_new = (\<lambda>a. Inr (PbTaskRun \<lparr>pb_metadata = Some 3, pb_status = Some 2, pb_body = snd a\<rparr>)),
       mc_protojson = (\<lambda>m. case m of PbTaskRun x \<Rightarrow> Inr (pb_body x) | PbPipelineRun x \<Rightarrow> Inr (pb_body x) | PbOther x \<Rightarrow> Inr x),
       mc_decode = (\<lambda>w s. Inr \<lparr>v1_generation = 0, v1_observed = 0, v1_body = s\<rparr>),
       mc_marshal = (\<lambda>w t. Inr (v1_body t @ show_int (v1_generation t)))\<rparr>,
     mg_fault = (\<lambda>op key. None),
     mg_as = (\<lambda>e. case e of SqlStateErr st m \<Rightarrow> Some st | _ \<Rightarrow> None)\<rparr>"

definition demo_row :: "string \<Rightarrow> string \<Rightarrow> db_result" where
  "demo_row ident name = (result_probe \<lparr>r_parent = ''ns'', r_id = ident, r_name = name, r_annotations = fmempty,
     r_created = 0, r_updated = 0, r_summary = empty_summary, r_etag = []\<rparr>)"

definition demo_legacy_record :: db_record where
  "demo_legacy_record = \<lparr>d_parent = ''ns'', d_result_id = ''i1'', d_result_name = ''n1'', d_id = ''j1'', d_name = ''m1'',
     d_type = [], d_data = ''x'', d_created = 0, d_updated = 0, d_etag = []\<rparr>"

definition demo_mysql :: mysql_db where
  "demo_mysql = \<lparr>my_results = Inr [demo_row ''i1'' ''n1'', demo_row ''i2'' ''n2''], my_records = Inr [demo_legacy_record]\<rparr>"

lemma demo_mig_env: "no_faults demo_mig" "driver_matches demo_mig"
  by (simp_all add: demo_mig_def no_faults_def driver_matches_def)



text \<open>Without that agreement it may not: a row of the target that has the name but another identifier is
  not seen by the dry run.\<close>

theorem dry_run_misses_a_name:
  "let my = \<lparr>my_results = Inr [demo_row ''i1'' ''n1''], my_records = Inr []\<rparr>;
       s = \<lparr>results_tbl = [demo_row ''i9'' ''n1''], records_tbl = []\<rparr> in
   fmlookup (fst (snd (migrate demo_mig my False s))) ''ns/results/n1'' = Some OutcomeDryRun
   \<and> fmlookup (fst (snd (migrate demo_mig my True s))) ''ns/results/n1'' = Some OutcomeAlreadyExists"
  by code_simp

end
