(* ===== verification/CliConfig.thy ===== *)
theory CliConfig
  imports LogStore Retention Features
begin

text \<open>
  The configuration of the command line client (\<^verbatim>\<open>pkg/cli/config\<close>, \<^verbatim>\<open>pkg/cli/common\<close>,
  \<^verbatim>\<open>pkg/cli/flags\<close> and the commands \<^verbatim>\<open>config set\<close>, \<^verbatim>\<open>reset\<close> and \<^verbatim>\<open>view\<close>): the
  extension that the client stores in a context of its own in the kubeconfig file, the detection of the
  host of the API, the flags, and the REST client built from the flags or from the extension.

  The Kubernetes client library, the terminal, the network and JSON are the record \<open>kube_env\<close>: reading
  and writing the kubeconfig files (state \<open>'w\<close>), the REST configuration of a context, the transport and
  the URL of a REST configuration, prompts, discovery and TCP connections. \<open>'o\<close> and \<open>'c\<close> are the fields of a
  REST configuration and of a kubeconfig that this code does not read.
\<close>

subsection \<open>Data\<close>

record tls_client_config =
  tl_Insecure :: bool
  tl_ServerName :: string
  tl_CertFile :: string
  tl_KeyFile :: string
  tl_CAFile :: string
  tl_CertData :: string
  tl_KeyData :: string
  tl_CAData :: string
  tl_NextProtos :: "string list"

record 'o rest_config =
  rc_Host :: string
  rc_APIPath :: string
  rc_BearerToken :: string
  rc_BearerTokenFile :: string
  rc_AuthProvider :: bool
  rc_ExecProvider :: bool
  rc_TLS :: tls_client_config
  rc_Timeout :: int
  rc_GroupVersion :: "(string \<times> string) option"
  rc_rest :: 'o

text \<open>An extension of a kubeconfig context is kept as the raw text (\<^verbatim>\<open>runtime.Unknown\<close>). A nil map of
  extensions is \<open>None\<close>.\<close>

record unknown_object =
  un_apiVersion :: string
  un_kind :: string
  un_raw :: string

record kube_context =
  kc_Cluster :: string
  kc_AuthInfo :: string
  kc_Namespace :: string
  kc_Extensions :: "(string, unknown_object) fmap option"

record 'c kube_config =
  ac_Contexts :: "(string, kube_context) fmap"
  ac_CurrentContext :: string
  ac_rest :: 'c

record extension =
  ex_apiVersion :: string
  ex_kind :: string
  ex_APIPath :: string
  ex_Host :: string
  ex_Token :: string
  ex_Timeout :: string
  ex_InsecureSkipTLSVerify :: string

definition new_Extension :: extension where
  "new_Extension = \<lparr>ex_apiVersion = [], ex_kind = [], ex_APIPath = [], ex_Host = [], ex_Token = [],
     ex_Timeout = [], ex_InsecureSkipTLSVerify = []\<rparr>"

definition ExtensionName :: string where "ExtensionName = ''tekton-results''"
definition Group :: string where "Group = ''results.tekton.dev''"
definition Version :: string where "Version = ''v1alpha2''"
definition Kind :: string where "Kind = ''Client''"
definition Path :: string where "Path = ''apis''"

record results_params =
  pa_kubeConfigPath :: string
  pa_kubeContext :: string
  pa_namespace :: string
  pa_host :: string
  pa_token :: string
  pa_apiPath :: string
  pa_skipTLSVerify :: bool

text \<open>The URL is the base with the path that replaces its own.\<close>

record 't client_config =
  cc_URL :: "string \<times> string"
  cc_Timeout :: int
  cc_Transport :: 't

record ('o, 'c, 't) cli_config =
  cf_ConfigAccess :: string
  cf_APIConfig :: "'c kube_config"
  cf_RESTConfig :: "'o rest_config option"
  cf_ClientConfig :: "'t client_config option"
  cf_Extension :: extension

datatype prompt = PInput string "string option" | PSelect string "string list"

record ('o, 'c, 't, 'w) kube_env =
  kx_load :: "string \<Rightarrow> 'w \<Rightarrow> string + 'c kube_config"
  kx_modify :: "string \<Rightarrow> 'c kube_config \<Rightarrow> 'w \<Rightarrow> string option \<times> 'w"
  kx_client_config :: "'c kube_config \<Rightarrow> string \<Rightarrow> string + 'o rest_config"
  kx_namespace :: "string \<Rightarrow> string \<Rightarrow> 'w \<Rightarrow> string + string"
  kx_transport :: "'o rest_config \<Rightarrow> string + 't"
  kx_server_url :: "'o rest_config \<Rightarrow> string + string \<times> string"
  kx_transport_new :: "'t \<Rightarrow> string option"
  kx_marshal :: "extension \<Rightarrow> string + string"
  kx_unmarshal :: "string \<Rightarrow> string + extension"
  kx_ask :: "prompt \<Rightarrow> string + string"
  kx_new_discovery :: "'o rest_config \<Rightarrow> string option"
  kx_server_groups :: "'o rest_config \<Rightarrow> string + string list"
  kx_parse_url :: "string \<Rightarrow> string + string \<times> string"
  kx_dial :: "string \<Rightarrow> string option"
  kx_print :: "extension \<Rightarrow> string + string"
  kx_empty_rest :: 'o

subsection \<open>The context that holds the configuration\<close>

definition BuildConfigContextInfo :: "kube_context option \<Rightarrow> (string \<times> string \<times> string) res" where
  "BuildConfigContextInfo context =
     (case context of
        None \<Rightarrow> Inl (PlainErr ''context is nil'')
      | Some kc \<Rightarrow>
          if kc_Cluster kc = [] then Inl (PlainErr ''no cluster specified in context'')
          else if kc_AuthInfo kc = [] then Inl (PlainErr ''no user specified in context'')
          else (let userName = takeWhile (\<lambda>x. x \<noteq> CHR ''/'') (kc_AuthInfo kc) in
                Inr (''tekton-results-config/'' @ kc_Cluster kc @ ''/'' @ userName, kc_Cluster kc, userName)))"

definition getConfigContextInfo :: "('o, 'c, 't) cli_config \<Rightarrow> results_params \<Rightarrow> (string \<times> string \<times> string) res" where
  "getConfigContextInfo c p =
     (let ctx = (if pa_kubeContext p \<noteq> [] then pa_kubeContext p else ac_CurrentContext (cf_APIConfig c)) in
      case fmlookup (ac_Contexts (cf_APIConfig c)) ctx of
        None \<Rightarrow> Inl (PlainErr ''current context is not set in kubeconfig'')
      | Some kc \<Rightarrow> BuildConfigContextInfo (Some kc))"

definition SetVersion :: "extension \<Rightarrow> extension" where
  "SetVersion e = e\<lparr>ex_apiVersion := Group @ ''/'' @ Version, ex_kind := Kind\<rparr>"

definition LoadExtension ::
  "('o, 'c, 't, 'w) kube_env \<Rightarrow> ('o, 'c, 't) cli_config \<Rightarrow> results_params \<Rightarrow> ('o, 'c, 't) cli_config res" where
  "LoadExtension k c p =
     (case getConfigContextInfo c p of
        Inl e \<Rightarrow> Inl e
      | Inr (configContextName, _, _) \<Rightarrow>
          (let fresh = Inr (c\<lparr>cf_Extension := SetVersion new_Extension\<rparr>) in
           case fmlookup (ac_Contexts (cf_APIConfig c)) configContextName of
             None \<Rightarrow> fresh
           | Some configContext \<Rightarrow>
               (case kc_Extensions configContext of
                  None \<Rightarrow> fresh
                | Some exts \<Rightarrow>
                    (case fmlookup exts ExtensionName of
                       None \<Rightarrow> fresh
                     | Some ext \<Rightarrow>
                         (case kx_unmarshal k (un_raw ext) of
                            Inl e \<Rightarrow> Inl (PlainErr (''failed to unmarshal extension: '' @ e))
                          | Inr x \<Rightarrow> Inr (c\<lparr>cf_Extension := x\<rparr>))))))"

text \<open>Writing the extension: the context of the configuration is looked up or created.\<close>

definition config_context :: "'c kube_config \<Rightarrow> string \<Rightarrow> string \<Rightarrow> string \<Rightarrow> kube_context" where
  "config_context ac configContextName clusterName userName =
     (case fmlookup (ac_Contexts ac) configContextName of
        Some kc \<Rightarrow> kc
      | None \<Rightarrow> \<lparr>kc_Cluster = clusterName, kc_AuthInfo = userName, kc_Namespace = ''default'', kc_Extensions = Some fmempty\<rparr>)"

definition with_extension :: "kube_context \<Rightarrow> unknown_object \<Rightarrow> kube_context" where
  "with_extension kc u =
     kc\<lparr>kc_Extensions := Some (fmupd ExtensionName u (case kc_Extensions kc of None \<Rightarrow> fmempty | Some m \<Rightarrow> m))\<rparr>"

text \<open>When the extension cannot be marshalled the context was already added to the configuration in memory.\<close>

definition Persist ::
  "('o, 'c, 't, 'w) kube_env \<Rightarrow> results_params \<Rightarrow> ('o, 'c, 't) cli_config \<Rightarrow> 'w \<Rightarrow> go_error option \<times> ('o, 'c, 't) cli_config \<times> 'w" where
  "Persist k p c w =
     (case getConfigContextInfo c p of
        Inl e \<Rightarrow> (Some e, c, w)
      | Inr (configContextName, clusterName, userName) \<Rightarrow>
          (let ac = cf_APIConfig c;
               kc0 = config_context ac configContextName clusterName userName;
               kc = kc0\<lparr>kc_Extensions := Some (case kc_Extensions kc0 of None \<Rightarrow> fmempty | Some m \<Rightarrow> m)\<rparr>
           in case kx_marshal k (cf_Extension c) of
                Inl e \<Rightarrow> (Some (PlainErr (''failed to marshal extension: '' @ e)),
                          c\<lparr>cf_APIConfig := ac\<lparr>ac_Contexts := fmupd configContextName kc (ac_Contexts ac)\<rparr>\<rparr>, w)
              | Inr extensionData \<Rightarrow>
                  (let u = \<lparr>un_apiVersion = ex_apiVersion (cf_Extension c), un_kind = ex_kind (cf_Extension c), un_raw = extensionData\<rparr>;
                       ac' = ac\<lparr>ac_Contexts := fmupd configContextName (with_extension kc u) (ac_Contexts ac)\<rparr>
                   in case kx_modify k (cf_ConfigAccess c) ac' w of
                        (e, w') \<Rightarrow> (map_option PlainErr e, c\<lparr>cf_APIConfig := ac'\<rparr>, w'))))"

subsection \<open>The client configuration\<close>

text \<open>\<^verbatim>\<open>schema.FromAPIVersionAndKind\<close>: a version with more than one slash is no group and version.\<close>

definition group_version :: "string \<Rightarrow> string \<times> string" where
  "group_version v =
     (case split_on (CHR ''/'') v of [x] \<Rightarrow> ([], x) | [g, x] \<Rightarrow> (g, x) | _ \<Rightarrow> ([], []))"

definition no_tls :: tls_client_config where
  "no_tls = \<lparr>tl_Insecure = False, tl_ServerName = [], tl_CertFile = [], tl_KeyFile = [], tl_CAFile = [],
     tl_CertData = [], tl_KeyData = [], tl_CAData = [], tl_NextProtos = []\<rparr>"

text \<open>The REST configuration with what the extension sets. The timeout is only touched when the text of
  the extension is not a duration, and then it becomes zero.\<close>

definition extended_config :: "'o rest_config \<Rightarrow> extension \<Rightarrow> 'o rest_config" where
  "extended_config rc e =
     (let rc = rc\<lparr>rc_GroupVersion := Some (group_version (ex_apiVersion e))\<rparr>;
          rc = (if ex_Host e \<noteq> [] then rc\<lparr>rc_Host := ex_Host e\<rparr> else rc);
          rc = (if ex_APIPath e \<noteq> [] then rc\<lparr>rc_APIPath := ex_APIPath e\<rparr> else rc);
          rc = (if ex_Token e \<noteq> [] then rc\<lparr>rc_BearerToken := ex_Token e\<rparr> else rc);
          rc = (case ParseBool (ex_InsecureSkipTLSVerify e) of
                  None \<Rightarrow> rc
                | Some i \<Rightarrow>
                    (let t = (if i then no_tls else rc_TLS rc) in rc\<lparr>rc_TLS := t\<lparr>tl_Insecure := i\<rparr>\<rparr>))
      in case time_ParseDuration (ex_Timeout e) of Inl _ \<Rightarrow> rc\<lparr>rc_Timeout := 0\<rparr> | Inr _ \<Rightarrow> rc)"

text \<open>A nil REST configuration would panic in \<^verbatim>\<open>rest.CopyConfig\<close>; \<open>NewConfig\<close> always sets it.\<close>

definition LoadClientConfig ::
  "('o, 'c, 't, 'w) kube_env \<Rightarrow> ('o, 'c, 't) cli_config \<Rightarrow> ('o, 'c, 't) cli_config res" where
  "LoadClientConfig k c =
     (case cf_RESTConfig c of
        None \<Rightarrow> Inl (PlainErr ''runtime error: invalid memory address or nil pointer dereference'')
      | Some rconf \<Rightarrow>
          (let rc = extended_config rconf (cf_Extension c) in
           case kx_transport k rc of
             Inl e \<Rightarrow> Inl (PlainErr e)
           | Inr tc \<Rightarrow>
               (case kx_server_url k (rc\<lparr>rc_APIPath := Join [rc_APIPath rc, Path]\<rparr>) of
                  Inl e \<Rightarrow> Inl (PlainErr e)
                | Inr u \<Rightarrow> Inr (c\<lparr>cf_ClientConfig := Some \<lparr>cc_URL = u, cc_Timeout = rc_Timeout rconf, cc_Transport = tc\<rparr>\<rparr>))))"

definition NewConfig :: "('o, 'c, 't, 'w) kube_env \<Rightarrow> results_params \<Rightarrow> 'w \<Rightarrow> ('o, 'c, 't) cli_config res" where
  "NewConfig k p w =
     (case kx_load k (pa_kubeConfigPath p) w of
        Inl e \<Rightarrow> Inl (PlainErr e)
      | Inr ac \<Rightarrow>
          (let ctx = (if pa_kubeContext p = [] then ac_CurrentContext ac else pa_kubeContext p) in
           if fmlookup (ac_Contexts ac) ctx = None
           then Inl (PlainErr (''context '' @ [squote] @ ctx @ [squote] @ '' not found in kubeconfig''))
           else (case kx_client_config k ac ctx of
                   Inl e \<Rightarrow> Inl (PlainErr e)
                 | Inr rc \<Rightarrow>
                     (case LoadExtension k \<lparr>cf_ConfigAccess = pa_kubeConfigPath p, cf_APIConfig = ac, cf_RESTConfig = Some rc,
                          cf_ClientConfig = None, cf_Extension = new_Extension\<rparr> p of
                        Inl e \<Rightarrow> Inl e
                      | Inr c \<Rightarrow> LoadClientConfig k c))))"

definition config_Validate :: "('o, 'c, 't) cli_config \<Rightarrow> go_error option" where
  "config_Validate c =
     (if cf_ClientConfig c = None then Some (PlainErr ''client configuration missing: URL not set'')
      else if ex_Host (cf_Extension c) = [] then Some (PlainErr ''API server host not configured: host field is empty'')
      else None)"

subsection \<open>Detection of the host\<close>

datatype platform_type = PlatformUnknown | PlatformOpenShift | PlatformKubernetes

definition openShiftAPIGroups :: "string list" where
  "openShiftAPIGroups = [''route.openshift.io'', ''image.openshift.io'', ''apps.openshift.io'', ''security.openshift.io'',
     ''project.openshift.io'', ''user.openshift.io'', ''oauth.openshift.io'', ''config.openshift.io'']"

definition DetectPlatform :: "('o, 'c, 't, 'w) kube_env \<Rightarrow> 'o rest_config option \<Rightarrow> platform_type" where
  "DetectPlatform k c =
     (case c of
        None \<Rightarrow> PlatformUnknown
      | Some rc \<Rightarrow>
          (case kx_new_discovery k rc of
             Some _ \<Rightarrow> PlatformKubernetes
           | None \<Rightarrow>
               (case kx_server_groups k rc of
                  Inl _ \<Rightarrow> PlatformUnknown
                | Inr groups \<Rightarrow>
                    if list_ex (\<lambda>g. g \<in> set openShiftAPIGroups) groups then PlatformOpenShift else PlatformKubernetes)))"

definition extractClusterDomain :: "('o, 'c, 't, 'w) kube_env \<Rightarrow> string \<Rightarrow> string res" where
  "extractClusterDomain k apiServerURL =
     (if apiServerURL = [] then Inl (PlainErr ''empty API server URL'')
      else (case kx_parse_url k apiServerURL of
              Inl _ \<Rightarrow> Inl (PlainErr ''failed to parse URL'')
            | Inr (_, hostname) \<Rightarrow>
                if hostname = [] then Inl (PlainErr ''failed to extract hostname'')
                else (case strip_prefix ''api.'' hostname of
                        Some d \<Rightarrow> Inr d
                      | None \<Rightarrow>
                          (let parts = split_on (CHR ''.'') hostname in
                           if length parts \<ge> 3 then Inr (join ''.'' (tl parts))
                           else if length parts \<ge> 2 then Inr (join ''.'' parts)
                           else Inl (PlainErr ''unable to extract cluster domain'')))))"

definition isURLReachable :: "('o, 'c, 't, 'w) kube_env \<Rightarrow> string \<Rightarrow> bool" where
  "isURLReachable k testURL =
     (case kx_parse_url k testURL of
        Inl _ \<Rightarrow> False
      | Inr (scheme, hostname) \<Rightarrow>
          if scheme = ''https'' then kx_dial k (hostname @ '':443'') = None
          else if scheme = ''http'' then kx_dial k (hostname @ '':80'') = None
          else False)"

definition route_url :: "string \<Rightarrow> string \<Rightarrow> string" where
  "route_url scheme clusterDomain = scheme @ ''://tekton-results-api-service-openshift-pipelines.apps.'' @ clusterDomain"

definition tryConnectToRoute :: "('o, 'c, 't, 'w) kube_env \<Rightarrow> 'o rest_config \<Rightarrow> string res" where
  "tryConnectToRoute k c =
     (case extractClusterDomain k (rc_Host c) of
        Inl _ \<Rightarrow> Inl (PlainErr ''failed to extract cluster domain'')
      | Inr clusterDomain \<Rightarrow>
          if isURLReachable k (route_url ''https'' clusterDomain) then Inr (route_url ''https'' clusterDomain)
          else if isURLReachable k (route_url ''http'' clusterDomain) then Inr (route_url ''http'' clusterDomain)
          else Inl (PlainErr ''no reachable route found''))"

definition getHostURL :: "('o, 'c, 't, 'w) kube_env \<Rightarrow> 'o rest_config option \<Rightarrow> string res" where
  "getHostURL k c =
     (case c of
        None \<Rightarrow> Inl (PlainErr ''nil REST config provided'')
      | Some rc \<Rightarrow>
          (case DetectPlatform k c of
             PlatformOpenShift \<Rightarrow> tryConnectToRoute k rc
           | PlatformKubernetes \<Rightarrow> Inl (PlainErr ''kubernetes ingress not supported'')
           | PlatformUnknown \<Rightarrow> Inl (PlainErr ''unable to detect platform type'')))"

definition config_Host :: "('o, 'c, 't, 'w) kube_env \<Rightarrow> ('o, 'c, 't) cli_config \<Rightarrow> string" where
  "config_Host k c = (case getHostURL k (cf_RESTConfig c) of Inl _ \<Rightarrow> [] | Inr url \<Rightarrow> url)"

subsection \<open>Setting and resetting\<close>

definition usesDynamicToken :: "'o rest_config option \<Rightarrow> bool" where
  "usesDynamicToken rc =
     (case rc of
        None \<Rightarrow> False
      | Some c \<Rightarrow> rc_BearerToken c = [] \<and> (rc_ExecProvider c \<or> rc_AuthProvider c \<or> rc_BearerTokenFile c \<noteq> []))"

definition config_Token :: "('o, 'c, 't) cli_config \<Rightarrow> string res" where
  "config_Token c =
     (case cf_RESTConfig c of
        None \<Rightarrow> Inl (PlainErr ''REST configuration is not initialized'')
      | Some rc \<Rightarrow> Inr (rc_BearerToken rc))"

definition tokenPromptDefault :: "('o, 'c, 't) cli_config \<Rightarrow> string res" where
  "tokenPromptDefault c =
     (if cf_RESTConfig c = None \<or> usesDynamicToken (cf_RESTConfig c) then Inr [] else config_Token c)"

datatype prompt_data = AnyString string | AnyStrings "string list" | AnyOther

definition config_Prompt :: "('o, 'c, 't, 'w) kube_env \<Rightarrow> string \<Rightarrow> prompt_data \<Rightarrow> string res" where
  "config_Prompt k name data =
     (let m = name @ '' : '' in
      case kx_ask k (case data of AnyString d \<Rightarrow> PInput m (Some d) | AnyStrings os \<Rightarrow> PSelect m os | AnyOther \<Rightarrow> PInput m None) of
        Inl e \<Rightarrow> Inl (PlainErr e)
      | Inr v \<Rightarrow> Inr v)"

text \<open>One question whose trimmed answer goes into the extension; on an error the rest is not asked.\<close>

definition ask_field ::
  "('o, 'c, 't, 'w) kube_env \<Rightarrow> string \<Rightarrow> prompt_data \<Rightarrow> (string \<Rightarrow> extension \<Rightarrow> extension) \<Rightarrow> extension
     \<Rightarrow> (extension \<Rightarrow> go_error option \<times> extension) \<Rightarrow> go_error option \<times> extension" where
  "ask_field k name data upd e cont =
     (case config_Prompt k name data of Inl err \<Rightarrow> (Some err, e) | Inr v \<Rightarrow> cont (upd (TrimSpace v) e))"

definition set_prompted :: "('o, 'c, 't, 'w) kube_env \<Rightarrow> ('o, 'c, 't) cli_config \<Rightarrow> go_error option \<times> extension" where
  "set_prompted k c =
     ask_field k ''Host'' (AnyString (config_Host k c)) (\<lambda>v e. e\<lparr>ex_Host := v\<rparr>) (cf_Extension c) (\<lambda>e.
     (case tokenPromptDefault c of
        Inl err \<Rightarrow> (Some (PlainErr (''failed to get token: '' @ error_msg err)), e)
      | Inr token \<Rightarrow>
          ask_field k ''Token'' (AnyString token) (\<lambda>v e. e\<lparr>ex_Token := v\<rparr>) e (\<lambda>e.
          ask_field k ''API Path'' (AnyString []) (\<lambda>v e. e\<lparr>ex_APIPath := v\<rparr>) e (\<lambda>e.
          ask_field k ''Insecure Skip TLS Verify'' (AnyStrings [''false'', ''true'']) (\<lambda>v e. e\<lparr>ex_InsecureSkipTLSVerify := v\<rparr>) e (\<lambda>e.
          (None, e))))))"

definition set_from_flags :: "results_params \<Rightarrow> extension \<Rightarrow> extension" where
  "set_from_flags p e =
     (let e = (if pa_host p \<noteq> [] then e\<lparr>ex_Host := TrimSpace (pa_host p)\<rparr> else e);
          e = (if pa_token p \<noteq> [] then e\<lparr>ex_Token := TrimSpace (pa_token p)\<rparr> else e);
          e = (if pa_apiPath p \<noteq> [] then e\<lparr>ex_APIPath := TrimSpace (pa_apiPath p)\<rparr> else e)
      in if pa_skipTLSVerify p then e\<lparr>ex_InsecureSkipTLSVerify := ''true''\<rparr> else e)"

definition config_Set ::
  "('o, 'c, 't, 'w) kube_env \<Rightarrow> bool \<Rightarrow> results_params \<Rightarrow> ('o, 'c, 't) cli_config \<Rightarrow> 'w \<Rightarrow> go_error option \<times> ('o, 'c, 't) cli_config \<times> 'w" where
  "config_Set k prompt p c w =
     (case (if prompt then set_prompted k c else (None, set_from_flags p (cf_Extension c))) of
        (Some err, e) \<Rightarrow> (Some err, c\<lparr>cf_Extension := e\<rparr>, w)
      | (None, e) \<Rightarrow> Persist k p (c\<lparr>cf_Extension := e\<rparr>) w)"

definition config_Reset ::
  "('o, 'c, 't, 'w) kube_env \<Rightarrow> results_params \<Rightarrow> ('o, 'c, 't) cli_config \<Rightarrow> 'w \<Rightarrow> go_error option \<times> ('o, 'c, 't) cli_config \<times> 'w" where
  "config_Reset k p c w = Persist k p (c\<lparr>cf_Extension := SetVersion new_Extension\<rparr>) w"

subsection \<open>Flags\<close>

datatype flag_value = FlagString string | FlagBool bool

text \<open>The flags of a command: the value and whether it was given on the command line.\<close>

type_synonym cmd_flags = "(string, flag_value \<times> bool) fmap"

definition GetString :: "cmd_flags \<Rightarrow> string \<Rightarrow> string res" where
  "GetString fs name =
     (case fmlookup fs name of
        None \<Rightarrow> Inl (PlainErr (''flag accessed but not defined: '' @ name))
      | Some (FlagString s, _) \<Rightarrow> Inr s
      | Some (FlagBool _, _) \<Rightarrow> Inl (PlainErr ''trying to get string value of flag of type bool''))"

definition GetBool :: "cmd_flags \<Rightarrow> string \<Rightarrow> bool res" where
  "GetBool fs name =
     (case fmlookup fs name of
        None \<Rightarrow> Inl (PlainErr (''flag accessed but not defined: '' @ name))
      | Some (FlagBool b, _) \<Rightarrow> Inr b
      | Some (FlagString _, _) \<Rightarrow> Inl (PlainErr ''trying to get bool value of flag of type string''))"

definition Changed :: "cmd_flags \<Rightarrow> string \<Rightarrow> bool" where
  "Changed fs name = (case fmlookup fs name of None \<Rightarrow> False | Some (_, c) \<Rightarrow> c)"

definition AddResultsOptions :: "cmd_flags \<Rightarrow> cmd_flags" where
  "AddResultsOptions fs =
     fold (\<lambda>name. fmupd name (FlagString [], False)) [''kubeconfig'', ''context'', ''namespace'', ''host'', ''token'', ''api-path'']
       (fmupd ''insecure-skip-tls-verify'' (FlagBool False, False) fs)"

definition SetNamespace :: "('o, 'c, 't, 'w) kube_env \<Rightarrow> 'w \<Rightarrow> string \<Rightarrow> results_params \<Rightarrow> results_params" where
  "SetNamespace k w ns p =
     (if ns = []
      then (case kx_namespace k (pa_kubeConfigPath p) (pa_kubeContext p) w of
              Inr namespace \<Rightarrow> p\<lparr>pa_namespace := namespace\<rparr>
            | Inl _ \<Rightarrow> p\<lparr>pa_namespace := ns\<rparr>)
      else p\<lparr>pa_namespace := ns\<rparr>)"

text \<open>Reading one flag into the parameters; the flags after a failure are not read.\<close>

definition string_flag ::
  "cmd_flags \<Rightarrow> string \<Rightarrow> (string \<Rightarrow> results_params \<Rightarrow> results_params) \<Rightarrow> go_error option \<times> results_params \<Rightarrow> go_error option \<times> results_params" where
  "string_flag fs name upd st =
     (case st of
        (Some e, p) \<Rightarrow> (Some e, p)
      | (None, p) \<Rightarrow> (case GetString fs name of Inl e \<Rightarrow> (Some e, p) | Inr v \<Rightarrow> (None, upd v p)))"

definition InitParams :: "('o, 'c, 't, 'w) kube_env \<Rightarrow> 'w \<Rightarrow> cmd_flags \<Rightarrow> results_params \<Rightarrow> go_error option \<times> results_params" where
  "InitParams k w fs p =
     (let st = (None, p);
          st = string_flag fs ''kubeconfig'' (\<lambda>v p. p\<lparr>pa_kubeConfigPath := v\<rparr>) st;
          st = string_flag fs ''context'' (\<lambda>v p. p\<lparr>pa_kubeContext := v\<rparr>) st;
          st = string_flag fs ''namespace'' (SetNamespace k w) st;
          st = string_flag fs ''host'' (\<lambda>v p. if v \<noteq> [] then p\<lparr>pa_host := v\<rparr> else p) st;
          st = string_flag fs ''token'' (\<lambda>v p. if v \<noteq> [] then p\<lparr>pa_token := v\<rparr> else p) st;
          st = string_flag fs ''api-path'' (\<lambda>v p. if v \<noteq> [] then p\<lparr>pa_apiPath := v\<rparr> else p) st
      in case st of
           (Some e, p) \<Rightarrow> (Some e, p)
         | (None, p) \<Rightarrow> (case GetBool fs ''insecure-skip-tls-verify'' of
              Inl e \<Rightarrow> (Some e, p)
            | Inr b \<Rightarrow> (None, p\<lparr>pa_skipTLSVerify := b\<rparr>)))"

definition AnyResultsFlagChanged :: "cmd_flags \<Rightarrow> bool" where
  "AnyResultsFlagChanged fs =
     (Changed fs ''host'' \<or> Changed fs ''token'' \<or> Changed fs ''api-path'' \<or> Changed fs ''insecure-skip-tls-verify'')"

definition ServerConnectionFlagsChanged :: "cmd_flags \<Rightarrow> bool" where
  "ServerConnectionFlagsChanged fs =
     (Changed fs ''host'' \<or> Changed fs ''token'' \<or> Changed fs ''insecure-skip-tls-verify'' \<or> Changed fs ''api-path'')"

subsection \<open>The REST client of a command\<close>

definition empty_rest_config :: "('o, 'c, 't, 'w) kube_env \<Rightarrow> 'o rest_config" where
  "empty_rest_config k = \<lparr>rc_Host = [], rc_APIPath = [], rc_BearerToken = [], rc_BearerTokenFile = [], rc_AuthProvider = False,
     rc_ExecProvider = False, rc_TLS = no_tls, rc_Timeout = 0, rc_GroupVersion = None, rc_rest = kx_empty_rest k\<rparr>"

definition BuildDirectClientConfig :: "('o, 'c, 't, 'w) kube_env \<Rightarrow> results_params \<Rightarrow> 't client_config res" where
  "BuildDirectClientConfig k p =
     (if pa_host p = [] \<or> pa_token p = []
      then Inl (PlainErr ''--host and --token flag must be set if using direct connection flags'')
      else
        (let rc = (empty_rest_config k)\<lparr>rc_Host := pa_host p, rc_BearerToken := pa_token p,
               rc_APIPath := Join [pa_apiPath p, Path], rc_TLS := no_tls\<lparr>tl_Insecure := pa_skipTLSVerify p\<rparr>,
               rc_Timeout := 60 * 1000000000, rc_GroupVersion := Some (Group, Version)\<rparr>
         in case kx_server_url k rc of
              Inl e \<Rightarrow> Inl (PlainErr e)
            | Inr u \<Rightarrow>
                (case kx_transport k rc of
                   Inl e \<Rightarrow> Inl (PlainErr e)
                 | Inr tcfg \<Rightarrow> Inr \<lparr>cc_URL = u, cc_Timeout = rc_Timeout rc, cc_Transport = tcfg\<rparr>)))"

text \<open>The fields of the client configuration other than the pointer itself are never nil here.\<close>

definition NewRESTClient :: "('o, 'c, 't, 'w) kube_env \<Rightarrow> 't client_config option \<Rightarrow> 't client_config res" where
  "NewRESTClient k c =
     (case c of
        None \<Rightarrow> Inl (PlainErr ''config cannot be nil'')
      | Some cfg \<Rightarrow> (case kx_transport_new k (cc_Transport cfg) of Some e \<Rightarrow> Inl (PlainErr e) | None \<Rightarrow> Inr cfg))"

definition InitClient :: "('o, 'c, 't, 'w) kube_env \<Rightarrow> 'w \<Rightarrow> results_params \<Rightarrow> cmd_flags \<Rightarrow> 't client_config res" where
  "InitClient k w p fs =
     (if ServerConnectionFlagsChanged fs
      then (case BuildDirectClientConfig k p of Inl e \<Rightarrow> Inl e | Inr cfg \<Rightarrow> NewRESTClient k (Some cfg))
      else (case NewConfig k p w of
              Inl e \<Rightarrow> Inl e
            | Inr c \<Rightarrow>
                (case config_Validate c of
                   Some e \<Rightarrow> Inl (PlainErr (''invalid config. You may need to run the ''
                     @ [squote] @ ''config set'' @ [squote] @ '' command to configure the CLI: '' @ error_msg e))
                 | None \<Rightarrow> NewRESTClient k (cf_ClientConfig c))))"

text \<open>What runs before the commands of a run kind: the parameters, then the client unless one was injected.\<close>

definition run_PersistentPreRunE ::
  "('o, 'c, 't, 'w) kube_env \<Rightarrow> 'w \<Rightarrow> cmd_flags \<Rightarrow> results_params \<Rightarrow> 't client_config option
     \<Rightarrow> go_error option \<times> results_params \<times> 't client_config option" where
  "run_PersistentPreRunE k w fs p injected =
     (case InitParams k w fs p of
        (Some e, p') \<Rightarrow> (Some e, p', injected)
      | (None, p') \<Rightarrow>
          (case injected of
             Some c \<Rightarrow> (None, p', Some c)
           | None \<Rightarrow> (case InitClient k w p' fs of Inl e \<Rightarrow> (Some e, p', None) | Inr c \<Rightarrow> (None, p', Some c))))"

subsection \<open>The commands of the configuration\<close>

definition config_set_command :: "('o, 'c, 't, 'w) kube_env \<Rightarrow> cmd_flags \<Rightarrow> results_params \<Rightarrow> 'w \<Rightarrow> go_error option \<times> 'w" where
  "config_set_command k fs p0 w =
     (case InitParams k w fs p0 of
        (Some e, _) \<Rightarrow> (Some e, w)
      | (None, p) \<Rightarrow>
          (case NewConfig k p w of
             Inl e \<Rightarrow> (Some e, w)
           | Inr c \<Rightarrow> (case config_Set k (\<not> AnyResultsFlagChanged fs) p c w of (e, _, w') \<Rightarrow> (e, w'))))"

definition config_reset_command :: "('o, 'c, 't, 'w) kube_env \<Rightarrow> cmd_flags \<Rightarrow> results_params \<Rightarrow> 'w \<Rightarrow> go_error option \<times> 'w" where
  "config_reset_command k fs p0 w =
     (case InitParams k w fs p0 of
        (Some e, _) \<Rightarrow> (Some e, w)
      | (None, p) \<Rightarrow>
          (case NewConfig k p w of
             Inl e \<Rightarrow> (Some e, w)
           | Inr c \<Rightarrow> (case config_Reset k p c w of (e, _, w') \<Rightarrow> (e, w'))))"

definition config_view_command :: "('o, 'c, 't, 'w) kube_env \<Rightarrow> cmd_flags \<Rightarrow> results_params \<Rightarrow> 'w \<Rightarrow> string res" where
  "config_view_command k fs p0 w =
     (case InitParams k w fs p0 of
        (Some e, _) \<Rightarrow> Inl e
      | (None, p) \<Rightarrow>
          (case NewConfig k p w of
             Inl e \<Rightarrow> Inl e
           | Inr c \<Rightarrow> (case kx_print k (cf_Extension c) of Inl e \<Rightarrow> Inl (PlainErr e) | Inr out \<Rightarrow> Inr out)))"

end
