(* ===== verification/CliConfigProps.thy ===== *)
theory CliConfigProps
  imports CliConfig
begin

text \<open>
  The configuration of the command line client: what is set is what every context of the same cluster
  and user loads later, configurations of different clusters never meet, a client is only built for the
  host that was configured, and a short-lived token is not offered for storage.
\<close>

subsection \<open>The name of the context\<close>

lemma slash_split_unique:
  assumes "a @ CHR ''/'' # u = b @ CHR ''/'' # v" and "CHR ''/'' \<notin> set u" and "CHR ''/'' \<notin> set v"
  shows "a = b \<and> u = v"
proof -
  have "takeWhile (\<lambda>x. x \<noteq> CHR ''/'') (rev (a @ CHR ''/'' # u)) = rev u"
    "takeWhile (\<lambda>x. x \<noteq> CHR ''/'') (rev (b @ CHR ''/'' # v)) = rev v"
    using assms(2,3) by (auto simp: takeWhile_append takeWhile_tail)
  then have "u = v" using assms(1) by (metis rev_rev_ident)
  then show ?thesis using assms(1) by simp
qed

lemma BuildConfigContextInfo_Inr:
  assumes "BuildConfigContextInfo kc = Inr (n, cl, us)"
  shows "n = ''tekton-results-config/'' @ cl @ CHR ''/'' # us \<and> CHR ''/'' \<notin> set us \<and> cl \<noteq> []"
  using assms by (auto simp: BuildConfigContextInfo_def Let_def split: option.splits if_splits dest: set_takeWhileD)

text \<open>The name determines the cluster and the user it was built from, whatever slashes the cluster's name
  has: the configurations of two clusters never share a context.\<close>

theorem config_contexts_do_not_mix:
  assumes "BuildConfigContextInfo kc = Inr (n, cl, us)" and "BuildConfigContextInfo kc' = Inr (n, cl', us')"
  shows "cl' = cl \<and> us' = us"
  using BuildConfigContextInfo_Inr [OF assms(1)] BuildConfigContextInfo_Inr [OF assms(2)]
    slash_split_unique [of cl' us' cl us] by auto

subsection \<open>Set and load\<close>

text \<open>The Kubernetes library keeps what it is given: a configuration that was written is read back, up to
  nil maps of extensions, and JSON returns the extension it was given.\<close>

definition norm_context :: "kube_context \<Rightarrow> kube_context" where
  "norm_context kc = kc\<lparr>kc_Extensions := Some (case kc_Extensions kc of None \<Rightarrow> fmempty | Some m \<Rightarrow> m)\<rparr>"

definition same_config :: "'c kube_config \<Rightarrow> 'c kube_config \<Rightarrow> bool" where
  "same_config a b = (fmmap norm_context (ac_Contexts a) = fmmap norm_context (ac_Contexts b)
     \<and> ac_CurrentContext a = ac_CurrentContext b)"

definition kube_faithful :: "('o, 'c, 't, 'w) kube_env \<Rightarrow> bool" where
  "kube_faithful k = (\<forall>path ac w w'. kx_modify k path ac w = (None, w') \<longrightarrow>
     (\<exists>ac'. kx_load k path w' = Inr ac' \<and> same_config ac' ac))"

definition extension_json :: "('o, 'c, 't, 'w) kube_env \<Rightarrow> bool" where
  "extension_json k = (\<forall>e raw. kx_marshal k e = Inr raw \<longrightarrow> kx_unmarshal k raw = Inr e)"

definition stored_extension :: "'c kube_config \<Rightarrow> string \<Rightarrow> unknown_object option" where
  "stored_extension ac n =
     (case fmlookup (ac_Contexts ac) n of
        None \<Rightarrow> None
      | Some kc \<Rightarrow> (case kc_Extensions kc of None \<Rightarrow> None | Some m \<Rightarrow> fmlookup m ExtensionName))"

lemma stored_extension_norm:
  "stored_extension ac n = (case fmlookup (fmmap norm_context (ac_Contexts ac)) n of
      None \<Rightarrow> None | Some kc \<Rightarrow> (case kc_Extensions kc of None \<Rightarrow> None | Some m \<Rightarrow> fmlookup m ExtensionName))"
  by (auto simp: stored_extension_def norm_context_def split: option.splits)

lemma stored_extension_same: "same_config a b \<Longrightarrow> stored_extension a n = stored_extension b n"
  by (simp add: stored_extension_norm same_config_def)

lemma LoadExtension_stored:
  "LoadExtension k c p = (case getConfigContextInfo c p of Inl e \<Rightarrow> Inl e
     | Inr (n, cl, us) \<Rightarrow> (case stored_extension (cf_APIConfig c) n of
          None \<Rightarrow> Inr (c\<lparr>cf_Extension := SetVersion new_Extension\<rparr>)
        | Some u \<Rightarrow> (case kx_unmarshal k (un_raw u) of
             Inl e \<Rightarrow> Inl (PlainErr (''failed to unmarshal extension: '' @ e))
           | Inr x \<Rightarrow> Inr (c\<lparr>cf_Extension := x\<rparr>))))"
  by (simp add: LoadExtension_def stored_extension_def Let_def split: sum.splits option.splits prod.splits)

lemma Persist_None:
  assumes "Persist k p c w = (None, c', w')"
  obtains n cl us raw where "getConfigContextInfo c p = Inr (n, cl, us)" and "kx_marshal k (cf_Extension c) = Inr raw"
    and "cf_APIConfig c' = (cf_APIConfig c)\<lparr>ac_Contexts := fmupd n (with_extension (config_context (cf_APIConfig c) n cl us)
       \<lparr>un_apiVersion = ex_apiVersion (cf_Extension c), un_kind = ex_kind (cf_Extension c), un_raw = raw\<rparr>) (ac_Contexts (cf_APIConfig c))\<rparr>"
    and "kx_modify k (cf_ConfigAccess c) (cf_APIConfig c') w = (None, w')" and "cf_Extension c' = cf_Extension c"
proof -
  obtain n cl us where g: "getConfigContextInfo c p = Inr (n, cl, us)"
    using assms by (auto simp: Persist_def split: sum.splits)
  obtain raw where m: "kx_marshal k (cf_Extension c) = Inr raw"
    using assms g by (auto simp: Persist_def Let_def split: sum.splits)
  let ?kc = "config_context (cf_APIConfig c) n cl us"
  have "with_extension (?kc\<lparr>kc_Extensions := Some (case kc_Extensions ?kc of None \<Rightarrow> fmempty | Some m \<Rightarrow> m)\<rparr>) u = with_extension ?kc u" for u
    by (simp add: with_extension_def split: option.splits)
  then show thesis using that [OF g m] assms g m by (auto simp: Persist_def Let_def split: prod.splits)
qed

lemma Persist_stores:
  assumes "Persist k p c w = (None, c', w')" and "kube_faithful k" and "extension_json k"
    and "getConfigContextInfo c p = Inr (n, cl, us)" and "kx_load k (cf_ConfigAccess c) w' = Inr ac"
  shows "\<exists>u. stored_extension ac n = Some u \<and> kx_unmarshal k (un_raw u) = Inr (cf_Extension c)"
proof -
  obtain raw where m: "kx_marshal k (cf_Extension c) = Inr raw"
    and a: "cf_APIConfig c' = (cf_APIConfig c)\<lparr>ac_Contexts := fmupd n (with_extension (config_context (cf_APIConfig c) n cl us)
       \<lparr>un_apiVersion = ex_apiVersion (cf_Extension c), un_kind = ex_kind (cf_Extension c), un_raw = raw\<rparr>) (ac_Contexts (cf_APIConfig c))\<rparr>"
    and w: "kx_modify k (cf_ConfigAccess c) (cf_APIConfig c') w = (None, w')"
    by (rule Persist_None [OF assms(1)]) (use assms(4) in auto)
  have "same_config ac (cf_APIConfig c')" using assms(2,5) w unfolding kube_faithful_def by fastforce
  then have "stored_extension ac n = Some \<lparr>un_apiVersion = ex_apiVersion (cf_Extension c), un_kind = ex_kind (cf_Extension c), un_raw = raw\<rparr>"
    by (simp add: stored_extension_same, simp add: stored_extension_def a with_extension_def)
  then show ?thesis using assms(3) m by (auto simp: extension_json_def)
qed

lemma NewConfig_Inr:
  assumes "NewConfig k p w = Inr c"
  obtains ac ctx rc c0 where "kx_load k (pa_kubeConfigPath p) w = Inr ac"
    and "kx_client_config k ac ctx = Inr rc"
    and "LoadExtension k c0 p = Inr (c\<lparr>cf_ClientConfig := None\<rparr>)" and "cf_APIConfig c0 = ac" and "cf_APIConfig c = ac"
    and "cf_RESTConfig c = Some rc" and "cf_ConfigAccess c = pa_kubeConfigPath p" and "cf_ClientConfig c \<noteq> None"
    and "LoadClientConfig k (c\<lparr>cf_ClientConfig := None\<rparr>) = Inr c"
proof -
  obtain ac where ac: "kx_load k (pa_kubeConfigPath p) w = Inr ac" using assms by (auto simp: NewConfig_def split: sum.splits)
  define ctx where "ctx = (if pa_kubeContext p = [] then ac_CurrentContext ac else pa_kubeContext p)"
  obtain rc where rc: "kx_client_config k ac ctx = Inr rc"
    using assms ac by (auto simp: NewConfig_def ctx_def Let_def split: sum.splits if_splits)
  define c0 where "c0 = \<lparr>cf_ConfigAccess = pa_kubeConfigPath p, cf_APIConfig = ac, cf_RESTConfig = Some rc,
    cf_ClientConfig = None :: 'c client_config option, cf_Extension = new_Extension\<rparr>"
  obtain c1 where c1: "LoadExtension k c0 p = Inr c1" "LoadClientConfig k c1 = Inr c"
    using assms ac rc by (auto simp: NewConfig_def ctx_def c0_def Let_def split: sum.splits if_splits)
  have "\<exists>x. c1 = c0\<lparr>cf_Extension := x\<rparr>"
    using c1(1) by (auto simp: LoadExtension_stored split: sum.splits option.splits)
  moreover have "\<exists>x. c = c1\<lparr>cf_ClientConfig := Some x\<rparr>"
    using c1(2) by (auto simp: LoadClientConfig_def Let_def split: option.splits sum.splits)
  ultimately have "c1 = c\<lparr>cf_ClientConfig := None\<rparr>" "cf_APIConfig c = ac" "cf_RESTConfig c = Some rc"
      "cf_ConfigAccess c = pa_kubeConfigPath p" "cf_ClientConfig c \<noteq> None"
    by (auto simp: c0_def)
  then show thesis using that [OF ac rc] c1 by (simp add: c0_def)
qed

lemma config_Set_None:
  assumes "config_Set k pr p c w = (None, c', w')"
  obtains e where "Persist k p (c\<lparr>cf_Extension := e\<rparr>) w = (None, c', w')"
    and "(if pr then set_prompted k c else (None, set_from_flags p (cf_Extension c))) = (None, e)"
  using assms by (auto simp: config_Set_def split: prod.splits option.splits if_splits)

lemma getConfigContextInfo_cong: "cf_APIConfig a = cf_APIConfig b \<Longrightarrow> getConfigContextInfo a p = getConfigContextInfo b p"
  by (simp add: getConfigContextInfo_def)

lemma same_name_loads:
  assumes "Persist k p (c\<lparr>cf_Extension := e\<rparr>) w = (None, c', w')" and "kube_faithful k" and "extension_json k"
    and "getConfigContextInfo c p = Inr (n, cl, us)" and "NewConfig k p2 w' = Inr c2"
    and "pa_kubeConfigPath p2 = cf_ConfigAccess c" and "getConfigContextInfo c2 p2 = Inr (n, cl2, us2)"
  shows "cf_Extension c2 = e"
proof -
  obtain ac c0 where l: "kx_load k (pa_kubeConfigPath p2) w' = Inr ac" "LoadExtension k c0 p2 = Inr (c2\<lparr>cf_ClientConfig := None\<rparr>)"
      "cf_APIConfig c0 = ac" "cf_APIConfig c2 = ac"
    by (rule NewConfig_Inr [OF assms(5)])
  have g: "getConfigContextInfo (c\<lparr>cf_Extension := e\<rparr>) p = Inr (n, cl, us)" "getConfigContextInfo c0 p2 = Inr (n, cl2, us2)"
    using assms(4,7) l(3,4) getConfigContextInfo_cong [of "c\<lparr>cf_Extension := e\<rparr>" c p] getConfigContextInfo_cong [of c0 c2 p2] by simp_all
  obtain u where "stored_extension ac n = Some u" "kx_unmarshal k (un_raw u) = Inr e"
    using Persist_stores [OF assms(1-3) g(1), of ac] l(1) assms(6) by auto
  then have "Inr (c0\<lparr>cf_Extension := e\<rparr>) = (Inr (c2\<lparr>cf_ClientConfig := None\<rparr>) :: ('a, 'b, 'c) cli_config res)"
    using l(2,3) g(2) by (simp add: LoadExtension_stored)
  then have "cf_Extension (c0\<lparr>cf_Extension := e\<rparr>) = cf_Extension (c2\<lparr>cf_ClientConfig := None\<rparr>)"
    by (metis sum.inject(2))
  then show ?thesis by simp
qed

text \<open>C35: The configuration set under one context of the kubeconfig is what every context of the same
  cluster and user loads afterwards, whatever namespace it has and whichever context is current: after a
  successful \<^verbatim>\<open>config set\<close>, the extension of any later configuration whose context leads to the same
  name is the extension that was set. The Kubernetes library reads back what it wrote.\<close>

theorem config_set_is_loaded:
  assumes "kube_faithful k" and "extension_json k"
    and "config_Set k pr p c w = (None, c', w')" and "getConfigContextInfo c p = Inr (n, cl, us)"
    and "NewConfig k p2 w' = Inr c2" and "pa_kubeConfigPath p2 = cf_ConfigAccess c"
    and "getConfigContextInfo c2 p2 = Inr (n, cl2, us2)"
  shows "cf_Extension c2 = cf_Extension c'"
proof -
  obtain e where p: "Persist k p (c\<lparr>cf_Extension := e\<rparr>) w = (None, c', w')" by (rule config_Set_None [OF assms(3)])
  have "cf_Extension c' = e" by (rule Persist_None [OF p]) simp
  then show ?thesis using same_name_loads [OF p assms(1,2,4-7)] by simp
qed

text \<open>Writing the configuration leaves every other context and the choice of the current one alone.\<close>

theorem persist_frame:
  assumes "Persist k p c w = (e, c', w')" and "getConfigContextInfo c p = Inr (n, cl, us)" and "m \<noteq> n"
  shows "fmlookup (ac_Contexts (cf_APIConfig c')) m = fmlookup (ac_Contexts (cf_APIConfig c)) m
    \<and> ac_CurrentContext (cf_APIConfig c') = ac_CurrentContext (cf_APIConfig c)"
  using assms by (auto simp: Persist_def Let_def split: sum.splits prod.splits)

subsection \<open>The client of a command\<close>

lemma extended_host: "ex_Host e \<noteq> [] \<Longrightarrow> rc_Host (extended_config rc e) = ex_Host e"
  by (auto simp: extended_config_def Let_def split: option.splits sum.splits)

lemma extended_token:
  "rc_BearerToken (extended_config rc e) = (if ex_Token e \<noteq> [] then ex_Token e else rc_BearerToken rc)"
  "rc_BearerTokenFile (extended_config rc e) = rc_BearerTokenFile rc"
  by (auto simp: extended_config_def Let_def split: option.splits sum.splits)

text \<open>A client is only built for a host the user configured: when no connection flag is given and a
  command gets a client, its URL comes from a REST configuration whose host is the host of the stored
  extension, and whose token is the stored one or, if none is stored, the token of the kubeconfig.\<close>

theorem client_uses_configured_host:
  assumes "InitClient k w p fs = Inr cl" and "\<not> ServerConnectionFlagsChanged fs"
  shows "\<exists>c rc rc'. NewConfig k p w = Inr c \<and> cf_RESTConfig c = Some rc \<and> ex_Host (cf_Extension c) \<noteq> []
    \<and> kx_server_url k rc' = Inr (cc_URL cl) \<and> rc_Host rc' = ex_Host (cf_Extension c)
    \<and> rc_BearerToken rc' = (if ex_Token (cf_Extension c) \<noteq> [] then ex_Token (cf_Extension c) else rc_BearerToken rc)"
proof -
  obtain c where c: "NewConfig k p w = Inr c" and v: "config_Validate c = None" and n: "NewRESTClient k (cf_ClientConfig c) = Inr cl"
    using assms by (auto simp: InitClient_def split: sum.splits option.splits)
  obtain rc where r: "cf_RESTConfig c = Some rc" "LoadClientConfig k (c\<lparr>cf_ClientConfig := None\<rparr>) = Inr c"
    by (rule NewConfig_Inr [OF c])
  have h: "ex_Host (cf_Extension c) \<noteq> []" using v by (auto simp: config_Validate_def split: if_splits)
  have cl: "cf_ClientConfig c = Some cl" using n by (auto simp: NewRESTClient_def split: option.splits)
  let ?x = "extended_config rc (cf_Extension c)"
  obtain tc u where u: "kx_server_url k (?x\<lparr>rc_APIPath := Join [rc_APIPath ?x, Path]\<rparr>) = Inr u"
      "c\<lparr>cf_ClientConfig := Some \<lparr>cc_URL = u, cc_Timeout = rc_Timeout rc, cc_Transport = tc\<rparr>\<rparr> = c"
    using r by (auto simp: LoadClientConfig_def Let_def split: sum.splits)
  have "cf_ClientConfig (c\<lparr>cf_ClientConfig := Some \<lparr>cc_URL = u, cc_Timeout = rc_Timeout rc, cc_Transport = tc\<rparr>\<rparr>) = cf_ClientConfig c"
    by (subst u(2)) (rule refl)
  then have "cc_URL cl = u" using cl by auto
  then show ?thesis using c r(1) h u(1) extended_host [OF h, of rc] extended_token(1) [of rc "cf_Extension c"]
    by (intro exI [where x = c] exI [where x = rc] exI [where x = "?x\<lparr>rc_APIPath := Join [rc_APIPath ?x, Path]\<rparr>"]) simp
qed

text \<open>Any connection flag needs the host and the token.\<close>

theorem direct_flags_need_host_and_token:
  assumes "ServerConnectionFlagsChanged fs" and "InitClient k w p fs = Inr cl"
  shows "pa_host p \<noteq> [] \<and> pa_token p \<noteq> [] \<and> cc_Timeout cl = 60 * 1000000000"
  using assms by (auto simp: InitClient_def BuildDirectClientConfig_def NewRESTClient_def Let_def
      split: sum.splits if_splits option.splits)

text \<open>After a reset every command of a context of that cluster and user asks for the configuration.\<close>

theorem reset_forgets_the_host:
  assumes "kube_faithful k" and "extension_json k"
    and "config_Reset k p c w = (None, c', w')" and "getConfigContextInfo c p = Inr (n, cl, us)"
    and "\<not> ServerConnectionFlagsChanged fs" and "pa_kubeConfigPath p2 = cf_ConfigAccess c"
    and "\<And>c2. NewConfig k p2 w' = Inr c2 \<Longrightarrow> \<exists>cl2 us2. getConfigContextInfo c2 p2 = Inr (n, cl2, us2)"
  shows "\<exists>e. InitClient k w' p2 fs = Inl e"
proof (cases "InitClient k w' p2 fs")
  case (Inr r)
  then obtain c2 where c2: "NewConfig k p2 w' = Inr c2" "config_Validate c2 = None"
    using assms(5) by (auto simp: InitClient_def split: sum.splits option.splits)
  then have "cf_Extension c2 = SetVersion new_Extension"
    using same_name_loads [OF assms(3) [unfolded config_Reset_def] assms(1,2,4) c2(1) assms(6)] assms(7) by blast
  then show ?thesis using c2(2) by (simp add: config_Validate_def SetVersion_def new_Extension_def split: if_splits)
qed blast

text \<open>The timeout of the extension never reaches the client: it waits as long as the kubeconfig says.\<close>

theorem extension_timeout_is_ignored:
  assumes "NewConfig k p w = Inr c"
  shows "map_option cc_Timeout (cf_ClientConfig c) = map_option rc_Timeout (cf_RESTConfig c)"
proof -
  obtain rc where r: "cf_RESTConfig c = Some rc" "LoadClientConfig k (c\<lparr>cf_ClientConfig := None\<rparr>) = Inr c"
    by (rule NewConfig_Inr [OF assms])
  then obtain u tc where "c\<lparr>cf_ClientConfig := Some \<lparr>cc_URL = u, cc_Timeout = rc_Timeout rc, cc_Transport = tc\<rparr>\<rparr> = c"
    by (auto simp: LoadClientConfig_def Let_def split: sum.splits)
  from arg_cong [OF this, of cf_ClientConfig]
  have "cf_ClientConfig c = Some \<lparr>cc_URL = u, cc_Timeout = rc_Timeout rc, cc_Transport = tc\<rparr>" by simp
  then show ?thesis using r(1) by simp
qed

text \<open>A duration that can be read is dropped, and one that cannot be read switches the timeout off.\<close>

theorem extension_timeout_inverted:
  "rc_Timeout (extended_config rc e) = (case time_ParseDuration (ex_Timeout e) of Inl _ \<Rightarrow> 0 | Inr _ \<Rightarrow> rc_Timeout rc)"
  by (auto simp: extended_config_def Let_def split: option.splits sum.splits)

text \<open>The flag cannot switch the verification of certificates on again.\<close>

theorem skip_tls_verify_sticks:
  assumes "config_Set k False p c w = (None, c', w')" and "\<not> pa_skipTLSVerify p"
  shows "ex_InsecureSkipTLSVerify (cf_Extension c') = ex_InsecureSkipTLSVerify (cf_Extension c)"
proof -
  obtain e where p: "Persist k p (c\<lparr>cf_Extension := e\<rparr>) w = (None, c', w')" and e: "set_from_flags p (cf_Extension c) = e"
    by (rule config_Set_None [OF assms(1)]) simp
  have "cf_Extension c' = e" by (rule Persist_None [OF p]) simp
  moreover have "ex_InsecureSkipTLSVerify (set_from_flags p x) = ex_InsecureSkipTLSVerify x" for x
    using assms(2) by (simp add: set_from_flags_def Let_def)
  ultimately show ?thesis using e by metis
qed

subsection \<open>Tokens\<close>

text \<open>A short-lived token is never stored by accepting what \<^verbatim>\<open>config set\<close> offers: for a context whose
  credentials are produced at request time, the user who accepts every default leaves no token in the
  stored extension.\<close>

theorem dynamic_token_not_stored:
  assumes "usesDynamicToken (cf_RESTConfig c)" and "\<And>m d. kx_ask k (PInput m (Some d)) = Inr d"
    and "config_Set k True p c w = (None, c', w')"
  shows "ex_Token (cf_Extension c') = []"
proof -
  obtain e where p: "Persist k p (c\<lparr>cf_Extension := e\<rparr>) w = (None, c', w')" and e: "set_prompted k c = (None, e)"
    by (rule config_Set_None [OF assms(3)]) simp
  have "cf_Extension c' = e" by (rule Persist_None [OF p]) simp
  moreover have "ex_Token e = []"
    using e assms(1,2) by (auto simp: set_prompted_def ask_field_def config_Prompt_def tokenPromptDefault_def split: sum.splits)
  ultimately show ?thesis by simp
qed

subsection \<open>The host\<close>

text \<open>What is offered as the host is the route of the cluster's domain, reachable, with https first.\<close>

theorem detected_host_is_reachable:
  assumes "config_Host k c = url" and "url \<noteq> []"
  shows "\<exists>rc d. cf_RESTConfig c = Some rc \<and> extractClusterDomain k (rc_Host rc) = Inr d \<and> isURLReachable k url
    \<and> (url = route_url ''https'' d \<or> url = route_url ''http'' d \<and> \<not> isURLReachable k (route_url ''https'' d))"
  using assms by (auto simp: config_Host_def getHostURL_def tryConnectToRoute_def
      split: option.splits sum.splits platform_type.splits if_splits)

theorem cluster_domain_of_api_host:
  assumes "kx_parse_url k u = Inr (scheme, ''api.'' @ d)" and "u \<noteq> []"
  shows "extractClusterDomain k u = Inr d"
  using assms strip_prefix_append [of "''api.''" d] by (simp add: extractClusterDomain_def)

subsection \<open>A sample kubeconfig\<close>

definition demo_extension :: extension where
  "demo_extension = \<lparr>ex_apiVersion = ''results.tekton.dev/v1alpha2'', ex_kind = ''Client'', ex_APIPath = [],
     ex_Host = ''https://h'', ex_Token = [], ex_Timeout = [], ex_InsecureSkipTLSVerify = []\<rparr>"

definition demo_prompted_extension :: extension where
  "demo_prompted_extension = demo_extension\<lparr>ex_Host := [], ex_InsecureSkipTLSVerify := ''false''\<rparr>"

definition demo_kube_env :: "(unit, unit, unit, unit kube_config) kube_env" where
  "demo_kube_env = \<lparr>kx_load = (\<lambda>path w. Inr w), kx_modify = (\<lambda>path ac w. (None, ac)),
     kx_client_config = (\<lambda>ac ctx. Inr \<lparr>rc_Host = ''https://api.c'', rc_APIPath = [], rc_BearerToken = [], rc_BearerTokenFile = [],
       rc_AuthProvider = False, rc_ExecProvider = True, rc_TLS = no_tls, rc_Timeout = 7, rc_GroupVersion = None, rc_rest = ()\<rparr>),
     kx_namespace = (\<lambda>path ctx w. Inr ''default''), kx_transport = (\<lambda>rc. Inr ()),
     kx_server_url = (\<lambda>rc. Inr (rc_Host rc, ''/'' @ rc_APIPath rc)), kx_transport_new = (\<lambda>t. None),
     kx_marshal = (\<lambda>e. if e = demo_extension then Inr ''set'' else if e = demo_prompted_extension then Inr ''prompted''
       else Inl ''unsupported''),
     kx_unmarshal = (\<lambda>s. if s = ''set'' then Inr demo_extension else if s = ''prompted'' then Inr demo_prompted_extension
       else Inl ''unsupported''),
     kx_ask = (\<lambda>q. case q of PInput m (Some d) \<Rightarrow> Inr d | PInput m None \<Rightarrow> Inr [] | PSelect m os \<Rightarrow> Inr (hd os)),
     kx_new_discovery = (\<lambda>rc. None), kx_server_groups = (\<lambda>rc. Inr []), kx_parse_url = (\<lambda>u. Inr (''https'', u)),
     kx_dial = (\<lambda>a. None), kx_print = (\<lambda>e. Inr (ex_Host e)), kx_empty_rest = ()\<rparr>"

definition demo_kubeconfig :: "unit kube_config" where
  "demo_kubeconfig = \<lparr>ac_Contexts = fmupd ''dev'' \<lparr>kc_Cluster = ''c'', kc_AuthInfo = ''ann/c'', kc_Namespace = ''dev'', kc_Extensions = None\<rparr>
       (fmupd ''prod'' \<lparr>kc_Cluster = ''c'', kc_AuthInfo = ''ann/c'', kc_Namespace = ''prod'', kc_Extensions = None\<rparr> fmempty),
     ac_CurrentContext = ''dev'', ac_rest = ()\<rparr>"

definition demo_params :: "string \<Rightarrow> string \<Rightarrow> results_params" where
  "demo_params ctx h = \<lparr>pa_kubeConfigPath = ''f'', pa_kubeContext = ctx, pa_namespace = ''default'', pa_host = h, pa_token = [],
     pa_apiPath = [], pa_skipTLSVerify = False\<rparr>"

lemma demo_kube_faithful: "kube_faithful demo_kube_env" "extension_json demo_kube_env"
  by (simp_all add: demo_kube_env_def kube_faithful_def extension_json_def same_config_def)

theorem config_set_is_loaded_witness:
  "\<exists>w' c2. NewConfig demo_kube_env (demo_params ''prod'' []) w' = Inr c2 \<and> ex_Host (cf_Extension c2) = ''https://h''"
proof -
  let ?k = demo_kube_env and ?p = "demo_params ''dev'' '' https://h ''" and ?q = "demo_params ''prod'' []"
  have "is_ok (NewConfig ?k ?p demo_kubeconfig)" by code_simp
  then obtain c where c: "NewConfig ?k ?p demo_kubeconfig = Inr c" by (auto simp: is_ok_iff)
  let ?s = "config_Set ?k False ?p (projr (NewConfig ?k ?p demo_kubeconfig)) demo_kubeconfig"
  let ?n = "''tekton-results-config/c/ann''"
  have r: "fst ?s = None" "ex_Host (cf_Extension (fst (snd ?s))) = ''https://h''"
    "getConfigContextInfo (projr (NewConfig ?k ?p demo_kubeconfig)) ?p = Inr (?n, ''c'', ''ann'')"
    "is_ok (NewConfig ?k ?q (snd (snd ?s)))"
    "getConfigContextInfo (projr (NewConfig ?k ?q (snd (snd ?s)))) ?q = Inr (?n, ''c'', ''ann'')"
    "cf_ConfigAccess (projr (NewConfig ?k ?p demo_kubeconfig)) = ''f''"
    by code_simp+
  obtain c2 where c2: "NewConfig ?k ?q (snd (snd ?s)) = Inr c2" using r(4) by (auto simp: is_ok_iff)
  have s: "config_Set ?k False ?p (projr (NewConfig ?k ?p demo_kubeconfig)) demo_kubeconfig = (None, fst (snd ?s), snd (snd ?s))"
    using r(1) by (metis prod.collapse)
  have "cf_Extension c2 = cf_Extension (fst (snd ?s))"
    using config_set_is_loaded [OF demo_kube_faithful s r(3) c2] r(5,6) c2 by (simp add: demo_params_def)
  then have "ex_Host (cf_Extension c2) = ''https://h''" unfolding r(2) [symmetric] by (rule arg_cong)
  then show ?thesis using c2 by blast
qed

theorem dynamic_token_not_stored_witness:
  "\<exists>c c' w'. config_Set demo_kube_env True (demo_params ''dev'' []) c demo_kubeconfig = (None, c', w') \<and> ex_Token (cf_Extension c') = []"
proof -
  let ?p = "demo_params ''dev'' []"
  let ?c = "projr (NewConfig demo_kube_env ?p demo_kubeconfig)"
  let ?s = "config_Set demo_kube_env True ?p ?c demo_kubeconfig"
  have "fst ?s = None" "usesDynamicToken (cf_RESTConfig ?c)" by code_simp+
  moreover have "kx_ask demo_kube_env (PInput m (Some d)) = Inr d" for m d by (simp add: demo_kube_env_def)
  ultimately show ?thesis using dynamic_token_not_stored [of ?c demo_kube_env ?p demo_kubeconfig "fst (snd ?s)" "snd (snd ?s)"]
    by (metis prod.collapse)
qed

theorem client_uses_configured_host_witness:
  "\<exists>w cl. InitClient demo_kube_env w (demo_params ''dev'' []) fmempty = Inr cl \<and> fst (cc_URL cl) = ''https://h''"
proof -
  let ?k = demo_kube_env and ?p = "demo_params ''dev'' ''https://h''" and ?q = "demo_params ''dev'' []"
  let ?w = "snd (snd (config_Set ?k False ?p (projr (NewConfig ?k ?p demo_kubeconfig)) demo_kubeconfig))"
  have "is_ok (InitClient ?k ?w ?q fmempty)" "\<not> ServerConnectionFlagsChanged fmempty"
    "ex_Host (cf_Extension (projr (NewConfig ?k ?q ?w))) = ''https://h''" by code_simp+
  then obtain cl where cl: "InitClient ?k ?w ?q fmempty = Inr cl" by (auto simp: is_ok_iff)
  obtain c rc' where c: "NewConfig ?k ?q ?w = Inr c" "kx_server_url ?k rc' = Inr (cc_URL cl)" "rc_Host rc' = ex_Host (cf_Extension c)"
    using client_uses_configured_host [OF cl] \<open>\<not> ServerConnectionFlagsChanged fmempty\<close> by blast
  have "kx_server_url ?k r = Inr (rc_Host r, ''/'' @ rc_APIPath r)" for r by (simp add: demo_kube_env_def)
  then have "cc_URL cl = (ex_Host (cf_Extension c), ''/'' @ rc_APIPath rc')" using c(2,3) by (metis sum.inject(2))
  then have "fst (cc_URL cl) = ex_Host (cf_Extension (projr (NewConfig ?k ?q ?w)))" using c(1) by simp
  then show ?thesis using cl \<open>ex_Host _ = _\<close> by (intro exI conjI) (rule cl, simp only:)
qed

end
