(* ===== verification/ApiMain.thy ===== *)
theory ApiMain
  imports PluginLogs TlsConfig Features
begin

text \<open>
  The start-up of the API server (\<^verbatim>\<open>cmd/api/main.go\<close>, \<^verbatim>\<open>v1alpha2/server.go\<close>,
  \<^verbatim>\<open>v1alpha2/handlers.go\<close>, \<^verbatim>\<open>db/log_level.go\<close>): from the configuration to the server that
  is left serving, through the feature gates, the TLS settings, the guards on the database settings, the
  attempts to connect, the choice of the authorization checker, the construction of the log plugin and the
  registration of the services. What the operating system, the database, the cluster and the gRPC library
  answer on the way is the record \<open>api_outside\<close>. \<^verbatim>\<open>log.Fatal\<close> ends the process with a message. What is
  served is described by the record \<open>api_server\<close>; the connections and listeners themselves, the
  metrics and the log output are not modelled.
\<close>

subsection \<open>Configuration and outside\<close>

record server_config =
  sc_DB_USER :: string
  sc_DB_PASSWORD :: string
  sc_DB_HOST :: string
  sc_DB_PORT :: string
  sc_DB_NAME :: string
  sc_DB_SSLMODE :: string
  sc_DB_SSLROOTCERT :: string
  sc_DB_ENABLE_AUTO_MIGRATION :: bool
  sc_DB_MAX_IDLE_CONNECTIONS :: int
  sc_DB_MAX_OPEN_CONNECTIONS :: int
  sc_SERVER_PORT :: string
  sc_SQL_LOG_LEVEL :: string
  sc_TLS_PATH :: string
  sc_TLS_MIN_VERSION :: string
  sc_TLS_CIPHER_SUITES :: string
  sc_TLS_CURVE_PREFERENCES :: string
  sc_FEATURE_GATES :: string
  sc_GRPC_WORKER_POOL :: int
  sc_AUTH_DISABLE :: bool
  sc_AUTH_IMPERSONATE :: bool
  sc_LOGS_API :: bool
  sc_PROFILING :: bool
  sc_PROFILING_PORT :: string
  sc_CONVERTER_ENABLE :: bool
  sc_CONVERTER_DB_LIMIT :: int
  sc_plugin :: plugin_config

text \<open>One attempt to reach the database. A failed ping also sees whether the time is over.\<close>

datatype attempt = OpenFails string | HandleFails string | PingFails string "string option" | Connected

record api_outside =
  ao_getenv :: "string \<Rightarrow> string"
  ao_suites :: suites
  ao_key_pair :: "string \<Rightarrow> string \<Rightarrow> string option"
  ao_attempts :: "attempt list"
  ao_db_handle :: "string option"
  ao_in_cluster :: "string option"
  ao_clientset :: "string option"
  ao_cel_envs :: "string option \<times> string option \<times> string option"
  ao_auto_migrate :: "string option"
  ao_dial :: "string option"
  ao_register_results :: "string option"
  ao_register_logs :: "string option"

datatype checker = CheckAllowAll | CheckRBAC bool

record api_server =
  sv_checker :: checker
  sv_services :: "string list"
  sv_health :: "string list"
  sv_gateway :: "string list"
  sv_plugin :: LogServer
  sv_partial_response :: bool
  sv_header_matcher :: bool
  sv_tls :: "tls_settings option"
  sv_profiling :: "string option"
  sv_address :: string
  sv_dsn :: string
  sv_max_open :: "int option"
  sv_max_idle :: "int option"
  sv_stream_workers :: "32 word option"
  sv_converter :: "int option"

datatype start = Fatal string | StartPanic | Serving api_server

subsection \<open>Parts of the start-up\<close>

definition profilingServerAddress :: "string \<Rightarrow> string" where
  "profilingServerAddress port = ''127.0.0.1:'' @ port"

definition default_tls :: tls_settings where
  "default_tls = \<lparr>tc_MinVersion = 0, tc_CipherSuites = [], tc_CurvePreferences = [], tc_NextProtos = [''h2'', ''http/1.1'']\<rparr>"

text \<open>The environment, if it sets anything about TLS, replaces the configuration file altogether.\<close>

definition server_tls :: "api_outside \<Rightarrow> server_config \<Rightarrow> tls_settings" where
  "server_tls x c =
     (let tlsConf = (if HasEnvOverrides (ao_getenv x) then LoadFromEnv (ao_getenv x)
                     else tls_New (sc_TLS_MIN_VERSION c) (sc_TLS_CIPHER_SUITES c) (sc_TLS_CURVE_PREFERENCES c))
      in case ToTLSConfig (ao_suites x) tlsConf of Inl _ \<Rightarrow> default_tls | Inr t \<Rightarrow> t)"

definition serving_tls :: "api_outside \<Rightarrow> server_config \<Rightarrow> tls_settings option" where
  "serving_tls x c =
     (case ao_key_pair x (Join [sc_TLS_PATH c, ''tls.crt'']) (Join [sc_TLS_PATH c, ''tls.key'']) of
        Some _ \<Rightarrow> None
      | None \<Rightarrow> Some (server_tls x c))"

definition needs_root_cert :: "string \<Rightarrow> bool" where
  "needs_root_cert m = (m = ''require'' \<or> m = ''verify-ca'' \<or> m = ''verify-full'')"

definition database_guard :: "server_config \<Rightarrow> string option" where
  "database_guard c =
     (if sc_DB_USER c = [] \<or> sc_DB_PASSWORD c = [] then Some ''Must provide both DB_USER and DB_PASSWORD''
      else if needs_root_cert (sc_DB_SSLMODE c) \<and> sc_DB_SSLROOTCERT c = []
      then Some (''DB_SSLROOTCERT can'' @ [squote] @ ''t be empty when DB_SSLMODE='' @ sc_DB_SSLMODE c)
      else None)"

definition db_uri :: "server_config \<Rightarrow> string" where
  "db_uri c = ''host='' @ sc_DB_HOST c @ '' user='' @ sc_DB_USER c @ '' password='' @ sc_DB_PASSWORD c
     @ '' dbname='' @ sc_DB_NAME c @ '' port='' @ sc_DB_PORT c @ '' sslmode='' @ sc_DB_SSLMODE c
     @ '' sslrootcert='' @ sc_DB_SSLROOTCERT c"

text \<open>The log level of SQL: the level is looked up and the logger with that level is thrown away. The
  second component is the level of the default logger.\<close>

datatype sql_level = SqlSilent | SqlError | SqlWarn | SqlInfo

definition logLevel :: "string \<Rightarrow> sql_level option" where
  "logLevel level = map_of [(''silent'', SqlSilent), (''error'', SqlError), (''warn'', SqlWarn), (''info'', SqlInfo)] level"

definition LogMode :: "sql_level \<Rightarrow> sql_level \<Rightarrow> sql_level" where
  "LogMode default_level level = level"

definition SetLogLevel :: "string \<Rightarrow> sql_level \<Rightarrow> string option \<times> sql_level" where
  "SetLogLevel level default_level =
     (case logLevel level of
        None \<Rightarrow> (Some ''undefined log level for sql'', default_level)
      | Some l \<Rightarrow> (let unused = LogMode default_level l in (None, default_level)))"

text \<open>
  The polling of the database: the attempts that fit into the two minutes, in order. A failed attempt is
  repeated unless the time was over at the ping; without attempts left the time is over.
\<close>

fun connect :: "attempt list \<Rightarrow> string option" where
  "connect [] = Some ''context deadline exceeded''"
| "connect (Connected # as) = None"
| "connect (PingFails e (Some over) # as) = Some over"
| "connect (a # as) = connect as"

text \<open>The limits of the connection pool; reading the handle may fail.\<close>

definition pool_limit :: "api_outside \<Rightarrow> int \<Rightarrow> string + int option" where
  "pool_limit x n =
     (if n > 0
      then (case ao_db_handle x of
              Some e \<Rightarrow> Inl (''Error getting database configuration for updating max open connections: '' @ e)
            | None \<Rightarrow> Inr (Some n))
      else Inr None)"

definition stream_workers :: "int \<Rightarrow> 32 word option" where
  "stream_workers n = (if n > 2 then Some (word_of_int n) else None)"

text \<open>The checker, and whether the gateway passes the impersonation headers on.\<close>

definition auth_checker :: "api_outside \<Rightarrow> server_config \<Rightarrow> string + checker \<times> bool" where
  "auth_checker x c =
     (if sc_AUTH_DISABLE c then Inr (CheckAllowAll, False)
      else (case ao_in_cluster x of
              Some e \<Rightarrow> Inl (''Error getting kubernetes client config:'' @ e)
            | None \<Rightarrow>
                (case ao_clientset x of
                   Some e \<Rightarrow> Inl (''Error creating kubernetes clientset:'' @ e)
                 | None \<Rightarrow> Inr (CheckRBAC (sc_AUTH_IMPERSONATE c), sc_AUTH_IMPERSONATE c))))"

text \<open>\<^verbatim>\<open>v1alpha2.New\<close> with its options: the checker is open until an option sets it.\<close>

definition v1alpha2_New :: "api_outside \<Rightarrow> server_config \<Rightarrow> (checker \<Rightarrow> checker) list \<Rightarrow> string + checker \<times> LogServer" where
  "v1alpha2_New x c opts =
     (case ao_cel_envs x of
        (Some e, _, _) \<Rightarrow> Inl (''failed to create CEL environment: '' @ e)
      | (None, Some e, _) \<Rightarrow> Inl e
      | (None, None, Some e) \<Rightarrow> Inl e
      | (None, None, None) \<Rightarrow>
          (let srv = fold (\<lambda>opt s. opt s) opts CheckAllowAll in
           case (if sc_DB_ENABLE_AUTO_MIGRATION c then ao_auto_migrate x else None) of
             Some e \<Rightarrow> Inl (''error automigrating DB: '' @ e)
           | None \<Rightarrow>
               (case NewLogServer (sc_plugin c) of
                  Inl e \<Rightarrow> Inl (''failed to create log plugin server: '' @ error_msg e)
                | Inr p \<Rightarrow> Inr (srv, p))))"

definition WithAuth :: "checker \<Rightarrow> checker \<Rightarrow> checker" where
  "WithAuth c srv = c"

definition IsLogPluginEnabled :: "LogServer \<Rightarrow> bool" where
  "IsLogPluginEnabled s = (ls_getLog s \<noteq> None)"

definition log_services :: "server_config \<Rightarrow> LogServer \<Rightarrow> string list" where
  "log_services c p =
     (if sc_LOGS_API c \<and> \<not> IsLogPluginEnabled p then [''tekton.results.v1alpha2.Logs'']
      else if sc_LOGS_API c \<and> IsLogPluginEnabled p then [''tekton.results.v1alpha3.Logs'']
      else [])"

definition gateway_services :: "server_config \<Rightarrow> LogServer \<Rightarrow> string list" where
  "gateway_services c p =
     ''tekton.results.v1alpha2.Results''
     # (if sc_LOGS_API c \<and> \<not> IsLogPluginEnabled p then [''tekton.results.v1alpha2.Logs''] else [])"

subsection \<open>The whole start-up\<close>

definition serve_config ::
  "api_outside \<Rightarrow> server_config \<Rightarrow> featureGate \<Rightarrow> int option \<Rightarrow> int option \<Rightarrow> bool \<Rightarrow> checker \<Rightarrow> LogServer \<Rightarrow> api_server" where
  "serve_config x c f maxOpen maxIdle headers srv p =
     \<lparr>sv_checker = srv,
        sv_services = ''tekton.results.v1alpha2.Results'' # log_services c p,
        sv_health = ''tekton.results.v1alpha2.Results'' # log_services c p,
        sv_gateway = gateway_services c p,
        sv_plugin = p,
        sv_partial_response = (fg_Get f ''PartialResponse'' = Some True),
        sv_header_matcher = headers,
        sv_tls = serving_tls x c,
        sv_profiling = (if sc_PROFILING c then Some (profilingServerAddress (sc_PROFILING_PORT c)) else None),
        sv_address = '':'' @ sc_SERVER_PORT c,
        sv_dsn = db_uri c,
        sv_max_open = maxOpen,
        sv_max_idle = maxIdle,
        sv_stream_workers = stream_workers (sc_GRPC_WORKER_POOL c),
        sv_converter = (if sc_CONVERTER_ENABLE c then Some (sc_CONVERTER_DB_LIMIT c) else None)\<rparr>"

definition api_main :: "api_outside \<Rightarrow> server_config \<Rightarrow> start" where
  "api_main x c =
     (case fg_Set NewFeatureGate (sc_FEATURE_GATES c) of
        (None, _) \<Rightarrow> StartPanic
      | (Some _, f) \<Rightarrow>
     (case database_guard c of
        Some e \<Rightarrow> Fatal e
      | None \<Rightarrow>
     (case connect (ao_attempts x) of
        Some e \<Rightarrow> Fatal (''Failed to connect to database: '' @ e)
      | None \<Rightarrow>
     (case pool_limit x (sc_DB_MAX_OPEN_CONNECTIONS c) of
        Inl e \<Rightarrow> Fatal e
      | Inr maxOpen \<Rightarrow>
     (case pool_limit x (sc_DB_MAX_IDLE_CONNECTIONS c) of
        Inl e \<Rightarrow> Fatal e
      | Inr maxIdle \<Rightarrow>
     (case auth_checker x c of
        Inl e \<Rightarrow> Fatal e
      | Inr (authCheck, headers) \<Rightarrow>
     (case v1alpha2_New x c [WithAuth authCheck] of
        Inl e \<Rightarrow> Fatal (''Failed to create server: '' @ e)
      | Inr (srv, p) \<Rightarrow>
     (case ao_dial x of
        Some e \<Rightarrow> Fatal (''Error dialing gRPC endpoint: '' @ e)
      | None \<Rightarrow>
     (case ao_register_results x of
        Some e \<Rightarrow> Fatal (''Error registering gRPC server endpoint for Results API: '' @ e)
      | None \<Rightarrow>
     (case (if sc_LOGS_API c \<and> \<not> IsLogPluginEnabled p then ao_register_logs x else None) of
        Some e \<Rightarrow> Fatal (''Error registering gRPC server endpoints for Logs v1alpha2 API: '' @ e)
      | None \<Rightarrow>
          Serving (serve_config x c f maxOpen maxIdle headers srv p)))))))))))"

subsection \<open>Requests\<close>

datatype target = ToGrpc | ToGateway | ToPlugin

text \<open>\<^verbatim>\<open>v1alpha2.Handler\<close>: the pattern of the log routes against a path, the rest to the gateway.\<close>

definition is_log_route :: "string \<Rightarrow> bool" where
  "is_log_route path =
     (case split_on (CHR ''/'') path of
        [lead, apis, grp, v, parents, p, results, r, logs, d] \<Rightarrow>
          lead = [] \<and> apis = ''apis'' \<and> grp = ''results.tekton.dev'' \<and> (v = ''v1alpha2'' \<or> v = ''v1alpha3'')
          \<and> parents = ''parents'' \<and> results = ''results'' \<and> logs = ''logs'' \<and> p \<noteq> [] \<and> r \<noteq> [] \<and> d \<noteq> []
      | _ \<Rightarrow> False)"

definition http_Handler :: "LogServer option \<Rightarrow> string \<Rightarrow> target" where
  "http_Handler pluginServer path =
     (case pluginServer of
        Some p \<Rightarrow> if IsLogPluginEnabled p \<and> is_log_route path then ToPlugin else ToGateway
      | None \<Rightarrow> ToGateway)"

definition grpcHandler :: "nat \<Rightarrow> string \<Rightarrow> (string \<Rightarrow> target) \<Rightarrow> string \<Rightarrow> target" where
  "grpcHandler protoMajor contentType httpHandler path =
     (if protoMajor = 2 \<and> HasPrefix contentType ''application/grpc'' then ToGrpc else httpHandler path)"

definition recoveryHandler :: "string \<Rightarrow> go_error" where
  "recoveryHandler p = StatusErr Unknown (''Error: '' @ p)"

text \<open>The fields that \<^verbatim>\<open>determineAuth\<close> adds to the log of a request; it never refuses one. \<open>claims\<close> is the
  unverified reading of a token by the JWT library, with the printed subject and issuer.\<close>

definition determineAuth :: "(string \<Rightarrow> (string \<times> string) option) \<Rightarrow> string option \<Rightarrow> go_error option \<times> (string \<times> string) list" where
  "determineAuth claims tokenString =
     (case tokenString of
        None \<Rightarrow> (None, [(''grpc.user'', ''unknown'')])
      | Some t \<Rightarrow>
          (case claims t of
             None \<Rightarrow> (None, [(''grpc.user'', ''unknown'')])
           | Some (sub, iss) \<Rightarrow> (None, [(''grpc.user'', sub), (''grpc.issuer'', iss)])))"

subsection \<open>What a serving process is\<close>

lemma api_main_Serving:
  assumes "api_main x c = Serving sv"
  obtains f maxOpen maxIdle headers srv p where "database_guard c = None" and "connect (ao_attempts x) = None"
    and "auth_checker x c = Inr (srv, headers)" and "NewLogServer (sc_plugin c) = Inr p"
    and "sv = serve_config x c f maxOpen maxIdle headers srv p"
proof -
  have "\<exists>f maxOpen maxIdle headers srv srv' p. database_guard c = None \<and> connect (ao_attempts x) = None
      \<and> auth_checker x c = Inr (srv, headers) \<and> v1alpha2_New x c [WithAuth srv] = Inr (srv', p)
      \<and> sv = serve_config x c f maxOpen maxIdle headers srv' p"
    using assms by (auto simp: api_main_def split: option.splits sum.splits prod.splits if_splits)
  moreover have "srv' = srv \<and> NewLogServer (sc_plugin c) = Inr p" if "v1alpha2_New x c [WithAuth srv] = Inr (srv', p)" for srv srv' p
    using that by (auto simp: v1alpha2_New_def WithAuth_def Let_def split: option.splits sum.splits prod.splits)
  ultimately show thesis using that by blast
qed

lemma NewLogServer_getLog: "NewLogServer cfg = Inr p \<Longrightarrow> ls_getLog p = setLogPlugin cfg"
  by (auto simp: NewLogServer_def Let_def split: sum.splits if_splits)

lemma plugin_of_the_server:
  assumes "api_main x c = Serving sv"
  shows "IsLogPluginEnabled (sv_plugin sv) \<longleftrightarrow> setLogPlugin (sc_plugin c) \<noteq> None"
  by (rule api_main_Serving [OF assms]) (auto simp: IsLogPluginEnabled_def serve_config_def dest: NewLogServer_getLog)

text \<open>The server only ever serves what its configuration allows: it has a database user and password
  and a root certificate where the SSL mode needs one, it lets every request pass exactly when
  authorization was disabled, it honours impersonation exactly when that was asked for and authorization is
  on, and profiling listens on the loopback address only.\<close>

theorem serving_is_guarded:
  assumes "api_main x c = Serving sv"
  shows "sc_DB_USER c \<noteq> [] \<and> sc_DB_PASSWORD c \<noteq> []
    \<and> (needs_root_cert (sc_DB_SSLMODE c) \<longrightarrow> sc_DB_SSLROOTCERT c \<noteq> [])
    \<and> sv_checker sv = (if sc_AUTH_DISABLE c then CheckAllowAll else CheckRBAC (sc_AUTH_IMPERSONATE c))
    \<and> sv_header_matcher sv = (\<not> sc_AUTH_DISABLE c \<and> sc_AUTH_IMPERSONATE c)
    \<and> (\<forall>a. sv_profiling sv = Some a \<longrightarrow> prefix ''127.0.0.1:'' a)"
  by (rule api_main_Serving [OF assms])
    (auto simp: serve_config_def database_guard_def auth_checker_def profilingServerAddress_def split: if_splits option.splits)

text \<open>Exactly the registered services report themselves healthy; one of the two versions of the logs
  service is registered when the logs API is on, the plugin's exactly when a plugin backend is configured,
  and none when it is off; the gateway passes on only services that are registered.\<close>

theorem log_services_consistent:
  assumes "api_main x c = Serving sv"
  shows "sv_health sv = sv_services sv \<and> set (sv_gateway sv) \<subseteq> set (sv_services sv)
    \<and> (''tekton.results.v1alpha3.Logs'' \<in> set (sv_services sv) \<longleftrightarrow> sc_LOGS_API c \<and> setLogPlugin (sc_plugin c) \<noteq> None)
    \<and> (''tekton.results.v1alpha2.Logs'' \<in> set (sv_services sv) \<longleftrightarrow> sc_LOGS_API c \<and> setLogPlugin (sc_plugin c) = None)"
  by (rule api_main_Serving [OF assms])
    (use plugin_of_the_server [OF assms] in \<open>auto simp: serve_config_def log_services_def gateway_services_def\<close>)

text \<open>The log routes of the plugin do not look at the switch of the logs API.\<close>

theorem plugin_routes_ignore_the_switch:
  assumes "api_main x c = Serving sv" and "setLogPlugin (sc_plugin c) \<noteq> None" and "is_log_route path"
  shows "http_Handler (Some (sv_plugin sv)) path = ToPlugin"
  using plugin_of_the_server [OF assms(1)] assms(2,3) by (simp add: http_Handler_def)

text \<open>A key pair that cannot be loaded does not stop the server: it serves without TLS. With one, the
  settings come from the environment alone as soon as that sets any of them.\<close>

theorem tls_of_the_server:
  assumes "api_main x c = Serving sv"
  shows "(sv_tls sv = None \<longleftrightarrow> ao_key_pair x (Join [sc_TLS_PATH c, ''tls.crt'']) (Join [sc_TLS_PATH c, ''tls.key'']) \<noteq> None)
    \<and> (\<forall>t. HasEnvOverrides (ao_getenv x) \<longrightarrow> sv_tls sv = Some t \<longrightarrow>
         t = (case ToTLSConfig (ao_suites x) (LoadFromEnv (ao_getenv x)) of Inl _ \<Rightarrow> default_tls | Inr u \<Rightarrow> u))"
proof -
  have "sv_tls sv = serving_tls x c" by (rule api_main_Serving [OF assms]) (simp add: serve_config_def)
  then show ?thesis by (auto simp: serving_tls_def server_tls_def split: option.splits)
qed

text \<open>The server connects as soon as one attempt succeeds, provided no earlier ping ran into the end of
  the two minutes.\<close>

lemma connect_Cons: "a \<noteq> Connected \<Longrightarrow> \<forall>e over. a \<noteq> PingFails e (Some over) \<Longrightarrow> connect (a # as) = connect as"
proof (cases a)
  case (PingFails e ov)
  assume "\<forall>e over. a \<noteq> PingFails e (Some over)"
  then show ?thesis using PingFails by (cases ov) auto
qed auto

lemma connect_skips:
  "\<forall>a\<in>set pre. \<forall>e over. a \<noteq> PingFails e (Some over) \<Longrightarrow> connect (pre @ Connected # post) = None"
proof (induction pre)
  case (Cons a pre)
  then show ?case by (cases "a = Connected") (simp_all add: connect_Cons)
qed simp

lemma connect_None:
  "connect as = None \<Longrightarrow> \<exists>pre post. as = pre @ Connected # post \<and> (\<forall>a\<in>set pre. \<forall>e over. a \<noteq> PingFails e (Some over))"
proof (induction as)
  case (Cons a as)
  show ?case
  proof (cases "a = Connected")
    case True
    then show ?thesis by (metis append_Nil empty_iff list.set(1))
  next
    case False
    have a: "\<forall>e over. a \<noteq> PingFails e (Some over)" using Cons.prems by auto
    have "connect as = None" using Cons.prems connect_Cons [OF False a, of as] by simp
    then obtain pre post where "as = pre @ Connected # post" "\<forall>a\<in>set pre. \<forall>e over. a \<noteq> PingFails e (Some over)"
      using Cons.IH by blast
    then show ?thesis using a by (intro exI [where x = "a # pre"] exI [where x = post]) auto
  qed
qed simp

theorem connects_when_the_database_is_ready:
  "connect as = None \<longleftrightarrow>
     (\<exists>pre post. as = pre @ Connected # post \<and> (\<forall>a\<in>set pre. \<forall>e over. a \<noteq> PingFails e (Some over)))"
proof
  assume "connect as = None"
  then show "\<exists>pre post. as = pre @ Connected # post \<and> (\<forall>a\<in>set pre. \<forall>e over. a \<noteq> PingFails e (Some over))"
    by (rule connect_None)
qed (metis connect_skips)

text \<open>The configured level of SQL logging has no effect.\<close>

theorem sql_log_level_is_not_set: "snd (SetLogLevel level default_level) = default_level"
  by (simp add: SetLogLevel_def split: option.splits)

subsection \<open>A sample start\<close>

definition demo_plugin_config :: plugin_config where
  "demo_plugin_config = \<lparr>PL_LOGS_TYPE = ''Loki'', PL_LOGS_PATH = [], PL_LOGS_BUFFER_SIZE = 0, LOGGING_PLUGIN_API_URL = [],
     LOGGING_PLUGIN_NAMESPACE_KEY = [], LOGGING_PLUGIN_CONTAINER_KEY = [], LOGGING_PLUGIN_STATIC_LABELS = ''a=b'',
     LOGGING_PLUGIN_PROXY_PATH = [], LOGGING_PLUGIN_QUERY_LIMIT = 10, LOGGING_PLUGIN_FORWARDER_DELAY_DURATION = 1,
     LOGGING_PLUGIN_QUERY_PARAMS = [], LOGGING_PLUGIN_MULTIPART_REGEX = [], LOGGING_PLUGIN_JSON_MAP = [],
     LOGGING_PLUGIN_LINE_FORMAT = [], LOGGING_PLUGIN_CA_CERT = [], LOGGING_PLUGIN_TLS_VERIFICATION_DISABLE = False\<rparr>"

definition demo_server_config :: server_config where
  "demo_server_config = \<lparr>sc_DB_USER = ''u'', sc_DB_PASSWORD = ''p'', sc_DB_HOST = ''h'', sc_DB_PORT = ''5432'', sc_DB_NAME = ''d'',
     sc_DB_SSLMODE = ''disable'', sc_DB_SSLROOTCERT = [], sc_DB_ENABLE_AUTO_MIGRATION = True, sc_DB_MAX_IDLE_CONNECTIONS = 0,
     sc_DB_MAX_OPEN_CONNECTIONS = 10, sc_SERVER_PORT = ''8080'', sc_SQL_LOG_LEVEL = ''warn'', sc_TLS_PATH = ''/tls'',
     sc_TLS_MIN_VERSION = [], sc_TLS_CIPHER_SUITES = [], sc_TLS_CURVE_PREFERENCES = [], sc_FEATURE_GATES = ''PartialResponse=true'',
     sc_GRPC_WORKER_POOL = 4, sc_AUTH_DISABLE = False, sc_AUTH_IMPERSONATE = True, sc_LOGS_API = True, sc_PROFILING = True,
     sc_PROFILING_PORT = ''6060'', sc_CONVERTER_ENABLE = False, sc_CONVERTER_DB_LIMIT = 50, sc_plugin = demo_plugin_config\<rparr>"

definition demo_api_outside :: api_outside where
  "demo_api_outside = \<lparr>ao_getenv = (\<lambda>n. []), ao_suites = [], ao_key_pair = (\<lambda>a b. None),
     ao_attempts = [OpenFails ''refused'', PingFails ''starting'' None, Connected], ao_db_handle = None, ao_in_cluster = None,
     ao_clientset = None, ao_cel_envs = (None, None, None), ao_auto_migrate = None, ao_dial = None, ao_register_results = None,
     ao_register_logs = None\<rparr>"

definition is_serving :: "start \<Rightarrow> bool" where
  "is_serving s = (case s of Serving _ \<Rightarrow> True | _ \<Rightarrow> False)"

lemma demo_start: "\<exists>sv. api_main demo_api_outside demo_server_config = Serving sv"
proof -
  have "is_serving (api_main demo_api_outside demo_server_config)" by code_simp
  then show ?thesis by (auto simp: is_serving_def split: start.splits)
qed

theorem serving_is_guarded_witness:
  "\<exists>sv. api_main demo_api_outside demo_server_config = Serving sv \<and> sv_checker sv = CheckRBAC True"
  using demo_start serving_is_guarded [of demo_api_outside demo_server_config] by (force simp: demo_server_config_def)

theorem log_services_consistent_witness:
  "\<exists>sv. api_main demo_api_outside demo_server_config = Serving sv \<and> ''tekton.results.v1alpha3.Logs'' \<in> set (sv_services sv)"
proof -
  obtain sv where s: "api_main demo_api_outside demo_server_config = Serving sv" using demo_start by blast
  have "sc_LOGS_API demo_server_config \<and> setLogPlugin (sc_plugin demo_server_config) = Some LokiLogs" by code_simp
  then show ?thesis using log_services_consistent [OF s] s by auto
qed

end
