(* ===== verification/Metrics.thy ===== *)
theory Metrics
  imports Runs
begin

text \<open>
  The metrics of the watcher (\<^verbatim>\<open>pkg/metrics\<close>, \<^verbatim>\<open>pkg/taskrunmetrics\<close>, \<^verbatim>\<open>pkg/pipelinerunmetrics\<close>,
  \<^verbatim>\<open>pkg/customrunmetrics\<close>) and their configuration (\<^verbatim>\<open>pkg/apis/config/metrics.go\<close>, \<^verbatim>\<open>store.go\<close>):
  the instruments that are created once, and what each recorder adds to them. The telemetry library is the
  pair of answers to the creation of the two instruments; what is recorded is a list of events with their
  attributes. Durations are nanoseconds; the conversion to seconds as a float is not modelled.
\<close>

subsection \<open>Configuration\<close>

record metrics_config =
  TaskrunLevel :: string
  PipelinerunLevel :: string
  DurationTaskrunType :: string
  DurationPipelinerunType :: string

definition TaskrunLevelAtTask :: string where "TaskrunLevelAtTask = ''task''"
definition PipelinerunLevelAtPipeline :: string where "PipelinerunLevelAtPipeline = ''pipeline''"

definition default_metrics :: metrics_config where
  "default_metrics = \<lparr>TaskrunLevel = TaskrunLevelAtTask, PipelinerunLevel = PipelinerunLevelAtPipeline,
     DurationTaskrunType = ''histogram'', DurationPipelinerunType = ''histogram''\<rparr>"

definition or_default :: "annotations \<Rightarrow> string \<Rightarrow> string \<Rightarrow> string" where
  "or_default cfgMap key d = (case fmlookup cfgMap key of None \<Rightarrow> d | Some v \<Rightarrow> v)"

definition newMetricsFromMap :: "annotations \<Rightarrow> metrics_config" where
  "newMetricsFromMap cfgMap = \<lparr>
     TaskrunLevel = or_default cfgMap ''metrics.taskrun.level'' (TaskrunLevel default_metrics),
     PipelinerunLevel = or_default cfgMap ''metrics.pipelinerun.level'' (PipelinerunLevel default_metrics),
     DurationTaskrunType = or_default cfgMap ''metrics.taskrun.duration-type'' (DurationTaskrunType default_metrics),
     DurationPipelinerunType = or_default cfgMap ''metrics.pipelinerun.duration-type'' (DurationPipelinerunType default_metrics)\<rparr>"

definition metrics_DeepCopy :: "metrics_config \<Rightarrow> metrics_config" where
  "metrics_DeepCopy cfg = \<lparr>TaskrunLevel = TaskrunLevel cfg, PipelinerunLevel = PipelinerunLevel cfg,
     DurationTaskrunType = DurationTaskrunType cfg, DurationPipelinerunType = DurationPipelinerunType cfg\<rparr>"

definition metrics_Equals :: "metrics_config option \<Rightarrow> metrics_config option \<Rightarrow> bool" where
  "metrics_Equals cfg other =
     (case (cfg, other) of
        (None, None) \<Rightarrow> True
      | (Some c, Some d) \<Rightarrow>
          TaskrunLevel d = TaskrunLevel c \<and> PipelinerunLevel d = PipelinerunLevel c
          \<and> DurationTaskrunType d = DurationTaskrunType c \<and> DurationPipelinerunType d = DurationPipelinerunType c
      | _ \<Rightarrow> False)"

text \<open>The store keeps the last configuration that was read, if any.\<close>

definition store_Load :: "metrics_config option \<Rightarrow> metrics_config" where
  "store_Load stored = metrics_DeepCopy (case stored of None \<Rightarrow> newMetricsFromMap fmempty | Some m \<Rightarrow> m)"

subsection \<open>Instruments\<close>

text \<open>The answer to the creation of an instrument: whether it is there, and the error.\<close>

type_synonym created = "bool \<times> string option"

record instruments =
  in_done :: bool
  in_count :: bool
  in_histogram :: bool

definition no_instruments :: instruments where
  "no_instruments = \<lparr>in_done = False, in_count = False, in_histogram = False\<rparr>"

definition initializeMetrics :: "string \<times> string \<Rightarrow> created \<Rightarrow> created \<Rightarrow> instruments \<Rightarrow> string option \<times> instruments" where
  "initializeMetrics names counter histogram i =
     (case counter of
        (ok, Some e) \<Rightarrow> (Some (''failed to create '' @ fst names @ '' counter: '' @ e), i\<lparr>in_count := ok\<rparr>)
      | (ok, None) \<Rightarrow>
          (case histogram of
             (ok', Some e) \<Rightarrow> (Some (''failed to create '' @ snd names @ '' histogram: '' @ e), i\<lparr>in_count := ok, in_histogram := ok'\<rparr>)
           | (ok', None) \<Rightarrow> (None, i\<lparr>in_count := ok, in_histogram := ok'\<rparr>)))"

text \<open>\<^verbatim>\<open>once.Do\<close>: only the first call initializes, so only the first call can answer the error.\<close>

definition init_once :: "string \<times> string \<Rightarrow> created \<Rightarrow> created \<Rightarrow> instruments \<Rightarrow> string option \<times> instruments" where
  "init_once names counter histogram i =
     (if in_done i then (None, i)
      else (case initializeMetrics names counter histogram i of (e, i') \<Rightarrow> (e, i'\<lparr>in_done := True\<rparr>)))"

definition EnsureMetricsInitialized :: "created \<Rightarrow> created \<Rightarrow> instruments \<Rightarrow> instruments" where
  "EnsureMetricsInitialized counter histogram i =
     snd (init_once (''watcher_runs_not_stored_count'', ''watcher_run_storage_latency_seconds'') counter histogram i)"

definition taskrun_NewRecorder :: "created \<Rightarrow> created \<Rightarrow> instruments \<Rightarrow> string option \<times> instruments" where
  "taskrun_NewRecorder = init_once (''watcher_taskrun_delete_count'', ''watcher_taskrun_delete_duration_seconds'')"

definition pipelinerun_NewRecorder :: "created \<Rightarrow> created \<Rightarrow> instruments \<Rightarrow> string option \<times> instruments" where
  "pipelinerun_NewRecorder = init_once (''watcher_pipelinerun_delete_count'', ''watcher_pipelinerun_delete_duration_seconds'')"

definition customrun_NewRecorder :: "created \<Rightarrow> created \<Rightarrow> instruments \<Rightarrow> string option \<times> instruments" where
  "customrun_NewRecorder = init_once (''watcher_customrun_delete_count'', ''watcher_customrun_delete_duration_seconds'')"

subsection \<open>Recording\<close>

datatype metric_event = CountEvent "(string \<times> string) list" | DurationEvent int "(string \<times> string) list"

definition CountRunNotStored :: "instruments \<Rightarrow> string \<Rightarrow> string \<Rightarrow> string option \<times> metric_event list" where
  "CountRunNotStored i namespace kind =
     (if \<not> in_count i then (Some ''runsNotStoredCount metric is not initialized'', [])
      else (None, [CountEvent [(''kind'', kind), (''namespace'', namespace)]]))"

definition latency_kind :: "run_kind \<Rightarrow> string" where
  "latency_kind k = (case k of PipelineRun \<Rightarrow> ''pipelinerun'' | TaskRun \<Rightarrow> ''taskrun'' | CustomRun \<Rightarrow> ''customrun'')"

definition RecordStorageLatency :: "instruments \<Rightarrow> gotime \<Rightarrow> run \<Rightarrow> string option \<times> metric_event list" where
  "RecordStorageLatency i now ob =
     (if \<not> in_histogram i then (Some ''runStorageLatency metric is not initialized'', [])
      else (case run_completion ob of
              None \<Rightarrow> (None, [])
            | Some completionTime \<Rightarrow>
                (None, [DurationEvent (now - completionTime)
                   [(''kind'', latency_kind (run_type ob)), (''namespace'', run_namespace ob)]])))"

text \<open>
  What a deletion recorder reads of a run besides the run itself: the name of the pipeline, task or custom
  task it refers to, if any, and the last transition of its condition.
\<close>

record deleted_run =
  dl_run :: run
  dl_ref_name :: "string option"
  dl_transition :: gotime

definition ref_or_anonymous :: "string option \<Rightarrow> string" where
  "ref_or_anonymous r = (case r of None \<Rightarrow> ''anonymous'' | Some n \<Rightarrow> if n \<noteq> [] then n else ''anonymous'')"

text \<open>
  Status and duration of a deletion, for the reason that means cancelled. A run without a condition is a nil
  pointer whose status is read: \<open>None\<close>.
\<close>

definition delete_status :: "string \<Rightarrow> gotime \<Rightarrow> deleted_run \<Rightarrow> (string \<times> int) option" where
  "delete_status cancelled now d =
     (case run_condition (dl_run d) of
        None \<Rightarrow> None
      | Some cond \<Rightarrow>
          (let failed = (c_status cond = ''False'');
               status = (if failed then (if c_reason cond = cancelled then ''cancelled'' else ''failed'') else ''success'');
               dur0 = (if failed \<and> \<not> dl_transition d > now then now - dl_transition d else 0);
               dur = (case run_completion (dl_run d) of
                        Some t \<Rightarrow> if \<not> t > now then now - t else dur0
                      | None \<Rightarrow> dur0)
           in Some (status, dur)))"

definition PipelineLabelKey :: string where "PipelineLabelKey = ''tekton.dev/pipeline''"
definition PipelineRunLabelKey :: string where "PipelineRunLabelKey = ''tekton.dev/pipelineRun''"

definition isPartOfPipeline :: "run \<Rightarrow> bool \<times> string \<times> string" where
  "isPartOfPipeline ob =
     (case (fmlookup (run_labels ob) PipelineLabelKey, fmlookup (run_labels ob) PipelineRunLabelKey) of
        (Some p, Some r) \<Rightarrow> (True, p, r)
      | _ \<Rightarrow> (False, [], []))"

definition insertPipelineAttr :: "metrics_config \<Rightarrow> string \<Rightarrow> (string \<times> string) list" where
  "insertPipelineAttr cfg p = (if PipelinerunLevel cfg = PipelinerunLevelAtPipeline then [(''pipeline'', p)] else [])"

definition insertTaskAttr :: "string \<Rightarrow> metrics_config \<Rightarrow> string \<Rightarrow> (string \<times> string) list" where
  "insertTaskAttr key cfg task = (if TaskrunLevel cfg = TaskrunLevelAtTask then [(key, task)] else [])"

definition base_attrs :: "run \<Rightarrow> string \<Rightarrow> (string \<times> string) list" where
  "base_attrs ob status = [(''namespace'', run_namespace ob), (''status'', status)]"

definition pipelinerun_deleted :: "instruments \<Rightarrow> metrics_config \<Rightarrow> gotime \<Rightarrow> deleted_run \<Rightarrow> (string option \<times> metric_event list) option" where
  "pipelinerun_deleted i cfg now d =
     (if \<not> in_count i \<or> \<not> in_histogram i then Some (Some ''pipelinerun metrics are not initialized'', [])
      else (case delete_status ''Cancelled'' now d of
              None \<Rightarrow> None
            | Some (status, dur) \<Rightarrow>
                (let attrs = base_attrs (dl_run d) status @ insertPipelineAttr cfg (ref_or_anonymous (dl_ref_name d))
                 in Some (None, [CountEvent attrs, DurationEvent dur attrs]))))"

text \<open>TaskRuns and CustomRuns differ in the text of the error, the reason and the key of the task.\<close>

definition task_deleted ::
  "string \<Rightarrow> string \<Rightarrow> string \<Rightarrow> instruments \<Rightarrow> metrics_config \<Rightarrow> gotime \<Rightarrow> deleted_run \<Rightarrow> (string option \<times> metric_event list) option" where
  "task_deleted what cancelled key i cfg now d =
     (if \<not> in_count i \<or> \<not> in_histogram i then Some (Some (what @ '' metrics are not initialized''), [])
      else (case delete_status cancelled now d of
              None \<Rightarrow> None
            | Some (status, dur) \<Rightarrow>
                (let pipelineName = (case isPartOfPipeline (dl_run d) of (ok, p, _) \<Rightarrow> if ok then p else ''anonymous'');
                     attrs = base_attrs (dl_run d) status @ insertPipelineAttr cfg pipelineName
                       @ insertTaskAttr key cfg (ref_or_anonymous (dl_ref_name d))
                 in Some (None, [CountEvent attrs, DurationEvent dur attrs]))))"

definition taskrun_deleted :: "instruments \<Rightarrow> metrics_config \<Rightarrow> gotime \<Rightarrow> deleted_run \<Rightarrow> (string option \<times> metric_event list) option" where
  "taskrun_deleted = task_deleted ''taskrun'' ''TaskRunCancelled'' ''task''"

definition customrun_deleted :: "instruments \<Rightarrow> metrics_config \<Rightarrow> gotime \<Rightarrow> deleted_run \<Rightarrow> (string option \<times> metric_event list) option" where
  "customrun_deleted = task_deleted ''customrun'' ''CustomRunCancelled'' ''customrun''"

subsection \<open>What is recorded\<close>

lemma metrics_Equals_iff: "metrics_Equals a b \<longleftrightarrow> a = b"
  by (cases a; cases b) (auto simp: metrics_Equals_def)

lemma metrics_DeepCopy_id [simp]: "metrics_DeepCopy m = m"
  by (simp add: metrics_DeepCopy_def)

text \<open>The default of every setting, and the setting where there is one.\<close>

theorem metrics_settings:
  "newMetricsFromMap fmempty = default_metrics"
  "fmlookup m ''metrics.taskrun.level'' = Some v \<Longrightarrow> TaskrunLevel (newMetricsFromMap m) = v"
  "fmlookup m ''metrics.pipelinerun.level'' = Some v \<Longrightarrow> PipelinerunLevel (newMetricsFromMap m) = v"
  by (simp_all add: newMetricsFromMap_def or_default_def default_metrics_def)

lemma delete_status_duration:
  assumes "delete_status c now d = Some (status, dur)"
  shows "dur \<ge> 0 \<and> (\<forall>t. run_completion (dl_run d) = Some t \<longrightarrow> t \<le> now \<longrightarrow> dur = now - t)
    \<and> status \<in> {''success'', ''failed'', ''cancelled''}
    \<and> (status = ''success'' \<longleftrightarrow> map_option c_status (run_condition (dl_run d)) \<noteq> Some ''False'')"
  using assms by (auto simp: delete_status_def Let_def split: option.splits if_splits)

lemma task_deleted_Some:
  assumes "task_deleted what c key i cfg now d = Some (None, evs)"
  obtains status dur attrs where "delete_status c now d = Some (status, dur)" and "evs = [CountEvent attrs, DurationEvent dur attrs]"
    and "attrs = base_attrs (dl_run d) status @ insertPipelineAttr cfg (if fst (isPartOfPipeline (dl_run d)) then fst (snd (isPartOfPipeline (dl_run d))) else ''anonymous'')
       @ insertTaskAttr key cfg (ref_or_anonymous (dl_ref_name d))"
  using assms by (auto simp: task_deleted_def Let_def split: if_splits option.splits prod.splits)

text \<open>A deletion that is recorded counts once and has one duration, with the same attributes: the namespace
  and one of three statuses, and the names only at the configured level. The duration is never negative,
  and it is the time since the completion for a run that completed.\<close>

theorem deletion_recorded_once:
  assumes "taskrun_deleted i cfg now d = Some (None, evs)"
  shows "\<exists>dur attrs status. evs = [CountEvent attrs, DurationEvent dur attrs] \<and> dur \<ge> 0
    \<and> (\<forall>t. run_completion (dl_run d) = Some t \<longrightarrow> t \<le> now \<longrightarrow> dur = now - t)
    \<and> map_of attrs ''namespace'' = Some (run_namespace (dl_run d)) \<and> map_of attrs ''status'' = Some status
    \<and> (''task'' \<in> fst ` set attrs \<longleftrightarrow> TaskrunLevel cfg = TaskrunLevelAtTask)
    \<and> (''pipeline'' \<in> fst ` set attrs \<longleftrightarrow> PipelinerunLevel cfg = PipelinerunLevelAtPipeline)"
proof -
  obtain status dur attrs where s: "delete_status ''TaskRunCancelled'' now d = Some (status, dur)"
      and e: "evs = [CountEvent attrs, DurationEvent dur attrs]"
      and a: "attrs = base_attrs (dl_run d) status @ insertPipelineAttr cfg (if fst (isPartOfPipeline (dl_run d)) then fst (snd (isPartOfPipeline (dl_run d))) else ''anonymous'')
        @ insertTaskAttr ''task'' cfg (ref_or_anonymous (dl_ref_name d))"
    by (rule task_deleted_Some [OF assms [unfolded taskrun_deleted_def]])
  have "map_of attrs ''namespace'' = Some (run_namespace (dl_run d))" "map_of attrs ''status'' = Some status"
    "(''task'' \<in> fst ` set attrs) = (TaskrunLevel cfg = TaskrunLevelAtTask)"
    "(''pipeline'' \<in> fst ` set attrs) = (PipelinerunLevel cfg = PipelinerunLevelAtPipeline)"
    by (auto simp: a base_attrs_def insertPipelineAttr_def insertTaskAttr_def)
  then show ?thesis using e delete_status_duration [OF s] by blast
qed

text \<open>The latency of storage has no such guard: a completion time ahead of the clock gives a negative one.\<close>

theorem storage_latency_may_be_negative:
  assumes "in_histogram i" and "run_completion ob = Some t" and "t > now"
  shows "\<exists>l attrs. RecordStorageLatency i now ob = (None, [DurationEvent l attrs]) \<and> l < 0"
  using assms by (simp add: RecordStorageLatency_def)

text \<open>Only the first recorder can tell that the instruments could not be created; a later one answers no
  error and leaves them as they are.\<close>

theorem instruments_created_once:
  "init_once names c h (snd (init_once names' c' h' i)) = (None, snd (init_once names' c' h' i))"
  by (cases "initializeMetrics names' c' h' i") (simp add: init_once_def)

theorem initialization_failure_is_silent_later:
  "fst (init_once n (False, Some e) h no_instruments) \<noteq> None
   \<and> fst (init_once n (True, None) (True, None) (snd (init_once n (False, Some e) h no_instruments))) = None
   \<and> \<not> in_count (snd (init_once n (True, None) (True, None) (snd (init_once n (False, Some e) h no_instruments))))"
  by (simp add: init_once_def initializeMetrics_def no_instruments_def)

end
