(* ===== verification/WatcherMain.thy ===== *)
theory WatcherMain
  imports Runs
begin

text \<open>
  The start-up of the watcher (\<^verbatim>\<open>cmd/watcher/main.go\<close>, \<^verbatim>\<open>pkg/watcher/grpc\<close>, \<^verbatim>\<open>pkg/watcher/logs\<close>, the
  \<^verbatim>\<open>controller.go\<close> of the three kinds and \<^verbatim>\<open>leaderelection\<close>): from the flags to the configuration of the
  reconcilers, the connection to the API server with its credentials, the client for logs and the three
  controllers with their filters. Certificates, the gRPC library, the reflection service of the API server
  and the parser of selectors are the record \<open>watcher_outside\<close>; informers and the scaling of the Kubernetes
  client's QPS, a float, are not modelled.
\<close>

subsection \<open>Flags and connection\<close>

record watcher_flags =
  wf_api_addr :: string
  wf_auth_mode :: string
  wf_disable_crd_update :: bool
  wf_token :: string
  wf_completed_run_grace_period :: int
  wf_threadiness :: int
  wf_burst :: int
  wf_logs_api :: bool
  wf_logs_timestamps :: bool
  wf_label_selector :: string
  wf_resync_period :: int
  wf_requeue_interval :: int
  wf_namespace :: string
  wf_summary_labels :: string
  wf_summary_annotations :: string
  wf_check_owner :: bool
  wf_update_log_timeout :: int
  wf_dynamic_reconcile_timeout :: int
  wf_store_event :: bool
  wf_disable_storing_incomplete_runs :: bool
  wf_store_deadline :: int
  wf_forward_buffer :: int
  wf_managed_by_values :: string
  wf_required_annotations :: "(string \<times> AnnotationRequirement) list"
  wf_disable_ha :: bool

datatype transport = WithCerts "string list" | InsecureTransport

datatype per_call = GoogleCreds | StaticToken string | FileToken string

record dial_options =
  do_service_config :: string
  do_min_connect_timeout :: int
  do_wait_for_ready :: bool
  do_authority :: "string option"
  do_transport :: "transport option"
  do_per_call :: "per_call option"

text \<open>\<open>wo_services\<close> is the answer of the server's reflection service: the step that failed, or the names.\<close>

record watcher_outside =
  wo_open_cert :: "string option"
  wo_read_cert :: "string + string"
  wo_system_pool :: "string + string list"
  wo_parse_pem :: "string \<Rightarrow> string list"
  wo_new_client :: "string \<Rightarrow> dial_options \<Rightarrow> string option"
  wo_services :: "string + string list"
  wo_parse_selector :: "string \<Rightarrow> string + (annotations \<Rightarrow> bool)"
  wo_duration :: "int \<Rightarrow> string"

definition podTokenPath :: string where
  "podTokenPath = ''/var/run/secrets/kubernetes.io/serviceaccount/token''"

definition Second :: int where "Second = 1000000000"

definition finalizerRequeueInterval :: int where "finalizerRequeueInterval = 10 * Second"

text \<open>The certificates: the system's, and those of the mounted file, which must hold at least one.\<close>

definition loadCerts :: "watcher_outside \<Rightarrow> string + string list" where
  "loadCerts x =
     (case wo_open_cert x of
        Some _ \<Rightarrow> wo_system_pool x
      | None \<Rightarrow>
          (case wo_read_cert x of
             Inl e \<Rightarrow> Inl (''unable to read TLS cert file: '' @ e)
           | Inr b \<Rightarrow>
               (case wo_system_pool x of
                  Inl e \<Rightarrow> Inl (''error loading cert pool: '' @ e)
                | Inr certs \<Rightarrow>
                    if wo_parse_pem x b = [] then Inl ''unable to add cert to pool'' else Inr (certs @ wo_parse_pem x b))))"

definition dial_base :: dial_options where
  "dial_base = \<lparr>do_service_config = ''{'' @ [dquote] @ ''loadBalancingConfig'' @ [dquote] @ '':[{'' @ [dquote] @ ''round_robin''
       @ [dquote] @ '':{}}]}'', do_min_connect_timeout = 60 * Second, do_wait_for_ready = True,
     do_authority = None, do_transport = None, do_per_call = None\<rparr>"

definition dial_for :: "watcher_flags \<Rightarrow> string list \<Rightarrow> string \<Rightarrow> string \<Rightarrow> dial_options" where
  "dial_for f certs apiAddr authMode =
     (if authMode = ''google''
      then dial_base\<lparr>do_authority := Some apiAddr, do_transport := Some (WithCerts certs), do_per_call := Some GoogleCreds\<rparr>
      else if authMode = ''token''
      then dial_base\<lparr>do_per_call := Some (if wf_token f \<noteq> [] then StaticToken (wf_token f) else FileToken podTokenPath),
             do_transport := Some (WithCerts certs)\<rparr>
      else if authMode = ''insecure'' then dial_base\<lparr>do_transport := Some InsecureTransport\<rparr>
      else dial_base)"

text \<open>A failure to load the certificates ends the process inside the function: the message is the outer
  \<^verbatim>\<open>Inl\<close>; the error that is returned is the inner one.\<close>

definition connectToAPIServer :: "watcher_outside \<Rightarrow> watcher_flags \<Rightarrow> string + string + dial_options" where
  "connectToAPIServer x f =
     (case loadCerts x of
        Inl e \<Rightarrow> Inl (''error loading cert pool: '' @ e)
      | Inr certs \<Rightarrow>
          (let opts = dial_for f certs (wf_api_addr f) (wf_auth_mode f) in
           case wo_new_client x (wf_api_addr f) opts of Some e \<Rightarrow> Inr (Inl e) | None \<Rightarrow> Inr (Inr opts)))"

text \<open>The metadata of a request with Google credentials: the token of the last URI counts.\<close>

fun GetRequestMetadata ::
  "(string \<Rightarrow> string option) \<Rightarrow> (string \<Rightarrow> string + string) \<Rightarrow> string list \<Rightarrow> (string \<times> string) list \<Rightarrow> string + (string \<times> string) list" where
  "GetRequestMetadata newSource token [] out = Inr out"
| "GetRequestMetadata newSource token (u # us) out =
     (case newSource u of
        Some e \<Rightarrow> Inl (''idtoken.NewTokenSource('' @ u @ ''): '' @ e)
      | None \<Rightarrow>
          (case token u of
             Inl e \<Rightarrow> Inl (''TokenSource.Token('' @ u @ ''): '' @ e)
           | Inr t \<Rightarrow> GetRequestMetadata newSource token us (AList.update ''authorization'' (''Bearer '' @ t) out)))"

definition logsServiceName :: string where "logsServiceName = ''tekton.results.v1alpha2.Logs''"

text \<open>The client for logs is put into the context when the server lists the service.\<close>

definition logs_WithContext :: "watcher_outside \<Rightarrow> string option \<times> bool" where
  "logs_WithContext x =
     (case wo_services x of
        Inl e \<Rightarrow> (Some e, False)
      | Inr names \<Rightarrow> if logsServiceName \<in> set names then (None, True) else (Some ''logs service not enabled in server'', False))"

subsection \<open>Configuration and controllers\<close>

definition withResyncPeriod :: "(int \<Rightarrow> string) \<Rightarrow> int \<Rightarrow> string option" where
  "withResyncPeriod show_duration period =
     (if period < 0 then Some (''resync period must be non-negative, got '' @ show_duration period) else None)"

definition watcher_config :: "watcher_flags \<Rightarrow> Config" where
  "watcher_config f = \<lparr>
     DisableAnnotationUpdate = wf_disable_crd_update f,
     CompletedResourceGracePeriod = wf_completed_run_grace_period f,
     labelSelector = None,
     RequeueInterval = wf_requeue_interval f,
     CheckOwner = wf_check_owner f,
     UpdateLogTimeout = Some (wf_update_log_timeout f),
     DynamicReconcileTimeout = Some (wf_dynamic_reconcile_timeout f),
     StoreEvent = wf_store_event f,
     StoreDeadline = Some (wf_store_deadline f),
     FinalizerRequeueInterval = finalizerRequeueInterval,
     ForwardBuffer = Some (wf_forward_buffer f),
     LogsTimestamps = wf_logs_timestamps f,
     SummaryLabels = wf_summary_labels f,
     SummaryAnnotations = wf_summary_annotations f,
     DisableStoringIncompleteRuns = wf_disable_storing_incomplete_runs f,
     AllowedManagedByValues = ParseManagedByValues (wf_managed_by_values f),
     RequiredAnnotations = wf_required_annotations f\<rparr>"

text \<open>A controller: which events of its informer it takes, which objects it looks at when it becomes the
  leader (\<open>None\<close>: all of them), and whether its reconciler has a client for logs.\<close>

record kind_controller =
  ct_kind :: run_kind
  ct_finalizer :: string
  ct_filter :: "informer_obj \<Rightarrow> bool"
  ct_promote :: "(informer_obj \<Rightarrow> bool) option"
  ct_logs :: bool
  ct_config :: Config

definition pipelinerun_NewControllerWithConfig :: "bool \<Rightarrow> Config \<Rightarrow> kind_controller" where
  "pipelinerun_NewControllerWithConfig logs cfg =
     (let managedByFilter = PipelineRunFilterFunc (AllowedManagedByValues cfg) in
      \<lparr>ct_kind = PipelineRun, ct_finalizer = ''results.tekton.dev/pipelinerun'', ct_filter = managedByFilter,
       ct_promote = Some managedByFilter, ct_logs = logs, ct_config = cfg\<rparr>)"

definition taskrun_NewControllerWithConfig :: "bool \<Rightarrow> Config \<Rightarrow> kind_controller" where
  "taskrun_NewControllerWithConfig logs cfg =
     (let managedByFilter = TaskRunFilterFunc (AllowedManagedByValues cfg) in
      \<lparr>ct_kind = TaskRun, ct_finalizer = ''results.tekton.dev/taskrun'', ct_filter = managedByFilter,
       ct_promote = Some managedByFilter, ct_logs = logs, ct_config = cfg\<rparr>)"

definition customrun_NewControllerWithConfig :: "Config \<Rightarrow> kind_controller" where
  "customrun_NewControllerWithConfig cfg =
     \<lparr>ct_kind = CustomRun, ct_finalizer = ''results.tekton.dev/customrun'', ct_filter = (\<lambda>_. True), ct_promote = None,
      ct_logs = False, ct_config = cfg\<rparr>"

record watcher_setup =
  ws_config :: Config
  ws_logs :: bool
  ws_dial :: dial_options
  ws_threads :: int
  ws_burst :: int
  ws_resync :: int
  ws_namespace :: string
  ws_ha_disabled :: bool
  ws_controllers :: "kind_controller list"

datatype watcher_start = WatcherFatal string | Watching watcher_setup

definition watcher_main :: "watcher_outside \<Rightarrow> watcher_flags \<Rightarrow> watcher_start" where
  "watcher_main x f =
     (case withResyncPeriod (wo_duration x) (wf_resync_period f) of
        Some e \<Rightarrow> WatcherFatal (''invalid -resync_period: '' @ e)
      | None \<Rightarrow>
     (case connectToAPIServer x f of
        Inl e \<Rightarrow> WatcherFatal e
      | Inr (Inl e) \<Rightarrow> WatcherFatal (''did not connect: '' @ e)
      | Inr (Inr conn) \<Rightarrow>
     (let logs = (wf_logs_api f \<and> fst (logs_WithContext x) = None) in
      case (if wf_label_selector f \<noteq> []
            then SetLabelSelector (wo_parse_selector x) (wf_label_selector f) (watcher_config f)
            else (None, watcher_config f)) of
        (Some e, _) \<Rightarrow> WatcherFatal (''Malformed -label_selector value: '' @ error_msg e)
      | (None, cfg) \<Rightarrow>
          Watching \<lparr>ws_config = cfg, ws_logs = logs, ws_dial = conn, ws_threads = wf_threadiness f,
            ws_burst = int64 (wf_burst f * 3), ws_resync = wf_resync_period f, ws_namespace = wf_namespace f,
            ws_ha_disabled = wf_disable_ha f,
            ws_controllers = [pipelinerun_NewControllerWithConfig logs cfg, taskrun_NewControllerWithConfig logs cfg,
              customrun_NewControllerWithConfig cfg]\<rparr>)))"

text \<open>On promotion the generic leader election enqueues everything the lister has for the bucket.\<close>

definition PromoteFunc :: "string + run list \<Rightarrow> string option \<times> (string \<times> string) list" where
  "PromoteFunc listed =
     (case listed of Inl e \<Rightarrow> (Some e, []) | Inr objects \<Rightarrow> (None, map (\<lambda>ob. (run_namespace ob, run_name ob)) objects))"

subsection \<open>What a started watcher is\<close>

lemma watcher_main_Watching:
  assumes "watcher_main x f = Watching ws"
  shows "connectToAPIServer x f = Inr (Inr (ws_dial ws)) \<and> ws_logs ws = (wf_logs_api f \<and> fst (logs_WithContext x) = None)
    \<and> ws_controllers ws = [pipelinerun_NewControllerWithConfig (ws_logs ws) (ws_config ws),
         taskrun_NewControllerWithConfig (ws_logs ws) (ws_config ws), customrun_NewControllerWithConfig (ws_config ws)]
    \<and> (\<exists>sel. ws_config ws = (watcher_config f)\<lparr>labelSelector := sel\<rparr>)"
proof -
  have "(case (if wf_label_selector f \<noteq> []
            then SetLabelSelector (wo_parse_selector x) (wf_label_selector f) (watcher_config f)
            else (None, watcher_config f)) of (Some e, _) \<Rightarrow> True | (None, cfg) \<Rightarrow> (\<exists>sel. cfg = (watcher_config f)\<lparr>labelSelector := sel\<rparr>))"
    by (auto simp: SetLabelSelector_def watcher_config_def split: sum.splits)
  then show ?thesis using assms
    by (auto simp: watcher_main_def Let_def split: option.splits sum.splits prod.splits)
qed

lemma connect_dial:
  assumes "connectToAPIServer x f = Inr (Inr opts)"
  shows "\<exists>certs. loadCerts x = Inr certs \<and> opts = dial_for f certs (wf_api_addr f) (wf_auth_mode f)
    \<and> wo_new_client x (wf_api_addr f) opts = None"
  using assms by (auto simp: connectToAPIServer_def Let_def split: sum.splits option.splits)

text \<open>C30: A token never travels without TLS: whatever the flags, a started watcher that attaches
  credentials to its requests uses a transport with certificates, which include those of the system.\<close>

theorem tokens_only_over_tls:
  assumes "watcher_main x f = Watching ws" and "do_per_call (ws_dial ws) \<noteq> None"
  shows "\<exists>certs system. do_transport (ws_dial ws) = Some (WithCerts certs) \<and> wo_system_pool x = Inr system
    \<and> set system \<subseteq> set certs"
proof -
  obtain certs where c: "loadCerts x = Inr certs" "ws_dial ws = dial_for f certs (wf_api_addr f) (wf_auth_mode f)"
    using connect_dial [of x f "ws_dial ws"] watcher_main_Watching [OF assms(1)] by blast
  have "do_transport (ws_dial ws) = Some (WithCerts certs)"
    using assms(2) c(2) by (auto simp: dial_for_def dial_base_def split: if_splits)
  moreover have "\<exists>system. wo_system_pool x = Inr system \<and> set system \<subseteq> set certs"
    using c(1) by (auto simp: loadCerts_def split: option.splits sum.splits if_splits)
  ultimately show ?thesis by blast
qed

text \<open>The gRPC library refuses a client without a transport security, so the authentication mode is not
  optional: a started watcher has one of three.\<close>

theorem auth_mode_is_required:
  assumes "\<And>a o'. wo_new_client x a o' = None \<Longrightarrow> do_transport o' \<noteq> None" and "watcher_main x f = Watching ws"
  shows "wf_auth_mode f \<in> {''google'', ''token'', ''insecure''}"
proof -
  obtain certs where "ws_dial ws = dial_for f certs (wf_api_addr f) (wf_auth_mode f)"
      "wo_new_client x (wf_api_addr f) (ws_dial ws) = None"
    using connect_dial [of x f "ws_dial ws"] watcher_main_Watching [OF assms(2)] by blast
  then have "do_transport (dial_for f certs (wf_api_addr f) (wf_auth_mode f)) \<noteq> None" using assms(1) by metis
  then show ?thesis by (auto simp: dial_for_def dial_base_def split: if_splits)
qed

text \<open>No run is stuck behind a filter: for each of the three controllers, the event of an object that is
  being deleted and still carries the controller's finalizer is always taken, whichever managedBy values
  are allowed, so that the finalizer can be removed.\<close>

theorem deleted_runs_are_not_filtered:
  assumes "watcher_main x f = Watching ws" and "ct \<in> set (ws_controllers ws)"
    and "run_type ob = ct_kind ct" and "run_deletion ob \<noteq> None" and "ct_finalizer ct \<in> set (run_finalizers ob)"
  shows "ct_filter ct (Obj ob) \<and> ct_filter ct (Tombstone (Obj ob))
    \<and> (\<forall>p. ct_promote ct = Some p \<longrightarrow> p (Obj ob))"
  using watcher_main_Watching [OF assms(1)] assms(2-5)
  by (auto simp: pipelinerun_NewControllerWithConfig_def taskrun_NewControllerWithConfig_def
      customrun_NewControllerWithConfig_def PipelineRunFilterFunc_def TaskRunFilterFunc_def
      PipelineRunFinalizer_def TaskRunFinalizer_def Let_def)

text \<open>Logs are sent only if they are asked for and the server lists the service.\<close>

theorem logs_need_the_service:
  assumes "watcher_main x f = Watching ws"
  shows "ws_logs ws \<longleftrightarrow> wf_logs_api f \<and> (\<exists>names. wo_services x = Inr names \<and> logsServiceName \<in> set names)"
  using watcher_main_Watching [OF assms] by (auto simp: logs_WithContext_def split: sum.splits if_splits)

subsection \<open>A sample start\<close>

definition default_flags :: watcher_flags where
  "default_flags = \<lparr>wf_api_addr = ''localhost:8080'', wf_auth_mode = [], wf_disable_crd_update = False, wf_token = [],
     wf_completed_run_grace_period = 0, wf_threadiness = 2, wf_burst = 10, wf_logs_api = False, wf_logs_timestamps = False,
     wf_label_selector = [], wf_resync_period = 36000 * Second, wf_requeue_interval = 600 * Second, wf_namespace = [],
     wf_summary_labels = ''tekton.dev/pipeline'', wf_summary_annotations = [], wf_check_owner = True,
     wf_update_log_timeout = 300 * Second, wf_dynamic_reconcile_timeout = 30 * Second, wf_store_event = False,
     wf_disable_storing_incomplete_runs = False, wf_store_deadline = 600 * Second, wf_forward_buffer = 150 * Second,
     wf_managed_by_values = [], wf_required_annotations = [], wf_disable_ha = False\<rparr>"

definition demo_watcher_outside :: watcher_outside where
  "demo_watcher_outside = \<lparr>wo_open_cert = None, wo_read_cert = Inr ''pem'', wo_system_pool = Inr [''root''],
     wo_parse_pem = (\<lambda>b. [b]), wo_new_client = (\<lambda>a o'. if do_transport o' = None then Some ''no transport security set'' else None),
     wo_services = Inr [''tekton.results.v1alpha2.Logs''], wo_parse_selector = (\<lambda>s. Inl s), wo_duration = show_int\<rparr>"

definition is_watching :: "watcher_start \<Rightarrow> bool" where
  "is_watching s = (case s of Watching _ \<Rightarrow> True | _ \<Rightarrow> False)"

lemma demo_watcher: "\<exists>ws. watcher_main demo_watcher_outside (default_flags\<lparr>wf_auth_mode := ''token''\<rparr>) = Watching ws"
proof -
  have "is_watching (watcher_main demo_watcher_outside (default_flags\<lparr>wf_auth_mode := ''token''\<rparr>))" by code_simp
  then show ?thesis by (auto simp: is_watching_def split: watcher_start.splits)
qed

theorem tokens_only_over_tls_witness:
  "\<exists>ws certs. watcher_main demo_watcher_outside (default_flags\<lparr>wf_auth_mode := ''token''\<rparr>) = Watching ws
     \<and> do_transport (ws_dial ws) = Some (WithCerts certs) \<and> ''root'' \<in> set certs"
proof -
  obtain ws where w: "watcher_main demo_watcher_outside (default_flags\<lparr>wf_auth_mode := ''token''\<rparr>) = Watching ws"
    using demo_watcher by blast
  obtain certs where "ws_dial ws = dial_for (default_flags\<lparr>wf_auth_mode := ''token''\<rparr>) certs ''localhost:8080'' ''token''"
    using connect_dial watcher_main_Watching [OF w] by (fastforce simp: default_flags_def)
  then have "do_per_call (ws_dial ws) \<noteq> None" by (simp add: dial_for_def)
  then show ?thesis using tokens_only_over_tls [OF w] w by (force simp: demo_watcher_outside_def)
qed

theorem deleted_runs_are_not_filtered_witness:
  "\<exists>ws ct ob. watcher_main demo_watcher_outside (default_flags\<lparr>wf_auth_mode := ''token''\<rparr>) = Watching ws
     \<and> ct \<in> set (ws_controllers ws) \<and> ct_filter ct (Obj ob) \<and> run_managedBy ob = Some ''other''"
proof -
  obtain ws where w: "watcher_main demo_watcher_outside (default_flags\<lparr>wf_auth_mode := ''token''\<rparr>) = Watching ws"
    using demo_watcher by blast
  let ?ct = "pipelinerun_NewControllerWithConfig (ws_logs ws) (ws_config ws)"
  let ?ob = "\<lparr>run_type = PipelineRun, run_gvk = \<lparr>g_group = [], g_version = [], g_kind = []\<rparr>, run_namespace = ''ns'', run_name = ''p'',
     run_uid = ''u'', run_resource_version = [], run_labels = fmempty, run_annotations = fmempty, run_owners = [],
     run_finalizers = [''results.tekton.dev/pipelinerun''], run_managed = [], run_deletion = Some 5, run_managedBy = Some ''other'',
     run_condition = None, run_start = None, run_completion = None, run_children = [], run_pod = []\<rparr>"
  have "?ct \<in> set (ws_controllers ws)" using watcher_main_Watching [OF w] by simp
  moreover from this have "ct_filter ?ct (Obj ?ob)"
    using deleted_runs_are_not_filtered [OF w, of ?ct ?ob] by (simp add: pipelinerun_NewControllerWithConfig_def Let_def)
  ultimately show ?thesis using w by (intro exI [where x = ws] exI [where x = ?ct] exI [where x = ?ob]) simp
qed

end
