(* ===== verification/RetentionAgent.thy ===== *)
theory RetentionAgent
  imports Retention ApiMain Metrics
begin

text \<open>
  The retention agent as a process (\<^verbatim>\<open>cmd/retention-policy-agent/main.go\<close>, \<^verbatim>\<open>pkg/retention/config.go\<close>,
  \<^verbatim>\<open>start\<close> and \<^verbatim>\<open>stop\<close> of \<^verbatim>\<open>pkg/retention/job.go\<close>, \<^verbatim>\<open>pkg/apis/config/store.go\<close>) with the
  parser of schedules it relies on (\<^verbatim>\<open>vendor/github.com/robfig/cron/v3/parser.go\<close>). The cron objects that were
  ever made are a list; an object that was started and not stopped runs the job at its times. A step of the
  agent is a change of a ConfigMap or a tick of a running object. Locations and the clock are parameters. A
  tick runs the job with the configuration of that moment, as the job reads it from the agent.
\<close>

subsection \<open>Schedules\<close>

record cron_bounds =
  cb_min :: nat
  cb_max :: nat
  cb_names :: "(string \<times> nat) list"

definition seconds :: cron_bounds where "seconds = \<lparr>cb_min = 0, cb_max = 59, cb_names = []\<rparr>"
definition minutes :: cron_bounds where "minutes = \<lparr>cb_min = 0, cb_max = 59, cb_names = []\<rparr>"
definition hours :: cron_bounds where "hours = \<lparr>cb_min = 0, cb_max = 23, cb_names = []\<rparr>"
definition dom_bounds :: cron_bounds where "dom_bounds = \<lparr>cb_min = 1, cb_max = 31, cb_names = []\<rparr>"

definition months :: cron_bounds where
  "months = \<lparr>cb_min = 1, cb_max = 12, cb_names =
     [(''jan'', 1), (''feb'', 2), (''mar'', 3), (''apr'', 4), (''may'', 5), (''jun'', 6), (''jul'', 7), (''aug'', 8),
      (''sep'', 9), (''oct'', 10), (''nov'', 11), (''dec'', 12)]\<rparr>"

definition dow :: cron_bounds where
  "dow = \<lparr>cb_min = 0, cb_max = 6, cb_names =
     [(''sun'', 0), (''mon'', 1), (''tue'', 2), (''wed'', 3), (''thu'', 4), (''fri'', 5), (''sat'', 6)]\<rparr>"

definition starBit :: "64 word" where "starBit = push_bit 63 1"

definition getBits :: "nat \<Rightarrow> nat \<Rightarrow> nat \<Rightarrow> 64 word" where
  "getBits lo hi stp =
     (if stp = 1 then and (not (push_bit (hi + 1) (- 1))) (push_bit lo (- 1))
      else foldl (\<lambda>b i. or b (push_bit i 1)) 0 (filter (\<lambda>i. (i - lo) mod stp = 0) [lo..<Suc hi]))"

definition all_bits :: "cron_bounds \<Rightarrow> 64 word" where
  "all_bits r = or (getBits (cb_min r) (cb_max r) 1) starBit"

definition mustParseInt :: "string \<Rightarrow> string + nat" where
  "mustParseInt expr =
     (case Atoi expr of
        Inl e \<Rightarrow> Inl (''failed to parse int from '' @ expr @ '': '' @ e)
      | Inr n \<Rightarrow> if n < 0 then Inl (''negative number ('' @ show_int n @ '') not allowed: '' @ expr) else Inr (nat n))"

definition parseIntOrName :: "string \<Rightarrow> (string \<times> nat) list \<Rightarrow> string + nat" where
  "parseIntOrName expr names =
     (case map_of names (ToLower expr) of Some n \<Rightarrow> Inr n | None \<Rightarrow> mustParseInt expr)"

text \<open>The bounds of a range, and the bit that marks a star.\<close>

definition range_ends :: "string \<Rightarrow> string list \<Rightarrow> cron_bounds \<Rightarrow> string + nat \<times> nat \<times> 64 word" where
  "range_ends expr lowAndHigh r =
     (if hd lowAndHigh = ''*'' \<or> hd lowAndHigh = ''?'' then Inr (cb_min r, cb_max r, starBit)
      else (case parseIntOrName (hd lowAndHigh) (cb_names r) of
              Inl e \<Rightarrow> Inl e
            | Inr st \<Rightarrow>
                (case tl lowAndHigh of
                   [] \<Rightarrow> Inr (st, st, 0)
                 | [h] \<Rightarrow> (case parseIntOrName h (cb_names r) of Inl e \<Rightarrow> Inl e | Inr en \<Rightarrow> Inr (st, en, 0))
                 | _ \<Rightarrow> Inl (''too many hyphens: '' @ expr))))"

definition getRange :: "string \<Rightarrow> cron_bounds \<Rightarrow> string + 64 word" where
  "getRange expr r =
     (let rangeAndStep = split_on (CHR ''/'') expr; lowAndHigh = split_on (CHR ''-'') (hd rangeAndStep) in
      case range_ends expr lowAndHigh r of
        Inl e \<Rightarrow> Inl e
      | Inr (st, en, extra) \<Rightarrow>
          (let stepped =
             (case tl rangeAndStep of
                [] \<Rightarrow> Inr (en, 1, extra)
              | [s] \<Rightarrow> (case mustParseInt s of
                         Inl e \<Rightarrow> Inl e
                       | Inr stp \<Rightarrow> Inr (if length lowAndHigh = 1 then cb_max r else en, stp, if stp > 1 then 0 else extra))
              | _ \<Rightarrow> Inl (''too many slashes: '' @ expr))
           in case stepped of
                Inl e \<Rightarrow> Inl e
              | Inr (en', stp, extra') \<Rightarrow>
                  if st < cb_min r
                  then Inl (''beginning of range ('' @ show_nat st @ '') below minimum ('' @ show_nat (cb_min r) @ ''): '' @ expr)
                  else if en' > cb_max r
                  then Inl (''end of range ('' @ show_nat en' @ '') above maximum ('' @ show_nat (cb_max r) @ ''): '' @ expr)
                  else if st > en'
                  then Inl (''beginning of range ('' @ show_nat st @ '') beyond end of range ('' @ show_nat en' @ ''): '' @ expr)
                  else if stp = 0 then Inl (''step of range should be a positive number: '' @ expr)
                  else Inr (or (getBits st en' stp) extra')))"

fun or_ranges :: "cron_bounds \<Rightarrow> string list \<Rightarrow> 64 word \<Rightarrow> string + 64 word" where
  "or_ranges r [] bits = Inr bits"
| "or_ranges r (expr # es) bits =
     (case getRange expr r of Inl e \<Rightarrow> Inl e | Inr v \<Rightarrow> or_ranges r es (or bits v))"

definition getField :: "string \<Rightarrow> cron_bounds \<Rightarrow> string + 64 word" where
  "getField fld r = or_ranges r (filter (\<lambda>e. e \<noteq> []) (split_on (CHR '','') fld)) 0"

record 'l spec_schedule =
  ss_Second :: "64 word"
  ss_Minute :: "64 word"
  ss_Hour :: "64 word"
  ss_Dom :: "64 word"
  ss_Month :: "64 word"
  ss_Dow :: "64 word"
  ss_Location :: 'l

datatype 'l schedule = SpecSchedule "'l spec_schedule" | Every int

definition spec_of :: "'l \<Rightarrow> 64 word \<Rightarrow> 64 word \<Rightarrow> 64 word \<Rightarrow> 64 word \<Rightarrow> 64 word \<Rightarrow> 'l schedule" where
  "spec_of loc mi ho dm mo dw = SpecSchedule \<lparr>ss_Second = 1, ss_Minute = mi, ss_Hour = ho, ss_Dom = dm, ss_Month = mo,
     ss_Dow = dw, ss_Location = loc\<rparr>"

text \<open>An interval of at least a second, in whole seconds.\<close>

definition cron_Every :: "int \<Rightarrow> 'l schedule" where
  "cron_Every d = (let e = max d 1000000000 in Every (e - e mod 1000000000))"

definition every_prefix :: string where "every_prefix = ''@every ''"

definition parseDescriptor :: "string \<Rightarrow> 'l \<Rightarrow> string + 'l schedule" where
  "parseDescriptor d loc =
     (if d = ''@yearly'' \<or> d = ''@annually'' then Inr (spec_of loc 1 1 2 2 (all_bits dow))
      else if d = ''@monthly'' then Inr (spec_of loc 1 1 2 (all_bits months) (all_bits dow))
      else if d = ''@weekly'' then Inr (spec_of loc 1 1 (all_bits dom_bounds) (all_bits months) 1)
      else if d = ''@daily'' \<or> d = ''@midnight''
      then Inr (spec_of loc 1 1 (all_bits dom_bounds) (all_bits months) (all_bits dow))
      else if d = ''@hourly''
      then Inr (spec_of loc 1 (all_bits hours) (all_bits dom_bounds) (all_bits months) (all_bits dow))
      else if HasPrefix d every_prefix
      then (case time_ParseDuration (drop (length every_prefix) d) of
              Inl e \<Rightarrow> Inl (''failed to parse duration '' @ d @ '': '' @ e)
            | Inr dur \<Rightarrow> Inr (cron_Every dur))
      else Inl (''unrecognized descriptor: '' @ d))"

definition string_Fields :: "string \<Rightarrow> string list" where
  "string_Fields s = filter (\<lambda>w. w \<noteq> []) (split_on (CHR '' '') (map (\<lambda>c. if is_space c then CHR '' '' else c) s))"

definition parse_five :: "'l \<Rightarrow> string list \<Rightarrow> string + 'l schedule" where
  "parse_five loc fs =
     (case fs of
        [a, b, c, d, e] \<Rightarrow>
          (case getField ''0'' seconds of Inl err \<Rightarrow> Inl err | Inr sec \<Rightarrow>
          (case getField a minutes of Inl err \<Rightarrow> Inl err | Inr mi \<Rightarrow>
          (case getField b hours of Inl err \<Rightarrow> Inl err | Inr ho \<Rightarrow>
          (case getField c dom_bounds of Inl err \<Rightarrow> Inl err | Inr dm \<Rightarrow>
          (case getField d months of Inl err \<Rightarrow> Inl err | Inr mo \<Rightarrow>
          (case getField e dow of Inl err \<Rightarrow> Inl err | Inr dw \<Rightarrow>
             Inr (SpecSchedule \<lparr>ss_Second = sec, ss_Minute = mi, ss_Hour = ho, ss_Dom = dm, ss_Month = mo, ss_Dow = dw,
                    ss_Location = loc\<rparr>)))))))
      | _ \<Rightarrow> Inl (''expected exactly 5 fields, found '' @ show_nat (length fs) @ '': ['' @ join '' '' fs @ '']''))"

text \<open>The standard parser. A zone without a space after it makes the slice of the text panic.\<close>

definition after_zone :: "'l \<Rightarrow> string \<Rightarrow> string + 'l schedule" where
  "after_zone loc spec =
     (if HasPrefix spec ''@'' then parseDescriptor spec loc else parse_five loc (string_Fields spec))"

definition ParseStandard :: "'l \<Rightarrow> (string \<Rightarrow> string + 'l) \<Rightarrow> string \<Rightarrow> (string + 'l schedule) option" where
  "ParseStandard local_zone LoadLocation spec =
     (if spec = [] then Some (Inl ''empty spec string'')
      else if HasPrefix spec ''TZ='' \<or> HasPrefix spec ''CRON_TZ=''
      then (if CHR '' '' \<notin> set spec then None
            else (let zone = tl (dropWhile (\<lambda>c. c \<noteq> CHR ''='') (takeWhile (\<lambda>c. c \<noteq> CHR '' '') spec)) in
                  case LoadLocation zone of
                    Inl e \<Rightarrow> Some (Inl (''provided bad location '' @ zone @ '': '' @ e))
                  | Inr loc \<Rightarrow> Some (after_zone loc (TrimSpace (dropWhile (\<lambda>c. c \<noteq> CHR '' '') spec)))))
      else Some (after_zone local_zone spec))"

subsection \<open>The agent\<close>

record 'l cron =
  cr_schedule :: "'l schedule"
  cr_running :: bool

record 'l agent_state =
  ra_policy :: RetentionPolicy
  ra_cron :: "nat option"
  ra_heap :: "'l cron list"

datatype 'a lifetime = Alive 'a | Died string | Panicked

definition NewAgent :: "'l agent_state" where
  "NewAgent = \<lparr>ra_policy = \<lparr>RunAt = [], DefaultRetention = 0, Policies = []\<rparr>, ra_cron = None, ra_heap = []\<rparr>"

definition setAgentConfig :: "RetentionPolicy \<Rightarrow> 'l agent_state \<Rightarrow> 'l agent_state" where
  "setAgentConfig cfg a = a\<lparr>ra_policy := cfg\<rparr>"

definition cron_stop :: "'l agent_state \<Rightarrow> 'l agent_state" where
  "cron_stop a =
     (case ra_cron a of
        None \<Rightarrow> a
      | Some i \<Rightarrow> a\<lparr>ra_heap := (ra_heap a)[i := (ra_heap a ! i)\<lparr>cr_running := False\<rparr>]\<rparr>)"

definition cron_start :: "(string \<Rightarrow> (string + 'l schedule) option) \<Rightarrow> 'l agent_state \<Rightarrow> 'l agent_state lifetime" where
  "cron_start parse a =
     (case parse (RunAt (ra_policy a)) of
        None \<Rightarrow> Panicked
      | Some (Inl e) \<Rightarrow> Died (''failed to add function for cronjob '' @ e)
      | Some (Inr sch) \<Rightarrow>
          Alive (a\<lparr>ra_cron := Some (length (ra_heap a)),
                   ra_heap := ra_heap a @ [\<lparr>cr_schedule = sch, cr_running = True\<rparr>]\<rparr>))"

definition GetRetentionPolicyConfigName :: "(string \<Rightarrow> string) \<Rightarrow> string" where
  "GetRetentionPolicyConfigName getenv =
     (let e = getenv ''CONFIG_RETENTION_POLICY_NAME''
      in if e \<noteq> [] then e else ''tekton-results-config-results-retention-policy'')"

definition GetMetricsConfigName :: "(string \<Rightarrow> string) \<Rightarrow> string" where
  "GetMetricsConfigName getenv =
     (let e = getenv ''CONFIG_OBSERVABILITY_NAME'' in if e \<noteq> [] then e else ''config-observability'')"

datatype config_value = RetentionValue RetentionPolicy | MetricsValue metrics_config

definition AgentOnStore ::
    "(string \<Rightarrow> string) \<Rightarrow> (string \<Rightarrow> (string + 'l schedule) option) \<Rightarrow> string \<Rightarrow> config_value
      \<Rightarrow> 'l agent_state \<Rightarrow> 'l agent_state lifetime" where
  "AgentOnStore getenv parse name v a =
     (if name = GetRetentionPolicyConfigName getenv
      then (case v of
              MetricsValue _ \<Rightarrow> Alive a
            | RetentionValue cfg \<Rightarrow> cron_start parse (cron_stop (setAgentConfig cfg a)))
      else Alive a)"

text \<open>The constructors that \<^verbatim>\<open>NewStore\<close> registers, by name; the name of the retention policy is the later one.\<close>

definition NewStore ::
    "(string \<Rightarrow> string) \<Rightarrow> (string \<Rightarrow> string + Policy list) \<Rightarrow> string \<Rightarrow> ((string, string) fmap \<Rightarrow> string + config_value) option" where
  "NewStore getenv yaml =
     [GetMetricsConfigName getenv \<mapsto> (\<lambda>data. Inr (MetricsValue (newMetricsFromMap data))),
      GetRetentionPolicyConfigName getenv \<mapsto> (\<lambda>data. map_sum id RetentionValue (newRetentionPolicyFromMap yaml data))]"

text \<open>A change of a ConfigMap (\<^verbatim>\<open>UntypedStore.OnConfigChanged\<close>): a configuration that cannot be read is ignored
  when there is an earlier one and ends the process when there is none. Only names with a constructor are
  watched.\<close>

definition OnConfigChanged ::
    "(string \<Rightarrow> string) \<Rightarrow> (string \<Rightarrow> string + Policy list) \<Rightarrow> (string \<Rightarrow> (string + 'l schedule) option) \<Rightarrow> string
      \<Rightarrow> (string, string) fmap \<Rightarrow> (string \<rightharpoonup> config_value) \<times> 'l agent_state
      \<Rightarrow> ((string \<rightharpoonup> config_value) \<times> 'l agent_state) lifetime" where
  "OnConfigChanged getenv yaml parse name data st =
     (case NewStore getenv yaml name of
        None \<Rightarrow> Alive st
      | Some construct \<Rightarrow>
          (case construct data of
             Inl e \<Rightarrow>
               if fst st name \<noteq> None then Alive st
               else Died (''Error initializing results config '' @ quote_go name @ '': '' @ quote_go e)
           | Inr v \<Rightarrow>
               (case AgentOnStore getenv parse name v (snd st) of
                  Alive a \<Rightarrow> Alive ((fst st)(name \<mapsto> v), a)
                | Died e \<Rightarrow> Died e
                | Panicked \<Rightarrow> Panicked)))"

text \<open>A tick of a running cron object runs the job with the agent's configuration of that moment.\<close>

definition cron_tick ::
    "json_paths \<Rightarrow> (string \<Rightarrow> gotime) \<Rightarrow> (string \<Rightarrow> gorm_error option) \<Rightarrow> 'l agent_state \<Rightarrow> db \<Rightarrow> db" where
  "cron_tick jp now fault a s = job jp now fault (ra_policy a) s"

type_synonym 'l agent_world = "((string \<rightharpoonup> config_value) \<times> 'l agent_state) \<times> db"

inductive agent_step ::
    "(string \<Rightarrow> string) \<Rightarrow> (string \<Rightarrow> string + Policy list) \<Rightarrow> (string \<Rightarrow> (string + 'l schedule) option) \<Rightarrow> json_paths
      \<Rightarrow> 'l agent_world \<Rightarrow> 'l agent_world \<Rightarrow> bool"
  for getenv yaml parse jp where
  config_step: "OnConfigChanged getenv yaml parse name data st = Alive st'
    \<Longrightarrow> agent_step getenv yaml parse jp (st, s) (st', s)"
| tick_step: "i < length (ra_heap (snd st)) \<Longrightarrow> cr_running (ra_heap (snd st) ! i)
    \<Longrightarrow> agent_step getenv yaml parse jp (st, s) (st, cron_tick jp now fault (snd st) s)"

inductive_cases agent_stepE: "agent_step getenv yaml parse jp w w'"

text \<open>The process that starts the agent: the same guards as the API server, and a connection that is only
  opened; what the agent answers to the first configuration follows.\<close>

fun poll_open :: "string option list \<Rightarrow> string option" where
  "poll_open [] = Some ''timed out waiting for the condition''"
| "poll_open (None # as) = None"
| "poll_open (Some e # as) = poll_open as"

definition retention_main :: "api_outside \<Rightarrow> string option list \<Rightarrow> server_config \<Rightarrow> (int option \<times> int option \<times> 'l agent_state) lifetime" where
  "retention_main x opens c =
     (case database_guard c of
        Some e \<Rightarrow> Died e
      | None \<Rightarrow>
     (case poll_open opens of
        Some e \<Rightarrow> Died (''Failed to connect to database: '' @ e)
      | None \<Rightarrow>
     (case pool_limit x (sc_DB_MAX_OPEN_CONNECTIONS c) of
        Inl e \<Rightarrow> Died e
      | Inr maxOpen \<Rightarrow>
     (case pool_limit x (sc_DB_MAX_IDLE_CONNECTIONS c) of
        Inl e \<Rightarrow> Died e
      | Inr maxIdle \<Rightarrow> Alive (maxOpen, maxIdle, NewAgent)))))"

subsection \<open>One schedule at a time\<close>

text \<open>The agent's own cron object is the only running one, and its schedule is that of the agent's policy.\<close>

definition agent_ok :: "(string \<Rightarrow> (string + 'l schedule) option) \<Rightarrow> 'l agent_state \<Rightarrow> bool" where
  "agent_ok parse a =
     (case ra_cron a of
        None \<Rightarrow> ra_heap a = []
      | Some i \<Rightarrow> i < length (ra_heap a)
          \<and> (\<forall>j<length (ra_heap a). cr_running (ra_heap a ! j) = (j = i))
          \<and> parse (RunAt (ra_policy a)) = Some (Inr (cr_schedule (ra_heap a ! i))))"

text \<open>The agent follows the stored configuration.\<close>

definition follows_store :: "(string \<Rightarrow> string) \<Rightarrow> (string \<rightharpoonup> config_value) \<times> 'l agent_state \<Rightarrow> bool" where
  "follows_store getenv st =
     (case fst st (GetRetentionPolicyConfigName getenv) of
        None \<Rightarrow> ra_cron (snd st) = None
      | Some v \<Rightarrow> v = RetentionValue (ra_policy (snd st)) \<and> ra_cron (snd st) \<noteq> None)"

lemma cron_stop_all:
  assumes "agent_ok parse a"
  shows "\<forall>c\<in>set (ra_heap (cron_stop a)). \<not> cr_running c" and "ra_policy (cron_stop a) = ra_policy a"
proof -
  show "\<forall>c\<in>set (ra_heap (cron_stop a)). \<not> cr_running c"
  proof (cases "ra_cron a")
    case (Some i)
    then have "\<not> cr_running (ra_heap (cron_stop a) ! j)" if "j < length (ra_heap a)" for j
      using assms that by (cases "j = i") (auto simp: agent_ok_def cron_stop_def)
    then show ?thesis using Some by (auto simp: cron_stop_def in_set_conv_nth)
  qed (use assms in \<open>simp add: agent_ok_def cron_stop_def\<close>)
qed (simp add: cron_stop_def split: option.splits)

lemma cron_start_ok:
  assumes "\<forall>c\<in>set (ra_heap a). \<not> cr_running c" and "cron_start parse a = Alive a'"
  shows "agent_ok parse a' \<and> ra_policy a' = ra_policy a \<and> ra_cron a' \<noteq> None"
  using assms by (auto simp: agent_ok_def cron_start_def nth_append less_Suc_eq split: option.splits sum.splits)

lemma setAgentConfig_stop:
  assumes "agent_ok parse a"
  shows "\<forall>c\<in>set (ra_heap (cron_stop (setAgentConfig cfg a))). \<not> cr_running c"
    and "ra_policy (cron_stop (setAgentConfig cfg a)) = cfg"
  using cron_stop_all(1) [OF assms] by (auto simp: cron_stop_def setAgentConfig_def split: option.splits)

lemma restarted:
  assumes "agent_ok parse a" and "cron_start parse (cron_stop (setAgentConfig cfg a)) = Alive a'"
  shows "agent_ok parse a' \<and> ra_policy a' = cfg \<and> ra_cron a' \<noteq> None"
  using cron_start_ok [OF setAgentConfig_stop(1) [OF assms(1)] assms(2)] setAgentConfig_stop(2) [OF assms(1), of cfg] by simp

text \<open>What a change of a ConfigMap does, by cases.\<close>

lemma OnConfigChanged_cases:
  assumes "OnConfigChanged getenv yaml parse name data st = Alive st'"
  obtains (same) "st' = st"
  | (metrics) m where "name \<noteq> GetRetentionPolicyConfigName getenv" and "st' = ((fst st)(name \<mapsto> MetricsValue m), snd st)"
  | (policy) cfg a' where "name = GetRetentionPolicyConfigName getenv" and "newRetentionPolicyFromMap yaml data = Inr cfg"
      and "cron_start parse (cron_stop (setAgentConfig cfg (snd st))) = Alive a'"
      and "st' = ((fst st)(name \<mapsto> RetentionValue cfg), a')"
proof (cases "name = GetRetentionPolicyConfigName getenv")
  case True
  show thesis
  proof (cases "newRetentionPolicyFromMap yaml data")
    case (Inl e)
    then show thesis using assms True same by (auto simp: OnConfigChanged_def NewStore_def split: if_splits)
  next
    case (Inr cfg)
    then show thesis using assms True policy
      by (auto simp: OnConfigChanged_def NewStore_def AgentOnStore_def split: lifetime.splits)
  qed
next
  case False
  then show thesis using assms same metrics
    by (auto simp: OnConfigChanged_def NewStore_def AgentOnStore_def split: option.splits if_splits)
qed

definition world_ok :: "(string \<Rightarrow> string) \<Rightarrow> (string \<Rightarrow> (string + 'l schedule) option) \<Rightarrow> 'l agent_world \<Rightarrow> bool" where
  "world_ok getenv parse w = (agent_ok parse (snd (fst w)) \<and> follows_store getenv (fst w))"

lemma world_ok_step:
  assumes "agent_step getenv yaml parse jp w w'" and "world_ok getenv parse w"
  shows "world_ok getenv parse w'"
  using assms(1)
proof cases
  case (config_step name data st st' s)
  then have ok: "agent_ok parse (snd st)" and f: "follows_store getenv st" using assms(2) by (auto simp: world_ok_def)
  show ?thesis using config_step(3)
  proof (cases rule: OnConfigChanged_cases)
    case same
    then show ?thesis using config_step assms(2) by simp
  next
    case (metrics m)
    then show ?thesis using config_step ok f by (simp add: world_ok_def follows_store_def split: option.splits)
  next
    case (policy cfg a')
    then show ?thesis using config_step restarted [OF ok policy(3)] by (simp add: world_ok_def follows_store_def)
  qed
next
  case (tick_step i st s now fault)
  then show ?thesis using assms(2) by (simp add: world_ok_def)
qed

lemma filter_singleton:
  "i < length xs \<Longrightarrow> \<forall>j<length xs. P (xs ! j) = (j = i) \<Longrightarrow> filter P xs = [xs ! i]"
proof (induction xs arbitrary: i)
  case (Cons x xs)
  have P: "P x = (0 = i)" "\<forall>j<length xs. P (xs ! j) = (Suc j = i)" using Cons.prems(2) by (auto simp: less_Suc_eq_0_disj)
  show ?case
  proof (cases i)
    case 0
    then have "filter P xs = []" using P(2) by (auto simp: filter_empty_conv in_set_conv_nth)
    then show ?thesis using 0 P(1) by simp
  next
    case (Suc k)
    then show ?thesis using Cons.IH [of k] Cons.prems(1) P by simp
  qed
qed simp

lemma running_crons:
  assumes "agent_ok parse a"
  shows "filter cr_running (ra_heap a) = (case ra_cron a of None \<Rightarrow> [] | Some i \<Rightarrow> [ra_heap a ! i])"
  using assms by (auto simp: agent_ok_def split: option.splits intro!: filter_singleton)

text \<open>C39: In every state the retention agent can reach, at most one cron object runs; once a retention
  policy was read, exactly one runs, with the schedule of the policy that was read last, and that policy is
  the one the job works with.\<close>

theorem agent_follows_the_configuration:
  assumes "(agent_step getenv yaml parse jp)\<^sup>*\<^sup>* ((Map.empty, NewAgent), s0) ((cfgs, a), s)"
  shows "length (filter cr_running (ra_heap a)) \<le> 1
    \<and> (\<forall>rp. cfgs (GetRetentionPolicyConfigName getenv) = Some (RetentionValue rp) \<longrightarrow>
      (\<exists>sch. map cr_schedule (filter cr_running (ra_heap a)) = [sch] \<and> parse (RunAt rp) = Some (Inr sch)
        \<and> (\<forall>now fault. cron_tick jp now fault a s = job jp now fault rp s)))"
proof -
  have start: "world_ok getenv parse ((Map.empty, NewAgent), s0)"
    by (simp add: world_ok_def agent_ok_def follows_store_def NewAgent_def)
  have "world_ok getenv parse ((cfgs, a), s)"
    using assms start by (induction rule: rtranclp_induct) (auto intro: world_ok_step)
  then have ok: "agent_ok parse a" and f: "follows_store getenv (cfgs, a)" by (simp_all add: world_ok_def)
  show ?thesis using ok f running_crons [OF ok]
    by (auto simp: agent_ok_def follows_store_def cron_tick_def split: option.splits)
qed

text \<open>The first policy that is read starts the schedule.\<close>

lemma agent_configured:
  assumes "newRetentionPolicyFromMap yaml data = Inr cfg" and "parse (RunAt cfg) = Some (Inr sch)"
  shows "OnConfigChanged getenv yaml parse (GetRetentionPolicyConfigName getenv) data (Map.empty, NewAgent)
    = Alive ([GetRetentionPolicyConfigName getenv \<mapsto> RetentionValue cfg],
        \<lparr>ra_policy = cfg, ra_cron = Some 0, ra_heap = [\<lparr>cr_schedule = sch, cr_running = True\<rparr>]\<rparr>)"
  using assms by (simp add: OnConfigChanged_def NewStore_def AgentOnStore_def cron_start_def cron_stop_def setAgentConfig_def NewAgent_def)

definition weekly_data :: "(string, string) fmap" where
  "weekly_data = fmap_of_list [(''runAt'', ''5 5 * * 0''), (''defaultRetention'', ''30d'')]"

definition weekly_policy :: RetentionPolicy where
  "weekly_policy = \<lparr>RunAt = ''5 5 * * 0'', DefaultRetention = 2592000000000000, Policies = []\<rparr>"

definition utc_parse :: "string \<Rightarrow> (string + unit schedule) option" where
  "utc_parse = ParseStandard () (\<lambda>z. Inl ''unknown time zone'')"

lemma weekly_policy_read: "newRetentionPolicyFromMap (\<lambda>y. Inl y) weekly_data = Inr weekly_policy"
  by code_simp

lemma weekly_schedule: "\<exists>sch. utc_parse (RunAt weekly_policy) = Some (Inr sch)"
proof -
  have "(case utc_parse (RunAt weekly_policy) of Some (Inr _) \<Rightarrow> True | _ \<Rightarrow> False)" by code_simp
  then show ?thesis by (auto split: option.splits sum.splits)
qed

theorem agent_follows_the_configuration_witness:
  "\<forall>jp s. \<exists>cfgs a sch. (agent_step (\<lambda>n. []) (\<lambda>y. Inl y) utc_parse jp)\<^sup>*\<^sup>* ((Map.empty, NewAgent), s) ((cfgs, a), s)
     \<and> map cr_schedule (filter cr_running (ra_heap a)) = [sch] \<and> utc_parse ''5 5 * * 0'' = Some (Inr sch)"
proof (intro allI)
  fix jp :: json_paths and s :: db
  obtain sch where sch: "utc_parse (RunAt weekly_policy) = Some (Inr sch)" using weekly_schedule by blast
  let ?name = "GetRetentionPolicyConfigName (\<lambda>n. [])"
  let ?a = "\<lparr>ra_policy = weekly_policy, ra_cron = Some 0, ra_heap = [\<lparr>cr_schedule = sch, cr_running = True\<rparr>]\<rparr>"
  let ?cfgs = "[?name \<mapsto> RetentionValue weekly_policy]"
  have run: "(agent_step (\<lambda>n. []) (\<lambda>y. Inl y) utc_parse jp)\<^sup>*\<^sup>* ((Map.empty, NewAgent), s) ((?cfgs, ?a), s)"
    using config_step [OF agent_configured [where parse = utc_parse and getenv = "\<lambda>n. []" and yaml = "\<lambda>y. Inl y" and sch = sch, OF weekly_policy_read sch]]
    by (rule r_into_rtranclp)
  then show "\<exists>cfgs a sch. (agent_step (\<lambda>n. []) (\<lambda>y. Inl y) utc_parse jp)\<^sup>*\<^sup>* ((Map.empty, NewAgent), s) ((cfgs, a), s)
     \<and> map cr_schedule (filter cr_running (ra_heap a)) = [sch] \<and> utc_parse ''5 5 * * 0'' = Some (Inr sch)"
    using agent_follows_the_configuration [OF run] by (fastforce simp: weekly_policy_def)
qed

text \<open>The schedule the agent falls back to is not one the cron library accepts: without \<^verbatim>\<open>runAt\<close> the process
  ends, although the configuration was read.\<close>

definition refused_default :: string where
  "refused_default = ''end of range (7) above maximum (6): 7''"

lemma default_fields: "string_Fields DefaultRunAt = [''7'', ''7'', ''*'', ''*'', ''7'']"
  by code_simp

lemma default_bits:
  "getField ''0'' seconds = Inr 1" "getField ''7'' minutes = Inr 128" "getField ''7'' hours = Inr 128"
  "getField ''*'' dom_bounds = Inr (all_bits dom_bounds)" "getField ''*'' months = Inr (all_bits months)"
  "getField ''7'' dow = Inl refused_default"
  by code_simp+

lemma default_schedule: "ParseStandard zone load DefaultRunAt = Some (Inl refused_default)"
proof -
  have "after_zone zone DefaultRunAt = Inl refused_default"
    unfolding after_zone_def default_fields by (simp add: parse_five_def default_bits HasPrefix_def DefaultRunAt_def)
  then show ?thesis by (simp add: ParseStandard_def HasPrefix_def) (simp add: DefaultRunAt_def)
qed

lemma default_RunAt:
  "newRetentionPolicyFromMap yaml data = Inr rp \<Longrightarrow> fmlookup data ''runAt'' = None \<Longrightarrow> RunAt rp = DefaultRunAt"
  by (auto simp: newRetentionPolicyFromMap_def Let_def split: option.splits sum.splits)

text \<open>A schedule the library refuses ends the process, whatever was stored before.\<close>

lemma refused_schedule:
  assumes "newRetentionPolicyFromMap yaml data = Inr rp" and "parse (RunAt rp) = Some (Inl e)"
  shows "OnConfigChanged getenv yaml parse (GetRetentionPolicyConfigName getenv) data st
    = Died (''failed to add function for cronjob '' @ e)"
  using assms by (simp add: OnConfigChanged_def NewStore_def AgentOnStore_def cron_start_def cron_stop_def setAgentConfig_def
      split: option.splits)



text \<open>A policy that cannot be read is treated better: the agent goes on with the one it has.\<close>

theorem unreadable_policy_is_ignored:
  assumes "newRetentionPolicyFromMap yaml data = Inl e" and "fst st (GetRetentionPolicyConfigName getenv) \<noteq> None"
  shows "OnConfigChanged getenv yaml parse (GetRetentionPolicyConfigName getenv) data st = Alive st"
  using assms by (simp add: OnConfigChanged_def NewStore_def)

text \<open>The agent starts only with a user, a password and, where the SSL mode needs one, a root certificate.\<close>

theorem agent_start_is_guarded:
  assumes "retention_main x opens c = Alive r"
  shows "sc_DB_USER c \<noteq> [] \<and> sc_DB_PASSWORD c \<noteq> [] \<and> (needs_root_cert (sc_DB_SSLMODE c) \<longrightarrow> sc_DB_SSLROOTCERT c \<noteq> [])
    \<and> None \<in> set opens"
proof -
  have "poll_open opens = None \<Longrightarrow> None \<in> set opens" by (induction opens rule: poll_open.induct) auto
  then show ?thesis using assms by (auto simp: retention_main_def database_guard_def split: option.splits if_splits)
qed

end
