(* ===== verification/DevClient.thy ===== *)
theory DevClient
  imports PluginProps Lister
begin

text \<open>
  The older commands of the command line client (\<^verbatim>\<open>pkg/cli/dev\<close>, \<^verbatim>\<open>pkg/cli/cmd/root.go\<close>): their
  configuration from environment, file and flags, the forwarded port, the three gRPC clients, and the
  commands on results, records and logs. The viper library, the Kubernetes client, certificates, the
  dialling and the encodings of messages are the records \<open>viper\<close>, \<open>dev_outside\<close> and \<open>printer\<close>. A command
  answers an error and what it printed to its output. The stream of a log is the list of its messages with the
  error at its end.
\<close>

subsection \<open>Configuration\<close>

record dev_account =
  da_Namespace :: string
  da_Name :: string

record dev_config =
  dv_Address :: string
  dv_Token :: string
  dv_ServiceAccount :: "dev_account option"
  dv_RootsFilePath :: string
  dv_ServerNameOverride :: string
  dv_Portforward :: bool
  dv_Insecure :: bool
  dv_UseV1Alpha2 :: bool

datatype config_file = FileRead "dev_config \<Rightarrow> string option \<times> dev_config" | FileNotFound | FileError string

text \<open>\<open>vi_env\<close> is what viper answers before the configuration file is read.\<close>

record viper =
  vi_bind :: "string option"
  vi_env :: "string \<Rightarrow> string"
  vi_file :: config_file
  vi_string :: "string \<Rightarrow> string"
  vi_bool :: "string \<Rightarrow> bool"

definition EnvSSLRootFilePath :: string where "EnvSSLRootFilePath = ''TKN_RESULTS_SSL_ROOTS_FILE_PATH''"
definition EnvSSLServerNameOverride :: string where "EnvSSLServerNameOverride = ''TKN_RESULTS_SSL_SERVER_NAME_OVERRIDE''"

definition env_config :: "viper \<Rightarrow> dev_config" where
  "env_config v = \<lparr>dv_Address = [], dv_Token = [], dv_ServiceAccount = None, dv_RootsFilePath = vi_env v EnvSSLRootFilePath,
     dv_ServerNameOverride = vi_env v EnvSSLServerNameOverride, dv_Portforward = False, dv_Insecure = False,
     dv_UseV1Alpha2 = False\<rparr>"

definition read_config :: "viper \<Rightarrow> string option \<times> dev_config" where
  "read_config v =
     (case vi_file v of
        FileRead unmarshal \<Rightarrow> unmarshal (env_config v)
      | FileNotFound \<Rightarrow> (None, env_config v)
      | FileError e \<Rightarrow> (Some e, env_config v))"

definition flags_override :: "viper \<Rightarrow> dev_config \<Rightarrow> dev_config" where
  "flags_override v c =
     (let c = (if vi_string v ''addr'' \<noteq> [] then c\<lparr>dv_Address := vi_string v ''addr''\<rparr> else c);
          c = (if vi_string v ''authtoken'' \<noteq> [] then c\<lparr>dv_Token := vi_string v ''authtoken''\<rparr> else c);
          c = (if vi_string v ''sa'' \<noteq> []
               then c\<lparr>dv_ServiceAccount := Some \<lparr>da_Namespace = vi_string v ''sa-ns'', da_Name = vi_string v ''sa''\<rparr>\<rparr> else c)
      in c\<lparr>dv_Portforward := vi_bool v ''portforward'', dv_Insecure := vi_bool v ''insecure'',
           dv_UseV1Alpha2 := vi_bool v ''v1alpha2''\<rparr>)"

text \<open>The error ends the process in \<^verbatim>\<open>Init\<close>.\<close>

definition setConfig :: "viper \<Rightarrow> string + dev_config" where
  "setConfig v =
     (case vi_bind v of
        Some e \<Rightarrow> Inl e
      | None \<Rightarrow> (case read_config v of (Some e, _) \<Rightarrow> Inl e | (None, c) \<Rightarrow> Inr (flags_override v c)))"

subsection \<open>Clients\<close>

datatype dev_transport = SkipVerify | VerifyWith "string list" string

record dev_conn =
  dn_addr :: string
  dn_transport :: dev_transport
  dn_token :: string

text \<open>\<open>dx_create_token\<close> answers the request for a token of a service account, by namespace and name.\<close>

record dev_outside =
  dx_client_config :: "string option"
  dx_namespace :: "string + string"
  dx_new_for_config :: "string option"
  dx_create_token :: "string \<Rightarrow> string \<Rightarrow> string + string"
  dx_system_pool :: "string + string list"
  dx_open :: "string \<Rightarrow> string option"
  dx_read :: "string \<Rightarrow> string + string"
  dx_parse_pem :: "string \<Rightarrow> string list"
  dx_dial :: "dev_conn \<Rightarrow> string option"
  dx_free_port :: "string + nat"
  dx_service :: "string + string"
  dx_pods :: "string \<Rightarrow> string + string list"
  dx_forward :: "string \<Rightarrow> nat \<Rightarrow> string option"

definition NewDefaultFactory :: "dev_outside \<Rightarrow> dev_config \<Rightarrow> string + dev_config" where
  "NewDefaultFactory x cfg =
     (case dx_client_config x of
        Some e \<Rightarrow> Inl e
      | None \<Rightarrow>
          (case (case dv_ServiceAccount cfg of
                   Some sa \<Rightarrow>
                     if da_Name sa \<noteq> [] \<and> da_Namespace sa = []
                     then (case dx_namespace x of
                             Inl e \<Rightarrow> Inl e
                           | Inr ns \<Rightarrow> Inr (cfg\<lparr>dv_ServiceAccount := Some (sa\<lparr>da_Namespace := ns\<rparr>)\<rparr>))
                     else Inr cfg
                 | None \<Rightarrow> Inr cfg) of
             Inl e \<Rightarrow> Inl e
           | Inr c \<Rightarrow> (case dx_new_for_config x of Some e \<Rightarrow> Inl e | None \<Rightarrow> Inr c)))"

definition factory_token :: "dev_outside \<Rightarrow> dev_config \<Rightarrow> string + string" where
  "factory_token x cfg =
     (if dv_Token cfg \<noteq> [] then Inr (dv_Token cfg)
      else (case dv_ServiceAccount cfg of
              None \<Rightarrow> Inr []
            | Some sa \<Rightarrow>
                (case dx_create_token x (da_Namespace sa) (da_Name sa) of
                   Inl e \<Rightarrow> Inl (''error getting service account token: '' @ e)
                 | Inr t \<Rightarrow> Inr t)))"

definition factory_certs :: "dev_outside \<Rightarrow> dev_config \<Rightarrow> string + string list" where
  "factory_certs x cfg =
     (case dx_system_pool x of
        Inl e \<Rightarrow> Inl e
      | Inr certs \<Rightarrow>
          if dv_RootsFilePath cfg = [] then Inr certs
          else (case dx_open x (dv_RootsFilePath cfg) of
                  Some e \<Rightarrow> Inl e
                | None \<Rightarrow>
                    (case dx_read x (dv_RootsFilePath cfg) of
                       Inl e \<Rightarrow> Inl (''unable to read TLS cert file: '' @ e)
                     | Inr b \<Rightarrow> if dx_parse_pem x b = [] then Inl ''unable to add cert to pool'' else Inr (certs @ dx_parse_pem x b))))"

text \<open>The three clients are dialled by the same code.\<close>

definition factory_client :: "dev_outside \<Rightarrow> dev_config \<Rightarrow> string \<Rightarrow> string + dev_conn" where
  "factory_client x cfg overrideAPIAddr =
     (case factory_token x cfg of
        Inl e \<Rightarrow> Inl e
      | Inr token \<Rightarrow>
          (case (if dv_Insecure cfg then Inr SkipVerify
                 else (case factory_certs x cfg of Inl e \<Rightarrow> Inl e | Inr cs \<Rightarrow> Inr (VerifyWith cs (dv_ServerNameOverride cfg)))) of
             Inl e \<Rightarrow> Inl e
           | Inr creds \<Rightarrow>
               (let conn = \<lparr>dn_addr = (if overrideAPIAddr \<noteq> [] then overrideAPIAddr else dv_Address cfg), dn_transport = creds,
                      dn_token = token\<rparr>
                in case dx_dial x conn of Some e \<Rightarrow> Inl e | None \<Rightarrow> Inr conn)))"

definition factory_ResultsClient :: "dev_outside \<Rightarrow> dev_config \<Rightarrow> string \<Rightarrow> string + dev_conn" where
  "factory_ResultsClient = factory_client"

definition factory_LogClient :: "dev_outside \<Rightarrow> dev_config \<Rightarrow> string \<Rightarrow> string + dev_conn" where
  "factory_LogClient = factory_client"

definition factory_PluginLogsClient :: "dev_outside \<Rightarrow> dev_config \<Rightarrow> string \<Rightarrow> string + dev_conn" where
  "factory_PluginLogsClient = factory_client"

text \<open>A client together with the configuration, in which the namespace of the account was filled in.\<close>

definition default_client ::
    "(dev_outside \<Rightarrow> dev_config \<Rightarrow> string \<Rightarrow> string + dev_conn) \<Rightarrow> dev_outside \<Rightarrow> string \<Rightarrow> dev_config
      \<Rightarrow> (string + dev_conn) \<times> dev_config" where
  "default_client connect_to x overrideAPIAddr cfg =
     (case NewDefaultFactory x cfg of
        Inl e \<Rightarrow> (Inl e, cfg)
      | Inr c \<Rightarrow> (connect_to x c overrideAPIAddr, c))"

definition DefaultResultsClient :: "dev_outside \<Rightarrow> string \<Rightarrow> dev_config \<Rightarrow> (string + dev_conn) \<times> dev_config" where
  "DefaultResultsClient = default_client factory_ResultsClient"

definition DefaultLogsClient :: "dev_outside \<Rightarrow> string \<Rightarrow> dev_config \<Rightarrow> (string + dev_conn) \<times> dev_config" where
  "DefaultLogsClient = default_client factory_LogClient"

definition DefaultPluginLogsClient :: "dev_outside \<Rightarrow> string \<Rightarrow> dev_config \<Rightarrow> (string + dev_conn) \<times> dev_config" where
  "DefaultPluginLogsClient = default_client factory_PluginLogsClient"

lemmas dev_client_defs = DefaultResultsClient_def DefaultLogsClient_def DefaultPluginLogsClient_def
  factory_ResultsClient_def factory_LogClient_def factory_PluginLogsClient_def default_client_def

subsection \<open>Forwarding a port\<close>

text \<open>The first pod behind the service; without one the index into the list panics: \<open>None\<close>.\<close>

definition ForwardPortBackground :: "dev_outside \<Rightarrow> nat \<Rightarrow> string option option" where
  "ForwardPortBackground x port =
     (case dx_service x of
        Inl e \<Rightarrow> Some (Some e)
      | Inr selector \<Rightarrow>
          (case dx_pods x selector of
             Inl e \<Rightarrow> Some (Some e)
           | Inr [] \<Rightarrow> None
           | Inr (pod # _) \<Rightarrow> Some (dx_forward x pod port)))"

definition NewPortForward :: "dev_outside \<Rightarrow> string option" where
  "NewPortForward x = (case dx_client_config x of Some e \<Rightarrow> Some e | None \<Rightarrow> dx_new_for_config x)"

text \<open>The address that overrides the configured one, if a port is forwarded.\<close>

definition forwarded_address :: "dev_outside \<Rightarrow> dev_config \<Rightarrow> (string + string) option" where
  "forwarded_address x cfg =
     (if dv_Portforward cfg \<and> dv_Address cfg = []
      then (case NewPortForward x of
              Some e \<Rightarrow> Some (Inl e)
            | None \<Rightarrow>
                (case dx_free_port x of
                   Inl e \<Rightarrow> Some (Inl e)
                 | Inr port \<Rightarrow>
                     (case ForwardPortBackground x port of
                        None \<Rightarrow> None
                      | Some (Some e) \<Rightarrow> Some (Inl e)
                      | Some None \<Rightarrow> Some (Inr (''localhost:'' @ show_nat port)))))
      else Some (Inr []))"

definition persistentPreRunHandler :: "dev_outside \<Rightarrow> dev_config \<Rightarrow> (string + dev_conn \<times> dev_conn \<times> dev_conn) option" where
  "persistentPreRunHandler x cfg =
     (case forwarded_address x cfg of
        None \<Rightarrow> None
      | Some (Inl e) \<Rightarrow> Some (Inl e)
      | Some (Inr adr) \<Rightarrow>
          (case DefaultResultsClient x adr cfg of
             (Inl e, _) \<Rightarrow> Some (Inl e)
           | (Inr api, c1) \<Rightarrow>
               (case DefaultLogsClient x adr c1 of
                  (Inl e, _) \<Rightarrow> Some (Inl e)
                | (Inr logs, c2) \<Rightarrow>
                    (case DefaultPluginLogsClient x adr c2 of
                       (Inl e, _) \<Rightarrow> Some (Inl e)
                     | (Inr plugin, _) \<Rightarrow> Some (Inr (api, logs, plugin))))))"

subsection \<open>Printing\<close>

datatype dev_msg = ListResultsMsg "pb_result list" string | ListRecordsMsg "pb_record list" string | ResultMsg pb_result
  | RecordMsg pb_record | BodyMsg message

text \<open>The table writer, the local form of a time, durations, the two encodings and the template of a result.\<close>

record printer =
  px_tab :: "string \<Rightarrow> string"
  px_time :: "gotime \<Rightarrow> string"
  px_short :: "int \<Rightarrow> string"
  px_duration :: "int \<Rightarrow> string"
  px_textproto :: "dev_msg \<Rightarrow> string + string"
  px_json :: "dev_msg \<Rightarrow> string + string"
  px_describe :: "pb_result \<Rightarrow> (timestamp option \<Rightarrow> string) \<Rightarrow> (timestamp option \<Rightarrow> timestamp option \<Rightarrow> string) \<Rightarrow> string + string"

abbreviation newline :: char where "newline \<equiv> CHR 0x0A"
abbreviation tab_char :: char where "tab_char \<equiv> CHR 0x09"

definition opt_AsTime :: "timestamp option \<Rightarrow> gotime" where
  "opt_AsTime ts = (case ts of None \<Rightarrow> 0 | Some t \<Rightarrow> ts_AsTime t)"

definition time_cell :: "printer \<Rightarrow> timestamp option \<Rightarrow> string" where
  "time_cell p ts = (let t = opt_AsTime ts in px_time p (t - t mod 10 ^ 9))"

definition table_line :: "string list \<Rightarrow> string" where
  "table_line cells = join [tab_char] cells @ [newline]"

fun table_of :: "printer \<Rightarrow> dev_msg \<Rightarrow> string" where
  "table_of p (ListResultsMsg rs tok) =
     concat (map table_line ([''Name'', ''Start'', ''Update'']
       # map (\<lambda>r. [pr_name r, time_cell p (pr_create r), time_cell p (pr_update r)]) rs))"
| "table_of p (ListRecordsMsg rs tok) =
     concat (map table_line ([''Name'', ''Type'', ''Start'', ''Update'']
       # map (\<lambda>r. [pd_name r, GetType (pd_data r), time_cell p (pd_create r), time_cell p (pd_update r)]) rs))"
| "table_of p m = []"

text \<open>The output, or the error; a failing write is not modelled.\<close>

definition PrintProto :: "printer \<Rightarrow> dev_msg \<Rightarrow> string \<Rightarrow> string + string" where
  "PrintProto p m fmt =
     (if fmt = ''tab'' then Inr (px_tab p (table_of p m))
      else if fmt = ''textproto'' then px_textproto p m
      else if fmt = ''json'' then px_json p m
      else Inl (''unknown output format '' @ quote_go fmt))"

definition time_Sub :: "gotime \<Rightarrow> gotime \<Rightarrow> int" where
  "time_Sub a b = max (- (2 ^ 63)) (min (2 ^ 63 - 1) (a - b))"

definition dev_Age :: "printer \<Rightarrow> gotime \<Rightarrow> timestamp option \<Rightarrow> string" where
  "dev_Age p now ts =
     (case ts of
        None \<Rightarrow> ''---''
      | Some t \<Rightarrow> if ts_AsTime t = zero_time then ''---'' else px_short p (time_Sub now (ts_AsTime t)) @ '' ago'')"

definition dev_Duration :: "printer \<Rightarrow> timestamp option \<Rightarrow> timestamp option \<Rightarrow> string" where
  "dev_Duration p ts1 ts2 =
     (case (ts1, ts2) of
        (Some t1, Some t2) \<Rightarrow>
          if ts_AsTime t1 = zero_time \<or> ts_AsTime t2 = zero_time then ''---''
          else px_duration p (time_Sub (ts_AsTime t2) (ts_AsTime t1))
      | _ \<Rightarrow> ''---'')"

definition dev_Status :: "int \<Rightarrow> string" where
  "dev_Status status =
     (if status = 1 then ''Succeeded'' else if status = 2 then ''Failed'' else if status = 3 then ''Timed Out''
      else if status = 4 then ''Cancelled'' else ''Unknown'')"

definition dev_Namespace :: "string \<Rightarrow> string" where
  "dev_Namespace resultName = hd (split_on (CHR ''/'') resultName)"

subsection \<open>Commands\<close>

type_synonym log_stream = "message list \<times> go_error option"

record dev_clients =
  dc_ListResults :: "list_req \<Rightarrow> (pb_result list \<times> string) res"
  dc_ListRecords :: "list_req \<Rightarrow> (pb_record list \<times> string) res"
  dc_GetResult :: "string \<Rightarrow> pb_result res"
  dc_GetRecord :: "string \<Rightarrow> pb_record res"
  dc_GetLog :: "string \<Rightarrow> log_stream res"
  dc_PluginGetLog :: "string \<Rightarrow> log_stream res"

record dev_list_options =
  dl_Filter :: string
  dl_Limit :: int
  dl_PageToken :: string
  dl_Format :: string

text \<open>What a command answers: its error, and what it printed.\<close>

type_synonym dev_answer = "go_error option \<times> string"

definition printed :: "printer \<Rightarrow> dev_msg \<Rightarrow> string \<Rightarrow> dev_answer" where
  "printed p m fmt = (case PrintProto p m fmt of Inl e \<Rightarrow> (Some (PlainErr e), []) | Inr out \<Rightarrow> (None, out))"

definition failed_call :: "string \<Rightarrow> go_error \<Rightarrow> dev_answer" where
  "failed_call what e = (Some e, what @ '': '' @ error_msg e @ [newline])"

definition list_request :: "string \<Rightarrow> string \<Rightarrow> dev_list_options \<Rightarrow> list_req" where
  "list_request parent filt o' = \<lparr>lq_parent = parent, lq_filter = filt, lq_order_by = [], lq_page_size = dl_Limit o',
     lq_page_token = dl_PageToken o'\<rparr>"

definition result_ListCommand :: "printer \<Rightarrow> dev_clients \<Rightarrow> dev_list_options \<Rightarrow> string \<Rightarrow> dev_answer" where
  "result_ListCommand p c o' parent =
     (case dc_ListResults c (list_request parent (dl_Filter o') o') of
        Inl e \<Rightarrow> failed_call ''ListResults'' e
      | Inr (rs, tok) \<Rightarrow> printed p (ListResultsMsg rs tok) (dl_Format o'))"

definition ListRecordsCommand :: "printer \<Rightarrow> dev_clients \<Rightarrow> dev_list_options \<Rightarrow> string \<Rightarrow> dev_answer" where
  "ListRecordsCommand p c o' parent =
     (case dc_ListRecords c (list_request parent (dl_Filter o') o') of
        Inl e \<Rightarrow> failed_call ''ListRecords'' e
      | Inr (rs, tok) \<Rightarrow> printed p (ListRecordsMsg rs tok) (dl_Format o'))"

definition GetRecordCommand :: "printer \<Rightarrow> dev_clients \<Rightarrow> string \<Rightarrow> string \<Rightarrow> dev_answer" where
  "GetRecordCommand p c fmt name =
     (case dc_GetRecord c name of Inl e \<Rightarrow> failed_call ''GetRecord'' e | Inr r \<Rightarrow> printed p (RecordMsg r) fmt)"

definition log_types_filter :: string where
  "log_types_filter = ''(data_type == '' @ quote_go ''results.tekton.dev/v1alpha3.Log'' @ '' || data_type == ''
     @ quote_go ''results.tekton.dev/v1alpha2.Log'' @ '')''"

definition buildLogListFilter :: "string \<Rightarrow> string" where
  "buildLogListFilter user = (if user = [] then log_types_filter else ''('' @ user @ '') && '' @ log_types_filter)"

text \<open>A record whose name cannot be read keeps it, with a warning that is not modelled.\<close>

definition rewrite_name :: "pb_record \<Rightarrow> pb_record" where
  "rewrite_name r =
     (case record_ParseName (pd_name r) of
        Inl _ \<Rightarrow> r
      | Inr (parent, resultName, recordName) \<Rightarrow> r\<lparr>pd_name := log_FormatName (result_FormatName parent resultName) recordName\<rparr>)"

definition rewriteLogRecordNames :: "pb_record list \<Rightarrow> pb_record list" where
  "rewriteLogRecordNames records = map rewrite_name records"

definition ListLogsCommand :: "printer \<Rightarrow> dev_clients \<Rightarrow> dev_list_options \<Rightarrow> string \<Rightarrow> dev_answer" where
  "ListLogsCommand p c o' parent =
     (case dc_ListRecords c (list_request parent (buildLogListFilter (dl_Filter o')) o') of
        Inl e \<Rightarrow> failed_call ''List Logs'' e
      | Inr (rs, tok) \<Rightarrow> printed p (ListRecordsMsg (rewriteLogRecordNames rs) tok) (dl_Format o'))"

text \<open>The name that \<^verbatim>\<open>logs get\<close> asks the plugin service for, and the hint it prints on the way.\<close>

definition plugin_log_name :: "string \<Rightarrow> (string \<times> string) res" where
  "plugin_log_name arg =
     (case record_ParseName arg of
        Inl e \<Rightarrow>
          if Contains arg ''logs''
          then Inr (arg, ''GetLog you can also pass in the format <namespace>/results/<parent-run-uuid>/records/<child-run-uuid>'' @ [newline])
          else Inl e
      | Inr (parent, r, rec) \<Rightarrow> Inr (log_FormatName (result_FormatName parent r) rec, []))"

definition stream_Recv :: "log_stream \<Rightarrow> message res" where
  "stream_Recv st = (case fst st of m # _ \<Rightarrow> Inr m | [] \<Rightarrow> Inl (case snd st of Some e \<Rightarrow> e | None \<Rightarrow> EOF))"

definition first_of_stream :: "printer \<Rightarrow> string \<Rightarrow> string \<Rightarrow> log_stream res \<Rightarrow> dev_answer" where
  "first_of_stream p fmt hint resp =
     (case resp of
        Inl e \<Rightarrow> (case failed_call ''GetLog'' e of (err, out) \<Rightarrow> (err, hint @ out))
      | Inr st \<Rightarrow>
          (case stream_Recv st of
             Inl e \<Rightarrow> (case failed_call ''Get Log Client Resp'' e of (err, out) \<Rightarrow> (err, hint @ out))
           | Inr m \<Rightarrow> (case printed p (BodyMsg m) fmt of (err, out) \<Rightarrow> (err, hint @ out))))"

definition GetLogCommand :: "printer \<Rightarrow> dev_clients \<Rightarrow> dev_config \<Rightarrow> string \<Rightarrow> string \<Rightarrow> dev_answer" where
  "GetLogCommand p c cfg fmt arg =
     (if dv_UseV1Alpha2 cfg then first_of_stream p fmt [] (dc_GetLog c arg)
      else (case plugin_log_name arg of
              Inl e \<Rightarrow> (Some e, [])
            | Inr (name, hint) \<Rightarrow> first_of_stream p fmt hint (dc_PluginGetLog c name)))"

definition printResultDescription :: "printer \<Rightarrow> gotime \<Rightarrow> pb_result \<Rightarrow> dev_answer" where
  "printResultDescription p now r =
     (case px_describe p r (dev_Age p now) (dev_Duration p) of Inl e \<Rightarrow> (Some (PlainErr e), []) | Inr out \<Rightarrow> (None, out))"

definition dev_uid_filter :: "string \<Rightarrow> string" where
  "dev_uid_filter uid = ''uid=='' @ quote_go uid"

definition describeCommand :: "printer \<Rightarrow> gotime \<Rightarrow> dev_clients \<Rightarrow> string \<Rightarrow> string \<Rightarrow> string list \<Rightarrow> dev_answer" where
  "describeCommand p now c parent uid args =
     (case args of
        name # _ \<Rightarrow>
          (case dc_GetResult c name of
             Inl e \<Rightarrow> (Some (PlainErr (''failed to get result of name '' @ name @ '': '' @ error_msg e)), [])
           | Inr r \<Rightarrow> printResultDescription p now r)
      | [] \<Rightarrow>
          if parent \<noteq> [] \<and> uid \<noteq> []
          then (case dc_ListResults c \<lparr>lq_parent = parent, lq_filter = dev_uid_filter uid, lq_order_by = [], lq_page_size = 0,
                       lq_page_token = []\<rparr> of
                  Inl e \<Rightarrow> (Some (PlainErr (''failed to get result of parent '' @ parent @ '' and uid '' @ uid @ '': '' @ error_msg e)), [])
                | Inr ([], _) \<Rightarrow> (Some (PlainErr (''no result found with parent '' @ parent @ '' and uid '' @ uid)), [])
                | Inr (r # _, _) \<Rightarrow> printResultDescription p now r)
          else (None, []))"

subsection \<open>What the commands do\<close>

lemma NewDefaultFactory_again: "NewDefaultFactory x cfg = Inr c \<Longrightarrow> NewDefaultFactory x c = Inr c"
  by (auto simp: NewDefaultFactory_def split: option.splits sum.splits if_splits)

lemma NewDefaultFactory_keeps:
  "NewDefaultFactory x cfg = Inr c \<Longrightarrow>
     dv_Token c = dv_Token cfg \<and> dv_Address c = dv_Address cfg \<and> dv_Insecure c = dv_Insecure cfg"
  by (auto simp: NewDefaultFactory_def split: option.splits sum.splits if_splits)

lemma factory_client_Inr:
  assumes "factory_client x c adr = Inr conn"
  shows "dn_addr conn = (if adr \<noteq> [] then adr else dv_Address c)"
    and "(dn_transport conn = SkipVerify) = dv_Insecure c"
    and "dv_Token c \<noteq> [] \<Longrightarrow> dn_token conn = dv_Token c"
  using assms by (auto simp: factory_client_def factory_token_def Let_def split: sum.splits option.splits if_splits)

lemma forwarded_address_Inr:
  assumes "forwarded_address x cfg = Some (Inr adr)"
  shows "if dv_Portforward cfg \<and> dv_Address cfg = [] then \<exists>port. dx_free_port x = Inr port \<and> adr = ''localhost:'' @ show_nat port
    else adr = []"
  using assms by (auto simp: forwarded_address_def split: option.splits sum.splits if_splits)

text \<open>The three clients are the same connection: the configured token and address win, a port is forwarded only without an
  address, and the certificate is checked unless that was switched off.\<close>

theorem dev_clients_agree:
  assumes "persistentPreRunHandler x cfg = Some (Inr (api, logs, plugin))"
  shows "logs = api \<and> plugin = api \<and> (dn_transport api = SkipVerify \<longleftrightarrow> dv_Insecure cfg)
    \<and> (dv_Token cfg \<noteq> [] \<longrightarrow> dn_token api = dv_Token cfg)
    \<and> (if dv_Portforward cfg \<and> dv_Address cfg = []
       then \<exists>port. dx_free_port x = Inr port \<and> dn_addr api = ''localhost:'' @ show_nat port
       else dn_addr api = dv_Address cfg)"
proof -
  obtain adr where adr: "forwarded_address x cfg = Some (Inr adr)"
    using assms by (auto simp: persistentPreRunHandler_def split: option.splits sum.splits)
  obtain c where c: "NewDefaultFactory x cfg = Inr c" and api: "factory_client x c adr = Inr api"
    using assms adr by (auto simp: persistentPreRunHandler_def dev_client_defs split: sum.splits)
  have "logs = api \<and> plugin = api"
    using assms adr c api NewDefaultFactory_again [OF c] by (auto simp: persistentPreRunHandler_def dev_client_defs)
  then show ?thesis
    using factory_client_Inr [OF api] NewDefaultFactory_keeps [OF c] forwarded_address_Inr [OF adr] by auto
qed

text \<open>The flag for the name of an account also drops the namespace that the file gives.\<close>

theorem account_flag_drops_the_namespace:
  assumes "vi_bind v = None" and "read_config v = (None, file)" and "vi_string v ''sa'' \<noteq> []" and "vi_string v ''sa-ns'' = []"
  shows "\<exists>c. setConfig v = Inr c \<and> dv_ServiceAccount c = Some \<lparr>da_Namespace = [], da_Name = vi_string v ''sa''\<rparr>"
  using assms by (simp add: setConfig_def flags_override_def Let_def)

text \<open>A service without pods makes the client panic.\<close>

theorem forward_without_pods_panics:
  "dx_service x = Inr sel \<Longrightarrow> dx_pods x sel = Inr [] \<Longrightarrow> ForwardPortBackground x port = None"
  by (simp add: ForwardPortBackground_def)

text \<open>Names of records and logs.\<close>

lemma record_ParseName_log:
  assumes "seg_ok p" and "seg_ok r"
  shows "\<exists>e. record_ParseName (log_FormatName (result_FormatName p r) n) = Inl e"
proof -
  have 1: "match_segment ''/results/'' (p @ ''/results/'' @ r @ ''/logs/'' @ n) = Some (p, r @ ''/logs/'' @ n)"
    using assms(1) by (subst match_segment_Some) simp_all
  have "list_all name_char r" using assms(2) by (simp add: seg_ok_def)
  then have "match_segment ''/records/'' (r @ ''/logs/'' @ n) = None"
    using takeWhile_append_slash [of r "''logs/'' @ n"] by (simp add: match_segment_def strip_prefix_def Let_def)
  then have "child_FindStringSubmatch ''/records/'' (log_FormatName (result_FormatName p r) n) = None"
    using 1 by (simp add: child_FindStringSubmatch_def log_FormatName_def result_FormatName_def)
  then show ?thesis by (simp add: record_ParseName_def)
qed

lemma log_name_contains: "Contains (log_FormatName (result_FormatName p r) n) ''logs''"
  unfolding Contains_def sublist_def log_FormatName_def
  by (intro exI [where x = "result_FormatName p r @ ''/''"] exI [where x = "''/'' @ n"]) simp

definition log_hint :: string where
  "log_hint = ''GetLog you can also pass in the format <namespace>/results/<parent-run-uuid>/records/<child-run-uuid>'' @ [newline]"

lemma plugin_log_names:
  assumes "seg_ok (d_parent d)" and "seg_ok (d_result_name d)" and "seg_ok (d_name d)"
  shows "plugin_log_name (pd_name (rewrite_name (record_ToAPI d)))
      = Inr (log_FormatName (result_FormatName (d_parent d) (d_result_name d)) (d_name d), log_hint)"
    and "plugin_log_name (pd_name (record_ToAPI d))
      = Inr (log_FormatName (result_FormatName (d_parent d) (d_result_name d)) (d_name d), [])"
proof -
  let ?l = "log_FormatName (result_FormatName (d_parent d) (d_result_name d)) (d_name d)"
  have p: "record_ParseName (pd_name (record_ToAPI d)) = Inr (d_parent d, d_result_name d, d_name d)"
    using record_ParseName_FormatName [OF assms] by (simp add: record_ToAPI_def record_FormatName_def result_FormatName_def)
  then have n: "pd_name (rewrite_name (record_ToAPI d)) = ?l" by (simp add: rewrite_name_def)
  obtain e where "record_ParseName ?l = Inl e" using record_ParseName_log [OF assms(1,2)] by blast
  then show "plugin_log_name (pd_name (rewrite_name (record_ToAPI d))) = Inr (?l, log_hint)"
    unfolding n by (simp add: plugin_log_name_def log_name_contains log_hint_def)
  show "plugin_log_name (pd_name (record_ToAPI d)) = Inr (?l, [])" using p by (simp add: plugin_log_name_def)
qed

text \<open>The stream a client sees of a handler: an error of the handler comes after its messages.\<close>

definition served_stream :: "(go_error option \<times> message list) option \<Rightarrow> log_stream res" where
  "served_stream r = (case r of None \<Rightarrow> Inl (StatusErr Unknown ''timeout'') | Some (err, ms) \<Rightarrow> Inr (ms, err))"

text \<open>A log of the list can be got, by the name in the list as well as by the name of its record; both ask the
  server's plugin for the same log. What is printed is its first message, after a hint if the name was that of a log.\<close>

theorem listed_log_can_be_got:
  assumes "srv_inv db" and "d \<in> set (records_tbl db)" and "\<not> dv_UseV1Alpha2 cfg"
    and "dc_PluginGetLog c = (\<lambda>n. served_stream (plugin_GetLog x e uid_of send s backend n db))"
    and "plugin_GetLog x e uid_of send s backend (log_FormatName (result_FormatName (d_parent d) (d_result_name d)) (d_name d)) db
      = Some (err, m # ms)"
  shows "GetLogCommand p c cfg fmt (pd_name (rewrite_name (record_ToAPI d)))
      = map_prod id (\<lambda>out. log_hint @ out) (printed p (BodyMsg m) fmt)
    \<and> GetLogCommand p c cfg fmt (pd_name (record_ToAPI d)) = printed p (BodyMsg m) fmt"
proof -
  have "record_row_ok d" using assms(1,2) by (simp add: srv_inv_def)
  then have "seg_ok (d_parent d)" "seg_ok (d_result_name d)" "seg_ok (d_name d)" by (simp_all add: record_row_ok_def)
  note n = plugin_log_names [OF this]
  show ?thesis
    unfolding GetLogCommand_def n using assms(3-5)
    by (simp add: first_of_stream_def served_stream_def stream_Recv_def split: prod.splits)
qed

text \<open>The messages after the first are not printed.\<close>

theorem logs_get_prints_first_message:
  "GetLogCommand p (c\<lparr>dc_PluginGetLog := \<lambda>n. Inr (m # ms, e)\<rparr>) cfg fmt arg
     = GetLogCommand p (c\<lparr>dc_PluginGetLog := \<lambda>n. Inr ([m], None)\<rparr>) cfg fmt arg"
  by (simp add: GetLogCommand_def first_of_stream_def stream_Recv_def split: sum.splits)

text \<open>Every listed record with a readable name shows up as a log with the same parts, in the same order.\<close>

theorem listed_logs_keep_their_names:
  assumes "\<forall>r\<in>set rs. \<exists>x. record_ParseName (pd_name r) = Inr x"
  shows "map (\<lambda>r. log_ParseName (pd_name r)) (rewriteLogRecordNames rs) = map (\<lambda>r. record_ParseName (pd_name r)) rs"
proof -
  have "log_ParseName (pd_name (rewrite_name r)) = record_ParseName (pd_name r)" if m: "r \<in> set rs" for r
  proof -
    obtain x where "record_ParseName (pd_name r) = Inr x" using assms m by auto
    then obtain p q n where x: "record_ParseName (pd_name r) = Inr (p, q, n)" by (cases x) auto
    then have "seg_ok p \<and> seg_ok q \<and> seg_ok n" using record_ParseName_Inr by blast
    then show ?thesis using log_ParseName_FormatName x by (simp add: rewrite_name_def)
  qed
  then show ?thesis by (simp add: rewriteLogRecordNames_def)
qed

end
